(* ===== verification/Prelude.thy ===== *)
theory Prelude
  imports Complex_Main "HOL-Library.AList"
begin

text \<open>
  What the components share: the fact collections the component proofs draw on, Go's
  fixed-width \<open>int\<close> and its wrap-around, instants and durations, and Go maps as
  association lists with their lookup laws.

  A Go \<open>map[string]T\<close> is an association list read by \<^const>\<open>map_of\<close>, written by
  \<open>AList.update\<close> and deleted from by \<open>AList.delete\<close>; it stays executable, and the order
  of the list is one of the iteration orders Go may choose.
\<close>

named_theorems attr_simps \<open>reading an attribute map after a write or a delete\<close>
named_theorems f64_simps \<open>evaluation of floating-point operations on finite values\<close>
named_theorems range_intros \<open>a rounded result stays between two representable bounds\<close>

section \<open>Integers, instants and durations\<close>

text \<open>Go's \<open>int\<close> and \<open>int64\<close> are 64 bits wide on the deployed platforms.\<close>

definition int64_min :: int where "int64_min = - (2 ^ 63)"
definition int64_max :: int where "int64_max = 2 ^ 63 - 1"

definition in_int64 :: "int \<Rightarrow> bool" where
  "in_int64 x \<longleftrightarrow> int64_min \<le> x \<and> x \<le> int64_max"

definition wrap64 :: "int \<Rightarrow> int" where
  "wrap64 x = (x + 2 ^ 63) mod 2 ^ 64 - 2 ^ 63"

lemma wrap64_id: "in_int64 x \<Longrightarrow> wrap64 x = x"
  by (simp add: in_int64_def wrap64_def int64_min_def int64_max_def)

lemma wrap64_range: "in_int64 (wrap64 x)"
proof -
  have "0 \<le> (x + 2 ^ 63) mod 2 ^ 64" and "(x + 2 ^ 63) mod 2 ^ 64 < 2 ^ 64"
    by simp_all
  then show ?thesis
    by (simp add: in_int64_def wrap64_def int64_min_def int64_max_def)
qed

text \<open>An instant is a number of nanoseconds since the epoch, a duration a number of them.\<close>

type_synonym instant = int
type_synonym duration = int

abbreviation (input) second :: duration where "second \<equiv> 1000000000"
abbreviation (input) minute :: duration where "minute \<equiv> 60000000000"
abbreviation (input) hour :: duration where "hour \<equiv> 3600000000000"

section \<open>Go maps as association lists\<close>

type_synonym ('k, 'v) gomap = "('k \<times> 'v) list"

abbreviation mget :: "('k, 'v) gomap \<Rightarrow> 'k \<Rightarrow> 'v option" where
  "mget m k \<equiv> map_of m k"

abbreviation mput :: "'k \<Rightarrow> 'v \<Rightarrow> ('k, 'v) gomap \<Rightarrow> ('k, 'v) gomap" where
  "mput \<equiv> AList.update"

abbreviation mdel :: "'k \<Rightarrow> ('k, 'v) gomap \<Rightarrow> ('k, 'v) gomap" where
  "mdel \<equiv> AList.delete"

lemma mget_mput [simp, attr_simps]:
  "mget (mput k v m) k' = (if k' = k then Some v else mget m k')"
  by (simp add: update_conv')

lemma mget_mdel [simp, attr_simps]:
  "mget (mdel k m) k' = (if k' = k then None else mget m k')"
  by (simp add: delete_conv')

text \<open>Two maps with the same entries are the same Go map, whatever their order.\<close>

definition map_eq :: "('k, 'v) gomap \<Rightarrow> ('k, 'v) gomap \<Rightarrow> bool" where
  "map_eq m m' \<longleftrightarrow> (\<forall>k. mget m k = mget m' k)"

lemma map_eq_refl [simp, intro]: "map_eq m m"
  by (simp add: map_eq_def)

lemma map_eq_trans [trans]: "map_eq a b \<Longrightarrow> map_eq b c \<Longrightarrow> map_eq a c"
  by (simp add: map_eq_def)

lemma map_eqI: "(\<And>k. mget m k = mget m' k) \<Longrightarrow> map_eq m m'"
  by (simp add: map_eq_def)

lemma map_eqD: "map_eq m m' \<Longrightarrow> mget m k = mget m' k"
  by (simp add: map_eq_def)

lemma map_eq_mput: "map_eq m m' \<Longrightarrow> map_eq (mput k v m) (mput k v m')"
  by (simp add: map_eq_def)

lemma map_eq_mdel: "map_eq m m' \<Longrightarrow> map_eq (mdel k m) (mdel k m')"
  by (simp add: map_eq_def)

lemma mput_same: "mget m k = Some v \<Longrightarrow> map_eq (mput k v m) m"
  by (simp add: map_eq_def)

section \<open>Answers of the network\<close>

text \<open>An HTTP exchange fails, or ends with a body that cannot be read, or gives a status with the body.\<close>

datatype http_result = HttpFailed string | BodyUnreadable | HttpOK int string

end
