(* ===== verification/Float64.thy ===== *)
theory Float64
  imports Prelude "HOL-Library.Log_Nat"
begin

text \<open>
  IEEE 754 binary64, Go's \<open>float64\<close>: finite values are rationals, an operation rounds the
  exact result once, to nearest with ties to even, and overflows to an infinity. The
  two zeros are one value (no operation of the modelled code tells them apart) and there
  is one NaN. No fused multiply-add: each operation rounds by itself, as on amd64.
  The rounding laws are a locale, interpreted on the concrete rounding \<open>fl\<close>.
\<close>

section \<open>Powers of two and the binary logarithm of a rational\<close>

definition pow2 :: "int \<Rightarrow> rat" where
  "pow2 e = (if 0 \<le> e then of_int (2 ^ nat e) else 1 / of_int (2 ^ nat (- e)))"

lemma pow2_powi: "pow2 e = 2 powi e"
  by (simp add: pow2_def power_int_def inverse_eq_divide power_one_over)

lemma pow2_pos [simp]: "0 < pow2 e"
  by (simp add: pow2_powi)

lemma pow2_nonzero [simp]: "pow2 e \<noteq> 0"
  by (metis less_irrefl pow2_pos)

lemma pow2_add: "pow2 (a + b) = pow2 a * pow2 b"
  by (simp add: pow2_powi power_int_add)

lemma pow2_diff: "pow2 (a - b) = pow2 a / pow2 b"
  by (simp add: pow2_powi power_int_diff)

lemma pow2_nat: "0 \<le> e \<Longrightarrow> pow2 e = of_int (2 ^ nat e)"
  by (simp add: pow2_def)

lemma pow2_mono: "a \<le> b \<Longrightarrow> pow2 a \<le> pow2 b"
  unfolding pow2_powi by (rule power_int_increasing) auto

lemma pow2_strict: "a < b \<Longrightarrow> pow2 a < pow2 b"
  unfolding pow2_powi by (rule power_int_strict_increasing) auto

lemma pow2_less_iff [simp]: "pow2 a < pow2 b \<longleftrightarrow> a < b"
  by (meson not_less pow2_mono pow2_strict)

lemma pow2_le_iff [simp]: "pow2 a \<le> pow2 b \<longleftrightarrow> a \<le> b"
  by (meson not_less pow2_mono pow2_strict)

definition ilog2 :: "rat \<Rightarrow> int" where
  "ilog2 x = (case quotient_of x of (a, b) \<Rightarrow>
     let k = bitlen a - bitlen b in if pow2 k \<le> x then k else k - 1)"

lemma bitlen_pow2:
  assumes "0 < a" shows "pow2 (bitlen a - 1) \<le> of_int a" and "of_int a < pow2 (bitlen a)"
proof -
  have b: "2 ^ nat (bitlen a - 1) \<le> a \<and> a < 2 ^ nat (bitlen a)"
    by (rule bitlen_bounds [OF assms])
  have p: "0 < bitlen a"
  proof (rule ccontr)
    assume "\<not> 0 < bitlen a"
    then have "bitlen a = 0" using bitlen_nonneg [of a] by linarith
    with b assms show False by simp
  qed
  have "pow2 (bitlen a - 1) = of_int (2 ^ nat (bitlen a - 1))"
    by (rule pow2_nat) (use p in simp)
  moreover have "pow2 (bitlen a) = of_int (2 ^ nat (bitlen a))"
    by (rule pow2_nat) (use p in simp)
  ultimately show "pow2 (bitlen a - 1) \<le> of_int a" and "of_int a < pow2 (bitlen a)"
    using b by (metis of_int_le_iff) (metis b \<open>pow2 (bitlen a) = _\<close> of_int_less_iff)
qed

lemma ilog2_bounds:
  assumes "0 < x" shows "pow2 (ilog2 x) \<le> x" and "x < pow2 (ilog2 x + 1)"
proof -
  obtain a b where q: "quotient_of x = (a, b)" by (cases "quotient_of x")
  have b0: "0 < b" using quotient_of_denom_pos [OF q] .
  have x: "x = of_int a / of_int b" using quotient_of_div [OF q] .
  have a0: "0 < a" using assms x b0 by (simp add: zero_less_divide_iff)
  define k where "k = bitlen a - bitlen b"
  have ra: "0 < (of_int a :: rat)" and rb: "0 < (of_int b :: rat)" using a0 b0 by simp_all
  have "x < pow2 (bitlen a) / pow2 (bitlen b - 1)"
    unfolding x using bitlen_pow2 [OF a0] bitlen_pow2 [OF b0] ra rb
    by (intro frac_less) auto
  then have up: "x < pow2 (k + 1)"
    by (simp add: k_def pow2_diff [symmetric] algebra_simps)
  have "pow2 (bitlen a - 1) / pow2 (bitlen b) \<le> x"
    unfolding x using bitlen_pow2 [OF a0] bitlen_pow2 [OF b0] ra rb
    by (intro frac_le) auto
  then have lo: "pow2 (k - 1) \<le> x"
    by (simp add: k_def pow2_diff [symmetric] algebra_simps)
  have i: "ilog2 x = (if pow2 k \<le> x then k else k - 1)"
    by (simp add: ilog2_def q k_def Let_def)
  show "pow2 (ilog2 x) \<le> x" and "x < pow2 (ilog2 x + 1)"
    using up lo by (simp_all add: i)
qed

lemma ilog2_unique:
  assumes "0 < x" "pow2 k \<le> x" "x < pow2 (k + 1)" shows "ilog2 x = k"
proof -
  have "pow2 k < pow2 (ilog2 x + 1)" "pow2 (ilog2 x) < pow2 (k + 1)"
    using ilog2_bounds [OF assms(1)] assms(2,3) by linarith+
  then show ?thesis by simp
qed

lemma ilog2_mono: "0 < x \<Longrightarrow> x \<le> y \<Longrightarrow> ilog2 x \<le> ilog2 y"
proof -
  assume "0 < x" "x \<le> y"
  then have "pow2 (ilog2 x) < pow2 (ilog2 y + 1)"
    using ilog2_bounds(1) [of x] ilog2_bounds(2) [of y] by linarith
  then show ?thesis by simp
qed

section \<open>Rounding to the nearest integer, ties to even\<close>

definition rne :: "rat \<Rightarrow> int" where
  "rne y = (let f = \<lfloor>y\<rfloor>; d = y - of_int f in
     if d < 1 / 2 then f else if 1 / 2 < d then f + 1 else if even f then f else f + 1)"

lemma rne_of_int [simp]: "rne (of_int k) = k"
  by (simp add: rne_def)

lemma rne_between: "\<lfloor>y\<rfloor> \<le> rne y \<and> rne y \<le> \<lfloor>y\<rfloor> + 1"
  by (simp add: rne_def Let_def)

lemma rne_mono: "x \<le> y \<Longrightarrow> rne x \<le> rne y"
proof -
  assume le: "x \<le> y"
  show ?thesis
  proof (cases "\<lfloor>x\<rfloor> = \<lfloor>y\<rfloor>")
    case True
    then show ?thesis using le by (auto simp: rne_def Let_def)
  next
    case False
    then have "\<lfloor>x\<rfloor> + 1 \<le> \<lfloor>y\<rfloor>" using floor_mono [OF le] by linarith
    then show ?thesis using rne_between [of x] rne_between [of y] by linarith
  qed
qed

lemma rne_uminus: "rne (- y) = - rne y"
proof (cases "y = of_int \<lfloor>y\<rfloor>")
  case True
  then show ?thesis by (metis of_int_minus rne_of_int)
next
  case False
  have "of_int \<lfloor>y\<rfloor> < y" "y < of_int \<lfloor>y\<rfloor> + 1"
    using False of_int_floor_le [of y] by linarith+
  then have "\<lfloor>- y\<rfloor> = - \<lfloor>y\<rfloor> - 1"
    by (intro floor_unique) auto
  then show ?thesis
    by (simp add: rne_def Let_def)
qed

lemma rne_grid:
  assumes "0 < p"
  shows "x \<le> of_int k * p \<Longrightarrow> rne (x / p) \<le> k" and "of_int k * p \<le> x \<Longrightarrow> k \<le> rne (x / p)"
proof -
  assume "x \<le> of_int k * p"
  then have "x / p \<le> of_int k" using assms by (simp add: field_simps)
  then show "rne (x / p) \<le> k" using rne_mono [of "x / p" "of_int k"] by simp
next
  assume "of_int k * p \<le> x"
  then have "of_int k \<le> x / p" using assms by (simp add: field_simps)
  then show "k \<le> rne (x / p)" using rne_mono [of "of_int k" "x / p"] by simp
qed

section \<open>Rounding to binary64\<close>

definition fl_exp :: "rat \<Rightarrow> int" where
  "fl_exp x = max (- 1074) (ilog2 \<bar>x\<bar> - 52)"

definition fl_rat :: "rat \<Rightarrow> rat" where
  "fl_rat x = (if x = 0 then 0
     else let p = pow2 (fl_exp x) in of_int (rne (x / p)) * p)"

text \<open>The finite binary64 values: 53-bit significands, exponents from -1074 to 971.\<close>

definition repr64 :: "rat \<Rightarrow> bool" where
  "repr64 x \<longleftrightarrow> (\<exists>m e. x = of_int m * pow2 e \<and> \<bar>m\<bar> < 2 ^ 53 \<and> - 1074 \<le> e \<and> e \<le> 971)"

lemma fl_rat_zero [simp]: "fl_rat 0 = 0"
  by (simp add: fl_rat_def)

lemma fl_rat_uminus: "fl_rat (- x) = - fl_rat x"
  by (simp add: fl_rat_def fl_exp_def Let_def rne_uminus)

lemma fl_rat_nonneg: "0 \<le> x \<Longrightarrow> 0 \<le> fl_rat x"
proof -
  assume "0 \<le> x"
  then have "0 \<le> x / pow2 (fl_exp x)" by (simp add: less_imp_le)
  then have "0 \<le> rne (x / pow2 (fl_exp x))" using rne_mono [of 0 "x / pow2 (fl_exp x)"] by (simp add: rne_def)
  then show ?thesis by (simp add: fl_rat_def Let_def less_imp_le)
qed

lemma fl_rat_mono_pos:
  assumes "0 < x" "x \<le> y" shows "fl_rat x \<le> fl_rat y"
proof (cases "fl_exp x = fl_exp y")
  case True
  have "x / pow2 (fl_exp x) \<le> y / pow2 (fl_exp x)"
    using assms by (simp add: divide_right_mono less_imp_le)
  then show ?thesis
    using assms True by (simp add: fl_rat_def Let_def rne_mono less_imp_le)
next
  case False
  have "ilog2 x \<le> ilog2 y" using assms by (rule ilog2_mono)
  with False assms have ey: "fl_exp y = ilog2 y - 52" and ex: "fl_exp x < fl_exp y"
    by (auto simp: fl_exp_def)
  have xl: "ilog2 x - 52 < ilog2 y - 52"
    using ex ey by (simp add: fl_exp_def assms(1) less_imp_le)
  define B where "B = pow2 (ilog2 y)"
  have By: "B \<le> y" unfolding B_def using assms by (intro ilog2_bounds(1)) linarith
  have xB: "x \<le> B"
  proof -
    have "x < pow2 (ilog2 x + 1)" using assms(1) by (rule ilog2_bounds(2))
    also have "\<dots> \<le> B" unfolding B_def using xl by (intro pow2_mono) linarith
    finally show ?thesis by simp
  qed
  have Bx: "B = of_int (2 ^ nat (ilog2 y - fl_exp x)) * pow2 (fl_exp x)"
  proof -
    have "B = pow2 (ilog2 y - fl_exp x) * pow2 (fl_exp x)"
      unfolding B_def pow2_add [symmetric] by simp
    then show ?thesis using ex ey by (simp add: pow2_nat)
  qed
  have BY: "B = of_int (2 ^ 52) * pow2 (fl_exp y)"
    unfolding B_def ey pow2_diff by (simp add: pow2_def)
  have "fl_rat x \<le> B"
    using assms(1) rne_grid(1) [OF pow2_pos, of x _ "fl_exp x"] xB Bx
    by (simp add: fl_rat_def Let_def del: of_int_power)
  moreover have "B \<le> fl_rat y"
    using assms rne_grid(2) [OF pow2_pos, of _ "fl_exp y" y] By BY
    by (simp add: fl_rat_def Let_def del: of_int_power of_int_numeral)
  ultimately show ?thesis by simp
qed

lemma fl_rat_mono: "x \<le> y \<Longrightarrow> fl_rat x \<le> fl_rat y"
proof -
  assume le: "x \<le> y"
  consider "0 < x" | "y < 0" | "x \<le> 0 \<and> 0 \<le> y" by linarith
  then show ?thesis
  proof cases
    case 1
    then show ?thesis using le by (rule fl_rat_mono_pos)
  next
    case 2
    then have "fl_rat (- y) \<le> fl_rat (- x)" using le by (intro fl_rat_mono_pos) auto
    then show ?thesis by (simp add: fl_rat_uminus)
  next
    case 3
    then have "0 \<le> fl_rat (- x)" and "0 \<le> fl_rat y" by (auto intro: fl_rat_nonneg)
    then show ?thesis by (simp add: fl_rat_uminus)
  qed
qed

lemma fl_rat_repr:
  assumes "repr64 x" shows "fl_rat x = x"
proof (cases "x = 0")
  case False
  obtain m e where x: "x = of_int m * pow2 e" and m: "\<bar>m\<bar> < 2 ^ 53" and e: "- 1074 \<le> e"
    using assms by (auto simp: repr64_def)
  have ax: "\<bar>x\<bar> = of_int \<bar>m\<bar> * pow2 e" unfolding x by (simp add: abs_mult less_imp_le)
  have "(of_int \<bar>m\<bar> :: rat) < of_int (2 ^ 53)" using m by (simp only: of_int_less_iff)
  then have "\<bar>x\<bar> < of_int (2 ^ 53) * pow2 e" unfolding ax by (intro mult_strict_right_mono) auto
  also have "\<dots> = pow2 (e + 53)" unfolding pow2_add by (simp add: pow2_def)
  finally have "\<bar>x\<bar> < pow2 (e + 53)" .
  moreover have "pow2 (ilog2 \<bar>x\<bar>) \<le> \<bar>x\<bar>" by (rule ilog2_bounds(1)) (use False in simp)
  ultimately have "pow2 (ilog2 \<bar>x\<bar>) < pow2 (e + 53)" by (rule le_less_trans [rotated])
  then have le: "fl_exp x \<le> e" using e by (simp add: fl_exp_def)
  have "x = of_int m * (pow2 (e - fl_exp x) * pow2 (fl_exp x))"
    unfolding x pow2_add [symmetric] by simp
  also have "pow2 (e - fl_exp x) = of_int (2 ^ nat (e - fl_exp x))"
    using le by (intro pow2_nat) simp
  finally have g: "x = of_int (m * 2 ^ nat (e - fl_exp x)) * pow2 (fl_exp x)" (is "x = of_int ?k * _")
    by simp
  have "x / pow2 (fl_exp x) = of_int ?k" using g by (metis nonzero_mult_div_cancel_right pow2_nonzero)
  then have "rne (x / pow2 (fl_exp x)) = ?k" by (metis rne_of_int)
  then show ?thesis using g False by (simp add: fl_rat_def Let_def)
qed simp

lemma repr64_uminus [simp]: "repr64 (- x) = repr64 x"
proof -
  have neg: "repr64 (- y)" if "repr64 y" for y
  proof -
    from that obtain m e where "y = of_int m * pow2 e" "\<bar>m\<bar> < 2 ^ 53" "- 1074 \<le> e" "e \<le> 971"
      unfolding repr64_def by blast
    then show ?thesis unfolding repr64_def by (intro exI [of _ "- m"] exI [of _ e]) simp
  qed
  show ?thesis
  proof
    assume "repr64 (- x)"
    from neg [OF this] show "repr64 x" unfolding minus_minus .
  qed (rule neg)
qed

lemma repr64_int: "\<bar>m\<bar> < 2 ^ 53 \<Longrightarrow> repr64 (of_int m)"
  unfolding repr64_def by (rule exI [of _ m], rule exI [of _ 0]) (simp add: pow2_def)

lemma repr64_0 [simp]: "repr64 0" and repr64_1 [simp]: "repr64 1"
  using repr64_int [of 0] repr64_int [of 1] by simp_all

lemma repr64_numeral [simp]: "(numeral k :: int) < 2 ^ 53 \<Longrightarrow> repr64 (numeral k)"
  using repr64_int [of "numeral k"] by simp

text \<open>Two different representable values are at least the least positive value apart.\<close>

lemma repr64_gap:
  assumes "repr64 a" "repr64 b" "a < b" shows "pow2 (- 1074) \<le> b - a"
proof -
  have grid: "\<exists>k. x = of_int k * pow2 (- 1074)" if rx: "repr64 x" for x
  proof -
    obtain m e where x: "x = of_int m * pow2 e" and e: "- 1074 \<le> e" using rx unfolding repr64_def by blast
    have "pow2 e = pow2 (e + 1074) * pow2 (- 1074)" unfolding pow2_add [symmetric] by simp
    also have "pow2 (e + 1074) = of_int (2 ^ nat (e + 1074))" by (rule pow2_nat) (use e in simp)
    finally have "x = of_int (m * 2 ^ nat (e + 1074)) * pow2 (- 1074)" by (simp add: x)
    then show ?thesis by blast
  qed
  obtain j k where ab: "a = of_int j * pow2 (- 1074)" "b = of_int k * pow2 (- 1074)"
    using grid [OF assms(1)] grid [OF assms(2)] by blast
  have "(of_int j :: rat) < of_int k"
    using assms(3) unfolding ab by (simp only: mult_less_cancel_right_pos [OF pow2_pos])
  then have "1 \<le> k - j" by simp
  then have "(1 :: rat) \<le> of_int (k - j)" by (simp only: of_int_1_le_iff)
  then have "1 * pow2 (- 1074) \<le> of_int (k - j) * pow2 (- 1074)" by (rule mult_right_mono) (simp add: less_imp_le)
  then show ?thesis by (simp only: ab of_int_diff left_diff_distrib mult_1)
qed

lemma repr64_least: "repr64 (pow2 (- 1074))"
  unfolding repr64_def by (rule exI [of _ 1], rule exI [of _ "- 1074"]) simp

text \<open>A rounded value below the overflow threshold is representable.\<close>

lemma fl_rat_in_repr:
  assumes "\<bar>fl_rat x\<bar> < pow2 1024" shows "repr64 (fl_rat x)"
proof (cases "x = 0 \<or> fl_rat x = 0")
  case True
  then show ?thesis using repr64_int [of 0] by auto
next
  case False
  define e where "e = fl_exp x"
  define m where "m = rne (x / pow2 e)"
  have r: "fl_rat x = of_int m * pow2 e" using False by (simp add: fl_rat_def Let_def e_def m_def)
  have e0: "- 1074 \<le> e" by (simp add: e_def fl_exp_def)
  have "\<bar>x\<bar> < pow2 (ilog2 \<bar>x\<bar> + 1)" using False by (intro ilog2_bounds(2)) simp
  also have "\<dots> \<le> pow2 (e + 53)" by (simp add: e_def fl_exp_def)
  also have "\<dots> = of_int (2 ^ 53) * pow2 e" unfolding pow2_add by (simp add: pow2_def)
  finally have "x \<le> of_int (2 ^ 53) * pow2 e" "of_int (- (2 ^ 53)) * pow2 e \<le> x" by simp_all
  then have m: "\<bar>m\<bar> \<le> 2 ^ 53"
    unfolding m_def using rne_grid(1) [OF pow2_pos, of x "2 ^ 53" e] rne_grid(2) [OF pow2_pos, of "- (2 ^ 53)" e x]
    by linarith
  have m0: "m \<noteq> 0" using False r by auto
  have "(1 :: rat) \<le> of_int \<bar>m\<bar>" using m0 by linarith
  then have "1 * pow2 e \<le> of_int \<bar>m\<bar> * pow2 e" by (rule mult_right_mono) (simp add: less_imp_le)
  also have "\<dots> < pow2 1024" using assms by (simp add: r abs_mult less_imp_le)
  finally have "pow2 e < pow2 1024" unfolding mult_1 .
  then have e1: "e < 1024" by simp
  show ?thesis
  proof (cases "\<bar>m\<bar> = 2 ^ 53")
    case True
    have "of_int \<bar>m\<bar> * pow2 e < pow2 1024" using assms by (simp add: r abs_mult less_imp_le)
    moreover have "of_int \<bar>m\<bar> * pow2 e = pow2 (e + 53)"
      unfolding True pow2_add by (simp add: pow2_def)
    ultimately have e2: "e < 971" by simp
    have "(of_int m :: rat) = of_int (sgn m) * of_int \<bar>m\<bar>"
      by (simp only: of_int_mult [symmetric] sgn_mult_abs)
    then have "fl_rat x = of_int (sgn m) * (of_int \<bar>m\<bar> * pow2 e)"
      by (simp only: r mult.assoc)
    then have "fl_rat x = of_int (sgn m * 2 ^ 52) * pow2 (e + 1)"
      unfolding True pow2_add by (simp add: pow2_def)
    moreover have "\<bar>sgn m * 2 ^ 52\<bar> < (2::int) ^ 53" by (simp add: abs_mult sgn_if)
    ultimately show ?thesis
      unfolding repr64_def using e0 e2 by (intro exI [of _ "sgn m * 2 ^ 52"] exI [of _ "e + 1"]) simp
  next
    case False
    have "e \<le> 971"
    proof (cases "fl_exp x = - 1074")
      case False
      then have ex: "ilog2 \<bar>x\<bar> = e + 52" by (auto simp: e_def fl_exp_def)
      have "pow2 (e + 52) \<le> \<bar>x\<bar>" using ex ilog2_bounds(1) [of "\<bar>x\<bar>"] \<open>\<not> (x = 0 \<or> fl_rat x = 0)\<close> by simp
      then have "of_int (2 ^ 52) * pow2 e \<le> \<bar>x\<bar>" unfolding pow2_add by (simp add: pow2_def)
      then have "2 ^ 52 \<le> rne (\<bar>x\<bar> / pow2 e)" by (rule rne_grid(2) [OF pow2_pos])
      then have "2 ^ 52 \<le> \<bar>m\<bar>" by (auto simp: m_def abs_if rne_uminus split: if_splits)
      then have "(of_int (2 ^ 52) :: rat) \<le> of_int \<bar>m\<bar>" by (simp only: of_int_le_iff)
      then have "of_int (2 ^ 52) * pow2 e \<le> of_int \<bar>m\<bar> * pow2 e" by (intro mult_right_mono) (auto simp: less_imp_le)
      then have "pow2 (e + 52) < pow2 1024"
        using assms unfolding pow2_add by (simp add: r abs_mult less_imp_le pow2_def)
      then show ?thesis by simp
    qed (simp add: e_def)
    then show ?thesis unfolding repr64_def using r m False e0 by (intro exI [of _ m] exI [of _ e]) simp
  qed
qed

section \<open>The type of float64 values\<close>

datatype f64 = Fin rat | PInf | NInf | NaN

definition fl :: "rat \<Rightarrow> f64" where
  "fl x = (let y = fl_rat x in
     if pow2 1024 \<le> y then PInf else if y \<le> - pow2 1024 then NInf else Fin y)"

text \<open>Go's \<open><=\<close>, \<open><\<close> and \<open>==\<close>: every comparison with NaN is false.\<close>

fun fle :: "f64 \<Rightarrow> f64 \<Rightarrow> bool" where
  "fle NaN y = False"
| "fle x NaN = False"
| "fle NInf y = True"
| "fle x PInf = True"
| "fle (Fin a) (Fin b) = (a \<le> b)"
| "fle x y = False"

definition flt :: "f64 \<Rightarrow> f64 \<Rightarrow> bool" where
  "flt x y \<longleftrightarrow> fle x y \<and> \<not> fle y x"

definition feq :: "f64 \<Rightarrow> f64 \<Rightarrow> bool" where
  "feq x y \<longleftrightarrow> x = y \<and> x \<noteq> NaN"

lemma flt_Fin [simp]: "flt (Fin a) (Fin b) = (a < b)"
  by (auto simp: flt_def)

lemma feq_Fin [simp]: "feq (Fin a) (Fin b) = (a = b)"
  by (simp add: feq_def)

lemma flt_NaN [simp]: "\<not> flt NaN x" "\<not> flt x NaN"
  by (cases x; simp add: flt_def)+

lemma fle_refl: "x \<noteq> NaN \<Longrightarrow> fle x x"
  by (cases x) auto

lemma fle_trans: "fle x y \<Longrightarrow> fle y z \<Longrightarrow> fle x z"
  by (cases x; cases y; cases z) auto

lemma flt_fle: "flt x y \<Longrightarrow> fle x y"
  by (simp add: flt_def)

section \<open>The rounding contract and its interpretation\<close>

locale rounding =
  fixes rnd :: "rat \<Rightarrow> f64" and repr :: "rat \<Rightarrow> bool"
  assumes rnd_mono: "x \<le> y \<Longrightarrow> fle (rnd x) (rnd y)"
    and rnd_repr: "repr x \<Longrightarrow> rnd x = Fin x"
    and rnd_in: "rnd x = Fin y \<Longrightarrow> repr y"
begin

lemma rnd_between:
  assumes "repr a" "repr b" "a \<le> x" "x \<le> b"
  shows "\<exists>y. rnd x = Fin y \<and> repr y \<and> a \<le> y \<and> y \<le> b"
proof -
  have "fle (Fin a) (rnd x)" "fle (rnd x) (Fin b)"
    using rnd_mono [OF assms(3)] rnd_mono [OF assms(4)] assms(1,2) by (simp_all add: rnd_repr)
  then show ?thesis by (cases "rnd x") (auto dest: rnd_in)
qed

lemma rnd_idem: "rnd x = Fin y \<Longrightarrow> rnd y = Fin y"
  by (simp add: rnd_in rnd_repr)

lemma rnd_mono_Fin: "x \<le> y \<Longrightarrow> rnd x = Fin u \<Longrightarrow> rnd y = Fin v \<Longrightarrow> u \<le> v"
  using rnd_mono [of x y] by simp

end

lemma repr64_bound: "repr64 x \<Longrightarrow> \<bar>x\<bar> < pow2 1024"
proof -
  assume "repr64 x"
  then obtain m e where x: "x = of_int m * pow2 e" and m: "\<bar>m\<bar> < 2 ^ 53" and e: "e \<le> 971"
    unfolding repr64_def by blast
  have "(of_int \<bar>m\<bar> :: rat) < of_int (2 ^ 53)" using m by (simp only: of_int_less_iff)
  then have "of_int \<bar>m\<bar> * pow2 e < of_int (2 ^ 53) * pow2 e" by (rule mult_strict_right_mono) simp
  also have "\<dots> = pow2 (e + 53)" unfolding pow2_add by (simp add: pow2_def)
  also have "\<dots> \<le> pow2 1024" using e by simp
  finally show ?thesis by (simp add: x abs_mult less_imp_le)
qed

interpretation ieee: rounding fl repr64
proof
  fix x y :: rat
  assume "x \<le> y"
  then have "fl_rat x \<le> fl_rat y" by (rule fl_rat_mono)
  moreover have "- pow2 1024 < pow2 1024" using pow2_pos [of 1024] by linarith
  ultimately show "fle (fl x) (fl y)" by (auto simp: fl_def Let_def)
next
  fix x :: rat
  assume "repr64 x"
  then have "fl_rat x = x" "\<bar>x\<bar> < pow2 1024" by (simp_all add: fl_rat_repr repr64_bound)
  then have "fl_rat x = x" "\<not> pow2 1024 \<le> x" "\<not> x \<le> - pow2 1024" by (simp_all only: abs_less_iff) linarith+
  then show "fl x = Fin x" by (simp add: fl_def)
next
  fix x y :: rat
  assume "fl x = Fin y"
  then have "y = fl_rat x" "\<not> pow2 1024 \<le> y" "\<not> y \<le> - pow2 1024"
    by (auto simp: fl_def Let_def split: if_splits)
  then show "repr64 y" using fl_rat_in_repr [of x] by (simp only: abs_less_iff) linarith
qed

section \<open>Arithmetic\<close>

fun fneg :: "f64 \<Rightarrow> f64" where
  "fneg (Fin a) = Fin (- a)"
| "fneg PInf = NInf"
| "fneg NInf = PInf"
| "fneg NaN = NaN"

fun fadd :: "f64 \<Rightarrow> f64 \<Rightarrow> f64" where
  "fadd (Fin a) (Fin b) = fl (a + b)"
| "fadd NaN y = NaN"
| "fadd x NaN = NaN"
| "fadd PInf NInf = NaN"
| "fadd NInf PInf = NaN"
| "fadd PInf y = PInf"
| "fadd NInf y = NInf"
| "fadd x PInf = PInf"
| "fadd x NInf = NInf"

definition fsub :: "f64 \<Rightarrow> f64 \<Rightarrow> f64" where
  "fsub x y = fadd x (fneg y)"

text \<open>The infinity of a given sign; an indeterminate sign (zero) gives NaN.\<close>

definition finf :: "rat \<Rightarrow> f64" where
  "finf s = (if 0 < s then PInf else if s < 0 then NInf else NaN)"

fun fmul :: "f64 \<Rightarrow> f64 \<Rightarrow> f64" where
  "fmul (Fin a) (Fin b) = fl (a * b)"
| "fmul NaN y = NaN"
| "fmul x NaN = NaN"
| "fmul PInf (Fin b) = finf b"
| "fmul NInf (Fin b) = finf (- b)"
| "fmul (Fin a) PInf = finf a"
| "fmul (Fin a) NInf = finf (- a)"
| "fmul PInf PInf = PInf"
| "fmul NInf NInf = PInf"
| "fmul PInf NInf = NInf"
| "fmul NInf PInf = NInf"

text \<open>Division by zero gives an infinity, 0/0 and inf/inf NaN; the zero is the positive one.\<close>

fun fdiv :: "f64 \<Rightarrow> f64 \<Rightarrow> f64" where
  "fdiv (Fin a) (Fin b) = (if b = 0 then finf a else fl (a / b))"
| "fdiv NaN y = NaN"
| "fdiv x NaN = NaN"
| "fdiv PInf (Fin b) = (if b < 0 then NInf else PInf)"
| "fdiv NInf (Fin b) = (if b < 0 then PInf else NInf)"
| "fdiv (Fin a) PInf = Fin 0"
| "fdiv (Fin a) NInf = Fin 0"
| "fdiv x y = NaN"

lemma fsub_Fin [simp, f64_simps]: "fsub (Fin a) (Fin b) = fl (a - b)"
  by (simp add: fsub_def)

text \<open>A decimal literal is converted once, by rounding; so is an integer.\<close>

abbreviation (input) flit :: "rat \<Rightarrow> f64" where "flit \<equiv> fl"

definition f64_of_int :: "int \<Rightarrow> f64" where
  "f64_of_int n = fl (of_int n)"

lemma f64_of_small: "\<bar>n\<bar> < 2 ^ 53 \<Longrightarrow> f64_of_int n = Fin (of_int n)"
  by (simp add: f64_of_int_def ieee.rnd_repr repr64_int)

text \<open>
  \<open>int(x)\<close>: truncation; the result for a value outside the \<open>int64\<close> range (NaN included)
  is implementation-defined in Go and the least \<open>int64\<close> on amd64.
\<close>

definition f64_trunc :: "f64 \<Rightarrow> int" where
  "f64_trunc x = (case x of
     Fin q \<Rightarrow> let n = (if 0 \<le> q then \<lfloor>q\<rfloor> else \<lceil>q\<rceil>) in if in_int64 n then n else int64_min
   | _ \<Rightarrow> int64_min)"

text \<open>\<open>math.Round\<close>: to the nearest integer, halves away from zero.\<close>

fun fround :: "f64 \<Rightarrow> f64" where
  "fround (Fin q) = Fin (if 0 \<le> q then of_int \<lfloor>q + 1 / 2\<rfloor> else of_int \<lceil>q - 1 / 2\<rceil>)"
| "fround x = x"

text \<open>\<open>math.Min\<close>.\<close>

definition fmin :: "f64 \<Rightarrow> f64 \<Rightarrow> f64" where
  "fmin x y = (if x = NInf \<or> y = NInf then NInf else if x = NaN \<or> y = NaN then NaN
     else if fle x y then x else y)"

lemma fmin_Fin [simp]: "fmin (Fin a) (Fin b) = Fin (min a b)"
  by (auto simp: fmin_def min_def)

section \<open>Ranges\<close>

text \<open>\<open>between a b x\<close>: the value \<open>x\<close> is finite, representable and between \<open>a\<close> and \<open>b\<close>.\<close>

definition between :: "rat \<Rightarrow> rat \<Rightarrow> f64 \<Rightarrow> bool" where
  "between a b x \<longleftrightarrow> (\<exists>q. x = Fin q \<and> repr64 q \<and> a \<le> q \<and> q \<le> b)"

lemma betweenI: "x = Fin q \<Longrightarrow> repr64 q \<Longrightarrow> a \<le> q \<Longrightarrow> q \<le> b \<Longrightarrow> between a b x"
  by (auto simp: between_def)

lemma betweenE:
  assumes "between a b x" obtains q where "x = Fin q" "repr64 q" "a \<le> q" "q \<le> b"
  using assms by (auto simp: between_def)

lemma between_weaken: "between a b x \<Longrightarrow> a' \<le> a \<Longrightarrow> b \<le> b' \<Longrightarrow> between a' b' x"
  by (auto simp: between_def)

lemma between_fl [range_intros]:
  "repr64 a \<Longrightarrow> repr64 b \<Longrightarrow> a \<le> q \<Longrightarrow> q \<le> b \<Longrightarrow> between a b (fl q)"
  using ieee.rnd_between [of a b q] by (auto simp: between_def)

lemma between_Fin: "repr64 q \<Longrightarrow> a \<le> q \<Longrightarrow> q \<le> b \<Longrightarrow> between a b (Fin q)"
  by (auto simp: between_def)

lemma between_Fin_iff [simp]: "between a b (Fin q) \<longleftrightarrow> repr64 q \<and> a \<le> q \<and> q \<le> b"
  by (simp add: between_def)

lemma between_fadd:
  assumes "between a b x" "between c d y" "repr64 (a + c)" "repr64 (b + d)"
  shows "between (a + c) (b + d) (fadd x y)"
  using assms by (auto elim!: betweenE intro!: between_fl)

lemma between_fmul:
  assumes "between a b x" "between c d y" "0 \<le> a" "0 \<le> c" "repr64 (a * c)" "repr64 (b * d)"
  shows "between (a * c) (b * d) (fmul x y)"
  using assms by (auto elim!: betweenE intro!: between_fl mult_mono)

lemma between_f64_of_int:
  "\<bar>n\<bar> < 2 ^ 53 \<Longrightarrow> a \<le> of_int n \<Longrightarrow> of_int n \<le> b \<Longrightarrow> between a b (f64_of_int n)"
  by (simp add: f64_of_small between_Fin repr64_int)

text \<open>Monotonicity of the operations on finite values.\<close>

lemma fle_fl: "x \<le> y \<Longrightarrow> fle (fl x) (fl y)"
  by (rule ieee.rnd_mono)

lemma fl_not_NaN [simp]: "fl x \<noteq> NaN"
  by (simp add: fl_def Let_def)

lemma fle_fadd_mono:
  assumes "fle x x'" "fle y y'" "fadd x y \<noteq> NaN" "fadd x' y' \<noteq> NaN"
  shows "fle (fadd x y) (fadd x' y')"
proof -
  have top: "fle z PInf" if "z \<noteq> NaN" for z using that by (cases z) auto
  have bot: "fle NInf z" if "z \<noteq> NaN" for z using that by (cases z) auto
  show ?thesis
    using assms
    by (cases x; cases x'; cases y; cases y')
      (auto intro: fle_fl top bot)
qed

lemma fle_fmul_mono:
  assumes "fle (Fin a) (Fin b)" "0 \<le> c"
  shows "fle (fmul (Fin a) (Fin c)) (fmul (Fin b) (Fin c))"
  using assms by (auto intro!: fle_fl mult_right_mono)

lemma f64_trunc_mono:
  assumes "a \<le> b" "in_int64 \<lfloor>a\<rfloor>" "0 \<le> a" "in_int64 \<lfloor>b\<rfloor>"
  shows "f64_trunc (Fin a) \<le> f64_trunc (Fin b)"
  using assms by (simp add: f64_trunc_def Let_def floor_mono)

text \<open>The difference of two representable values keeps its sign, and its order.\<close>

lemma fsub_pos:
  assumes "repr64 a" "repr64 b" "0 \<le> a" "a < b"
  shows "\<exists>w. fsub (Fin b) (Fin a) = Fin w \<and> repr64 w \<and> 0 < w"
proof -
  have "pow2 (- 1074) \<le> b - a" using assms by (intro repr64_gap)
  then obtain w where w: "fl (b - a) = Fin w" "repr64 w" "pow2 (- 1074) \<le> w"
    using ieee.rnd_between [OF repr64_least assms(2)] assms(3) by force
  moreover have "0 < w" using w(3) pow2_pos [of "- 1074"] by linarith
  ultimately show ?thesis by simp
qed

lemma fl_numeral [simp]: "(numeral k :: int) < 2 ^ 53 \<Longrightarrow> fl (numeral k) = Fin (numeral k)"
  by (simp add: ieee.rnd_repr)

lemma fl_0 [simp]: "fl 0 = Fin 0"
  by (simp add: ieee.rnd_repr)

end
