(* ===== verification/Regex.thy ===== *)
theory Regex
  imports GoStrings
begin

text \<open>
  Go's \<open>regexp\<close> package (RE2 syntax, leftmost-first semantics) for the operators the
  extraction patterns use: character classes, concatenation, alternation, greedy star,
  plus, optional and bounded repetition, the anchors \<open>\b\<close>, \<open>^\<close> and \<open>$\<close>, and one
  capturing group. A matcher state holds the character before the position, the rest of
  the text and the text of the group. \<open>ends\<close> lists the states after a match in the
  order a backtracking matcher finds them, so its head is the leftmost-first match; the
  relation \<open>rxm\<close> states which matches exist, and \<open>ends_iff\<close> that the two agree.
\<close>

datatype rx =
    Eps
  | Cl "char \<Rightarrow> bool"
  | Cat rx rx
  | Alt rx rx
  | Star rx
  | WordB
  | Bol
  | Eol
  | Grp rx

type_synonym rst = "char option \<times> string \<times> string option"

abbreviation rest :: "rst \<Rightarrow> string" where "rest st \<equiv> fst (snd st)"

section \<open>Derived operators\<close>

primrec lit :: "string \<Rightarrow> rx" where
  "lit [] = Eps"
| "lit (c # cs) = Cat (Cl (\<lambda>x. x = c)) (lit cs)"

definition opt :: "rx \<Rightarrow> rx" where "opt r = Alt r Eps"
definition plus :: "rx \<Rightarrow> rx" where "plus r = Cat r (Star r)"

primrec seqs :: "rx list \<Rightarrow> rx" where
  "seqs [] = Eps"
| "seqs (r # rs) = Cat r (seqs rs)"

fun alts :: "rx list \<Rightarrow> rx" where
  "alts [] = Cl (\<lambda>_. False)"
| "alts [r] = r"
| "alts (r # rs) = Alt r (alts rs)"

text \<open>\<open>r{n}\<close> and \<open>r{n,n+1}\<close> (greedy).\<close>

definition times :: "nat \<Rightarrow> rx \<Rightarrow> rx" where "times n r = seqs (replicate n r)"
definition times_opt :: "nat \<Rightarrow> rx \<Rightarrow> rx" where "times_opt n r = Cat (times n r) (opt r)"

definition lits :: "string list \<Rightarrow> rx" where "lits ws = alts (map lit ws)"
definition oneof :: "string \<Rightarrow> rx" where "oneof cs = Cl (\<lambda>x. x \<in> set cs)"

text \<open>\<open>\d\<close>, \<open>\s\<close> (RE2's: no vertical tab) and \<open>.\<close>\<close>

definition rx_digit :: rx where "rx_digit = Cl is_digit"

definition is_rx_space :: "char \<Rightarrow> bool" where
  "is_rx_space c \<longleftrightarrow> (let n = of_char c :: nat in n = 32 \<or> n = 9 \<or> n = 10 \<or> n = 12 \<or> n = 13)"

definition rx_space :: rx where "rx_space = Cl is_rx_space"
definition rx_any :: rx where "rx_any = Cl (\<lambda>c. of_char c \<noteq> (10 :: nat))"

text \<open>\<open>\b\<close> around a pattern.\<close>

definition word :: "rx \<Rightarrow> rx" where "word r = Cat WordB (Cat r WordB)"

section \<open>The matcher\<close>

definition word_opt :: "char option \<Rightarrow> bool" where
  "word_opt p = (case p of None \<Rightarrow> False | Some c \<Rightarrow> is_word c)"

definition head_opt :: "string \<Rightarrow> char option" where
  "head_opt s = (case s of [] \<Rightarrow> None | c # _ \<Rightarrow> Some c)"

definition at_word_boundary :: "rst \<Rightarrow> bool" where
  "at_word_boundary st \<longleftrightarrow> word_opt (fst st) \<noteq> word_opt (head_opt (rest st))"

definition set_group :: "rst \<Rightarrow> rst \<Rightarrow> rst" where
  "set_group st st' = (fst st', rest st', Some (take (length (rest st) - length (rest st')) (rest st)))"

function (sequential) ends :: "rx \<Rightarrow> rst \<Rightarrow> rst list" where
  "ends Eps st = [st]"
| "ends (Cl P) (p, c # cs, g) = (if P c then [(Some c, cs, g)] else [])"
| "ends (Cl P) (p, [], g) = []"
| "ends (Cat a b) st = concat (map (ends b) (ends a st))"
| "ends (Alt a b) st = ends a st @ ends b st"
| "ends (Star a) st =
     concat (map (\<lambda>st'. if length (rest st') < length (rest st) then ends (Star a) st' else [])
       (ends a st)) @ [st]"
| "ends WordB st = (if at_word_boundary st then [st] else [])"
| "ends Bol st = (if fst st = None then [st] else [])"
| "ends Eol st = (if rest st = [] then [st] else [])"
| "ends (Grp a) st = map (set_group st) (ends a st)"
  by pat_completeness auto
termination
  by (relation "measures [\<lambda>(r, st). size r, \<lambda>(r, st). length (rest st)]") auto

declare ends.simps(6) [simp del]

lemma ends_star_set: "set (ends (Star a) st) =
    insert st (\<Union>st' \<in> {st' \<in> set (ends a st). length (rest st') < length (rest st)}. set (ends (Star a) st'))"
  by (subst ends.simps(6)) (auto split: if_splits)

lemma ends_lit: "ends (lit w) (p, w @ s, g) = [(if w = [] then p else Some (last w), s, g)]"
  by (induction w arbitrary: p) simp_all

section \<open>The matching relation\<close>

inductive rxm :: "rx \<Rightarrow> rst \<Rightarrow> rst \<Rightarrow> bool" where
  m_eps: "rxm Eps st st"
| m_cl: "P c \<Longrightarrow> rxm (Cl P) (p, c # cs, g) (Some c, cs, g)"
| m_cat: "rxm a st st1 \<Longrightarrow> rxm b st1 st2 \<Longrightarrow> rxm (Cat a b) st st2"
| m_alt1: "rxm a st st1 \<Longrightarrow> rxm (Alt a b) st st1"
| m_alt2: "rxm b st st1 \<Longrightarrow> rxm (Alt a b) st st1"
| m_star0: "rxm (Star a) st st"
| m_star: "rxm a st st1 \<Longrightarrow> length (rest st1) < length (rest st) \<Longrightarrow>
    rxm (Star a) st1 st2 \<Longrightarrow> rxm (Star a) st st2"
| m_word: "at_word_boundary st \<Longrightarrow> rxm WordB st st"
| m_bol: "fst st = None \<Longrightarrow> rxm Bol st st"
| m_eol: "rest st = [] \<Longrightarrow> rxm Eol st st"
| m_grp: "rxm a st st1 \<Longrightarrow> rxm (Grp a) st (set_group st st1)"

inductive_cases rxm_epsE: "rxm Eps st st'"
inductive_cases rxm_clE: "rxm (Cl P) st st'"
inductive_cases rxm_catE: "rxm (Cat a b) st st'"
inductive_cases rxm_altE: "rxm (Alt a b) st st'"
inductive_cases rxm_starE: "rxm (Star a) st st'"
inductive_cases rxm_wordE: "rxm WordB st st'"
inductive_cases rxm_bolE: "rxm Bol st st'"
inductive_cases rxm_eolE: "rxm Eol st st'"
inductive_cases rxm_grpE: "rxm (Grp a) st st'"

inductive_simps rxm_cat: "rxm (Cat a b) st st'"
inductive_simps rxm_alt: "rxm (Alt a b) st st'"
inductive_simps rxm_eps: "rxm Eps st st'"
inductive_simps rxm_wordb: "rxm WordB st st'"
inductive_simps rxm_bol: "rxm Bol st st'"
inductive_simps rxm_eol: "rxm Eol st st'"
inductive_simps rxm_grp: "rxm (Grp a) st st'"
inductive_simps rxm_cl: "rxm (Cl P) (p, s, g) st'"

lemma ends_sound: "st' \<in> set (ends r st) \<Longrightarrow> rxm r st st'"
proof (induction r st arbitrary: st' rule: ends.induct)
  case (4 a b st)
  then obtain st1 where "st1 \<in> set (ends a st)" "st' \<in> set (ends b st1)" by auto
  then show ?case using 4 by (blast intro: m_cat)
next
  case (5 a b st)
  from 5(3) have "st' \<in> set (ends a st) \<or> st' \<in> set (ends b st)" by simp
  then show ?case using 5(1,2) by (blast intro: m_alt1 m_alt2)
next
  case (6 a st)
  consider "st' = st" | st1 where "st1 \<in> set (ends a st)" "length (rest st1) < length (rest st)"
      "st' \<in> set (ends (Star a) st1)"
    using 6(3) by (subst (asm) ends_star_set) blast
  then show ?case
  proof cases
    case 1
    then show ?thesis by (simp add: m_star0)
  next
    case (2 st1)
    then show ?thesis using 6(1,2) by (blast intro: m_star)
  qed
next
  case (10 a st)
  from 10(2) obtain st1 where "st1 \<in> set (ends a st)" "st' = set_group st st1" by auto
  then show ?case using 10(1) by (blast intro: m_grp)
qed (auto simp: m_eps m_cl m_word m_bol m_eol split: if_splits)

lemma ends_complete: "rxm r st st' \<Longrightarrow> st' \<in> set (ends r st)"
proof (induction rule: rxm.induct)
  case (m_star a st st1 st2)
  then show ?case by (subst ends_star_set) blast
next
  case (m_star0 a st)
  show ?case by (subst ends_star_set) blast
next
  case (m_cat a st st1 b st2)
  then show ?case by (simp only: ends.simps set_concat set_map) blast
next
  case (m_grp a st st1)
  then show ?case by (simp only: ends.simps set_map) blast
qed simp_all

lemma ends_iff: "st' \<in> set (ends r st) \<longleftrightarrow> rxm r st st'"
  by (blast intro: ends_sound ends_complete)

lemma ends_nonempty_iff: "ends r st \<noteq> [] \<longleftrightarrow> (\<exists>st'. rxm r st st')"
  by (metis ends_iff list.set_intros(1) list.set_cases neq_Nil_conv empty_iff empty_set)

text \<open>A match consumes a prefix of the rest of the text.\<close>

lemma rxm_suffix: "rxm r st st' \<Longrightarrow> \<exists>u. rest st = u @ rest st'"
  by (induction rule: rxm.induct) (auto simp: set_group_def)

lemma rxm_length: "rxm r st st' \<Longrightarrow> length (rest st') \<le> length (rest st)"
  by (drule rxm_suffix) auto

section \<open>Searching: MatchString, FindStringSubmatch, ReplaceAllString\<close>

fun search :: "rx \<Rightarrow> char option \<Rightarrow> string \<Rightarrow> bool" where
  "search r p [] = (ends r (p, [], None) \<noteq> [])"
| "search r p (c # cs) = (ends r (p, c # cs, None) \<noteq> [] \<or> search r (Some c) cs)"

definition match_string :: "rx \<Rightarrow> string \<Rightarrow> bool" where
  "match_string r s = search r None s"

text \<open>Group 1 of the leftmost match.\<close>

fun find_group :: "rx \<Rightarrow> char option \<Rightarrow> string \<Rightarrow> string option" where
  "find_group r p [] = (case ends r (p, [], None) of [] \<Rightarrow> None | st # _ \<Rightarrow> snd (snd st))"
| "find_group r p (c # cs) = (case ends r (p, c # cs, None) of
     [] \<Rightarrow> find_group r (Some c) cs
   | st # _ \<Rightarrow> snd (snd st))"

definition find_submatch :: "rx \<Rightarrow> string \<Rightarrow> string option" where
  "find_submatch r s = find_group r None s"

text \<open>
  Every non-overlapping match is replaced by \<open>f\<close> of its group. The patterns it is used
  with match no empty text; at an empty match the model moves on by one character.
\<close>

function replace_from :: "rx \<Rightarrow> (string option \<Rightarrow> string) \<Rightarrow> char option \<Rightarrow> string \<Rightarrow> string" where
  "replace_from r f p s = (case ends r (p, s, None) of
     st # _ \<Rightarrow> if length (rest st) < length s then f (snd (snd st)) @ replace_from r f (fst st) (rest st)
               else (case s of [] \<Rightarrow> [] | c # cs \<Rightarrow> c # replace_from r f (Some c) cs)
   | [] \<Rightarrow> (case s of [] \<Rightarrow> [] | c # cs \<Rightarrow> c # replace_from r f (Some c) cs))"
  by pat_completeness auto
termination
  by (relation "measure (\<lambda>(r, f, p, s). length s)") auto

declare replace_from.simps [simp del]

definition replace_all :: "rx \<Rightarrow> (string option \<Rightarrow> string) \<Rightarrow> string \<Rightarrow> string" where
  "replace_all r f s = replace_from r f None s"

definition matches_any :: "string \<Rightarrow> rx list \<Rightarrow> bool" where
  "matches_any s rs \<longleftrightarrow> list_ex (\<lambda>r. match_string r s) rs"

text \<open>The first rule of a table whose pattern matches, the empty text if there is none.\<close>

fun first_rule :: "(rx \<times> string) list \<Rightarrow> string \<Rightarrow> string" where
  "first_rule [] s = []"
| "first_rule ((pattern, name) # rules) s = (if match_string pattern s then name else first_rule rules s)"

lemma first_rule_range: "first_rule rules s = [] \<or> first_rule rules s \<in> snd ` set rules"
proof (induction rules)
  case (Cons r rules)
  then show ?case by (cases r) auto
qed simp

text \<open>A search succeeds exactly when some suffix starts a match.\<close>

definition last_opt :: "char option \<Rightarrow> string \<Rightarrow> char option" where
  "last_opt p u = (if u = [] then p else Some (last u))"

lemma search_iff:
  "search r p s \<longleftrightarrow> (\<exists>u v st'. s = u @ v \<and> rxm r (last_opt p u, v, None) st')"
proof (induction s arbitrary: p)
  case Nil
  then show ?case by (simp add: ends_nonempty_iff last_opt_def)
next
  case (Cons c cs)
  have "(\<exists>u v st'. c # cs = u @ v \<and> rxm r (last_opt p u, v, None) st') \<longleftrightarrow>
      (\<exists>st'. rxm r (p, c # cs, None) st') \<or>
      (\<exists>u v st'. cs = u @ v \<and> rxm r (last_opt (Some c) u, v, None) st')"
    (is "?L \<longleftrightarrow> ?A \<or> ?B")
  proof
    assume ?L
    then obtain u v st' where *: "c # cs = u @ v" "rxm r (last_opt p u, v, None) st'" by blast
    show "?A \<or> ?B"
    proof (cases u)
      case Nil
      with * have "rxm r (p, c # cs, None) st'" by (simp add: last_opt_def)
      then show ?thesis by blast
    next
      case (Cons d w)
      with * have "cs = w @ v" "rxm r (last_opt (Some c) w, v, None) st'" by (auto simp: last_opt_def)
      then show ?thesis by blast
    qed
  next
    assume "?A \<or> ?B"
    then show ?L
    proof
      assume ?A
      then show ?L by (metis append_Nil last_opt_def)
    next
      assume ?B
      then obtain u v st' where "cs = u @ v" "rxm r (last_opt (Some c) u, v, None) st'" by blast
      then have "c # cs = (c # u) @ v" "rxm r (last_opt p (c # u), v, None) st'"
        by (auto simp: last_opt_def)
      then show ?L by blast
    qed
  qed
  then show ?case by (simp add: ends_nonempty_iff Cons.IH)
qed

lemma match_string_iff:
  "match_string r s \<longleftrightarrow> (\<exists>u v st'. s = u @ v \<and> rxm r (last_opt None u, v, None) st')"
  by (simp add: match_string_def search_iff)

section \<open>Phrases\<close>

text \<open>A plain pattern has no anchor and no group: whether it matches a text does not depend on what
  surrounds the text.\<close>

primrec plain :: "rx \<Rightarrow> bool" where
  "plain Eps = True"
| "plain (Cl P) = True"
| "plain (Cat a b) = (plain a \<and> plain b)"
| "plain (Alt a b) = (plain a \<and> plain b)"
| "plain (Star a) = plain a"
| "plain WordB = False"
| "plain Bol = False"
| "plain Eol = False"
| "plain (Grp a) = False"

text \<open>\<open>tok r w\<close>: in every context \<open>r\<close> can match exactly \<open>w\<close>.\<close>

definition tok :: "rx \<Rightarrow> string \<Rightarrow> bool" where
  "tok r w \<longleftrightarrow> (\<forall>p s g. rxm r (p, w @ s, g) (last_opt p w, s, g))"

lemma last_opt_append [simp]: "last_opt (last_opt p u) v = last_opt p (u @ v)"
  by (simp add: last_opt_def)

lemma last_opt_Nil [simp]: "last_opt p [] = p"
  by (simp add: last_opt_def)

lemma tok_eps: "tok Eps []"
  by (simp add: tok_def m_eps)

lemma tok_cl: "P c \<Longrightarrow> tok (Cl P) [c]"
  by (simp add: tok_def m_cl last_opt_def)

lemma tokD: "tok r u \<Longrightarrow> rxm r (p, u @ s, g) (last_opt p u, s, g)"
  by (simp only: tok_def)

lemma tok_cat:
  assumes "tok a u" "tok b v" shows "tok (Cat a b) (u @ v)"
  unfolding tok_def append_assoc last_opt_append [symmetric]
  using m_cat [OF tokD [OF assms(1)] tokD [OF assms(2)]] by blast

lemma tok_alt: "tok a u \<or> tok b u \<Longrightarrow> tok (Alt a b) u"
  unfolding tok_def by (blast intro: m_alt1 m_alt2)

lemma tok_star_Nil: "tok (Star a) []"
  by (simp add: tok_def m_star0)

lemma tok_star:
  assumes "tok a u" "u \<noteq> []" "tok (Star a) v" shows "tok (Star a) (u @ v)"
  unfolding tok_def append_assoc last_opt_append [symmetric]
  using m_star [OF tokD [OF assms(1)] _ tokD [OF assms(3)]] assms(2) by simp

lemma tok_star_class: "\<forall>c \<in> set w. P c \<Longrightarrow> tok (Star (Cl P)) w"
proof (induction w)
  case (Cons c w)
  then show ?case using tok_star [OF tok_cl [of P c], of w] by simp
qed (simp add: tok_star_Nil)

lemma tok_plus_class:
  assumes "w \<noteq> []" "\<forall>c \<in> set w. P c" shows "tok (plus (Cl P)) w"
proof -
  obtain c v where "w = [c] @ v" using assms(1) by (cases w) auto
  then show ?thesis using assms(2) unfolding plus_def by (auto simp del: append_Cons append_Nil intro!: tok_cat tok_cl tok_star_class)
qed

text \<open>A plain pattern that matches all of \<open>w\<close> once matches it everywhere.\<close>

lemma rxm_plain:
  "rxm r st st' \<Longrightarrow> plain r \<Longrightarrow> \<exists>u. rest st = u @ rest st' \<and> tok r u"
proof (induction rule: rxm.induct)
  case (m_cl P c p cs g)
  then show ?case using tok_cl [of P c] by (intro exI [of _ "[c]"]) simp
next
  case (m_cat a st st1 b st2)
  then obtain u v where "rest st = u @ rest st1" "tok a u" "rest st1 = v @ rest st2" "tok b v" by auto
  then show ?case by (intro exI [of _ "u @ v"]) (simp add: tok_cat)
next
  case (m_star a st st1 st2)
  then obtain u v where *: "rest st = u @ rest st1" "tok a u" "rest st1 = v @ rest st2" "tok (Star a) v" by auto
  moreover have "u \<noteq> []" using m_star.hyps * by auto
  ultimately show ?case by (intro exI [of _ "u @ v"]) (simp add: tok_star)
qed (auto intro: tok_eps tok_alt tok_star_Nil)

definition full_match :: "rx \<Rightarrow> string \<Rightarrow> bool" where
  "full_match r w \<longleftrightarrow> list_ex (\<lambda>st. rest st = []) (ends r (None, w, None))"

lemma tok_full: "full_match r w \<Longrightarrow> plain r \<Longrightarrow> tok r w"
proof -
  assume "full_match r w" "plain r"
  then obtain st where "rxm r (None, w, None) st" "rest st = []"
    by (auto simp: full_match_def list_ex_iff ends_iff)
  with rxm_plain [OF this(1) \<open>plain r\<close>] show "tok r w" by auto
qed

lemma plain_lit [simp]: "plain (lit w)"
  by (induction w) simp_all

text \<open>A word pattern matches a phrase that starts and ends with a word character and is set off
  from its surroundings, wherever in the text it stands.\<close>

definition set_off :: "string \<Rightarrow> string \<Rightarrow> bool" where
  "set_off u v \<longleftrightarrow> (u = [] \<or> \<not> is_word (last u)) \<and> (v = [] \<or> \<not> is_word (hd v))"

lemma match_word:
  assumes "set_off u v" "tok r w" "w \<noteq> []" "is_word (hd w)" "is_word (last w)"
  shows "match_string (word r) (u @ w @ v)"
proof -
  have "at_word_boundary (last_opt None u, w @ v, None)"
    using assms by (cases w) (auto simp: at_word_boundary_def set_off_def last_opt_def word_opt_def head_opt_def)
  moreover have "at_word_boundary (last_opt (last_opt None u) w, v, None)"
    using assms by (cases v) (auto simp: at_word_boundary_def set_off_def last_opt_def word_opt_def head_opt_def)
  moreover have "rxm r (last_opt None u, w @ v, None) (last_opt (last_opt None u) w, v, None)"
    using assms(2) by (simp only: tok_def)
  ultimately have "\<exists>st. rxm (word r) (last_opt None u, w @ v, None) st"
    unfolding word_def by (blast intro: m_cat m_word)
  then show ?thesis unfolding match_string_iff by blast
qed

end
