(* ===== verification/Aliases.thy ===== *)
theory Aliases
  imports GoStrings
begin

text \<open>
  The canonical token of a free-text name: the alias table of a field maps the lower-cased,
  trimmed text to its token, and an unknown text keeps its words joined by hyphens. GPU
  families, system vendors and system lines all go through it with a table of their own. The
  locale states what a table must satisfy for the token to be stable under a second pass.
\<close>

definition canonical_token :: "(string \<times> string) list \<Rightarrow> string \<Rightarrow> string" where
  "canonical_token table s =
     (let key = to_lower (trim_space s)
      in if key = [] then []
         else case map_of table key of
           Some canonical \<Rightarrow> canonical
         | None \<Rightarrow> replace_char (CHR '' '') (CHR ''-'') key)"

abbreviation hyphenate :: "string \<Rightarrow> string" where
  "hyphenate s \<equiv> replace_char (CHR '' '') (CHR ''-'') s"

text \<open>The texts that \<open>hyphenate\<close> maps to a given one.\<close>

primrec spacings :: "string \<Rightarrow> string list" where
  "spacings [] = [[]]"
| "spacings (c # cs) = (let r = spacings cs in
     map ((#) c) r @ (if c = CHR ''-'' then map ((#) (CHR '' '')) r else []))"

lemma hyphenate_spacings: "s \<in> set (spacings (hyphenate s))"
  by (induction s) (auto simp: replace_char_def Let_def)

lemma no_space_hyphenate: "CHR '' '' \<notin> set (hyphenate s)"
  by (auto simp: replace_char_def)

lemma hyphenate_idem [simp]: "hyphenate (hyphenate s) = hyphenate s"
  by (simp add: replace_char_def)

lemma lower_hyphenate: "to_lower s = s \<Longrightarrow> to_lower (hyphenate s) = hyphenate s"
proof -
  assume s: "to_lower s = s"
  have h: "lower_char (CHR ''-'') = CHR ''-''" by (simp add: lower_char_def is_upper_def)
  have "map lower_char s = map id s" using s by (simp add: to_lower_def)
  then have "\<forall>c \<in> set s. lower_char c = c" unfolding map_eq_conv by simp
  then show ?thesis by (auto simp: to_lower_def replace_char_def h)
qed

lemma trim_hyphenate: "trim_space s = s \<Longrightarrow> trim_space (hyphenate s) = hyphenate s"
proof (rule trim_id)
  assume s: "trim_space s = s" and ne: "hyphenate s \<noteq> []"
  then have "s \<noteq> []" by (simp add: replace_char_def)
  then have "\<not> is_space (hd s)" "\<not> is_space (last s)" using trim_hd [of s] trim_last [of s] s by auto
  moreover have "\<not> is_space (CHR ''-'')" by (simp add: is_space_def)
  ultimately show "\<not> is_space (hd (hyphenate s)) \<and> \<not> is_space (last (hyphenate s))"
    using \<open>s \<noteq> []\<close> by (simp add: replace_char_def hd_map last_map)
qed

locale alias_table =
  fixes table :: "(string \<times> string) list"
  assumes tokens_fixed: "(k, v) \<in> set table \<Longrightarrow> canonical_token table v = v"
    and hyphen_keys: "(k, v) \<in> set table \<Longrightarrow> v = k \<or> (\<forall>s. hyphenate s = k \<longrightarrow> map_of table s \<noteq> None)"
begin

lemma idem: "canonical_token table (canonical_token table s) = canonical_token table s"
proof -
  define key where "key = to_lower (trim_space s)"
  have key: "to_lower key = key" "trim_space key = key" by (simp_all add: key_def trim_lower)
  show ?thesis
  proof (cases "key = [] \<or> map_of table key \<noteq> None")
    case True
    then show ?thesis
    proof
      assume "map_of table key \<noteq> None"
      then obtain v where v: "map_of table key = Some v" by blast
      from tokens_fixed [OF map_of_SomeD [OF v]] show ?thesis
        using v by (cases "key = []") (auto simp: canonical_token_def key_def [symmetric] Let_def)
    qed (simp add: canonical_token_def key_def [symmetric] Let_def)
  next
    case False
    then have tok: "canonical_token table s = hyphenate key"
      by (simp add: canonical_token_def key_def [symmetric] Let_def)
    have "to_lower (trim_space (hyphenate key)) = hyphenate key"
      by (simp add: trim_hyphenate [OF key(2)] lower_hyphenate [OF key(1)])
    moreover have "map_of table (hyphenate key) = None \<or> map_of table (hyphenate key) = Some (hyphenate key)"
    proof (cases "map_of table (hyphenate key)")
      case (Some v)
      from hyphen_keys [OF map_of_SomeD [OF this]] False Some show ?thesis by auto
    qed simp
    ultimately show ?thesis
      by (auto simp: tok canonical_token_def [of _ "hyphenate key"] Let_def)
  qed
qed

lemma case_space_insensitive:
  "to_lower (trim_space s) = to_lower (trim_space t) \<Longrightarrow> canonical_token table s = canonical_token table t"
  by (simp add: canonical_token_def)

end

text \<open>An executable check of a table, for the interpretations.\<close>

definition table_ok :: "(string \<times> string) list \<Rightarrow> bool" where
  "table_ok table \<longleftrightarrow> list_all (\<lambda>(k, v). canonical_token table v = v \<and>
     (v = k \<or> CHR '' '' \<in> set k \<or> list_all (\<lambda>s. map_of table s \<noteq> None) (spacings k))) table"

lemma table_ok_alias_table: "table_ok table \<Longrightarrow> alias_table table"
proof
  fix k v assume ok: "table_ok table" and kv: "(k, v) \<in> set table"
  then have *: "canonical_token table v = v"
    "v = k \<or> CHR '' '' \<in> set k \<or> list_all (\<lambda>s. map_of table s \<noteq> None) (spacings k)"
    by (auto simp: table_ok_def list_all_iff)
  then show "canonical_token table v = v" by simp
  show "v = k \<or> (\<forall>s. hyphenate s = k \<longrightarrow> map_of table s \<noteq> None)"
    using *(2) hyphenate_spacings no_space_hyphenate by (auto simp: list_all_iff)
qed

end
