(* ===== verification/Domain.thy ===== *)
theory Domain
  imports Float64 GoStrings
begin

text \<open>
  The business types of \<open>pkg/types/types.go\<close>: listings, watches, filters, baselines,
  alerts, jobs and judge rows as records (a Go pointer is an \<open>option\<close>, a \<open>time.Time\<close>
  an instant), the unit price of a listing, and the filter a watch puts on listings.

  A value of type \<open>any\<close> inside an attribute map is a \<open>jval\<close>, nil is \<open>JNull\<close>; the
  decoder never yields a \<open>json.Number\<close> (no code asks for it), so a number is an \<open>int\<close> the
  program put there or a float64. Go's \<open>==\<close> on two \<open>any\<close>
  values panics when both hold a slice or both hold a map; the filter functions return
  None there.
\<close>

section \<open>Component types, conditions, listing types\<close>

type_synonym component_type = string
type_synonym condition = string
type_synonym listing_type = string

definition ComponentRAM :: component_type where "ComponentRAM = ''ram''"
definition ComponentDrive :: component_type where "ComponentDrive = ''drive''"
definition ComponentServer :: component_type where "ComponentServer = ''server''"
definition ComponentCPU :: component_type where "ComponentCPU = ''cpu''"
definition ComponentNIC :: component_type where "ComponentNIC = ''nic''"
definition ComponentGPU :: component_type where "ComponentGPU = ''gpu''"
definition ComponentWorkstation :: component_type where "ComponentWorkstation = ''workstation''"
definition ComponentDesktop :: component_type where "ComponentDesktop = ''desktop''"
definition ComponentOther :: component_type where "ComponentOther = ''other''"

lemmas component_defs = ComponentRAM_def ComponentDrive_def ComponentServer_def ComponentCPU_def
  ComponentNIC_def ComponentGPU_def ComponentWorkstation_def ComponentDesktop_def ComponentOther_def

definition ConditionNew :: condition where "ConditionNew = ''new''"
definition ConditionLikeNew :: condition where "ConditionLikeNew = ''like_new''"
definition ConditionUsedWorking :: condition where "ConditionUsedWorking = ''used_working''"
definition ConditionForParts :: condition where "ConditionForParts = ''for_parts''"
definition ConditionUnknown :: condition where "ConditionUnknown = ''unknown''"

lemmas condition_defs = ConditionNew_def ConditionLikeNew_def ConditionUsedWorking_def
  ConditionForParts_def ConditionUnknown_def

definition ListingAuction :: listing_type where "ListingAuction = ''auction''"
definition ListingBuyItNow :: listing_type where "ListingBuyItNow = ''buy_it_now''"
definition ListingBestOffer :: listing_type where "ListingBestOffer = ''best_offer''"

lemmas listing_type_defs = ListingAuction_def ListingBuyItNow_def ListingBestOffer_def

section \<open>Attribute values\<close>

datatype jval =
    JNull
  | JBool bool
  | JStr string
  | JInt int
  | JNum f64
  | JArr "jval list"
  | JObj "(string \<times> jval) list"

type_synonym attrs = "(string, jval) gomap"

section \<open>Listings\<close>

record listing =
  l_id :: string
  l_ebay_id :: string
  l_title :: string
  l_item_url :: string
  l_image_url :: string
  l_price :: f64
  l_currency :: string
  l_shipping_cost :: "f64 option"
  l_listing_type :: listing_type
  l_seller_name :: string
  l_seller_feedback :: int
  l_seller_feedback_pct :: f64
  l_seller_top_rated :: bool
  l_component_type :: component_type
  l_condition_raw :: string
  l_condition_norm :: condition
  l_quantity :: int
  l_attributes :: attrs
  l_extraction_confidence :: f64
  l_product_key :: string
  l_score :: "int option"
  l_score_breakdown :: string
  l_active :: bool
  l_listed_at :: "instant option"
  l_sold_at :: "instant option"
  l_sold_price :: "f64 option"
  l_auction_end_at :: "instant option"
  l_first_seen_at :: instant
  l_updated_at :: instant

definition UnitPrice :: "listing \<Rightarrow> f64" where
  "UnitPrice l =
     (let total = l_price l;
          total = (case l_shipping_cost l of None \<Rightarrow> total | Some s \<Rightarrow> fadd total s)
      in if l_quantity l > 1 then fdiv total (f64_of_int (l_quantity l)) else total)"

section \<open>Watches and their filters\<close>

record attribute_filter =
  af_equals :: jval
  af_min :: "f64 option"
  af_max :: "f64 option"
  af_in :: "jval list option"

record watch_filters =
  wf_price_max :: "f64 option"
  wf_price_min :: "f64 option"
  wf_seller_min_feedback :: "int option"
  wf_seller_min_feedback_pct :: "f64 option"
  wf_seller_top_rated_only :: bool
  wf_conditions :: "condition list"
  wf_attribute_filters :: "(string, attribute_filter) gomap"

record watch =
  w_id :: string
  w_name :: string
  w_search_query :: string
  w_category_id :: string
  w_component_type :: component_type
  w_filters :: watch_filters
  w_score_threshold :: int
  w_enabled :: bool
  w_last_polled_at :: "instant option"
  w_created_at :: instant
  w_updated_at :: instant

definition matchPrice :: "watch_filters \<Rightarrow> listing \<Rightarrow> bool" where
  "matchPrice f l =
     (let unitPrice = UnitPrice l in
      if (case wf_price_max f of Some m \<Rightarrow> flt m unitPrice | None \<Rightarrow> False) then False
      else if (case wf_price_min f of Some m \<Rightarrow> flt unitPrice m | None \<Rightarrow> False) then False
      else True)"

definition matchSeller :: "watch_filters \<Rightarrow> listing \<Rightarrow> bool" where
  "matchSeller f l =
     (if (case wf_seller_min_feedback f of Some m \<Rightarrow> l_seller_feedback l < m | None \<Rightarrow> False) then False
      else if (case wf_seller_min_feedback_pct f of Some m \<Rightarrow> flt (l_seller_feedback_pct l) m | None \<Rightarrow> False)
        then False
      else if wf_seller_top_rated_only f \<and> \<not> l_seller_top_rated l then False
      else True)"

definition matchCondition :: "watch_filters \<Rightarrow> listing \<Rightarrow> bool" where
  "matchCondition f l =
     (if wf_conditions f = [] then True else l_condition_norm l \<in> set (wf_conditions f))"

definition toFloat64 :: "jval \<Rightarrow> f64 option" where
  "toFloat64 v = (case v of JNum n \<Rightarrow> Some n | JInt n \<Rightarrow> Some (f64_of_int n) | _ \<Rightarrow> None)"

text \<open>\<open>a == b\<close> on interface values: None is the run-time panic.\<close>

fun any_eq :: "jval \<Rightarrow> jval \<Rightarrow> bool option" where
  "any_eq JNull JNull = Some True"
| "any_eq (JBool a) (JBool b) = Some (a = b)"
| "any_eq (JStr a) (JStr b) = Some (a = b)"
| "any_eq (JInt a) (JInt b) = Some (a = b)"
| "any_eq (JNum a) (JNum b) = Some (feq a b)"
| "any_eq (JArr a) (JArr b) = None"
| "any_eq (JObj a) (JObj b) = None"
| "any_eq a b = Some False"

text \<open>\<open>slices.Contains\<close>: comparisons from the left, up to the first equal element.\<close>

fun any_contains :: "jval list \<Rightarrow> jval \<Rightarrow> bool option" where
  "any_contains [] v = Some False"
| "any_contains (x # xs) v = (case any_eq x v of
     None \<Rightarrow> None | Some True \<Rightarrow> Some True | Some False \<Rightarrow> any_contains xs v)"

definition matchAttribute :: "jval \<Rightarrow> attribute_filter \<Rightarrow> bool option" where
  "matchAttribute v f =
     (if af_equals f \<noteq> JNull then any_eq v (af_equals f)
      else case af_in f of
        Some vs \<Rightarrow> any_contains vs v
      | None \<Rightarrow> (case toFloat64 v of
          None \<Rightarrow> Some True
        | Some numVal \<Rightarrow>
            if (case af_min f of Some m \<Rightarrow> flt numVal m | None \<Rightarrow> False) then Some False
            else if (case af_max f of Some m \<Rightarrow> flt m numVal | None \<Rightarrow> False) then Some False
            else Some True))"

fun match_attr_loop :: "(string, attribute_filter) gomap \<Rightarrow> attrs \<Rightarrow> bool option" where
  "match_attr_loop [] as = Some True"
| "match_attr_loop ((key, f) # fs) as = (case mget as key of
     None \<Rightarrow> Some False
   | Some v \<Rightarrow> (case matchAttribute v f of
       None \<Rightarrow> None | Some False \<Rightarrow> Some False | Some True \<Rightarrow> match_attr_loop fs as))"

definition matchAttributes :: "watch_filters \<Rightarrow> listing \<Rightarrow> bool option" where
  "matchAttributes f l = match_attr_loop (wf_attribute_filters f) (l_attributes l)"

text \<open>\<open>(*WatchFilters).Match\<close>.\<close>

definition filters_match :: "watch_filters \<Rightarrow> listing \<Rightarrow> bool option" where
  "filters_match f l =
     (if \<not> matchPrice f l then Some False
      else if \<not> matchSeller f l then Some False
      else if \<not> matchCondition f l then Some False
      else matchAttributes f l)"

section \<open>The other rows\<close>

record job_run =
  jr_id :: string
  jr_job_name :: string
  jr_started_at :: instant
  jr_completed_at :: "instant option"
  jr_status :: string
  jr_error_text :: string
  jr_rows_affected :: "int option"

record rate_limiter_state =
  rl_tokens_used :: int
  rl_daily_limit :: int
  rl_reset_at :: instant
  rl_synced_at :: instant

record system_state =
  ss_watches_total :: int
  ss_watches_enabled :: int
  ss_listings_total :: int
  ss_listings_unextracted :: int
  ss_listings_unscored :: int
  ss_alerts_pending :: int
  ss_baselines_total :: int
  ss_baselines_warm :: int
  ss_baselines_cold :: int
  ss_product_keys_no_baseline :: int
  ss_listings_incomplete_extraction :: int
  ss_extraction_queue_depth :: int

record extraction_job =
  ej_id :: string
  ej_listing_id :: string
  ej_priority :: int
  ej_enqueued_at :: instant
  ej_attempts :: int
  ej_trace_id :: "string option"

record price_baseline =
  pb_id :: string
  pb_product_key :: string
  pb_sample_count :: int
  pb_p10 :: f64
  pb_p25 :: f64
  pb_p50 :: f64
  pb_p75 :: f64
  pb_p90 :: f64
  pb_mean :: f64
  pb_updated_at :: instant

record alert =
  a_id :: string
  a_watch_id :: string
  a_listing_id :: string
  a_score :: int
  a_notified :: bool
  a_notified_at :: "instant option"
  a_created_at :: instant
  a_dismissed_at :: "instant option"
  a_trace_id :: "string option"

record notification_attempt =
  na_id :: string
  na_alert_id :: string
  na_attempted_at :: instant
  na_succeeded :: bool
  na_http_status :: "int option"
  na_error_text :: "string option"

record score_breakdown =
  sb_price :: f64
  sb_seller :: f64
  sb_condition :: f64
  sb_quantity :: f64
  sb_quality :: f64
  sb_time :: f64
  sb_total :: int

record alert_with_listing =
  al_alert :: alert
  al_listing :: listing
  al_watch_name :: string

record alert_detail =
  ad_alert :: alert
  ad_listing :: listing
  ad_watch :: watch
  ad_notification_history :: "notification_attempt list"

record judge_candidate =
  jc_alert_id :: string
  jc_watch_id :: string
  jc_watch_name :: string
  jc_listing_id :: string
  jc_listing_title :: string
  jc_component_type :: component_type
  jc_condition :: condition
  jc_price_usd :: f64
  jc_baseline_p25 :: f64
  jc_baseline_p50 :: f64
  jc_baseline_p75 :: f64
  jc_sample_size :: int
  jc_score :: int
  jc_threshold :: int
  jc_trace_id :: "string option"
  jc_created_at :: instant

record judge_score =
  js_alert_id :: string
  js_score :: f64
  js_reason :: string
  js_model :: string
  js_input_tokens :: int
  js_output_tokens :: int
  js_cost_usd :: f64
  js_judged_at :: instant

section \<open>What a filter accepts\<close>

text \<open>A scalar never makes an interface comparison panic.\<close>

fun scalar :: "jval \<Rightarrow> bool" where
  "scalar (JArr _) = False"
| "scalar (JObj _) = False"
| "scalar _ = True"

fun jval_eq :: "jval \<Rightarrow> jval \<Rightarrow> bool" where
  "jval_eq (JNum a) (JNum b) = feq a b"
| "jval_eq a b = (a = b)"

lemma any_eq_scalar: "scalar b \<Longrightarrow> any_eq a b = Some (jval_eq a b)"
  by (cases a; cases b) simp_all

lemma any_eq_scalar_left: "scalar a \<Longrightarrow> any_eq a b = Some (jval_eq a b)"
  by (cases a; cases b) simp_all

lemma any_contains_scalar:
  "list_all scalar xs \<Longrightarrow> any_contains xs v = Some (\<exists>x \<in> set xs. jval_eq x v)"
  by (induction xs) (auto simp: any_eq_scalar_left split: bool.splits)

definition in_range :: "f64 \<Rightarrow> f64 option \<Rightarrow> f64 option \<Rightarrow> bool" where
  "in_range x lo hi \<longleftrightarrow> (\<forall>m. lo = Some m \<longrightarrow> \<not> flt x m) \<and> (\<forall>m. hi = Some m \<longrightarrow> \<not> flt m x)"

text \<open>One attribute filter read declaratively: an equality wins over a set, a set over a range,
  and a range accepts every value that is not a number.\<close>

definition attribute_ok :: "attribute_filter \<Rightarrow> jval \<Rightarrow> bool" where
  "attribute_ok f v =
     (if af_equals f \<noteq> JNull then jval_eq v (af_equals f)
      else case af_in f of Some vs \<Rightarrow> \<exists>x \<in> set vs. jval_eq x v
      | None \<Rightarrow> \<forall>n. toFloat64 v = Some n \<longrightarrow> in_range n (af_min f) (af_max f))"

definition scalar_filter :: "attribute_filter \<Rightarrow> bool" where
  "scalar_filter f \<longleftrightarrow> scalar (af_equals f) \<and> (case af_in f of None \<Rightarrow> True | Some vs \<Rightarrow> list_all scalar vs)"

lemma matchAttribute_scalar: "scalar_filter f \<Longrightarrow> matchAttribute v f = Some (attribute_ok f v)"
  by (auto simp: matchAttribute_def attribute_ok_def scalar_filter_def any_eq_scalar any_contains_scalar
      in_range_def split: option.splits)

lemma match_attr_loop_scalar:
  "\<forall>(k, f) \<in> set fs. scalar_filter f \<Longrightarrow>
   match_attr_loop fs as = Some (\<forall>(k, f) \<in> set fs. \<exists>v. mget as k = Some v \<and> attribute_ok f v)"
  by (induction fs as rule: match_attr_loop.induct)
    (auto simp: matchAttribute_scalar split: option.splits bool.splits)

lemma match_attr_loop_True:
  "match_attr_loop fs as = Some True \<longleftrightarrow>
   (\<forall>(k, f) \<in> set fs. \<exists>v. mget as k = Some v \<and> matchAttribute v f = Some True)"
  by (induction fs as rule: match_attr_loop.induct) (auto split: option.splits bool.splits)

lemma matchPrice_iff: "matchPrice f l \<longleftrightarrow> in_range (UnitPrice l) (wf_price_min f) (wf_price_max f)"
  by (auto simp: matchPrice_def in_range_def Let_def split: option.splits)

text \<open>C30. A watch filter with scalar operands never panics and accepts exactly the listings whose
  unit price is in the price range, whose seller and condition pass, and whose attributes all
  exist and satisfy their attribute filters.\<close>

theorem filters_match_iff:
  assumes "\<forall>(k, af) \<in> set (wf_attribute_filters f). scalar_filter af"
  shows "filters_match f l = Some
    (in_range (UnitPrice l) (wf_price_min f) (wf_price_max f) \<and>
     (\<forall>m. wf_seller_min_feedback f = Some m \<longrightarrow> m \<le> l_seller_feedback l) \<and>
     (\<forall>m. wf_seller_min_feedback_pct f = Some m \<longrightarrow> \<not> flt (l_seller_feedback_pct l) m) \<and>
     (wf_seller_top_rated_only f \<longrightarrow> l_seller_top_rated l) \<and>
     (wf_conditions f \<noteq> [] \<longrightarrow> l_condition_norm l \<in> set (wf_conditions f)) \<and>
     (\<forall>(k, af) \<in> set (wf_attribute_filters f). \<exists>v. mget (l_attributes l) k = Some v \<and> attribute_ok af v))"
  using match_attr_loop_scalar [OF assms, of "l_attributes l"]
  by (auto simp: filters_match_def matchPrice_iff matchSeller_def matchCondition_def matchAttributes_def
      split: option.splits)

definition sample_listing :: listing where
  "sample_listing = \<lparr> l_id = ''l1'', l_ebay_id = ''v1'', l_title = ''32GB DDR4'', l_item_url = '''', l_image_url = '''',
     l_price = Fin 40, l_currency = ''USD'', l_shipping_cost = Some (Fin 8), l_listing_type = ListingBuyItNow,
     l_seller_name = ''s'', l_seller_feedback = 600, l_seller_feedback_pct = Fin 99, l_seller_top_rated = False,
     l_component_type = ComponentRAM, l_condition_raw = ''Used'', l_condition_norm = ConditionUsedWorking,
     l_quantity = 4, l_attributes = [(''generation'', JStr ''ddr4''), (''capacity_gb'', JInt 32)],
     l_extraction_confidence = Fin 1, l_product_key = '''', l_score = None, l_score_breakdown = '''',
     l_active = True, l_listed_at = None, l_sold_at = None, l_sold_price = None, l_auction_end_at = None,
     l_first_seen_at = 0, l_updated_at = 0 \<rparr>"

definition sample_filters :: watch_filters where
  "sample_filters = \<lparr> wf_price_max = Some (Fin 15), wf_price_min = None, wf_seller_min_feedback = Some 500,
     wf_seller_min_feedback_pct = None, wf_seller_top_rated_only = False, wf_conditions = [],
     wf_attribute_filters =
       [(''generation'', \<lparr> af_equals = JStr ''ddr4'', af_min = None, af_max = None, af_in = None \<rparr>),
        (''capacity_gb'', \<lparr> af_equals = JNull, af_min = Some (Fin 16), af_max = None, af_in = None \<rparr>)] \<rparr>"

theorem filters_match_iff_witness: "filters_match sample_filters sample_listing = Some True"
proof -
  have s: "\<forall>(k, af) \<in> set (wf_attribute_filters sample_filters). scalar_filter af"
    by (simp add: sample_filters_def scalar_filter_def)
  have "UnitPrice sample_listing = Fin 12"
    by (simp add: UnitPrice_def sample_listing_def f64_of_int_def fl_numeral)
  then show ?thesis
    unfolding filters_match_iff [OF s]
    by (simp add: in_range_def sample_filters_def attribute_ok_def toFloat64_def)
      (simp add: sample_listing_def toFloat64_def f64_of_int_def fl_numeral)
qed

text \<open>Go iterates over the attribute filters in an unspecified order. Acceptance does not depend
  on it: if one order accepts a listing without a panic, every order does.\<close>

theorem filters_match_order:
  assumes "set fs = set (wf_attribute_filters f)"
  shows "filters_match (f\<lparr> wf_attribute_filters := fs \<rparr>) l = Some True \<longleftrightarrow> filters_match f l = Some True"
  using match_attr_loop_True [of fs "l_attributes l"] assms
    match_attr_loop_True [of "wf_attribute_filters f" "l_attributes l"]
  by (simp add: filters_match_def matchPrice_iff matchSeller_def matchCondition_def matchAttributes_def)

theorem filters_match_order_witness:
  "filters_match (sample_filters\<lparr> wf_attribute_filters := rev (wf_attribute_filters sample_filters) \<rparr>) sample_listing
     = Some True \<longleftrightarrow> filters_match sample_filters sample_listing = Some True"
  by (rule filters_match_order) simp

end
