(* ===== verification/Scorer.thy ===== *)
theory Scorer
  imports Float64 GoStrings
begin

text \<open>
  The composite deal score of \<open>pkg/scorer/scorer.go\<close>, computed in binary64 as the code
  does (without fused multiply-add, which Go may use on arm64 but not on amd64). A nil
  baseline is None. The lemmas bound every factor on finite inputs, show that
  a cheaper listing never scores lower, and that the clamp of the total is never needed
  with the default weights.
\<close>

section \<open>Types and constants\<close>

definition MinBaselineSamples :: int where "MinBaselineSamples = 10"

record weights =
  w_Price :: f64
  w_Seller :: f64
  w_Condition :: f64
  w_Quantity :: f64
  w_Quality :: f64
  w_Time :: f64

definition DefaultWeights :: weights where
  "DefaultWeights = \<lparr> w_Price = fl (40 / 100), w_Seller = fl (20 / 100), w_Condition = fl (15 / 100),
     w_Quantity = fl (10 / 100), w_Quality = fl (10 / 100), w_Time = fl (5 / 100) \<rparr>"

record baseline =
  b_P10 :: f64
  b_P25 :: f64
  b_P50 :: f64
  b_P75 :: f64
  b_P90 :: f64
  b_SampleCount :: int

record listing_data =
  d_UnitPrice :: f64
  d_SellerFeedback :: int
  d_SellerFeedbackPct :: f64
  d_SellerTopRated :: bool
  d_Condition :: string
  d_Quantity :: int
  d_HasImages :: bool
  d_HasItemSpecifics :: bool
  d_DescriptionLen :: int
  d_IsAuction :: bool
  d_AuctionEndingSoon :: bool
  d_IsNewListing :: bool

record breakdown =
  bd_Price :: f64
  bd_Seller :: f64
  bd_Condition :: f64
  bd_Quantity :: f64
  bd_Quality :: f64
  bd_Time :: f64
  bd_Total :: int

section \<open>The factors\<close>

definition lerp :: "f64 \<Rightarrow> f64 \<Rightarrow> f64 \<Rightarrow> f64 \<Rightarrow> f64 \<Rightarrow> f64" where
  "lerp val minVal maxVal minScore maxScore =
     (if feq maxVal minVal then minScore
      else let t = fdiv (fsub val minVal) (fsub maxVal minVal)
           in fadd minScore (fmul t (fsub maxScore minScore)))"

definition priceScore :: "f64 \<Rightarrow> baseline \<Rightarrow> f64" where
  "priceScore unitPrice b =
     (if fle unitPrice (b_P10 b) then Fin 100
      else if fle unitPrice (b_P25 b) then lerp unitPrice (b_P10 b) (b_P25 b) (Fin 100) (Fin 70)
      else if fle unitPrice (b_P50 b) then lerp unitPrice (b_P25 b) (b_P50 b) (Fin 70) (Fin 30)
      else if fle unitPrice (b_P75 b) then lerp unitPrice (b_P50 b) (b_P75 b) (Fin 30) (Fin 10)
      else if fle unitPrice (b_P90 b) then lerp unitPrice (b_P75 b) (b_P90 b) (Fin 10) (Fin 0)
      else Fin 0)"

definition sellerScore :: "listing_data \<Rightarrow> f64" where
  "sellerScore d =
     (let fbScore = (if d_SellerFeedback d \<ge> 5000 then Fin 100
                     else if d_SellerFeedback d \<ge> 500 then Fin 70
                     else if d_SellerFeedback d \<ge> 100 then Fin 40
                     else Fin 10);
          pctScore = (if fle (fl (995 / 10)) (d_SellerFeedbackPct d) then Fin 100
                      else if fle (fl 98) (d_SellerFeedbackPct d) then Fin 80
                      else if fle (fl 95) (d_SellerFeedbackPct d) then Fin 50
                      else Fin 0);
          score = fdiv (fadd fbScore pctScore) (Fin 2)
      in if d_SellerTopRated d then fmin (fadd score (Fin 20)) (Fin 100) else score)"

definition conditionScore :: "string \<Rightarrow> f64" where
  "conditionScore c =
     (if c = ''new'' then Fin 100
      else if c = ''like_new'' then Fin 90
      else if c = ''used_working'' then Fin 70
      else if c = ''for_parts'' then Fin 10
      else Fin 40)"

definition quantityScore :: "listing_data \<Rightarrow> f64" where
  "quantityScore d =
     (if d_Quantity d \<le> 1 then Fin 50
      else if d_Quantity d \<ge> 16 then Fin 90
      else if d_Quantity d \<ge> 8 then Fin 80
      else if d_Quantity d \<ge> 4 then Fin 70
      else Fin 60)"

definition qualityScore :: "listing_data \<Rightarrow> f64" where
  "qualityScore d =
     (let score = Fin 0;
          score = (if d_HasImages d then fadd score (Fin 40) else score);
          score = (if d_HasItemSpecifics d then fadd score (Fin 30) else score);
          score = (if d_DescriptionLen d > 500 then fadd score (Fin 30)
                   else if d_DescriptionLen d > 200 then fadd score (Fin 20)
                   else if d_DescriptionLen d > 50 then fadd score (Fin 10)
                   else score)
      in fmin score (Fin 100))"

definition timeScore :: "listing_data \<Rightarrow> f64" where
  "timeScore d =
     (if d_IsAuction d \<and> d_AuctionEndingSoon d then Fin 100
      else if d_IsNewListing d then Fin 80
      else Fin 30)"

section \<open>The composite\<close>

definition weighted_total :: "breakdown \<Rightarrow> weights \<Rightarrow> f64" where
  "weighted_total b w =
     fadd (fadd (fadd (fadd (fadd (fmul (bd_Price b) (w_Price w)) (fmul (bd_Seller b) (w_Seller w)))
       (fmul (bd_Condition b) (w_Condition w))) (fmul (bd_Quantity b) (w_Quantity w)))
       (fmul (bd_Quality b) (w_Quality w))) (fmul (bd_Time b) (w_Time w))"

definition clamp_total :: "int \<Rightarrow> int" where
  "clamp_total t = (let t = (if t > 100 then 100 else t) in if t < 0 then 0 else t)"

definition Score :: "listing_data \<Rightarrow> baseline option \<Rightarrow> weights \<Rightarrow> breakdown" where
  "Score data bl w =
     (let price = (case bl of
            Some b \<Rightarrow> if b_SampleCount b \<ge> MinBaselineSamples then priceScore (d_UnitPrice data) b else Fin 50
          | None \<Rightarrow> Fin 50);
          b = \<lparr> bd_Price = price, bd_Seller = sellerScore data, bd_Condition = conditionScore (d_Condition data),
                bd_Quantity = quantityScore data, bd_Quality = qualityScore data, bd_Time = timeScore data,
                bd_Total = 0 \<rparr>
      in b\<lparr> bd_Total := clamp_total (f64_trunc (fround (weighted_total b w))) \<rparr>)"

section \<open>Interpolation\<close>

text \<open>The values on the way through \<open>lerp\<close> when a price lies between two percentiles.\<close>

lemma lerp_steps:
  assumes ra: "repr64 a" and rb: "repr64 b" and rv: "repr64 v" and a0: "0 \<le> a" and ab: "a < b"
    and av: "a \<le> v" and vb: "v \<le> b"
    and s: "repr64 s1" "repr64 s2" "repr64 (s2 - s1)" "s2 \<le> s1"
  obtains w x t u r where "fl (b - a) = Fin w" "0 < w" "fl (v - a) = Fin x" "fl (x / w) = Fin t"
    "fl (t * (s2 - s1)) = Fin u" "fl (s1 + u) = Fin r"
    "lerp (Fin v) (Fin a) (Fin b) (Fin s1) (Fin s2) = Fin r" "repr64 r" "s2 \<le> r" "r \<le> s1"
proof -
  obtain w where w: "fl (b - a) = Fin w" "repr64 w" "0 < w"
    using fsub_pos [OF ra rb a0 ab] by auto
  have "fle (fl (v - a)) (fl (b - a))" by (rule fle_fl) (use vb in simp)
  moreover obtain x where x: "fl (v - a) = Fin x" "0 \<le> x"
    using ieee.rnd_between [of 0 v "v - a"] rv av a0 by auto
  ultimately have xw: "x \<le> w" using w by simp
  obtain t where t: "fl (x / w) = Fin t" "repr64 t" "0 \<le> t" "t \<le> 1"
    using ieee.rnd_between [of 0 1 "x / w"] x xw w by auto
  have "t * (s1 - s2) \<le> 1 * (s1 - s2)" using t s by (intro mult_right_mono) auto
  then have "s2 - s1 \<le> t * (s2 - s1)" "t * (s2 - s1) \<le> 0"
    using mult_right_mono [OF s(4) t(3)] by (simp_all add: algebra_simps)
  then obtain u where u: "fl (t * (s2 - s1)) = Fin u" "s2 - s1 \<le> u" "u \<le> 0"
    using ieee.rnd_between [of "s2 - s1" 0 "t * (s2 - s1)"] s by auto
  obtain r where r: "fl (s1 + u) = Fin r" "repr64 r" "s2 \<le> r" "r \<le> s1"
    using ieee.rnd_between [of s2 s1 "s1 + u"] s u by auto
  have "lerp (Fin v) (Fin a) (Fin b) (Fin s1) (Fin s2) = Fin r"
    using ab w x t u r s by (simp add: lerp_def Let_def ieee.rnd_repr)
  with that w x t u r show ?thesis by blast
qed

lemma lerp_between:
  assumes "repr64 a" "repr64 b" "repr64 v" "0 \<le> a" "a < b" "a \<le> v" "v \<le> b"
    "repr64 s1" "repr64 s2" "repr64 (s2 - s1)" "s2 \<le> s1"
  shows "between s2 s1 (lerp (Fin v) (Fin a) (Fin b) (Fin s1) (Fin s2))"
  by (rule lerp_steps [OF assms]) (auto simp: between_def)

lemma lerp_antitone:
  assumes "repr64 a" "repr64 b" "repr64 v" "repr64 v'" "0 \<le> a" "a < b" "a \<le> v" "v \<le> v'" "v' \<le> b"
    and s: "repr64 s1" "repr64 s2" "repr64 (s2 - s1)" "s2 \<le> s1"
  shows "fle (lerp (Fin v') (Fin a) (Fin b) (Fin s1) (Fin s2)) (lerp (Fin v) (Fin a) (Fin b) (Fin s1) (Fin s2))"
proof -
  have vb: "v \<le> b" and av: "a \<le> v'" using assms by linarith+
  obtain w x t u r where 1: "fl (b - a) = Fin w" "0 < w" "fl (v - a) = Fin x" "fl (x / w) = Fin t"
    "fl (t * (s2 - s1)) = Fin u" "fl (s1 + u) = Fin r"
    "lerp (Fin v) (Fin a) (Fin b) (Fin s1) (Fin s2) = Fin r" "repr64 r" "s2 \<le> r" "r \<le> s1"
    by (rule lerp_steps [OF assms(1,2,3,5,6,7) vb s])
  obtain w' x' t' u' r' where 2: "fl (b - a) = Fin w'" "0 < w'" "fl (v' - a) = Fin x'" "fl (x' / w') = Fin t'"
    "fl (t' * (s2 - s1)) = Fin u'" "fl (s1 + u') = Fin r'"
    "lerp (Fin v') (Fin a) (Fin b) (Fin s1) (Fin s2) = Fin r'" "repr64 r'" "s2 \<le> r'" "r' \<le> s1"
    by (rule lerp_steps [OF assms(1,2,4,5,6) av assms(9) s])
  have "x \<le> x'" using ieee.rnd_mono_Fin [OF _ 1(3) 2(3)] assms(8) by simp
  then have "t \<le> t'" using ieee.rnd_mono_Fin [OF _ 1(4) 2(4)] 1(1,2) 2(1) by (simp add: divide_right_mono)
  then have "t' * (s2 - s1) \<le> t * (s2 - s1)" using s(4) by (intro mult_right_mono_neg) auto
  then have "u' \<le> u" using ieee.rnd_mono_Fin [OF _ 2(5) 1(5)] by simp
  then have "r' \<le> r" using ieee.rnd_mono_Fin [OF _ 2(6) 1(6)] by simp
  then show ?thesis by (simp add: 1 2)
qed

section \<open>The price factor\<close>

text \<open>A usable baseline: finite non-negative percentiles in ascending order.\<close>

definition baseline_ok :: "baseline \<Rightarrow> bool" where
  "baseline_ok b \<longleftrightarrow> (\<exists>p10 p25 p50 p75 p90.
     b_P10 b = Fin p10 \<and> b_P25 b = Fin p25 \<and> b_P50 b = Fin p50 \<and> b_P75 b = Fin p75 \<and> b_P90 b = Fin p90 \<and>
     list_all repr64 [p10, p25, p50, p75, p90] \<and>
     0 \<le> p10 \<and> p10 \<le> p25 \<and> p25 \<le> p50 \<and> p50 \<le> p75 \<and> p75 \<le> p90)"

lemma baseline_okE:
  assumes "baseline_ok b"
  obtains p10 p25 p50 p75 p90 where
    "b_P10 b = Fin p10" "b_P25 b = Fin p25" "b_P50 b = Fin p50" "b_P75 b = Fin p75" "b_P90 b = Fin p90"
    "repr64 p10" "repr64 p25" "repr64 p50" "repr64 p75" "repr64 p90"
    "0 \<le> p10" "p10 \<le> p25" "p25 \<le> p50" "p50 \<le> p75" "p75 \<le> p90"
  using assms unfolding baseline_ok_def by auto

text \<open>One bracket: an interpolated score lies between the scores at its ends, and falls with the price.\<close>

definition bracket :: "rat \<Rightarrow> rat \<Rightarrow> rat \<Rightarrow> rat \<Rightarrow> rat \<Rightarrow> f64 \<Rightarrow> bool" where
  "bracket a b s1 s2 v x \<longleftrightarrow> a < v \<and> v \<le> b \<and> x = lerp (Fin v) (Fin a) (Fin b) (Fin s1) (Fin s2)"

definition score_step :: "rat \<Rightarrow> rat \<Rightarrow> bool" where
  "score_step s1 s2 \<longleftrightarrow> repr64 s1 \<and> repr64 s2 \<and> repr64 (s2 - s1) \<and> s2 \<le> s1"

lemma score_steps: "score_step 100 70" "score_step 70 30" "score_step 30 10" "score_step 10 0"
  by (simp_all add: score_step_def)

lemma bracket_between:
  assumes "bracket a b s1 s2 v x" "repr64 a" "repr64 b" "repr64 v" "0 \<le> a" "score_step s1 s2"
  shows "between s2 s1 x"
  using assms by (auto simp: bracket_def score_step_def intro!: lerp_between)

lemma bracket_antitone:
  assumes "bracket a b s1 s2 v x" "bracket a b s1 s2 v' x'" "v \<le> v'"
    "repr64 a" "repr64 b" "repr64 v" "repr64 v'" "0 \<le> a" "score_step s1 s2"
  shows "fle x' x"
  using assms by (auto simp: bracket_def score_step_def intro!: lerp_antitone)

lemma between_fle: "between l h x \<Longrightarrow> between l' h' x' \<Longrightarrow> h' \<le> l \<Longrightarrow> fle x' x"
  by (auto simp: between_def)

text \<open>The chain of brackets below a price: every score of a later bracket is at most the bracket's.\<close>

fun curve :: "rat \<Rightarrow> (rat \<times> rat) list \<Rightarrow> rat \<Rightarrow> rat \<Rightarrow> f64" where
  "curve a [] s v = Fin s"
| "curve a ((b, s') # ps) s v =
     (if v \<le> b then lerp (Fin v) (Fin a) (Fin b) (Fin s) (Fin s') else curve b ps s' v)"

fun curve_ok :: "rat \<Rightarrow> (rat \<times> rat) list \<Rightarrow> rat \<Rightarrow> bool" where
  "curve_ok a [] s = (repr64 s \<and> 0 \<le> s)"
| "curve_ok a ((b, s') # ps) s = (a \<le> b \<and> repr64 b \<and> score_step s s' \<and> curve_ok b ps s')"

lemma curve_between:
  assumes "curve_ok a ps s" "repr64 a" "0 \<le> a" "repr64 v" "a < v"
  shows "between 0 s (curve a ps s v)"
  using assms
proof (induction a ps s v rule: curve.induct)
  case (1 a s v)
  then show ?case by (simp add: between_Fin)
next
  case (2 a b s' ps s v)
  have s': "0 \<le> s'" "s' \<le> s"
  proof -
    have "curve_ok c qs z \<Longrightarrow> 0 \<le> z" for c qs z by (induction c qs z rule: curve_ok.induct) (auto simp: score_step_def)
    with 2 show "0 \<le> s'" "s' \<le> s" by (auto simp: score_step_def)
  qed
  show ?case
  proof (cases "v \<le> b")
    case True
    then have "between s' s (curve a ((b, s') # ps) s v)"
      using 2 by (auto intro!: bracket_between simp: bracket_def)
    then show ?thesis using s' by (auto intro: between_weaken)
  next
    case False
    then have "between 0 s' (curve b ps s' v)" using 2 by auto
    then show ?thesis using False s' by (auto intro: between_weaken)
  qed
qed

lemma curve_antitone:
  assumes "curve_ok a ps s" "repr64 a" "0 \<le> a" "repr64 v" "repr64 v'" "a < v" "v \<le> v'"
  shows "fle (curve a ps s v') (curve a ps s v)"
  using assms
proof (induction a ps s v rule: curve.induct)
  case (1 a s v)
  then show ?case by simp
next
  case (2 a b s' ps s v)
  consider "v' \<le> b" | "v \<le> b" "b < v'" | "b < v" using 2 by linarith
  then show ?case
  proof cases
    case 1
    then show ?thesis using 2 by (auto intro!: lerp_antitone simp: score_step_def)
  next
    case 2
    have "between s' s (curve a ((b, s') # ps) s v)"
      using 2 "2.prems" by (auto intro!: bracket_between simp: bracket_def)
    moreover have "between 0 s' (curve b ps s' v')"
      using 2 "2.prems" by (intro curve_between) auto
    ultimately show ?thesis using 2 by (auto intro: between_fle)
  next
    case 3
    then show ?thesis using 2 by auto
  qed
qed

definition baseline_curve :: "rat \<Rightarrow> rat \<Rightarrow> rat \<Rightarrow> rat \<Rightarrow> (rat \<times> rat) list" where
  "baseline_curve p25 p50 p75 p90 = [(p25, 70), (p50, 30), (p75, 10), (p90, 0)]"

text \<open>The price factor is 100 up to P10 and the curve through the percentiles above it.\<close>

lemma priceScore_curve:
  assumes "b_P10 b = Fin p10" "b_P25 b = Fin p25" "b_P50 b = Fin p50" "b_P75 b = Fin p75" "b_P90 b = Fin p90"
  shows "priceScore (Fin v) b =
    (if v \<le> p10 then Fin 100 else curve p10 (baseline_curve p25 p50 p75 p90) 100 v)"
  by (simp add: priceScore_def assms baseline_curve_def)

lemma priceScore_between:
  assumes "baseline_ok b" and v: "repr64 v"
  shows "between 0 100 (priceScore (Fin v) b)"
  using assms(1)
proof (rule baseline_okE)
  fix p10 p25 p50 p75 p90
  assume b: "b_P10 b = Fin p10" "b_P25 b = Fin p25" "b_P50 b = Fin p50" "b_P75 b = Fin p75" "b_P90 b = Fin p90"
    and r: "repr64 p10" "repr64 p25" "repr64 p50" "repr64 p75" "repr64 p90"
    and o: "0 \<le> p10" "p10 \<le> p25" "p25 \<le> p50" "p50 \<le> p75" "p75 \<le> p90"
  have "curve_ok p10 (baseline_curve p25 p50 p75 p90) 100"
    using r o by (simp add: baseline_curve_def score_steps)
  then show ?thesis
    using curve_between r o v by (auto simp: priceScore_curve [OF b] intro!: between_Fin)
qed

lemma priceScore_antitone_curve:
  assumes "baseline_ok b" and v: "repr64 v" "repr64 v'" "v \<le> v'"
  shows "fle (priceScore (Fin v') b) (priceScore (Fin v) b)"
  using assms(1)
proof (rule baseline_okE)
  fix p10 p25 p50 p75 p90
  assume b: "b_P10 b = Fin p10" "b_P25 b = Fin p25" "b_P50 b = Fin p50" "b_P75 b = Fin p75" "b_P90 b = Fin p90"
    and r: "repr64 p10" "repr64 p25" "repr64 p50" "repr64 p75" "repr64 p90"
    and o: "0 \<le> p10" "p10 \<le> p25" "p25 \<le> p50" "p50 \<le> p75" "p75 \<le> p90"
  have ok: "curve_ok p10 (baseline_curve p25 p50 p75 p90) 100"
    using r o by (simp add: baseline_curve_def score_steps)
  show ?thesis
  proof (cases "v \<le> p10")
    case True
    have "between 0 100 (priceScore (Fin v') b)" using assms by (intro priceScore_between)
    then show ?thesis using True by (auto simp: priceScore_curve [OF b] between_def)
  next
    case False
    then show ?thesis
      using curve_antitone [OF ok] r o v by (simp add: priceScore_curve [OF b])
  qed
qed

section \<open>The other factors and the total\<close>

lemma sellerScore_between: "between 0 100 (sellerScore d)"
  by (simp add: sellerScore_def Let_def min_def)

lemma conditionScore_between: "between 0 100 (conditionScore c)"
  by (simp add: conditionScore_def)

lemma quantityScore_between: "between 0 90 (quantityScore d)"
  by (simp add: quantityScore_def)

lemma qualityScore_between: "between 0 100 (qualityScore d)"
  by (simp add: qualityScore_def Let_def)

text \<open>Without a description length a listing gets at most 70 points of quality.\<close>

lemma qualityScore_no_description: "d_DescriptionLen d \<le> 50 \<Longrightarrow> between 0 70 (qualityScore d)"
  by (simp add: qualityScore_def Let_def)

lemma timeScore_between: "between 0 100 (timeScore d)"
  by (simp add: timeScore_def)

lemma weighted_between:
  assumes "between 0 h x" "w = fl q" "fle (Fin 0) w" "fmul (Fin h) w = Fin c"
  shows "between 0 c (fmul x w)"
proof -
  obtain v where x: "x = Fin v" "0 \<le> v" "v \<le> h" using assms(1) by (auto elim: betweenE)
  obtain r where w: "w = Fin r" "0 \<le> r" using assms(3,4) by (cases w) (auto simp: finf_def split: if_splits)
  have c: "fl (h * r) = Fin c" using assms(4) w by simp
  have "fle (fl (v * r)) (fl (h * r))" by (rule fle_fl) (use x w in \<open>auto intro!: mult_right_mono\<close>)
  moreover have "fle (fl 0) (fl (v * r))" by (rule fle_fl) (use x w in simp)
  ultimately obtain s where s: "fl (v * r) = Fin s" "0 \<le> s" "s \<le> c"
    using c by (cases "fl (v * r)") simp_all
  then show ?thesis using x w ieee.rnd_in [OF s(1)] by (simp add: between_Fin)
qed

lemma default_weights_nonneg:
  "fle (Fin 0) (fl (40 / 100))" "fle (Fin 0) (fl (20 / 100))" "fle (Fin 0) (fl (15 / 100))"
  "fle (Fin 0) (fl (10 / 100))" "fle (Fin 0) (fl (5 / 100))"
  using fle_fl [of 0] by simp_all

lemma weight_price: "fmul (Fin 100) (fl (40 / 100)) = Fin 40"
  by code_simp

lemma weight_seller: "fmul (Fin 100) (fl (20 / 100)) = Fin 20"
  by code_simp

lemma weight_condition: "fmul (Fin 100) (fl (15 / 100)) = Fin 15"
  by code_simp

lemma weight_quantity: "fmul (Fin 90) (fl (10 / 100)) = Fin 9"
  by code_simp

lemma weight_quality: "fmul (Fin 100) (fl (10 / 100)) = Fin 10"
  by code_simp

lemma weight_quality_short: "fmul (Fin 70) (fl (10 / 100)) = Fin 7"
  by code_simp

lemma weight_time: "fmul (Fin 100) (fl (5 / 100)) = Fin 5"
  by code_simp

lemma DefaultWeights_sel:
  "w_Price DefaultWeights = fl (40 / 100)" "w_Seller DefaultWeights = fl (20 / 100)"
  "w_Condition DefaultWeights = fl (15 / 100)" "w_Quantity DefaultWeights = fl (10 / 100)"
  "w_Quality DefaultWeights = fl (10 / 100)" "w_Time DefaultWeights = fl (5 / 100)"
  by (simp_all add: DefaultWeights_def)

text \<open>The terms of the total for factors bounded by \<open>hp\<close>, \<open>hq\<close>, ...: at most the weighted bound.\<close>

definition factors_ok :: "breakdown \<Rightarrow> bool" where
  "factors_ok b \<longleftrightarrow> between 0 100 (bd_Price b) \<and> between 0 100 (bd_Seller b) \<and> between 0 100 (bd_Condition b) \<and>
     between 0 90 (bd_Quantity b) \<and> between 0 100 (bd_Quality b) \<and> between 0 100 (bd_Time b)"

lemma default_term:
  "between 0 h x \<Longrightarrow> fle (Fin 0) (fl q) \<Longrightarrow> fmul (Fin h) (fl q) = Fin c \<Longrightarrow> between 0 c (fmul x (fl q))"
  by (rule weighted_between) simp_all

lemmas default_terms =
  default_term [OF _ default_weights_nonneg(1) weight_price]
  default_term [OF _ default_weights_nonneg(2) weight_seller]
  default_term [OF _ default_weights_nonneg(3) weight_condition]
  default_term [OF _ default_weights_nonneg(4) weight_quantity]
  default_term [OF _ default_weights_nonneg(4) weight_quality]
  default_term [OF _ default_weights_nonneg(4) weight_quality_short]
  default_term [OF _ default_weights_nonneg(5) weight_time]

lemma sum_between:
  "between 0 a x \<Longrightarrow> between 0 b y \<Longrightarrow> repr64 (a + b) \<Longrightarrow> between 0 (a + b) (fadd x y)"
  using between_fadd [of 0 a x 0 b y] by simp

lemma weighted_total_between:
  assumes "factors_ok b"
  shows "between 0 99 (weighted_total b DefaultWeights)"
    and "between 0 70 (bd_Quality b) \<Longrightarrow> between 0 96 (weighted_total b DefaultWeights)"
proof -
  note f = assms [unfolded factors_ok_def]
  have p: "between 0 84 (fadd (fadd (fadd (fmul (bd_Price b) (fl (40 / 100)))
      (fmul (bd_Seller b) (fl (20 / 100)))) (fmul (bd_Condition b) (fl (15 / 100))))
      (fmul (bd_Quantity b) (fl (10 / 100))))"
    using sum_between [OF sum_between [OF sum_between [OF default_terms(1) default_terms(2)] default_terms(3)]
      default_terms(4)] f by simp
  show "between 0 99 (weighted_total b DefaultWeights)"
    using sum_between [OF sum_between [OF p default_terms(5)] default_terms(7)] f
    by (simp add: weighted_total_def DefaultWeights_sel)
  show "between 0 96 (weighted_total b DefaultWeights)" if "between 0 70 (bd_Quality b)"
    using sum_between [OF sum_between [OF p default_terms(6) [OF that]] default_terms(7)] f
    by (simp add: weighted_total_def DefaultWeights_sel)
qed

lemma trunc_round: "0 \<le> q \<Longrightarrow> q \<le> 100 \<Longrightarrow> f64_trunc (fround (Fin q)) = \<lfloor>q + 1 / 2\<rfloor>"
proof -
  assume "0 \<le> q" "q \<le> 100"
  then have "0 \<le> \<lfloor>q + 1 / 2\<rfloor>" "q + 1 / 2 < 9223372036854775808" by simp_all
  then show ?thesis
    using \<open>0 \<le> q\<close> by (simp add: f64_trunc_def in_int64_def int64_min_def int64_max_def)
qed

lemma rounded_total:
  assumes "between 0 (numeral n) x" "(numeral n :: int) \<le> 100"
  shows "0 \<le> f64_trunc (fround x)" and "f64_trunc (fround x) \<le> numeral n"
    and "clamp_total (f64_trunc (fround x)) = f64_trunc (fround x)"
proof -
  obtain q where q: "x = Fin q" "0 \<le> q" "q \<le> numeral n" using assms(1) by (auto elim: betweenE)
  have "(numeral n :: rat) \<le> 100" using assms(2) by (metis of_int_le_iff of_int_numeral)
  then have t: "f64_trunc (fround x) = \<lfloor>q + 1 / 2\<rfloor>"
    unfolding q(1) by (intro trunc_round) (use q in linarith)+
  have "q + 1 / 2 < of_int (numeral n + 1)" using q(3) unfolding of_int_add of_int_numeral of_int_1 by linarith
  then have "\<lfloor>q + 1 / 2\<rfloor> < numeral n + 1" unfolding floor_less_iff .
  then show k: "f64_trunc (fround x) \<le> numeral n" unfolding t by simp
  show z: "0 \<le> f64_trunc (fround x)" unfolding t using q by simp
  show "clamp_total (f64_trunc (fround x)) = f64_trunc (fround x)"
    using order_trans [OF k assms(2)] z by (simp add: clamp_total_def)
qed

lemma trunc_round_mono:
  assumes "between 0 99 x" "between 0 99 y" "fle x y"
  shows "f64_trunc (fround x) \<le> f64_trunc (fround y)"
proof -
  obtain p q where x: "x = Fin p" "0 \<le> p" "p \<le> 99" and y: "y = Fin q" "0 \<le> q" "q \<le> 99"
    using assms(1,2) by (auto elim!: betweenE)
  then have "\<lfloor>p + 1 / 2\<rfloor> \<le> \<lfloor>q + 1 / 2\<rfloor>" using assms(3) by (intro floor_mono) simp
  then show ?thesis
    unfolding x(1) y(1) using x y by (subst (1 2) trunc_round) linarith+
qed

text \<open>A price factor and its total fall together.\<close>

lemma weighted_total_mono:
  assumes b: "factors_ok b" and b': "factors_ok (b\<lparr> bd_Price := x \<rparr>)" and le: "fle x (bd_Price b)"
  shows "fle (weighted_total (b\<lparr> bd_Price := x \<rparr>) DefaultWeights) (weighted_total b DefaultWeights)"
proof -
  note f = b [unfolded factors_ok_def] and f' = b' [unfolded factors_ok_def, simplified]
  note t = default_terms
  have fin: "fle (fadd u y) (fadd v y) \<and> between 0 (a + c) (fadd u y) \<and> between 0 (a + c) (fadd v y)"
    if "fle u v \<and> between 0 a u \<and> between 0 a v" "between 0 c y" "repr64 (a + c)" for u v y a c
  proof -
    have u: "between 0 (a + c) (fadd u y)" and v: "between 0 (a + c) (fadd v y)"
      using that by (auto intro!: sum_between)
    then have "fadd u y \<noteq> NaN" "fadd v y \<noteq> NaN" by (auto simp: between_def)
    moreover have "fle y y" using that(2) by (auto simp: between_def)
    ultimately show ?thesis using that u v by (auto intro: fle_fadd_mono)
  qed
  obtain r where r: "fl (40 / 100) = Fin r" "0 \<le> r"
    using default_weights_nonneg(1) weight_price by (cases "fl (40 / 100)") (auto simp: finf_def)
  have "fle (fmul x (fl (40 / 100))) (fmul (bd_Price b) (fl (40 / 100)))"
    using le f f' r by (auto simp: between_def intro!: fle_fl mult_right_mono)
  then have "fle (fmul x (fl (40 / 100))) (fmul (bd_Price b) (fl (40 / 100))) \<and>
      between 0 40 (fmul x (fl (40 / 100))) \<and> between 0 40 (fmul (bd_Price b) (fl (40 / 100)))"
    using f f' t(1) by blast
  from fin [OF fin [OF fin [OF fin [OF fin [OF this t(2)] t(3)] t(4)] t(5)] t(7)]
  show ?thesis using f f' by (simp add: weighted_total_def DefaultWeights_sel)
qed

definition usable_baseline :: "baseline option \<Rightarrow> bool" where
  "usable_baseline bl = (case bl of None \<Rightarrow> True | Some b \<Rightarrow> baseline_ok b)"

lemma Score_factors_ok:
  assumes "usable_baseline bl" "d_UnitPrice d = Fin v" "repr64 v"
  shows "factors_ok (Score d bl w)"
  using assms priceScore_between
  by (auto simp: factors_ok_def Score_def Let_def usable_baseline_def sellerScore_between
      conditionScore_between quantityScore_between qualityScore_between timeScore_between split: option.splits)

lemma bd_Total_Score:
  "bd_Total (Score d bl w) = clamp_total (f64_trunc (fround (weighted_total (Score d bl w) w)))"
  by (simp add: Score_def Let_def weighted_total_def)

definition price_factor :: "f64 \<Rightarrow> baseline option \<Rightarrow> f64" where
  "price_factor p bl = (case bl of
     Some b \<Rightarrow> if b_SampleCount b \<ge> MinBaselineSamples then priceScore p b else Fin 50 | None \<Rightarrow> Fin 50)"

lemma Score_sel [simp]:
  "bd_Price (Score d bl w) = price_factor (d_UnitPrice d) bl"
  "bd_Seller (Score d bl w) = sellerScore d"
  "bd_Condition (Score d bl w) = conditionScore (d_Condition d)"
  "bd_Quantity (Score d bl w) = quantityScore d"
  "bd_Quality (Score d bl w) = qualityScore d"
  "bd_Time (Score d bl w) = timeScore d"
  by (simp_all add: Score_def Let_def price_factor_def)

lemma factors_UnitPrice [simp]:
  "sellerScore (d\<lparr> d_UnitPrice := p \<rparr>) = sellerScore d"
  "quantityScore (d\<lparr> d_UnitPrice := p \<rparr>) = quantityScore d"
  "qualityScore (d\<lparr> d_UnitPrice := p \<rparr>) = qualityScore d"
  "timeScore (d\<lparr> d_UnitPrice := p \<rparr>) = timeScore d"
  "d_Condition (d\<lparr> d_UnitPrice := p \<rparr>) = d_Condition d"
  "d_UnitPrice (d\<lparr> d_UnitPrice := p \<rparr>) = p"
  by (simp_all add: sellerScore_def quantityScore_def qualityScore_def timeScore_def Let_def)

lemma total_range:
  assumes "factors_ok (Score d bl DefaultWeights)"
  shows "bd_Total (Score d bl DefaultWeights) =
      f64_trunc (fround (weighted_total (Score d bl DefaultWeights) DefaultWeights))"
    and "0 \<le> bd_Total (Score d bl DefaultWeights)" and "bd_Total (Score d bl DefaultWeights) \<le> 99"
proof -
  define x where "x = weighted_total (Score d bl DefaultWeights) DefaultWeights"
  have x: "between 0 99 x" unfolding x_def by (rule weighted_total_between(1) [OF assms])
  have k: "(99 :: int) \<le> 100" by simp
  show t: "bd_Total (Score d bl DefaultWeights) =
      f64_trunc (fround (weighted_total (Score d bl DefaultWeights) DefaultWeights))"
    using rounded_total(3) [OF x k] by (simp only: bd_Total_Score x_def)
  show "0 \<le> bd_Total (Score d bl DefaultWeights)" and "bd_Total (Score d bl DefaultWeights) \<le> 99"
    using rounded_total(1,2) [OF x k] unfolding t x_def .
qed

lemma price_factor_antitone:
  assumes "usable_baseline bl" "repr64 v" "repr64 v'" "v \<le> v'"
  shows "fle (price_factor (Fin v') bl) (price_factor (Fin v) bl)"
  using assms priceScore_antitone_curve
  by (auto simp: price_factor_def usable_baseline_def split: option.splits)

text \<open>With the default weights the composite score of a listing with a finite price is the
  rounded weighted sum itself: the clamps to 0 and 100 never act, for any baseline with
  ascending percentiles and also without one. No listing reaches 100: the total is at most 99,
  because the quantity factor is at most 90.\<close>

theorem score_clamp_unused:
  assumes "usable_baseline bl" and "d_UnitPrice d = Fin v" and "repr64 v"
  shows "bd_Total (Score d bl DefaultWeights) =
      f64_trunc (fround (weighted_total (Score d bl DefaultWeights) DefaultWeights)) \<and>
    0 \<le> bd_Total (Score d bl DefaultWeights) \<and> bd_Total (Score d bl DefaultWeights) \<le> 99"
  using total_range [OF Score_factors_ok [OF assms]] by blast

definition sample_baseline :: baseline where
  "sample_baseline = \<lparr> b_P10 = Fin 10, b_P25 = Fin 20, b_P50 = Fin 30, b_P75 = Fin 40, b_P90 = Fin 50,
     b_SampleCount = 12 \<rparr>"

definition sample_data :: "rat \<Rightarrow> listing_data" where
  "sample_data v = \<lparr> d_UnitPrice = Fin v, d_SellerFeedback = 6000, d_SellerFeedbackPct = Fin 100,
     d_SellerTopRated = True, d_Condition = ''new'', d_Quantity = 16, d_HasImages = True,
     d_HasItemSpecifics = True, d_DescriptionLen = 0, d_IsAuction = True, d_AuctionEndingSoon = True,
     d_IsNewListing = True \<rparr>"

lemma sample_baseline_ok: "baseline_ok sample_baseline"
  by (simp add: baseline_ok_def sample_baseline_def)

lemma sample_usable: "usable_baseline (Some sample_baseline)"
  by (simp add: usable_baseline_def sample_baseline_ok)

lemma sample_data_UnitPrice [simp]: "d_UnitPrice (sample_data v) = Fin v"
  by (simp add: sample_data_def)

theorem score_clamp_unused_witness:
  "bd_Total (Score (sample_data 25) (Some sample_baseline) DefaultWeights) \<le> 99"
  using score_clamp_unused [OF sample_usable sample_data_UnitPrice [of 25]] by simp

text \<open>A listing whose description length is unknown or at most 50 characters scores at most 96
  with the default weights, whatever the market looks like: 3 of the 10 quality points are out
  of reach. The engine never fills the description length in, so 96 is the real maximum, and
  the witness reaches it.\<close>

theorem score_max_without_description:
  assumes "usable_baseline bl" and "d_UnitPrice d = Fin v" and "repr64 v" and "d_DescriptionLen d \<le> 50"
  shows "bd_Total (Score d bl DefaultWeights) \<le> 96"
proof -
  have "between 0 96 (weighted_total (Score d bl DefaultWeights) DefaultWeights)"
    using Score_factors_ok [OF assms(1-3)] qualityScore_no_description [OF assms(4)]
    by (intro weighted_total_between(2)) simp_all
  from rounded_total [OF this] show ?thesis
    by (simp only: bd_Total_Score)
qed

lemma sample_total: "bd_Total (Score (sample_data 5) (Some sample_baseline) DefaultWeights) = 96"
  by code_simp

theorem score_max_without_description_witness:
  "bd_Total (Score (sample_data 5) (Some sample_baseline) DefaultWeights) \<le> 96 \<and>
   bd_Total (Score (sample_data 5) (Some sample_baseline) DefaultWeights) = 96"
  using score_max_without_description [OF sample_usable sample_data_UnitPrice [of 5]] sample_total
  by (simp add: sample_data_def)

text \<open>C14. A cheaper listing never gets a lower composite score: with everything else equal, the total
  falls as the unit price rises, through the interpolation between the percentiles, the
  floating-point rounding of every step and the final rounding to an integer.\<close>

theorem score_antitone_in_price:
  assumes "usable_baseline bl" and "d_UnitPrice d = Fin v" and "repr64 v" and "repr64 v'" and "v \<le> v'"
  shows "bd_Total (Score (d\<lparr> d_UnitPrice := Fin v' \<rparr>) bl DefaultWeights) \<le> bd_Total (Score d bl DefaultWeights)"
proof -
  define b where "b = Score d bl DefaultWeights"
  define d' where "d' = d\<lparr> d_UnitPrice := Fin v' \<rparr>"
  define b' where "b' = Score d' bl DefaultWeights"
  have f: "factors_ok b" "factors_ok b'"
    unfolding b_def b'_def d'_def using assms by (auto intro: Score_factors_ok)
  have eq: "weighted_total b' DefaultWeights = weighted_total (b\<lparr> bd_Price := bd_Price b' \<rparr>) DefaultWeights"
    and fq: "factors_ok (b\<lparr> bd_Price := bd_Price b' \<rparr>) = factors_ok b'"
    by (simp_all add: b_def b'_def d'_def weighted_total_def factors_ok_def)
  have "fle (bd_Price b') (bd_Price b)"
    using price_factor_antitone assms by (simp add: b_def b'_def d'_def)
  then have le: "fle (weighted_total b' DefaultWeights) (weighted_total b DefaultWeights)"
    unfolding eq by (intro weighted_total_mono) (simp_all add: f fq)
  have "f64_trunc (fround (weighted_total b' DefaultWeights)) \<le> f64_trunc (fround (weighted_total b DefaultWeights))"
    by (rule trunc_round_mono [OF weighted_total_between(1) [OF f(2)] weighted_total_between(1) [OF f(1)] le])
  then show ?thesis
    using total_range(1) [OF f(1) [unfolded b_def]] total_range(1) [OF f(2) [unfolded b'_def]]
    unfolding b_def b'_def d'_def by simp
qed

theorem score_antitone_in_price_witness:
  "bd_Total (Score ((sample_data 15)\<lparr> d_UnitPrice := Fin 45 \<rparr>) (Some sample_baseline) DefaultWeights)
   \<le> bd_Total (Score (sample_data 15) (Some sample_baseline) DefaultWeights)"
  by (rule score_antitone_in_price [OF sample_usable sample_data_UnitPrice]) simp_all

text \<open>Cold start: without a baseline, or with one of fewer than 10 samples, the price factor is the
  neutral 50 and the score does not depend on the price at all.\<close>

theorem score_cold_start:
  assumes "\<forall>b. bl = Some b \<longrightarrow> b_SampleCount b < MinBaselineSamples"
  shows "bd_Price (Score d bl w) = Fin 50 \<and> Score (d\<lparr> d_UnitPrice := p \<rparr>) bl w = Score d bl w"
proof -
  have p: "price_factor q bl = Fin 50" for q
    using assms by (auto simp: price_factor_def split: option.splits)
  then have "weighted_total (Score (d\<lparr> d_UnitPrice := p \<rparr>) bl w) w = weighted_total (Score d bl w) w"
    by (simp only: weighted_total_def Score_sel factors_UnitPrice)
  then show ?thesis
    by (intro conjI breakdown.equality, simp_all only: bd_Total_Score Score_sel p factors_UnitPrice, simp)
qed

theorem score_cold_start_witness:
  "bd_Price (Score (sample_data 5) (Some (sample_baseline\<lparr> b_SampleCount := 9 \<rparr>)) DefaultWeights) = Fin 50"
  using score_cold_start [of "Some (sample_baseline\<lparr> b_SampleCount := 9 \<rparr>)" "sample_data 5" DefaultWeights]
  by (simp add: MinBaselineSamples_def)

end
