(* ===== verification/Attributes.thy ===== *)
theory Attributes
  imports Domain
begin

text \<open>
  Reading the attribute map an extraction produces (the accessors at the end of
  \<open>pkg/extract/validate.go\<close>) and the normalisation of condition strings
  (\<open>pkg/extract/condition.go\<close>). An accessor's \<open>(value, ok)\<close> pair is an option; where the
  code ignores \<open>ok\<close> the zero value is used.
\<close>

section \<open>Accessors\<close>

definition attrString :: "attrs \<Rightarrow> string \<Rightarrow> string option" where
  "attrString attrs key = (case mget attrs key of Some (JStr s) \<Rightarrow> Some s | _ \<Rightarrow> None)"

definition attrInt :: "attrs \<Rightarrow> string \<Rightarrow> int option" where
  "attrInt attrs key = (case mget attrs key of
     Some (JInt n) \<Rightarrow> Some n
   | Some (JNum x) \<Rightarrow> Some (f64_trunc x)
   | _ \<Rightarrow> None)"

definition attrFloat :: "attrs \<Rightarrow> string \<Rightarrow> f64 option" where
  "attrFloat attrs key = (case mget attrs key of
     Some (JNum x) \<Rightarrow> Some x
   | Some (JInt n) \<Rightarrow> Some (f64_of_int n)
   | _ \<Rightarrow> None)"

definition str_or_empty :: "string option \<Rightarrow> string" where
  "str_or_empty x = (case x of Some s \<Rightarrow> s | None \<Rightarrow> [])"

definition int_or_zero :: "int option \<Rightarrow> int" where
  "int_or_zero x = (case x of Some n \<Rightarrow> n | None \<Rightarrow> 0)"

lemma attrString_mput [simp, attr_simps]:
  "attrString (mput k v m) k' =
     (if k' = k then (case v of JStr s \<Rightarrow> Some s | _ \<Rightarrow> None) else attrString m k')"
  by (simp add: attrString_def split: jval.split)

lemma attrInt_mput [simp, attr_simps]:
  "attrInt (mput k v m) k' = (if k' = k then
     (case v of JInt n \<Rightarrow> Some n | JNum x \<Rightarrow> Some (f64_trunc x) | _ \<Rightarrow> None) else attrInt m k')"
  by (simp add: attrInt_def split: jval.split)

lemma attrFloat_mput [simp, attr_simps]:
  "attrFloat (mput k v m) k' = (if k' = k then
     (case v of JNum x \<Rightarrow> Some x | JInt n \<Rightarrow> Some (f64_of_int n) | _ \<Rightarrow> None) else attrFloat m k')"
  by (simp add: attrFloat_def split: jval.split)

lemma attr_mdel [simp, attr_simps]:
  "attrString (mdel k m) k' = (if k' = k then None else attrString m k')"
  "attrInt (mdel k m) k' = (if k' = k then None else attrInt m k')"
  "attrFloat (mdel k m) k' = (if k' = k then None else attrFloat m k')"
  by (simp_all add: attrString_def attrInt_def attrFloat_def)

lemma attr_map_eq:
  assumes "map_eq m m'"
  shows "attrString m = attrString m'" and "attrInt m = attrInt m'" and "attrFloat m = attrFloat m'"
  using map_eqD [OF assms] by (simp_all add: attrString_def attrInt_def attrFloat_def fun_eq_iff)

text \<open>An attribute read as a string is not one read as a number.\<close>

lemma attrString_not_Int: "attrString m k = Some s \<Longrightarrow> attrInt m k = None \<and> attrFloat m k = None"
  by (auto simp: attrString_def attrInt_def attrFloat_def split: option.splits jval.splits)

section \<open>Conditions\<close>

definition conditionMap :: "(string \<times> condition) list" where
  "conditionMap =
     [(''new'', ConditionNew), (''like_new'', ConditionLikeNew), (''used_working'', ConditionUsedWorking),
      (''for_parts'', ConditionForParts), (''unknown'', ConditionUnknown),
      (''brand new'', ConditionNew), (''factory sealed'', ConditionNew), (''open box'', ConditionLikeNew),
      (''manufacturer refurbished'', ConditionLikeNew), (''used'', ConditionUsedWorking),
      (''pre-owned'', ConditionUsedWorking), (''seller refurbished'', ConditionUsedWorking),
      (''pulled from working'', ConditionUsedWorking), (''tested working'', ConditionUsedWorking),
      (''for parts'', ConditionForParts), (''not working'', ConditionForParts),
      (''parts only'', ConditionForParts), (''as-is'', ConditionForParts)]"

definition NormalizeCondition :: "string \<Rightarrow> condition" where
  "NormalizeCondition raw =
     (let normalized = to_lower (trim_space raw)
      in if normalized = [] then ConditionUnknown
         else case map_of conditionMap normalized of Some c \<Rightarrow> c | None \<Rightarrow> ConditionUnknown)"

definition validConditions :: "string list" where
  "validConditions = [''new'', ''like_new'', ''used_working'', ''for_parts'', ''unknown'']"

lemma conditionMap_range: "map_of conditionMap s = Some c \<Longrightarrow> c \<in> set validConditions"
proof -
  have "list_all (\<lambda>(k, c). c \<in> set validConditions) conditionMap"
    by (simp add: conditionMap_def validConditions_def condition_defs)
  then show "map_of conditionMap s = Some c \<Longrightarrow> c \<in> set validConditions"
    by (auto simp: list_all_iff dest!: map_of_SomeD)
qed

lemma NormalizeCondition_valid: "NormalizeCondition raw \<in> set validConditions"
proof -
  have "ConditionUnknown \<in> set validConditions" by (simp add: validConditions_def condition_defs)
  then show ?thesis
    using conditionMap_range by (simp add: NormalizeCondition_def Let_def split: option.split)
qed

lemma NormalizeCondition_fixed: "c \<in> set validConditions \<Longrightarrow> NormalizeCondition c = c"
proof -
  have "list_all (\<lambda>c. NormalizeCondition c = c) validConditions" by code_simp
  then show "c \<in> set validConditions \<Longrightarrow> NormalizeCondition c = c" by (simp add: list_all_iff)
qed

text \<open>The condition of a listing is always one of the five domain conditions, whatever the
  marketplace or the model wrote; normalising it again, or a text that differs in case and
  surrounding white space, gives the same condition.\<close>

theorem NormalizeCondition_canonical:
  "NormalizeCondition raw \<in> set validConditions \<and>
   NormalizeCondition (NormalizeCondition raw) = NormalizeCondition raw \<and>
   NormalizeCondition (to_lower raw) = NormalizeCondition raw \<and>
   NormalizeCondition (trim_space raw) = NormalizeCondition raw"
proof -
  have "NormalizeCondition (to_lower raw) = NormalizeCondition raw"
    and "NormalizeCondition (trim_space raw) = NormalizeCondition raw"
    by (simp_all add: NormalizeCondition_def trim_lower)
  then show ?thesis
    by (simp add: NormalizeCondition_valid NormalizeCondition_fixed [OF NormalizeCondition_valid])
qed

end
