(* ===== verification/RamSpeed.thy ===== *)
theory RamSpeed
  imports Attributes Regex
begin

text \<open>
  RAM speeds (\<open>pkg/extract/pc4.go\<close>): PC module numbers, speeds found in titles, and the
  reconciliation of the model's \<open>speed_mhz\<close> with the title.
\<close>

section \<open>Module numbers\<close>

definition pc4SpeedTable :: "(string \<times> int) list" where
  "pc4SpeedTable =
     [(''10600'', 1333), (''12800'', 1600), (''14900'', 1866),
      (''17000'', 2133), (''19200'', 2400), (''21300'', 2666), (''23400'', 2933), (''25600'', 3200),
      (''38400'', 4800), (''44800'', 5600), (''51200'', 6400)]"

text \<open>\<open>(?i)\bPC[345]-?(\d{5,6})[A-Z]?\b\<close> and \<open>(?i)\bDDR[345]-(\d{4})\b\<close>\<close>

definition fold_lit :: "string \<Rightarrow> rx" where
  "fold_lit s = seqs (map (\<lambda>c. Cl (\<lambda>x. lower_char x = lower_char c)) s)"

definition rx_letter :: rx where "rx_letter = Cl (\<lambda>c. is_upper c \<or> is_lower c)"

definition pc4Regex :: rx where
  "pc4Regex = seqs [WordB, fold_lit ''PC'', oneof ''345'', opt (lit ''-''), Grp (times_opt 5 rx_digit),
     opt rx_letter, WordB]"

definition ddrSpeedRegex :: rx where
  "ddrSpeedRegex = seqs [WordB, fold_lit ''DDR'', oneof ''345'', lit ''-'', Grp (times 4 rx_digit), WordB]"

fun strip_first_prefix :: "string list \<Rightarrow> string \<Rightarrow> string" where
  "strip_first_prefix [] s = s"
| "strip_first_prefix (p # ps) s = (case cut_prefix s p of Some after \<Rightarrow> after | None \<Rightarrow> strip_first_prefix ps s)"

definition PC4ToMHz :: "string \<Rightarrow> int option" where
  "PC4ToMHz moduleNumber =
     (let s = to_upper (trim_space moduleNumber);
          s = strip_first_prefix [''PC3-'', ''PC4-'', ''PC5-'', ''PC3'', ''PC4'', ''PC5''] s;
          s = (if s \<noteq> [] \<and> is_upper (last s) then butlast s else s)
      in if s = [] then None else map_of pc4SpeedTable s)"

section \<open>Speeds in titles\<close>

definition ExtractSpeedFromTitle :: "string \<Rightarrow> int option" where
  "ExtractSpeedFromTitle title =
     (case Option.bind (find_submatch pc4Regex title) (map_of pc4SpeedTable) of
        Some mhz \<Rightarrow> Some mhz
      | None \<Rightarrow> (case find_submatch ddrSpeedRegex title of
          None \<Rightarrow> None
        | Some m \<Rightarrow> (case atoi m of
            None \<Rightarrow> None
          | Some speed \<Rightarrow> if speed \<ge> 800 \<and> speed \<le> 8400 then Some speed else None)))"

definition validRAMSpeedMHzMin :: int where "validRAMSpeedMHzMin = 800"
definition validRAMSpeedMHzMax :: int where "validRAMSpeedMHzMax = 8400"

definition currentSpeedMHz :: "attrs \<Rightarrow> int option" where
  "currentSpeedMHz attrs = (case mget attrs ''speed_mhz'' of
     Some (JInt n) \<Rightarrow> if n = 0 then None else Some n
   | Some (JNum x) \<Rightarrow> if f64_trunc x = 0 then None else Some (f64_trunc x)
   | _ \<Rightarrow> None)"

definition speedInValidRange :: "int \<Rightarrow> bool" where
  "speedInValidRange mhz \<longleftrightarrow> mhz \<ge> validRAMSpeedMHzMin \<and> mhz \<le> validRAMSpeedMHzMax"

definition NormalizeRAMSpeed :: "string \<Rightarrow> attrs \<Rightarrow> attrs \<times> bool" where
  "NormalizeRAMSpeed title attrs =
     (if (case currentSpeedMHz attrs of Some existing \<Rightarrow> speedInValidRange existing | None \<Rightarrow> False)
      then (attrs, True)
      else case ExtractSpeedFromTitle title of
        Some mhz \<Rightarrow> (mput ''speed_mhz'' (JInt mhz) attrs, True)
      | None \<Rightarrow> (mdel ''speed_mhz'' attrs, False))"

section \<open>Lemmas\<close>

lemma pc4SpeedTable_range: "map_of pc4SpeedTable s = Some mhz \<Longrightarrow> speedInValidRange mhz"
proof -
  have "list_all (\<lambda>(k, v). speedInValidRange v) pc4SpeedTable"
    by (simp add: pc4SpeedTable_def speedInValidRange_def validRAMSpeedMHzMin_def validRAMSpeedMHzMax_def)
  then show "map_of pc4SpeedTable s = Some mhz \<Longrightarrow> speedInValidRange mhz"
    by (auto simp: list_all_iff dest!: map_of_SomeD)
qed

lemma ExtractSpeed_range: "ExtractSpeedFromTitle title = Some mhz \<Longrightarrow> speedInValidRange mhz"
  unfolding ExtractSpeedFromTitle_def
  by (auto simp: speedInValidRange_def validRAMSpeedMHzMin_def validRAMSpeedMHzMax_def
      dest!: pc4SpeedTable_range split: option.splits if_splits Option.bind_splits)

lemma NormalizeRAMSpeed_cases:
  obtains (kept) n where "attrInt attrs ''speed_mhz'' = Some n" "speedInValidRange n"
      "NormalizeRAMSpeed title attrs = (attrs, True)"
  | (recovered) mhz where "ExtractSpeedFromTitle title = Some mhz" "speedInValidRange mhz"
      "NormalizeRAMSpeed title attrs = (mput ''speed_mhz'' (JInt mhz) attrs, True)"
  | (dropped) "ExtractSpeedFromTitle title = None"
      "NormalizeRAMSpeed title attrs = (mdel ''speed_mhz'' attrs, False)"
proof (cases "\<exists>n. currentSpeedMHz attrs = Some n \<and> speedInValidRange n")
  case True
  then obtain n where n: "currentSpeedMHz attrs = Some n" "speedInValidRange n" by blast
  then have "attrInt attrs ''speed_mhz'' = Some n"
    by (auto simp: currentSpeedMHz_def attrInt_def split: option.splits jval.splits if_splits)
  with n kept show ?thesis by (simp add: NormalizeRAMSpeed_def)
next
  case False
  then have "NormalizeRAMSpeed title attrs = (case ExtractSpeedFromTitle title of
        Some mhz \<Rightarrow> (mput ''speed_mhz'' (JInt mhz) attrs, True)
      | None \<Rightarrow> (mdel ''speed_mhz'' attrs, False))"
    by (auto simp: NormalizeRAMSpeed_def split: option.split)
  with recovered dropped ExtractSpeed_range show ?thesis
    by (cases "ExtractSpeedFromTitle title") auto
qed

text \<open>After the reconciliation \<open>speed_mhz\<close> is a speed the validator accepts or it is absent, it
  is present exactly when the function says so, and no other attribute changes.\<close>

theorem NormalizeRAMSpeed_sound:
  "(let (attrs', found) = NormalizeRAMSpeed title attrs in
     (found \<longleftrightarrow> (\<exists>n. attrInt attrs' ''speed_mhz'' = Some n \<and> 800 \<le> n \<and> n \<le> 8400)) \<and>
     (found \<or> mget attrs' ''speed_mhz'' = None) \<and>
     mget (mdel ''speed_mhz'' attrs') = mget (mdel ''speed_mhz'' attrs))"
proof (cases rule: NormalizeRAMSpeed_cases [of attrs title])
qed (auto simp: speedInValidRange_def validRAMSpeedMHzMin_def validRAMSpeedMHzMax_def fun_eq_iff)

text \<open>Module numbers in every spelling the code accepts: an optional generation prefix in either
  case, with or without a hyphen, and at most one suffix letter.\<close>

definition pc_prefixes :: "string list" where
  "pc_prefixes = [''PC3-'', ''PC4-'', ''PC5-'', ''PC3'', ''PC4'', ''PC5'']"

definition module_spelling :: "string \<Rightarrow> string \<Rightarrow> string \<Rightarrow> bool" where
  "module_spelling p digits s \<longleftrightarrow> (p = [] \<or> to_upper p \<in> set pc_prefixes) \<and>
     digits \<noteq> [] \<and> list_all is_digit digits \<and>
     (s = [] \<or> (length s = 1 \<and> (is_upper (hd s) \<or> is_lower (hd s))))"

lemma strip_prefixes:
  assumes "p = [] \<or> p \<in> set pc_prefixes" and "is_digit (hd r)" "r \<noteq> []"
  shows "strip_first_prefix pc_prefixes (p @ r) = r"
proof -
  obtain d r' where r: "r = d # r'" using assms(3) by (cases r) auto
  then have "d \<noteq> CHR ''P''" "d \<noteq> CHR ''-''" using assms(2) by (auto simp: is_digit_def Let_def)
  then show ?thesis
    using assms(1) unfolding r by (auto simp: pc_prefixes_def)
qed

lemma upper_char_digit: "is_digit c \<Longrightarrow> upper_char c = c"
  by (auto simp: upper_char_def is_digit_def is_lower_def Let_def)

lemma is_upper_upper_char: "is_upper c \<or> is_lower c \<Longrightarrow> is_upper (upper_char c)"
  by (auto simp: upper_char_def is_upper_def is_lower_def Let_def)

lemma is_space_upper_char: "is_space (upper_char c) = is_space c"
  by (auto simp: upper_char_def is_space_def is_lower_def Let_def)

lemma to_upper_digits: "list_all is_digit s \<Longrightarrow> to_upper s = s"
  by (induction s) (auto simp: to_upper_def upper_char_digit)

lemma module_spelling_trim:
  assumes "module_spelling p digits s" shows "trim_space (p @ digits @ s) = p @ digits @ s"
proof (rule trim_id)
  have ns: "is_digit c \<or> is_upper c \<or> is_lower c \<Longrightarrow> \<not> is_space c" for c
    using is_space_not_word [of c] by (auto simp: is_word_def)
  have d: "digits \<noteq> []" "is_digit (hd digits)" "is_digit (last digits)"
    using assms by (auto simp: module_spelling_def list_all_iff)
  have "\<not> is_space (hd (p @ digits @ s))"
  proof (cases p)
    case (Cons c cs)
    then have "upper_char c = CHR ''P''"
      using assms by (auto simp: module_spelling_def pc_prefixes_def to_upper_def)
    then have "\<not> is_space c" using is_space_upper_char [of c] by (simp add: is_space_def)
    then show ?thesis using Cons by simp
  qed (use d ns in auto)
  moreover have "\<not> is_space (last (p @ digits @ s))"
    using assms d ns by (cases s) (auto simp: module_spelling_def)
  ultimately show "\<not> is_space (hd (p @ digits @ s)) \<and> \<not> is_space (last (p @ digits @ s))" ..
qed

lemma PC4ToMHz_spelling:
  assumes "module_spelling p digits s"
  shows "PC4ToMHz (p @ digits @ s) = map_of pc4SpeedTable digits"
proof -
  have dg: "digits \<noteq> []" "list_all is_digit digits" and "is_digit (last digits)" "is_digit (hd digits)"
    using assms by (auto simp: module_spelling_def list_all_iff)
  have nu: "\<not> is_upper (last digits)"
    using \<open>is_digit (last digits)\<close> by (auto simp: is_digit_def is_upper_def Let_def)
  have up: "to_upper (p @ digits @ s) = to_upper p @ digits @ to_upper s"
    using to_upper_digits [OF dg(2)] by (simp add: to_upper_def)
  have "to_upper p = [] \<or> to_upper p \<in> set pc_prefixes"
    using assms by (auto simp: module_spelling_def to_upper_def)
  then have st: "strip_first_prefix pc_prefixes (to_upper p @ digits @ to_upper s) = digits @ to_upper s"
    using dg(1) \<open>is_digit (hd digits)\<close> by (intro strip_prefixes) auto
  consider "s = []" | c where "s = [c]" "is_upper (upper_char c)"
    using assms is_upper_upper_char by (cases s) (auto simp: module_spelling_def)
  then have "(let t = digits @ to_upper s in if t \<noteq> [] \<and> is_upper (last t) then butlast t else t) = digits"
    by cases (use dg(1) nu in \<open>auto simp: to_upper_def Let_def\<close>)
  then show ?thesis
    unfolding PC4ToMHz_def module_spelling_trim [OF assms] up pc_prefixes_def [symmetric] Let_def st
    using dg(1) by simp
qed

text \<open>Every module number is understood in all its spellings: with or without a generation
  prefix, in either case, with or without a hyphen and a suffix letter, \<open>PC4ToMHz\<close> gives the
  speed the table has for the digits, and nothing for digits the table lacks.\<close>

theorem PC4ToMHz_complete:
  assumes "module_spelling p digits s"
  shows "PC4ToMHz (p @ digits @ s) = map_of pc4SpeedTable digits"
  by (rule PC4ToMHz_spelling [OF assms])

theorem PC4ToMHz_complete_witness: "PC4ToMHz ''pc4-21300V'' = Some 2666 \<and> PC4ToMHz ''21301'' = None"
proof -
  have "module_spelling ''pc4-'' ''21300'' ''V''" "module_spelling [] ''21301'' []"
    by code_simp+
  from PC4ToMHz_complete [OF this(1)] PC4ToMHz_complete [OF this(2)] show ?thesis
    by (simp add: pc4SpeedTable_def)
qed

end
