(* ===== verification/GpuNormalize.thy ===== *)
theory GpuNormalize
  imports Attributes Regex Aliases
begin

text \<open>
  Repair of GPU attributes (\<open>pkg/extract/gpu_normalize.go\<close>): the unit of the memory size,
  the canonical model, the family and the rounding of the memory size to a known product.
  A function that mutates the attribute map in place returns the new map.
\<close>

definition gpuFamilyAliases :: "(string \<times> string) list" where
  "gpuFamilyAliases =
     [(''tesla'', ''tesla''), (''quadro'', ''quadro''), (''geforce'', ''geforce''), (''rtx'', ''rtx''),
      (''rtx-pro'', ''rtx''), (''rtx pro'', ''rtx''), (''a-series'', ''a-series''), (''a series'', ''a-series''),
      (''ampere'', ''a-series''), (''l-series'', ''l-series''), (''l series'', ''l-series''),
      (''lovelace'', ''l-series''), (''h-series'', ''h-series''), (''h series'', ''h-series''),
      (''hopper'', ''h-series''), (''radeon pro'', ''radeon-pro''), (''radeonpro'', ''radeon-pro''),
      (''radeon-pro'', ''radeon-pro''), (''instinct'', ''instinct''), (''arc'', ''arc''), (''arc pro'', ''arc'')]"

definition gpuFamilyInferenceRules :: "(rx \<times> string) list" where
  "gpuFamilyInferenceRules =
     [(seqs [Bol, lits [''p40'', ''p100'', ''v100'', ''k80'', ''m40'', ''m60'', ''t4''], Eol], ''tesla''),
      (seqs [Bol, lit ''a'', lits [''10'', ''30'', ''40'', ''100''], Eol], ''a-series''),
      (seqs [Bol, lit ''l'', lits [''4'', ''40'', ''40s''], Eol], ''l-series''),
      (seqs [Bol, lit ''h'', lits [''100'', ''200''], Eol], ''h-series''),
      (seqs [Bol, lit ''mi'', lits [''50'', ''60'', ''100'', ''210'', ''250'', ''300''], Eol], ''instinct''),
      (seqs [Bol, oneof ''2345'', lit ''0'', times 2 rx_digit, opt (lits [''ti'', ''super'']), Eol], ''geforce-rtx''),
      (seqs [Bol, lit ''a'', oneof ''23456'', lit ''000'', Eol], ''quadro-rtx'')]"

definition is_sep :: "char \<Rightarrow> bool" where
  "is_sep c \<longleftrightarrow> c = CHR ''_'' \<or> is_rx_space c \<or> c = CHR ''-''"

definition rtxPrefixRe :: rx where "rtxPrefixRe = seqs [Bol, lit ''rtx'', opt (Cl is_sep)]"
definition tiSuffixRe :: rx where "tiSuffixRe = seqs [Grp rx_digit, Cl is_sep, lit ''ti'', Eol]"
definition superSuffixRe :: rx where "superSuffixRe = seqs [Grp rx_digit, Cl is_sep, lit ''super'', Eol]"

definition gpuValidVRAMSizes :: "int list" where
  "gpuValidVRAMSizes = [8, 12, 16, 24, 32, 40, 48, 80, 96, 128]"

definition CanonicalizeGPUModel :: "string \<Rightarrow> string" where
  "CanonicalizeGPUModel s =
     (let lower = to_lower (trim_space s)
      in if lower = [] then []
         else let lower = replace_all rtxPrefixRe (\<lambda>_. []) lower;
                  lower = replace_all tiSuffixRe (\<lambda>g. str_or_empty g @ ''ti'') lower;
                  lower = replace_all superSuffixRe (\<lambda>g. str_or_empty g @ ''super'') lower
              in lower)"

definition CanonicalizeGPUFamily :: "string \<Rightarrow> string" where
  "CanonicalizeGPUFamily s = canonical_token gpuFamilyAliases s"

definition DetectGPUFamilyFromModel :: "string \<Rightarrow> string" where
  "DetectGPUFamilyFromModel model =
     (let trimmed = trim_space model
      in if trimmed = [] then [] else first_rule gpuFamilyInferenceRules trimmed)"

text \<open>The loop over the divisors 1024 and 1000 that both unit repairs share; Go's \<open>%\<close> and \<open>/\<close> agree
  with \<open>mod\<close> and \<open>div\<close> on the positive values that reach it.\<close>

fun unit_candidate :: "int list \<Rightarrow> int \<Rightarrow> int \<Rightarrow> int option" where
  "unit_candidate [] hi n = None"
| "unit_candidate (divisor # ds) hi n =
     (if n mod divisor = 0
      then (let candidate = n div divisor in
            if candidate \<ge> 1 \<and> candidate \<le> hi then Some candidate else unit_candidate ds hi n)
      else unit_candidate ds hi n)"

definition normalizeGPUVRAMUnit :: "attrs \<Rightarrow> attrs" where
  "normalizeGPUVRAMUnit attrs = (case attrInt attrs ''vram_gb'' of
     None \<Rightarrow> attrs
   | Some vram \<Rightarrow> if vram \<le> 256 then attrs
       else case unit_candidate [1024, 1000] 256 vram of
         Some candidate \<Rightarrow> mput ''vram_gb'' (JInt candidate) attrs
       | None \<Rightarrow> attrs)"

definition canonicalizeGPUModelInPlace :: "attrs \<Rightarrow> attrs" where
  "canonicalizeGPUModelInPlace attrs = (case attrString attrs ''model'' of
     None \<Rightarrow> attrs
   | Some model \<Rightarrow>
       let canonical = CanonicalizeGPUModel model
       in if canonical \<noteq> [] then mput ''model'' (JStr canonical) attrs else attrs)"

definition normalizeGPUFamily :: "attrs \<Rightarrow> attrs" where
  "normalizeGPUFamily attrs =
     (let model = str_or_empty (attrString attrs ''model'');
          inferred = DetectGPUFamilyFromModel model
      in if inferred \<noteq> [] then mput ''family'' (JStr inferred) attrs
         else let family = str_or_empty (attrString attrs ''family'');
                  canonical = CanonicalizeGPUFamily family
              in if canonical \<noteq> [] then mput ''family'' (JStr canonical) attrs else attrs)"

fun nearest_sku :: "int list \<Rightarrow> int \<Rightarrow> int option" where
  "nearest_sku [] n = None"
| "nearest_sku (sku # skus) n = (if \<bar>n - sku\<bar> \<le> 1 then Some sku else nearest_sku skus n)"

definition roundGPUVRAM :: "attrs \<Rightarrow> attrs" where
  "roundGPUVRAM attrs = (case attrInt attrs ''vram_gb'' of
     None \<Rightarrow> attrs
   | Some vram \<Rightarrow> (case nearest_sku gpuValidVRAMSizes vram of
       Some sku \<Rightarrow> mput ''vram_gb'' (JInt sku) attrs | None \<Rightarrow> attrs))"

definition NormalizeGPUExtraction :: "attrs \<Rightarrow> attrs" where
  "NormalizeGPUExtraction attrs =
     roundGPUVRAM (normalizeGPUFamily (canonicalizeGPUModelInPlace (normalizeGPUVRAMUnit attrs)))"

interpretation families: alias_table gpuFamilyAliases
proof (rule table_ok_alias_table)
  show "table_ok gpuFamilyAliases" by code_simp
qed

section \<open>Replacing at the ends of a text\<close>

text \<open>A pattern that starts with \<open>^\<close> replaces nothing after the first position.\<close>

lemma replace_from_Bol: "replace_from (Cat Bol r) f (Some c) s = s"
proof (induction s arbitrary: c)
  case Nil
  show ?case by (subst replace_from.simps) simp
next
  case (Cons a s)
  then show ?case by (subst replace_from.simps) simp
qed

lemma ends_lit_miss: "\<not> has_prefix s w \<Longrightarrow> ends (lit w) (p, s, g) = []"
proof (induction w arbitrary: p s)
  case (Cons c w)
  then show ?case by (cases s) (auto simp: has_prefix_def)
qed (simp add: has_prefix_def)

lemma replace_rtx_other: "\<not> has_prefix s ''rtx'' \<Longrightarrow> replace_all rtxPrefixRe f s = s"
proof -
  assume "\<not> has_prefix s ''rtx''"
  from ends_lit_miss [OF this, of None None]
  have "ends rtxPrefixRe (None, s, None) = []" by (simp add: rtxPrefixRe_def del: lit.simps)
  moreover have "replace_from rtxPrefixRe f (Some c) t = t" for c t
    by (simp add: rtxPrefixRe_def replace_from_Bol del: ends.simps)
  ultimately show ?thesis
    unfolding replace_all_def by (subst replace_from.simps) (simp split: list.split)
qed

lemma replace_rtx_hit:
  assumes "sep = [] \<and> \<not> is_sep (hd s) \<or> (\<exists>c. sep = [c] \<and> is_sep c)" and "s \<noteq> []"
  shows "replace_all rtxPrefixRe (\<lambda>_. []) (''rtx'' @ sep @ s) = s"
proof -
  have 1: "replace_from rtxPrefixRe (\<lambda>_. []) (Some c) t = t" for c t
    by (simp add: rtxPrefixRe_def replace_from_Bol del: ends.simps)
  obtain d s' where s: "s = d # s'" using assms(2) by (cases s) auto
  have "\<exists>p st. ends rtxPrefixRe (None, ''rtx'' @ sep @ s, None) = (Some p, s, None) # st"
    using assms(1) by (auto simp: rtxPrefixRe_def opt_def s)
  then show ?thesis
    unfolding replace_all_def by (subst replace_from.simps) (auto simp: 1)
qed

text \<open>A suffix pattern \<open>(\d)[_\s-]word$\<close>: a text of digits, a separator and the word loses the
  separator; a text of digits and anything that does not end in it stays.\<close>

definition suffix_rx :: "string \<Rightarrow> rx" where
  "suffix_rx w = seqs [Grp rx_digit, Cl is_sep, lit w, Eol]"

lemma suffix_rx_defs: "tiSuffixRe = suffix_rx ''ti''" "superSuffixRe = suffix_rx ''super''"
  by (simp_all add: tiSuffixRe_def superSuffixRe_def suffix_rx_def)

lemma digit_not_sep: "is_digit c \<Longrightarrow> \<not> is_sep c"
  by (auto simp: is_digit_def is_sep_def is_rx_space_def Let_def)

lemma ends_suffix_nodigit:
  "s = [] \<or> \<not> is_digit (hd s) \<Longrightarrow> ends (suffix_rx w) (p, s, g) = []"
  by (cases s) (auto simp: suffix_rx_def rx_digit_def)

lemma ends_suffix_nosep:
  "tl s = [] \<or> \<not> is_sep (hd (tl s)) \<Longrightarrow> ends (suffix_rx w) (p, s, g) = []"
  by (cases s; cases "tl s") (auto simp: suffix_rx_def rx_digit_def set_group_def)

lemma ends_suffix_hit:
  "is_digit d \<Longrightarrow> is_sep c \<Longrightarrow> w \<noteq> [] \<Longrightarrow>
   ends (suffix_rx w) (p, d # c # w, g) = [(Some (last w), [], Some [d])]"
  using ends_lit [of w _ "[]"] by (simp add: suffix_rx_def rx_digit_def set_group_def)

lemma replace_suffix_none:
  "\<forall>c \<in> set (tl s). \<not> is_sep c \<Longrightarrow> replace_from (suffix_rx w) f p s = s"
proof (induction s arbitrary: p)
  case Nil
  show ?case by (subst replace_from.simps) (simp add: ends_suffix_nodigit)
next
  case (Cons c s)
  have "tl (c # s) = [] \<or> \<not> is_sep (hd (tl (c # s)))" using Cons.prems by (cases s) auto
  then have "ends (suffix_rx w) (p, c # s, None) = []" by (rule ends_suffix_nosep)
  moreover have "\<forall>c \<in> set (tl s). \<not> is_sep c" using Cons.prems by (cases s) auto
  ultimately show ?case using Cons.IH by (subst replace_from.simps) simp
qed

lemma replace_suffix_hit:
  assumes "ds \<noteq> []" "list_all is_digit ds" "is_sep c" "w \<noteq> []"
  shows "replace_from (suffix_rx w) (\<lambda>g. str_or_empty g @ w) p (ds @ c # w) = ds @ w"
  using assms
proof (induction ds arbitrary: p)
  case (Cons d ds)
  show ?case
  proof (cases ds)
    case Nil
    then have "ends (suffix_rx w) (p, (d # ds) @ c # w, None) = [(Some (last w), [], Some [d])]"
      using Cons.prems ends_suffix_hit [of d c w p None] by simp
    moreover have "replace_from (suffix_rx w) f q [] = []" for f q
      by (rule replace_suffix_none) simp
    ultimately show ?thesis
      by (subst replace_from.simps) (simp add: str_or_empty_def Nil)
  next
    case (Cons e es)
    then have "ends (suffix_rx w) (p, (d # ds) @ c # w, None) = []"
      using Cons.prems by (intro ends_suffix_nosep) (auto simp: digit_not_sep)
    then show ?thesis
      using Cons.prems Cons.IH Cons by (subst replace_from.simps) simp
  qed
qed simp

lemma ends_suffix_other:
  assumes "is_digit d" "is_sep c" "v \<noteq> w"
  shows "ends (suffix_rx w) (p, d # c # v, g) = []"
proof (cases "cut_prefix v w")
  case None
  then have "ends (lit w) (Some c, v, Some [d]) = []" by (intro ends_lit_miss) (simp add: has_prefix_def)
  then show ?thesis using assms by (simp add: suffix_rx_def rx_digit_def set_group_def del: lit.simps)
next
  case (Some r)
  have "cut_prefix v w = Some r \<Longrightarrow> v = w @ r"
    by (induction v w rule: cut_prefix.induct) (auto split: if_splits)
  then have "v = w @ r" "r \<noteq> []" using Some assms by auto
  then show ?thesis using assms ends_lit [of w "Some c" r "Some [d]"]
    by (simp add: suffix_rx_def rx_digit_def set_group_def del: lit.simps)
qed

lemma replace_suffix_other:
  assumes "ds \<noteq> []" "list_all is_digit ds" "is_sep c" "v \<noteq> w" "\<forall>x \<in> set v. \<not> is_sep x"
  shows "replace_from (suffix_rx w) f p (ds @ c # v) = ds @ c # v"
  using assms
proof (induction ds arbitrary: p)
  case (Cons d ds)
  have tail: "replace_from (suffix_rx w) f q (c # v) = c # v" for q
    using Cons.prems by (intro replace_suffix_none) auto
  show ?case
  proof (cases ds)
    case Nil
    then have "ends (suffix_rx w) (p, (d # ds) @ c # v, None) = []"
      using Cons.prems ends_suffix_other by simp
    then show ?thesis using tail by (subst replace_from.simps) (simp add: Nil)
  next
    case (Cons e es)
    then have "ends (suffix_rx w) (p, (d # ds) @ c # v, None) = []"
      using Cons.prems by (intro ends_suffix_nosep) (auto simp: digit_not_sep)
    then show ?thesis using Cons.prems Cons.IH Cons by (subst replace_from.simps) simp
  qed
qed simp

section \<open>One model, one token\<close>

text \<open>The spellings of a numbered model: white space around it, the brand with or without a
  separator in front, and a Ti or Super suffix with or without a separator, in any case.\<close>

definition no_or_one_sep :: "string \<Rightarrow> bool" where
  "no_or_one_sep s \<longleftrightarrow> s = [] \<or> (length s = 1 \<and> is_sep (hd s))"

definition gpu_spelling :: "string \<Rightarrow> string \<Rightarrow> string \<Rightarrow> string \<Rightarrow> string \<Rightarrow> bool" where
  "gpu_spelling brand s1 digits s2 suffix \<longleftrightarrow>
     (brand = [] \<and> s1 = [] \<or> to_lower brand = ''rtx'' \<and> no_or_one_sep s1) \<and>
     digits \<noteq> [] \<and> list_all is_digit digits \<and>
     (suffix = [] \<and> s2 = [] \<or> to_lower suffix \<in> {''ti'', ''super''} \<and> no_or_one_sep s2)"

lemma lower_sep: "is_sep c \<Longrightarrow> lower_char c = c"
  by (auto simp: is_sep_def is_rx_space_def lower_char_def is_upper_def Let_def)

lemma to_lower_digits: "list_all is_digit s \<Longrightarrow> to_lower s = s"
  by (induction s) (auto simp: to_lower_def is_digit_lower_id)

lemma to_lower_sep: "no_or_one_sep s \<Longrightarrow> to_lower s = s"
  by (cases s) (auto simp: no_or_one_sep_def to_lower_def lower_sep)

lemma no_sep_suffix: "w \<in> {''ti'', ''super''} \<Longrightarrow> \<forall>x \<in> set w. \<not> is_sep x"
  by (auto simp: is_sep_def is_rx_space_def)

lemma digits_no_sep: "list_all is_digit ds \<Longrightarrow> \<forall>x \<in> set ds. \<not> is_sep x"
  by (auto simp: list_all_iff digit_not_sep)

lemma replace_suffix_plain:
  assumes "list_all is_digit ds" "\<forall>x \<in> set v. \<not> is_sep x"
  shows "replace_from (suffix_rx w) f p (ds @ v) = ds @ v"
proof (rule replace_suffix_none)
  have "\<forall>x \<in> set (ds @ v). \<not> is_sep x" using assms digits_no_sep by auto
  then show "\<forall>c \<in> set (tl (ds @ v)). \<not> is_sep c"
    by (cases "ds @ v") auto
qed

text \<open>Both suffix replacements on a lower-case model.\<close>

lemma replace_suffixes:
  assumes d: "ds \<noteq> []" "list_all is_digit ds" and s: "no_or_one_sep s"
    and w: "w \<in> {''ti'', ''super''} \<or> w = [] \<and> s = []"
  shows "replace_all superSuffixRe (\<lambda>g. str_or_empty g @ ''super'')
    (replace_all tiSuffixRe (\<lambda>g. str_or_empty g @ ''ti'') (ds @ s @ w)) = ds @ w"
proof (cases s)
  case Nil
  then show ?thesis
    using replace_suffix_plain [OF d(2), of w] no_sep_suffix [of w] w
    by (auto simp: replace_all_def suffix_rx_defs)
next
  case (Cons c t)
  then have c: "is_sep c" "s = [c]" "w \<in> {''ti'', ''super''}" using s w by (auto simp: no_or_one_sep_def)
  have plain: "replace_from (suffix_rx v) f p (ds @ w) = ds @ w" for v f p
    using replace_suffix_plain [OF d(2)] no_sep_suffix [OF c(3)] by simp
  show ?thesis
  proof (cases "w = ''ti''")
    case True
    then have "replace_from (suffix_rx ''ti'') (\<lambda>g. str_or_empty g @ ''ti'') None (ds @ c # w) = ds @ w"
      using replace_suffix_hit [OF d c(1), of "''ti''"] by simp
    then show ?thesis using plain c by (simp add: replace_all_def suffix_rx_defs)
  next
    case False
    then have w': "w = ''super''" using c by simp
    have "replace_from (suffix_rx ''ti'') f None (ds @ c # w) = ds @ c # w" for f
      using replace_suffix_other [OF d c(1) False no_sep_suffix [OF c(3)]] by simp
    moreover have "replace_from (suffix_rx ''super'') (\<lambda>g. str_or_empty g @ ''super'') None (ds @ c # w) = ds @ w"
      using replace_suffix_hit [OF d c(1), of "''super''"] w' by simp
    ultimately show ?thesis using c by (simp add: replace_all_def suffix_rx_defs)
  qed
qed

lemma word_not_space: "is_word c \<Longrightarrow> \<not> is_space c"
  using is_space_not_word by blast

lemma gpu_spelling_trim:
  assumes "gpu_spelling b s1 ds s2 w"
  shows "trim_space (b @ s1 @ ds @ s2 @ w) = b @ s1 @ ds @ s2 @ w"
proof (rule trim_id)
  have d: "ds \<noteq> []" "\<not> is_space (hd ds)" "\<not> is_space (last ds)"
    using assms by (auto simp: gpu_spelling_def list_all_iff word_not_space is_digit_is_word)
  have low: "\<not> is_space c" if "to_lower v \<in> {''rtx'', ''ti'', ''super''}" "c \<in> set v" for c v
  proof -
    have "lower_char c \<in> set (to_lower v)" using that(2) by (simp add: to_lower_def)
    then have "\<not> is_space (lower_char c)" using that(1) by (auto simp: is_space_def)
    then show ?thesis by simp
  qed
  have "\<not> is_space (hd (b @ s1 @ ds @ s2 @ w))"
    using assms d low [of b "hd b"] by (cases b) (auto simp: gpu_spelling_def)
  moreover have "\<not> is_space (last (b @ s1 @ ds @ s2 @ w))"
    using assms d low [of w "last w"] by (cases w) (auto simp: gpu_spelling_def)
  ultimately show "\<not> is_space (hd (b @ s1 @ ds @ s2 @ w)) \<and> \<not> is_space (last (b @ s1 @ ds @ s2 @ w))" ..
qed

lemma CanonicalizeGPUModel_spelling:
  assumes "gpu_spelling b s1 ds s2 w"
  shows "CanonicalizeGPUModel (b @ s1 @ ds @ s2 @ w) = ds @ to_lower w"
proof -
  have ds: "ds \<noteq> []" "list_all is_digit ds" using assms by (auto simp: gpu_spelling_def)
  have s1: "no_or_one_sep s1" and s2: "no_or_one_sep s2"
    using assms by (auto simp: gpu_spelling_def no_or_one_sep_def)
  have w: "to_lower w \<in> {''ti'', ''super''} \<or> to_lower w = [] \<and> s2 = []"
    using assms by (auto simp: gpu_spelling_def)
  have low: "to_lower (b @ s1 @ ds @ s2 @ w) = to_lower b @ s1 @ ds @ s2 @ to_lower w"
    by (simp add: to_lower_append to_lower_digits [OF ds(2)] to_lower_sep [OF s1] to_lower_sep [OF s2])
  have hd: "is_digit (hd ds)" using ds by (cases ds) auto
  have "replace_all rtxPrefixRe (\<lambda>_. []) (to_lower b @ s1 @ ds @ s2 @ to_lower w) = ds @ s2 @ to_lower w"
  proof (cases "b = []")
    case True
    have "hd ds \<noteq> CHR ''r''" using hd by (auto simp: is_digit_def)
    then have "\<not> has_prefix (ds @ s2 @ to_lower w) ''rtx''"
      using ds by (cases ds) (auto simp: has_prefix_def)
    then show ?thesis using True assms by (simp add: gpu_spelling_def replace_rtx_other)
  next
    case False
    then have "to_lower b = ''rtx''" using assms by (auto simp: gpu_spelling_def)
    moreover have "s1 = [] \<and> \<not> is_sep (hd (ds @ s2 @ to_lower w)) \<or> (\<exists>c. s1 = [c] \<and> is_sep c)"
      using s1 ds hd digit_not_sep by (cases s1) (auto simp: no_or_one_sep_def)
    ultimately show ?thesis
      using replace_rtx_hit [of s1 "ds @ s2 @ to_lower w"] ds by simp
  qed
  then show ?thesis
    using replace_suffixes [OF ds s2 w] ds
    unfolding CanonicalizeGPUModel_def gpu_spelling_trim [OF assms] low by (simp add: Let_def)
qed

text \<open>Every spelling of a numbered GPU model gives one token: "RTX 3090", "rtx_3090" and "3090"
  all become 3090, and "4070-Super", "RTX4070 super" and "4070super" all become 4070super.\<close>

theorem CanonicalizeGPUModel_one_token:
  assumes "gpu_spelling brand s1 digits s2 suffix"
  shows "CanonicalizeGPUModel (brand @ s1 @ digits @ s2 @ suffix) = digits @ to_lower suffix"
  by (rule CanonicalizeGPUModel_spelling [OF assms])

theorem CanonicalizeGPUModel_one_token_witness:
  "CanonicalizeGPUModel ''RTX 4070-Super'' = ''4070super''"
proof -
  have "gpu_spelling ''RTX'' '' '' ''4070'' ''-'' ''Super''" by code_simp
  moreover have "to_lower ''Super'' = ''super''" by code_simp
  ultimately show ?thesis using CanonicalizeGPUModel_one_token by fastforce
qed

section \<open>The memory size\<close>

lemma unit_candidate_1024: "1 \<le> c \<Longrightarrow> c \<le> hi \<Longrightarrow> unit_candidate [1024, 1000] hi (c * 1024) = Some c"
  by simp

lemma unit_candidate_1000:
  assumes "1 \<le> c" "c \<le> hi"
  shows "unit_candidate [1024, 1000] hi (c * 1000) = Some (if 128 dvd c then 125 * (c div 128) else c)"
proof (cases "128 dvd c")
  case True
  then obtain k where k: "c = 128 * k" by blast
  then have "c * 1000 = 125 * k * 1024" by simp
  moreover have "1 \<le> 125 * k" "125 * k \<le> hi" using assms k by auto
  ultimately show ?thesis using k by simp
next
  case False
  have "\<not> (1024 :: int) dvd c * 1000"
  proof
    assume "1024 dvd c * 1000"
    then obtain k where "c * 1000 = 1024 * k" by blast
    then have "c = 128 * (85 * k - 83 * c)" by simp
    then show False using False by (metis dvd_triv_left)
  qed
  then show ?thesis using assms False by (simp add: dvd_eq_mod_eq_0)
qed

lemma nearest_sku_near: "nearest_sku skus n = Some r \<Longrightarrow> \<bar>n - r\<bar> \<le> 1"
  by (induction skus) (auto split: if_splits)

lemma nearest_sku_exact: "c \<in> set gpuValidVRAMSizes \<Longrightarrow> nearest_sku gpuValidVRAMSizes c = Some c"
  by (auto simp: gpuValidVRAMSizes_def)

lemma other_fields [simp]:
  "k \<noteq> ''family'' \<Longrightarrow> mget (normalizeGPUFamily m) k = mget m k"
  "k \<noteq> ''model'' \<Longrightarrow> mget (canonicalizeGPUModelInPlace m) k = mget m k"
  "k \<noteq> ''vram_gb'' \<Longrightarrow> mget (normalizeGPUVRAMUnit m) k = mget m k"
  "k \<noteq> ''vram_gb'' \<Longrightarrow> mget (roundGPUVRAM m) k = mget m k"
  by (auto simp: normalizeGPUFamily_def canonicalizeGPUModelInPlace_def normalizeGPUVRAMUnit_def
      roundGPUVRAM_def Let_def split: option.split)

lemma attrInt_cong: "mget m k = mget m' k \<Longrightarrow> attrInt m k = attrInt m' k"
  by (simp add: attrInt_def)

lemma attrString_cong: "mget m k = mget m' k \<Longrightarrow> attrString m k = attrString m' k"
  by (simp add: attrString_def)

lemma vram_of_normalized:
  "attrInt (NormalizeGPUExtraction m) ''vram_gb'' = attrInt (roundGPUVRAM (normalizeGPUVRAMUnit m)) ''vram_gb''"
proof -
  have "attrInt (normalizeGPUFamily (canonicalizeGPUModelInPlace (normalizeGPUVRAMUnit m))) ''vram_gb''
      = attrInt (normalizeGPUVRAMUnit m) ''vram_gb''"
    by (rule attrInt_cong) simp
  then show ?thesis
    by (auto simp: NormalizeGPUExtraction_def roundGPUVRAM_def split: option.split)
qed

text \<open>The memory size of a GPU survives a unit mix-up: from a size of 1 to 256 GB, or the same
  size in MiB, the repaired value is within 1 GB of the true one, and equal to it for the sizes
  cards are sold with.\<close>

theorem GPU_vram_recovered:
  assumes "attrInt attrs ''vram_gb'' = Some v" and "v = c \<or> v = c * 1024" and "1 \<le> c" and "c \<le> 256"
  shows "\<exists>r. attrInt (NormalizeGPUExtraction attrs) ''vram_gb'' = Some r \<and> \<bar>r - c\<bar> \<le> 1 \<and>
    (c \<in> set gpuValidVRAMSizes \<longrightarrow> r = c)"
proof -
  have "attrInt (normalizeGPUVRAMUnit attrs) ''vram_gb'' = Some c"
    using assms unit_candidate_1024 [of c 256] by (auto simp: normalizeGPUVRAMUnit_def)
  then have "attrInt (roundGPUVRAM (normalizeGPUVRAMUnit attrs)) ''vram_gb'' =
      Some (case nearest_sku gpuValidVRAMSizes c of Some sku \<Rightarrow> sku | None \<Rightarrow> c)"
    by (auto simp: roundGPUVRAM_def split: option.split)
  then show ?thesis
    unfolding vram_of_normalized using nearest_sku_near nearest_sku_exact
    by (fastforce split: option.split)
qed

theorem GPU_vram_recovered_witness:
  "\<exists>r. attrInt (NormalizeGPUExtraction [(''vram_gb'', JNum (Fin 24576))]) ''vram_gb'' = Some r \<and> r = 24"
  using GPU_vram_recovered [of "[(''vram_gb'', JNum (Fin 24576))]" 24576 24]
  by (auto simp: attrInt_def f64_trunc_def in_int64_def int64_min_def int64_max_def gpuValidVRAMSizes_def)

end
