(* ===== verification/SystemNormalize.thy ===== *)
theory SystemNormalize
  imports Attributes Regex Aliases
begin

text \<open>
  Repair of workstation and desktop attributes (\<open>pkg/extract/system_normalize.go\<close>): vendor,
  model and product line.
\<close>

definition systemVendorAliases :: "(string \<times> string) list" where
  "systemVendorAliases =
     [(''dell'', ''dell''), (''dell inc.'', ''dell''), (''dell inc'', ''dell''), (''dell technologies'', ''dell''),
      (''hp'', ''hp''), (''hewlett-packard'', ''hp''), (''hewlett packard'', ''hp''),
      (''hewlett packard enterprise'', ''hp''), (''hpe'', ''hp''),
      (''lenovo'', ''lenovo''), (''ibm'', ''lenovo''), (''ibm/lenovo'', ''lenovo''), (''apple'', ''apple'')]"

definition systemLineAliases :: "(string \<times> string) list" where
  "systemLineAliases =
     [(''precision'', ''precision''), (''dell precision'', ''precision''), (''precision tower'', ''precision''),
      (''precision-tower'', ''precision''), (''thinkstation'', ''thinkstation''), (''think station'', ''thinkstation''),
      (''z by hp'', ''z-by-hp''), (''z-by-hp'', ''z-by-hp''), (''hp z'', ''z-by-hp''), (''hp z-series'', ''z-by-hp''),
      (''z series'', ''z-by-hp''), (''z-series'', ''z-by-hp''), (''pro max'', ''pro-max''), (''pro-max'', ''pro-max''),
      (''promax'', ''pro-max''), (''optiplex'', ''optiplex''), (''dell optiplex'', ''optiplex''),
      (''thinkcentre'', ''thinkcentre''), (''think centre'', ''thinkcentre''), (''think center'', ''thinkcentre''),
      (''elitedesk'', ''elitedesk''), (''elite desk'', ''elitedesk''), (''hp elitedesk'', ''elitedesk''),
      (''prodesk'', ''prodesk''), (''pro desk'', ''prodesk''), (''hp prodesk'', ''prodesk''),
      (''pro'', ''pro''), (''dell pro'', ''pro'')]"

definition systemLineInferenceRules :: "(rx \<times> string) list" where
  "systemLineInferenceRules =
     [(seqs [Bol, lit ''t'', times 4 rx_digit, Eol], ''precision''),
      (seqs [Bol, lit ''p'', times 3 rx_digit, Eol], ''thinkstation''),
      (seqs [Bol, lit ''z'', plus rx_digit, plus rx_space, lit ''g'', plus rx_digit, Eol], ''z-by-hp''),
      (seqs [Bol, lit ''z'', plus rx_digit, lit ''g'', plus rx_digit, Eol], ''z-by-hp''),
      (seqs [Bol, lit ''m'', times 3 rx_digit, opt (Cl is_lower), Eol], ''thinkcentre''),
      (seqs [Bol, lit ''optiplex''], ''optiplex''),
      (seqs [Bol, lit ''elitedesk''], ''elitedesk''),
      (seqs [Bol, lit ''prodesk''], ''prodesk'')]"

definition systemBrandPrefixRe :: rx where
  "systemBrandPrefixRe = seqs [Bol, lits [''dell'', ''hp'', ''hpe'', ''lenovo'', ''ibm''],
     plus (Cl (\<lambda>c. c = CHR ''_'' \<or> is_rx_space c \<or> c = CHR ''-''))]"

definition systemServerLineDenylist :: "string list" where
  "systemServerLineDenylist =
     [''poweredge'', ''power-edge'', ''proliant'', ''pro-liant'', ''ucs'', ''supermicro'', ''super-micro'',
      ''dell-emc'', ''emc'', ''system-x'', ''systemx'']"

definition CanonicalizeSystemVendor :: "string \<Rightarrow> string" where
  "CanonicalizeSystemVendor s = canonical_token systemVendorAliases s"

definition CanonicalizeSystemLine :: "string \<Rightarrow> string" where
  "CanonicalizeSystemLine s = canonical_token systemLineAliases s"

definition CanonicalizeSystemModel :: "string \<Rightarrow> string" where
  "CanonicalizeSystemModel s =
     (let lower = to_lower (trim_space s)
      in if lower = [] then [] else replace_all systemBrandPrefixRe (\<lambda>_. []) lower)"

definition InferSystemLineFromModel :: "string \<Rightarrow> string" where
  "InferSystemLineFromModel model =
     (let trimmed = trim_space model
      in if trimmed = [] then [] else first_rule systemLineInferenceRules trimmed)"

definition canonicalizeSystemVendorInPlace :: "attrs \<Rightarrow> attrs" where
  "canonicalizeSystemVendorInPlace attrs = (case attrString attrs ''vendor'' of
     None \<Rightarrow> attrs
   | Some vendor \<Rightarrow> (let canonical = CanonicalizeSystemVendor vendor
       in if canonical \<noteq> [] then mput ''vendor'' (JStr canonical) attrs else attrs))"

definition canonicalizeSystemModelInPlace :: "attrs \<Rightarrow> attrs" where
  "canonicalizeSystemModelInPlace attrs = (case attrString attrs ''model'' of
     None \<Rightarrow> attrs
   | Some model \<Rightarrow> (let canonical = CanonicalizeSystemModel model
       in if canonical \<noteq> [] then mput ''model'' (JStr canonical) attrs else attrs))"

text \<open>The line the model gave, if it can be used.\<close>

definition usable_line :: "attrs \<Rightarrow> string option" where
  "usable_line attrs = (case attrString attrs ''line'' of
     None \<Rightarrow> None
   | Some line \<Rightarrow> if line = [] then None
       else (let canonical = CanonicalizeSystemLine line
         in if canonical \<noteq> [] \<and> canonical \<notin> set systemServerLineDenylist then Some canonical else None))"

definition resolveSystemLine :: "attrs \<Rightarrow> attrs" where
  "resolveSystemLine attrs = (case usable_line attrs of
     Some canonical \<Rightarrow> mput ''line'' (JStr canonical) attrs
   | None \<Rightarrow>
       (let model = str_or_empty (attrString attrs ''model'');
            inferred = InferSystemLineFromModel model
        in if inferred \<noteq> [] then mput ''line'' (JStr inferred) attrs else attrs))"

definition NormalizeSystemExtraction :: "component_type \<Rightarrow> attrs \<Rightarrow> attrs" where
  "NormalizeSystemExtraction componentType attrs =
     resolveSystemLine (canonicalizeSystemModelInPlace (canonicalizeSystemVendorInPlace attrs))"

section \<open>Tables\<close>

interpretation vendors: alias_table systemVendorAliases
proof (rule table_ok_alias_table)
  show "table_ok systemVendorAliases" by code_simp
qed

interpretation lines: alias_table systemLineAliases
proof (rule table_ok_alias_table)
  show "table_ok systemLineAliases" by code_simp
qed

text \<open>Inferred lines are lines of their own, and no server line.\<close>

lemma inferred_not_denied: "InferSystemLineFromModel m \<notin> set systemServerLineDenylist"
  using first_rule_range [of systemLineInferenceRules "trim_space m"]
  by (auto simp: InferSystemLineFromModel_def Let_def systemLineInferenceRules_def systemServerLineDenylist_def
      simp del: first_rule.simps)

text \<open>Whatever case and spacing the model writes a vendor or a product line in, the canonical
  token is the same, and canonicalising a token again changes nothing.\<close>

theorem system_tokens_stable:
  "CanonicalizeSystemVendor (CanonicalizeSystemVendor s) = CanonicalizeSystemVendor s \<and>
   CanonicalizeSystemLine (CanonicalizeSystemLine s) = CanonicalizeSystemLine s \<and>
   CanonicalizeSystemLine (to_lower (trim_space s)) = CanonicalizeSystemLine s \<and>
   CanonicalizeSystemVendor (to_lower (trim_space s)) = CanonicalizeSystemVendor s"
proof -
  have "to_lower (trim_space (to_lower (trim_space s))) = to_lower (trim_space s)"
    by (simp add: trim_lower)
  then show ?thesis
    unfolding CanonicalizeSystemVendor_def CanonicalizeSystemLine_def
    using vendors.idem lines.idem vendors.case_space_insensitive lines.case_space_insensitive by blast
qed

lemma line_of_resolved:
  "attrString (resolveSystemLine m) ''line'' = (case usable_line m of Some c \<Rightarrow> Some c
   | None \<Rightarrow> let i = InferSystemLineFromModel (str_or_empty (attrString m ''model'')) in
       if i \<noteq> [] then Some i else attrString m ''line'')"
  by (simp add: resolveSystemLine_def Let_def split: option.split)

text \<open>A server line the model hallucinated for a workstation is replaced whenever the model
  number tells the line: with a denied line and a recognised model, the line is the inferred
  one, whatever spelling of the server line was given.\<close>

theorem server_line_replaced:
  assumes "attrString attrs ''line'' = Some line" and "CanonicalizeSystemLine line \<in> set systemServerLineDenylist"
    and "attrString attrs ''model'' = Some model" and "CanonicalizeSystemModel model = canonical"
    and "canonical \<noteq> []" and "InferSystemLineFromModel canonical = inferred" and "inferred \<noteq> []"
  shows "attrString (NormalizeSystemExtraction t attrs) ''line'' = Some inferred \<and>
    attrString (NormalizeSystemExtraction t attrs) ''model'' = Some canonical"
proof -
  define m where "m = canonicalizeSystemModelInPlace (canonicalizeSystemVendorInPlace attrs)"
  have "attrString (canonicalizeSystemVendorInPlace attrs) ''model'' = Some model"
    "attrString (canonicalizeSystemVendorInPlace attrs) ''line'' = Some line"
    using assms by (simp_all add: canonicalizeSystemVendorInPlace_def Let_def split: option.split)
  then have m: "attrString m ''model'' = Some canonical" "attrString m ''line'' = Some line"
    using assms by (simp_all add: m_def canonicalizeSystemModelInPlace_def Let_def)
  then have "usable_line m = None" using assms(2) by (simp add: usable_line_def Let_def)
  then show ?thesis
    using m assms by (simp add: NormalizeSystemExtraction_def m_def [symmetric] resolveSystemLine_def
        str_or_empty_def Let_def)
qed

definition sample_workstation :: attrs where
  "sample_workstation = [(''vendor'', JStr ''Dell Inc.''), (''line'', JStr ''Power Edge''), (''model'', JStr ''Dell T3620'')]"

theorem server_line_replaced_witness:
  "attrString (NormalizeSystemExtraction ComponentWorkstation sample_workstation) ''line'' = Some ''precision''"
proof -
  have "CanonicalizeSystemLine ''Power Edge'' \<in> set systemServerLineDenylist"
    "CanonicalizeSystemModel ''Dell T3620'' = ''t3620''" "InferSystemLineFromModel ''t3620'' = ''precision''"
    "attrString sample_workstation ''line'' = Some ''Power Edge''"
    "attrString sample_workstation ''model'' = Some ''Dell T3620''"
    by code_simp+
  with server_line_replaced [of sample_workstation "''Power Edge''" "''Dell T3620''" "''t3620''" "''precision''"]
  show ?thesis by simp
qed

text \<open>Without a recognised model number a denied server line is kept: the code skips it but does
  not delete it, so the listing still carries the server line the comment says is dropped.\<close>

theorem server_line_kept:
  assumes "attrString attrs ''line'' = Some line" and "CanonicalizeSystemLine line \<in> set systemServerLineDenylist"
    and "attrString attrs ''model'' = None"
  shows "attrString (NormalizeSystemExtraction t attrs) ''line'' = Some line"
proof -
  define m where "m = canonicalizeSystemModelInPlace (canonicalizeSystemVendorInPlace attrs)"
  have "attrString (canonicalizeSystemVendorInPlace attrs) ''model'' = None"
    "attrString (canonicalizeSystemVendorInPlace attrs) ''line'' = Some line"
    using assms by (simp_all add: canonicalizeSystemVendorInPlace_def Let_def split: option.split)
  then have m: "attrString m ''model'' = None" "attrString m ''line'' = Some line"
    by (simp_all add: m_def canonicalizeSystemModelInPlace_def)
  then have "usable_line m = None" using assms(2) by (simp add: usable_line_def Let_def)
  then show ?thesis
    using m by (simp add: NormalizeSystemExtraction_def m_def [symmetric] line_of_resolved
        str_or_empty_def InferSystemLineFromModel_def Let_def)
qed

theorem server_line_kept_witness:
  "attrString (NormalizeSystemExtraction ComponentDesktop [(''line'', JStr ''ProLiant'')]) ''line'' = Some ''ProLiant''"
proof -
  have "CanonicalizeSystemLine ''ProLiant'' \<in> set systemServerLineDenylist" by code_simp
  then show ?thesis by (intro server_line_kept) (simp_all add: attrString_def)
qed

end
