(* ===== verification/Preclassify.thy ===== *)
theory Preclassify
  imports Domain Regex
begin

text \<open>
  The rules that look at a title or at item specifics before any model is asked: the server
  tier (\<open>pkg/extract/server_tier.go\<close>), accessories (\<open>preclassify.go\<close>) and complete systems
  (\<open>system_preclassify.go\<close>). The patterns are the source's regular expressions, one term
  per expression.
\<close>

section \<open>Server tiers\<close>

definition ServerTierBarebone :: string where "ServerTierBarebone = ''barebone''"
definition ServerTierPartial :: string where "ServerTierPartial = ''partial''"
definition ServerTierConfigured :: string where "ServerTierConfigured = ''configured''"

definition rx_metal :: rx where "rx_metal = lits [''gold'', ''silver'', ''platinum'', ''bronze'']"
definition rx_dimm :: rx where "rx_dimm = lits [''rdimm'', ''udimm'', ''lrdimm'', ''fbdimm'', ''sodimm'']"
definition rx_barebone :: rx where "rx_barebone = word (seqs [lit ''bar'', opt (lit ''e''), lit ''bone''])"

definition barebonePatterns :: "rx list" where
  "barebonePatterns =
     [rx_barebone,
      word (seqs [alts [lit ''no'', lit ''w/o'', lit ''without'', seqs [lit ''no'', opt (lit ''/'')]], Star rx_space,
        alts [lit ''cpu'', lit ''ram'', lit ''memory'', seqs [lit ''hd'', opt (lit ''d''), opt (lit ''s'')],
          seqs [lit ''drive'', opt (lit ''s'')], lit ''os'']]),
      word (lit ''cto'')]"

definition cpuPresentPatterns :: "rx list" where
  "cpuPresentPatterns =
     [word (seqs [rx_metal, plus rx_space, times 4 rx_digit]),
      seqs [WordB, lit ''xeon'', plus rx_space,
        alts [seqs [lit ''e'', oneof ''357''], lit ''d'', lit ''w'', lit ''gold'', lit ''silver'', lit ''platinum'', lit ''bronze''],
        Star (Cl (\<lambda>c. c = CHR ''-'' \<or> is_rx_space c)), rx_digit],
      seqs [WordB, lit ''epyc'', plus rx_space, times 4 rx_digit],
      word (seqs [lit ''core'', plus rx_space, lit ''i'', oneof ''3579''])]"

definition ramPresentPatterns :: "rx list" where
  "ramPresentPatterns =
     [word (seqs [lit ''ddr'', oneof ''2345'']),
      word rx_dimm,
      word (seqs [plus rx_digit, Star rx_space, lit ''gb'', plus rx_space,
        lits [''ram'', ''memory'', ''ecc'', ''reg'', ''rdimm'']]),
      word (seqs [lits [''ram'', ''memory''], plus (Cl (\<lambda>c. c = CHR '':'' \<or> is_rx_space c)), plus rx_digit,
        Star rx_space, lit ''gb''])]"

definition DetectServerTier :: "string \<Rightarrow> string" where
  "DetectServerTier title =
     (let lower = to_lower title
      in if matches_any lower barebonePatterns then ServerTierBarebone
         else let hasCPU = matches_any lower cpuPresentPatterns;
                  hasRAM = matches_any lower ramPresentPatterns
              in if hasCPU \<and> hasRAM then ServerTierConfigured else ServerTierPartial)"

section \<open>Accessories\<close>

definition compound_techs :: "rx list" where
  "compound_techs = [lit ''sas'', lit ''sata'', lit ''nvme'', seqs [lit ''m'', opt (lit ''.''), lit ''2''],
     lit ''pcie'', lit ''usb'', lit ''power'', lit ''fan'']"

definition compound_nouns :: "rx list" where
  "compound_nouns = [seqs [lit ''cable'', opt (lit ''s'')], lit ''caddy'', lit ''caddies'', lit ''tray'', lit ''trays'',
     lit ''sled'', lit ''sleds'', lit ''backplane'', lit ''riser'', lit ''bezel'', lit ''bracket'']"

definition compoundAccessoryPatterns :: "rx list" where
  "compoundAccessoryPatterns =
     [word (seqs [alts compound_techs, plus rx_space, alts compound_nouns]),
      word (seqs [lits [''nvme'', ''sas'', ''sata''], plus rx_space, lit ''ssd'', plus rx_space,
        lits [''backplane'', ''tray'', ''caddy'']])]"

definition accessoryPatterns :: "rx list" where
  "accessoryPatterns =
     [word (lit ''backplane''),
      word (seqs [opt (seqs [lit ''drive'', plus rx_space]),
        lits [''caddy'', ''caddies'', ''tray'', ''trays'', ''sled'', ''sleds'']]),
      word (seqs [lit ''rail'', opt (lit ''s'')]),
      word (seqs [lit ''bezel'', opt (lit ''s'')]),
      word (seqs [opt (seqs [lit ''mounting'', plus rx_space]), lit ''bracket'', opt (lit ''s'')]),
      word (seqs [lit ''riser'', opt (lit ''s'')]),
      word (seqs [lit ''heat'', opt (Cl (\<lambda>c. is_rx_space c \<or> c = CHR ''-'')), lit ''sink'', opt (lit ''s'')]),
      word (seqs [lit ''fan'', plus rx_space, lits [''assembly'', ''kit'', ''tray'', ''module'']]),
      word (lit ''cable''),
      word (seqs [lit ''gpu'', plus rx_space, lit ''riser''])]"

definition rx_pro_form :: rx where
  "rx_pro_form = word (alts [lit ''tower'', lit ''desktop'', lit ''sff'', lit ''micro'',
     seqs [lit ''mini'', plus rx_space, lit ''tower'']])"

definition rx_dell_pro :: rx where
  "rx_dell_pro = word (seqs [lit ''dell'', plus rx_space, lit ''pro''])"

definition primaryComponentPatterns :: "rx list" where
  "primaryComponentPatterns =
     [word (seqs [lit ''ddr'', oneof ''2345'']),
      word rx_dimm,
      word (lits [''nvme'', ''sas'', ''sata'', ''scsi'']),
      word (lit ''ssd''),
      word (lit ''hdd''),
      word (lits [''xeon'', ''epyc'', ''opteron'', ''threadripper'']),
      word (alts [seqs [plus rx_digit, lit ''gb''], seqs [plus rx_digit, lit ''tb'']]),
      word (seqs [plus rx_digit, lit ''u'']),
      rx_barebone,
      word (lit ''chassis''),
      word (seqs [rx_metal, plus rx_space, times 4 rx_digit]),
      word (lit ''idrac''),
      word (alts [lit ''tesla'', lit ''quadro'', seqs [lit ''rtx'', plus rx_space, lit ''a'', plus rx_digit], lit ''a100'',
        lit ''h100'', lit ''l40'', seqs [lit ''mi'', times 3 rx_digit], seqs [lit ''radeon'', plus rx_space, lit ''pro'']]),
      word (alts [seqs [lit ''precision'', plus rx_space, opt (lit ''t''), times 4 rx_digit],
        seqs [lit ''precision'', plus rx_space, times 4 rx_digit], seqs [lit ''pro'', plus rx_space, lit ''max''],
        lit ''thinkstation'', lit ''workstation'', seqs [lit ''hp'', plus rx_space, lit ''z'', rx_digit]]),
      word (lits [''optiplex'', ''elitedesk'', ''thinkcentre'']),
      seqs [rx_dell_pro, Star rx_any, rx_pro_form],
      seqs [rx_pro_form, Star rx_any, rx_dell_pro]]"

definition IsAccessoryOnly :: "string \<Rightarrow> bool" where
  "IsAccessoryOnly title =
     (let lower = to_lower title
      in if matches_any lower compoundAccessoryPatterns then True
         else if \<not> matches_any lower accessoryPatterns then False
         else if matches_any lower primaryComponentPatterns then False
         else True)"

section \<open>Complete systems\<close>

definition workstationSeriesTokens :: "string list" where
  "workstationSeriesTokens = [''thinkstation'', ''z by hp'', ''z-by-hp'', ''hp z'', ''dell precision'',
     ''precision tower'', ''precision'', ''pro max'']"

definition desktopSeriesTokens :: "string list" where
  "desktopSeriesTokens = [''optiplex'', ''thinkcentre'', ''elitedesk'', ''prodesk'']"

definition desktopFormFactorTokens :: "string list" where
  "desktopFormFactorTokens = [''tower'', ''desktop'', ''sff'', ''micro'', ''mini tower'', ''small form factor'']"

text \<open>An item-specifics map of eBay: strings to strings, a missing key reads as the empty string.\<close>

type_synonym specs = "(string, string) gomap"

definition spec :: "specs \<Rightarrow> string \<Rightarrow> string" where
  "spec m k = (case mget m k of Some v \<Rightarrow> v | None \<Rightarrow> [])"

definition norm_text :: "string \<Rightarrow> string" where "norm_text s = to_lower (trim_space s)"

fun normaliseSpecs_loop :: "specs \<Rightarrow> specs \<Rightarrow> specs" where
  "normaliseSpecs_loop [] out = out"
| "normaliseSpecs_loop ((k, v) # kvs) out = normaliseSpecs_loop kvs (mput (norm_text k) (norm_text v) out)"

definition normaliseSpecs :: "specs \<Rightarrow> specs" where "normaliseSpecs m = normaliseSpecs_loop m []"

definition containsAny :: "string \<Rightarrow> string list \<Rightarrow> bool" where
  "containsAny haystack needles \<longleftrightarrow> list_ex (\<lambda>n. contains_str haystack n) needles"

definition containsToken :: "string \<Rightarrow> string \<Rightarrow> bool" where
  "containsToken haystack needle \<longleftrightarrow> needle \<in> set (str_fields haystack)"

definition DetectSystemTypeFromSpecifics :: "specs \<Rightarrow> component_type" where
  "DetectSystemTypeFromSpecifics specs =
     (if specs = [] then []
      else let norm = normaliseSpecs specs in
        if contains_str (spec norm ''most suitable for'') ''workstation'' then ComponentWorkstation
        else let combined = trim_space (spec norm ''series'' @ '' '' @ spec norm ''product line'') in
          if combined \<noteq> [] \<and> containsAny combined workstationSeriesTokens then ComponentWorkstation
          else if combined \<noteq> [] \<and> containsAny combined desktopSeriesTokens then ComponentDesktop
          else if containsToken combined ''pro''
            \<and> containsAny (spec norm ''form factor'' @ '' '' @ spec norm ''type'') desktopFormFactorTokens
          then ComponentDesktop
          else [])"

definition workstationTitlePrimaries :: "rx list" where
  "workstationTitlePrimaries =
     [word (seqs [lit ''precision'', plus rx_space, opt (lit ''t''), times 4 rx_digit]),
      word (seqs [lit ''dell'', plus rx_space, lit ''pro'', plus rx_space, lit ''max'']),
      word (lit ''thinkstation''),
      word (seqs [lit ''hp'', plus rx_space, lit ''z'', rx_digit])]"

definition desktopTitlePrimaries :: "rx list" where
  "desktopTitlePrimaries = [word (lit ''optiplex''), word (lit ''elitedesk''), word (lit ''thinkcentre''), word (lit ''prodesk'')]"

definition rx_storage :: rx where
  "rx_storage = alts [lit ''ssd'', lit ''hdd'', lit ''nvme'', seqs [lit ''m'', opt (lit ''.''), lit ''2'']]"

definition systemCompletenessSignals :: "rx list" where
  "systemCompletenessSignals =
     [word (seqs [plus rx_digit, Star rx_space, lit ''core'', opt (lit ''s'')]),
      word (seqs [plus rx_digit, lit ''.'', plus rx_digit, Star rx_space, lit ''ghz'']),
      word (seqs [lit ''gold'', plus rx_space, times 4 rx_digit]),
      word (seqs [lit ''silver'', plus rx_space, times 4 rx_digit]),
      word (seqs [lit ''platinum'', plus rx_space, times 4 rx_digit]),
      word (lits [''xeon'', ''epyc'', ''threadripper'']),
      word (seqs [lit ''i'', oneof ''3579'', opt (Cl (\<lambda>c. is_rx_space c \<or> c = CHR ''-'')), times_opt 4 rx_digit,
        opt (Cl is_lower)]),
      word (seqs [lit ''ryzen'', plus rx_space, rx_digit]),
      word (seqs [lit ''win'', opt (lit ''dows''), Star rx_space, lit ''1'', oneof ''01'']),
      word (seqs [lit ''win1'', oneof ''01'']),
      word (seqs [plus rx_digit, lit ''gb'', plus rx_space,
        alts [lit ''ram'', seqs [lit ''ddr'', oneof ''345''], lit ''memory'']]),
      word (seqs [plus rx_digit, lit ''gb'', plus rx_space, rx_storage]),
      word (seqs [plus rx_digit, Star rx_space, lit ''tb'', plus rx_space, rx_storage]),
      word (seqs [lit ''ddr'', oneof ''345'', plus rx_space, plus rx_digit, lit ''gb''])]"

definition DetectSystemTypeFromTitle :: "string \<Rightarrow> component_type" where
  "DetectSystemTypeFromTitle title =
     (let lower = to_lower title
      in if \<not> matches_any lower systemCompletenessSignals then []
         else if matches_any lower workstationTitlePrimaries then ComponentWorkstation
         else if matches_any lower desktopTitlePrimaries then ComponentDesktop
         else [])"

section \<open>Case and context\<close>

lemma is_word_lower_char: "is_word c \<Longrightarrow> is_word (lower_char c)"
  by (cases "is_upper c") (auto simp: is_word_def lower_char_def is_upper_def is_lower_def is_digit_def Let_def)

lemma is_word_lower_iff: "is_word (lower_char c) = is_word c"
proof (cases "is_upper c")
  case True
  then show ?thesis using is_word_lower_char [of c] by (auto simp: is_word_def)
qed (simp add: lower_char_def)

lemma set_off_lower: "set_off u v \<Longrightarrow> set_off (to_lower u) (to_lower v)"
  by (auto simp: set_off_def to_lower_def last_map hd_map is_word_lower_iff)

lemma matches_anyI: "r \<in> set rs \<Longrightarrow> match_string r s \<Longrightarrow> matches_any s rs"
  by (auto simp: matches_any_def list_ex_iff)

section \<open>Properties of the rules\<close>

text \<open>The phrases that mark a server as sold without parts.\<close>

definition bare_words :: "string list" where "bare_words = [''barebone'', ''barbone'']"
definition negations :: "string list" where "negations = [''no'', ''w/o'', ''without'', ''no/'']"
definition part_words :: "string list" where
  "part_words = [''cpu'', ''ram'', ''memory'', ''hd'', ''hdd'', ''hds'', ''hdds'', ''drive'', ''drives'', ''os'']"

definition barebone_phrase :: "string \<Rightarrow> bool" where
  "barebone_phrase w \<longleftrightarrow> w = ''cto'' \<or> w \<in> set bare_words \<or>
     (\<exists>neg sp part. w = neg @ sp @ part \<and> neg \<in> set negations \<and> (\<forall>c \<in> set sp. is_rx_space c) \<and>
        part \<in> set part_words)"

text \<open>A list of words that a plain pattern matches, each starting and ending with a word character.\<close>

definition words_of :: "rx \<Rightarrow> string list \<Rightarrow> bool" where
  "words_of r ws \<longleftrightarrow> plain r \<and>
     list_all (\<lambda>w. full_match r w \<and> w \<noteq> [] \<and> is_word (hd w)) ws"

lemma words_ofD: "words_of r ws \<Longrightarrow> w \<in> set ws \<Longrightarrow> tok r w \<and> w \<noteq> [] \<and> is_word (hd w)"
  by (simp add: words_of_def list_all_iff tok_full)

definition rx_negation :: rx where
  "rx_negation = alts [lit ''no'', lit ''w/o'', lit ''without'', seqs [lit ''no'', opt (lit ''/'')]]"

definition rx_part :: rx where
  "rx_part = alts [lit ''cpu'', lit ''ram'', lit ''memory'', seqs [lit ''hd'', opt (lit ''d''), opt (lit ''s'')],
     seqs [lit ''drive'', opt (lit ''s'')], lit ''os'']"

lemma barebone_vocabulary:
  "words_of (seqs [lit ''bar'', opt (lit ''e''), lit ''bone'']) bare_words" "words_of (lit ''cto'') [''cto'']"
  "words_of rx_negation negations" "words_of rx_part part_words"
  "list_all (\<lambda>w. is_word (last w)) (''cto'' # bare_words @ part_words)"
  by code_simp+

lemma word_phrase:
  assumes "word r \<in> set rs" "tok r w" "w \<noteq> []" "is_word (hd w)" "is_word (last w)" "set_off u v"
  shows "matches_any (u @ w @ v) rs"
  using assms by (blast intro: matches_anyI match_word)

lemma barebone_phrase_match:
  assumes "barebone_phrase w" "set_off u v" shows "matches_any (u @ w @ v) barebonePatterns"
proof -
  have lasts: "is_word (last w)" if "w \<in> set (''cto'' # bare_words @ part_words)" for w
    using barebone_vocabulary(5) that by (simp only: list_all_iff)
  consider (cto) "w = ''cto''" | (bare) "w \<in> set bare_words"
    | (part) neg sp part where "w = neg @ sp @ part" "neg \<in> set negations" "\<forall>c \<in> set sp. is_rx_space c"
      "part \<in> set part_words"
    using assms(1) unfolding barebone_phrase_def by blast
  then show ?thesis
  proof cases
    case cto
    from words_ofD [OF barebone_vocabulary(2), of w] lasts [of w] cto show ?thesis
      by (intro word_phrase [OF _ _ _ _ _ assms(2), of "lit ''cto''"]) (simp_all del: lit.simps add: barebonePatterns_def)
  next
    case bare
    with words_ofD [OF barebone_vocabulary(1)] lasts [of w] show ?thesis
      by (intro word_phrase [OF _ _ _ _ _ assms(2), of "seqs [lit ''bar'', opt (lit ''e''), lit ''bone'']"])
        (simp_all del: lit.simps seqs.simps add: barebonePatterns_def rx_barebone_def)
  next
    case part
    note neg = words_ofD [OF barebone_vocabulary(3) part(2)] and pw = words_ofD [OF barebone_vocabulary(4) part(4)]
    have "tok (seqs [rx_negation, Star rx_space, rx_part]) w"
      using tok_cat [OF conjunct1 [OF neg] tok_cat [OF tok_star_class [OF part(3)] tok_cat [OF conjunct1 [OF pw] tok_eps]]]
      unfolding part(1) seqs.simps rx_space_def by simp
    moreover have "w \<noteq> []" "is_word (hd w)" "is_word (last w)"
      using neg pw lasts [of part] part by auto
    ultimately show ?thesis
      by (intro word_phrase [OF _ _ _ _ _ assms(2), of "seqs [rx_negation, Star rx_space, rx_part]"])
        (simp_all del: lit.simps seqs.simps add: barebonePatterns_def rx_negation_def rx_part_def)
  qed
qed

text \<open>A server sold without parts is never priced against configured ones: a title that says
  so anywhere, in any case ("CTO", "barebone", "NO CPU", "w/o drives", ...), is in the barebone
  tier, whatever processors and memory the rest of the title names.\<close>

theorem barebone_wins:
  assumes "barebone_phrase (to_lower w)" and "set_off u v"
  shows "DetectServerTier (u @ w @ v) = ServerTierBarebone"
  using barebone_phrase_match [OF assms(1) set_off_lower [OF assms(2)]]
  by (simp add: DetectServerTier_def to_lower_append)

theorem barebone_wins_witness:
  "DetectServerTier ''Dell R740 Xeon Gold 5118 64GB DDR4 - No HDDs, rails'' = ServerTierBarebone"
proof -
  have "barebone_phrase ''no hdds''"
    unfolding barebone_phrase_def
    by (intro disjI2 exI [of _ "''no''"] exI [of _ "'' ''"] exI [of _ "''hdds''"])
      (simp add: is_rx_space_def negations_def part_words_def)
  moreover have "to_lower ''No HDDs'' = ''no hdds''" by code_simp
  moreover have "set_off ''Dell R740 Xeon Gold 5118 64GB DDR4 - '' '', rails''"
    by code_simp
  ultimately show ?thesis
    using barebone_wins [of "''No HDDs''" "''Dell R740 Xeon Gold 5118 64GB DDR4 - ''" "'', rails''"] by simp
qed

definition tech_words :: "string list" where
  "tech_words = [''sas'', ''sata'', ''nvme'', ''m.2'', ''m2'', ''pcie'', ''usb'', ''power'', ''fan'']"
definition noun_words :: "string list" where
  "noun_words = [''cable'', ''cables'', ''caddy'', ''caddies'', ''tray'', ''trays'', ''sled'', ''sleds'', ''backplane'',
     ''riser'', ''bezel'', ''bracket'']"

lemma compound_vocabulary:
  "words_of (alts compound_techs) tech_words" "words_of (alts compound_nouns) noun_words"
  "list_all (\<lambda>w. is_word (last w)) noun_words"
  by code_simp+

text \<open>A compound accessory phrase decides: "SAS cable", "NVMe trays", "M.2 riser" and the like,
  set off anywhere in a title and in any case, make the listing an accessory even when the title
  also names processors, memory, drives or a whole server.\<close>

theorem compound_accessory_wins:
  assumes "to_lower tech \<in> set tech_words" and "to_lower noun \<in> set noun_words"
    and "sp \<noteq> []" and "\<forall>c \<in> set sp. is_rx_space c" and "set_off u v"
  shows "IsAccessoryOnly (u @ tech @ sp @ noun @ v)"
proof -
  define w where "w = to_lower tech @ sp @ to_lower noun"
  note tech = words_ofD [OF compound_vocabulary(1) assms(1)] and noun = words_ofD [OF compound_vocabulary(2) assms(2)]
  have sp: "to_lower sp = sp"
    using assms(4) by (auto simp: to_lower_def is_rx_space_def lower_char_def is_upper_def Let_def intro!: map_idI)
  have "tok (seqs [alts compound_techs, plus rx_space, alts compound_nouns]) w"
    using tok_cat [OF conjunct1 [OF tech] tok_cat [OF tok_plus_class [OF assms(3,4)]
      tok_cat [OF conjunct1 [OF noun] tok_eps]]]
    unfolding w_def seqs.simps rx_space_def by simp
  moreover have "w \<noteq> []" "is_word (hd w)" "is_word (last w)"
    using tech noun compound_vocabulary(3) assms(2) by (auto simp: w_def list_all_iff)
  ultimately have "matches_any (to_lower u @ w @ to_lower v) compoundAccessoryPatterns"
    by (intro word_phrase [OF _ _ _ _ _ set_off_lower [OF assms(5)],
          of "seqs [alts compound_techs, plus rx_space, alts compound_nouns]"])
      (simp_all del: lit.simps seqs.simps alts.simps add: compoundAccessoryPatterns_def)
  then show ?thesis by (simp add: IsAccessoryOnly_def to_lower_append w_def sp)
qed

theorem compound_accessory_wins_witness:
  "IsAccessoryOnly ''Dell Poweredge R740XD 2x Xeon 64GB SAS Cable 0YPNRC''"
proof -
  have "to_lower ''SAS'' \<in> set tech_words" "to_lower ''Cable'' \<in> set noun_words"
    "set_off ''Dell Poweredge R740XD 2x Xeon 64GB '' '' 0YPNRC''" by code_simp+
  then show ?thesis
    using compound_accessory_wins [of "''SAS''" "''Cable''" "'' ''" "''Dell Poweredge R740XD 2x Xeon 64GB ''" "'' 0YPNRC''"]
    by (simp add: is_rx_space_def)
qed

section \<open>Item specifics\<close>

lemma normaliseSpecs_loop_get:
  "distinct (map (norm_text \<circ> fst) m) \<Longrightarrow>
   mget (normaliseSpecs_loop m out) k = (case List.find (\<lambda>(k', v). norm_text k' = k) m of
      Some (k', v) \<Rightarrow> Some (norm_text v) | None \<Rightarrow> mget out k)"
proof (induction m out rule: normaliseSpecs_loop.induct)
  case (2 k' v m out)
  then have d: "distinct (map (norm_text \<circ> fst) m)" and ni: "norm_text k' \<notin> (norm_text \<circ> fst) ` set m" by (simp_all add: comp_def)
  show ?case
  proof (cases "norm_text k' = k")
    case True
    then have "List.find (\<lambda>(k', v). norm_text k' = k) m = None"
      using ni by (force simp: find_None_iff)
    then show ?thesis using "2.IH" [OF d] True by simp
  next
    case False
    then show ?thesis using "2.IH" [OF d] by (auto split: option.split)
  qed
qed simp

lemma find_unique:
  assumes "distinct (map f m)" and "set m = set m'" and "distinct (map f m')"
  shows "List.find (\<lambda>x. f x = k) m = List.find (\<lambda>x. f x = k) m'"
proof -
  have "List.find (\<lambda>x. f x = k) l = Some x \<longleftrightarrow> x \<in> set l \<and> f x = k" if "distinct (map f l)" for l x
    using that by (induction l) (auto simp: image_iff)
  then have "List.find (\<lambda>x. f x = k) m = Some x \<longleftrightarrow> List.find (\<lambda>x. f x = k) m' = Some x" for x
    using assms by simp
  then show ?thesis by (metis not_Some_eq)
qed

lemma normaliseSpecs_order:
  assumes "distinct (map (norm_text \<circ> fst) m)" "distinct (map (norm_text \<circ> fst) m')" "set m = set m'"
  shows "map_eq (normaliseSpecs m) (normaliseSpecs m')"
proof (rule map_eqI)
  fix k
  have "List.find (\<lambda>(k', v). norm_text k' = k) m = List.find (\<lambda>(k', v). norm_text k' = k) m'"
    using find_unique [OF assms(1,3,2), of k] by (simp add: case_prod_unfold)
  then show "mget (normaliseSpecs m) k = mget (normaliseSpecs m') k"
    using assms(1,2) by (simp add: normaliseSpecs_def normaliseSpecs_loop_get)
qed

text \<open>The classification by item specifics does not depend on the order in which Go visits the
  map, as long as no two keys agree after lower-casing and trimming.\<close>

theorem specifics_order_independent:
  assumes "distinct (map (norm_text \<circ> fst) m)" and "distinct (map (norm_text \<circ> fst) m')" and "set m = set m'"
  shows "DetectSystemTypeFromSpecifics m = DetectSystemTypeFromSpecifics m'"
proof -
  have "spec (normaliseSpecs m) = spec (normaliseSpecs m')"
    using map_eqD [OF normaliseSpecs_order [OF assms]] by (simp add: spec_def fun_eq_iff)
  moreover have "m = [] \<longleftrightarrow> m' = []" using assms(3) by (metis set_empty2)
  ultimately show ?thesis by (simp only: DetectSystemTypeFromSpecifics_def Let_def)
qed

theorem specifics_order_independent_witness:
  "DetectSystemTypeFromSpecifics [(''Form Factor'', ''SFF''), ('' series'', ''Dell Pro'')] =
   DetectSystemTypeFromSpecifics [('' series'', ''Dell Pro''), (''Form Factor'', ''SFF'')]"
  by (rule specifics_order_independent) (simp_all add: norm_text_def trim_space_def to_lower_def lower_char_def
      is_upper_def is_space_def insert_commute)

end
