(* ===== verification/Validate.thy ===== *)
theory Validate
  imports Attributes
begin

text \<open>
  Validation of extracted attributes (\<open>pkg/extract/validate.go\<close>). An error carries the
  sentinel and the field its message starts with; None is the nil error. \<open>validateCommon\<close>
  also rewrites the condition in place, so it returns the map. The four check shapes the
  file repeats are definitions of their own; a function runs its checks in the order of
  the code and returns the first error.

  A schema states the rules of each component type as a table; the validator is proved to
  report the first violated entry of the table.
\<close>

datatype verr = MissingField string | OutOfRange string | InvalidEnum string

section \<open>Check shapes\<close>

text \<open>\<open>if err := a; err != nil { return err }; return b\<close>\<close>

definition then_check :: "verr option \<Rightarrow> verr option \<Rightarrow> verr option" where
  "then_check a b = (case a of Some e \<Rightarrow> Some e | None \<Rightarrow> b)"

definition int_in :: "string \<Rightarrow> int \<Rightarrow> int \<Rightarrow> int \<Rightarrow> verr option" where
  "int_in key lo hi n = (if n < lo \<or> n > hi then Some (OutOfRange key) else None)"

definition requiredInt :: "attrs \<Rightarrow> string \<Rightarrow> int \<Rightarrow> int \<Rightarrow> verr option" where
  "requiredInt attrs key lo hi = (case attrInt attrs key of
     None \<Rightarrow> Some (MissingField key) | Some n \<Rightarrow> int_in key lo hi n)"

definition optionalInt :: "attrs \<Rightarrow> string \<Rightarrow> int \<Rightarrow> int \<Rightarrow> verr option" where
  "optionalInt attrs key lo hi = (case attrInt attrs key of None \<Rightarrow> None | Some n \<Rightarrow> int_in key lo hi n)"

definition requiredEnum :: "attrs \<Rightarrow> string \<Rightarrow> string list \<Rightarrow> verr option" where
  "requiredEnum attrs key valid = (case attrString attrs key of
     None \<Rightarrow> Some (MissingField key)
   | Some s \<Rightarrow> if s \<in> set valid then None else Some (InvalidEnum key))"

definition optionalEnum :: "attrs \<Rightarrow> string \<Rightarrow> string list \<Rightarrow> verr option" where
  "optionalEnum attrs key valid = (case attrString attrs key of
     None \<Rightarrow> None | Some s \<Rightarrow> if s \<in> set valid then None else Some (InvalidEnum key))"

definition requiredText :: "attrs \<Rightarrow> string \<Rightarrow> verr option" where
  "requiredText attrs key = (case attrString attrs key of
     None \<Rightarrow> Some (MissingField key) | Some s \<Rightarrow> if s = [] then Some (MissingField key) else None)"

section \<open>The validators\<close>

definition validateCommon :: "attrs \<Rightarrow> attrs \<times> verr option" where
  "validateCommon attrs = (case attrString attrs ''condition'' of
     None \<Rightarrow> (attrs, Some (MissingField ''condition''))
   | Some cond \<Rightarrow>
       let normalized = NormalizeCondition cond in
       if normalized \<notin> set validConditions then (attrs, Some (InvalidEnum ''condition''))
       else let attrs = mput ''condition'' (JStr normalized) attrs in
         (attrs, then_check
           (case attrFloat attrs ''confidence'' of
              None \<Rightarrow> Some (MissingField ''confidence'')
            | Some conf \<Rightarrow> if flt conf (Fin 0) \<or> flt (Fin 1) conf then Some (OutOfRange ''confidence'') else None)
           (case attrInt attrs ''quantity'' of
              None \<Rightarrow> None
            | Some qty \<Rightarrow> if qty < 1 then Some (OutOfRange ''quantity'') else None)))"

definition validRAMGenerations :: "string list" where
  "validRAMGenerations = [''DDR3'', ''DDR4'', ''DDR5'']"

definition validateRAM :: "attrs \<Rightarrow> verr option" where
  "validateRAM attrs =
     then_check (requiredInt attrs ''capacity_gb'' 1 1024)
    (then_check (requiredEnum attrs ''generation'' validRAMGenerations)
     (optionalInt attrs ''speed_mhz'' 800 8400))"

definition validDriveInterfaces :: "string list" where
  "validDriveInterfaces = [''SAS'', ''SATA'', ''NVMe'', ''U.2'']"
definition validDriveFormFactor :: "string list" where "validDriveFormFactor = [''2.5'', ''3.5'']"
definition validDriveTypes :: "string list" where "validDriveTypes = [''SSD'', ''HDD'']"

definition validateDrive :: "attrs \<Rightarrow> verr option" where
  "validateDrive attrs =
     then_check (requiredText attrs ''capacity'')
    (then_check (requiredEnum attrs ''interface'' validDriveInterfaces)
    (then_check (optionalEnum attrs ''form_factor'' validDriveFormFactor)
     (optionalEnum attrs ''type'' validDriveTypes)))"

definition validServerFormFactors :: "string list" where
  "validServerFormFactors = [''1U'', ''2U'', ''3U'', ''4U'', ''5U'', ''6U'', ''7U'', ''8U'', ''10U'', ''tower'']"

definition validateServer :: "attrs \<Rightarrow> verr option" where
  "validateServer attrs =
     then_check (requiredText attrs ''manufacturer'')
    (then_check (requiredText attrs ''model'')
     (optionalEnum attrs ''form_factor'' validServerFormFactors))"

definition validCPUManufacturers :: "string list" where "validCPUManufacturers = [''Intel'', ''AMD'']"
definition validCPUFamilies :: "string list" where "validCPUFamilies = [''Xeon'', ''EPYC'']"

definition validateCPURequired :: "attrs \<Rightarrow> verr option" where
  "validateCPURequired attrs =
     then_check (requiredEnum attrs ''manufacturer'' validCPUManufacturers)
    (then_check (requiredEnum attrs ''family'' validCPUFamilies)
     (requiredText attrs ''model''))"

definition validateCPUOptional :: "attrs \<Rightarrow> verr option" where
  "validateCPUOptional attrs =
     then_check (optionalInt attrs ''cores'' 1 256)
    (then_check
      (case attrFloat attrs ''base_clock_ghz'' of None \<Rightarrow> None
       | Some clk \<Rightarrow> if flt clk (fl (1 / 2)) \<or> flt (Fin 6) clk then Some (OutOfRange ''base_clock_ghz'') else None)
     (optionalInt attrs ''tdp_watts'' 10 500))"

definition validateCPU :: "attrs \<Rightarrow> verr option" where
  "validateCPU attrs = then_check (validateCPURequired attrs) (validateCPUOptional attrs)"

definition validNICSpeeds :: "string list" where
  "validNICSpeeds = [''1GbE'', ''10GbE'', ''25GbE'', ''40GbE'', ''100GbE'']"
definition validNICPortTypes :: "string list" where
  "validNICPortTypes = [''SFP+'', ''SFP28'', ''QSFP+'', ''QSFP28'', ''RJ45'', ''BaseT'']"

definition validateNIC :: "attrs \<Rightarrow> verr option" where
  "validateNIC attrs =
     then_check (requiredEnum attrs ''speed'' validNICSpeeds)
    (then_check (requiredInt attrs ''port_count'' 1 8)
     (optionalEnum attrs ''port_type'' validNICPortTypes))"

definition validGPUManufacturers :: "string list" where
  "validGPUManufacturers = [''NVIDIA'', ''AMD'', ''Intel'']"
definition validGPUMemoryTypes :: "string list" where
  "validGPUMemoryTypes = [''GDDR5'', ''GDDR6'', ''GDDR6X'', ''HBM2'', ''HBM2e'', ''HBM3'']"
definition validGPUInterfaces :: "string list" where
  "validGPUInterfaces = [''PCIe 3.0 x16'', ''PCIe 4.0 x16'', ''PCIe 5.0 x16'', ''SXM2'', ''SXM4'', ''SXM5'']"
definition validGPUFormFactors :: "string list" where
  "validGPUFormFactors = [''single_slot'', ''dual_slot'', ''triple_slot'', ''FHFL'', ''HHHL'', ''LP'']"
definition validGPUCoolings :: "string list" where "validGPUCoolings = [''passive'', ''active'', ''blower'']"

definition validateGPURequired :: "attrs \<Rightarrow> verr option" where
  "validateGPURequired attrs =
     then_check (requiredEnum attrs ''manufacturer'' validGPUManufacturers)
    (then_check (requiredText attrs ''model'')
     (requiredInt attrs ''vram_gb'' 1 256))"

definition validateGPUOptional :: "attrs \<Rightarrow> verr option" where
  "validateGPUOptional attrs =
     then_check (optionalEnum attrs ''memory_type'' validGPUMemoryTypes)
    (then_check (optionalEnum attrs ''interface'' validGPUInterfaces)
    (then_check (optionalInt attrs ''tdp_watts'' 15 700)
    (then_check (optionalEnum attrs ''form_factor'' validGPUFormFactors)
     (optionalEnum attrs ''cooling'' validGPUCoolings))))"

definition validateGPU :: "attrs \<Rightarrow> verr option" where
  "validateGPU attrs = then_check (validateGPURequired attrs) (validateGPUOptional attrs)"

definition validSystemFormFactors :: "string list" where
  "validSystemFormFactors = [''tower'', ''sff'', ''micro'', ''mini'']"

definition validateSystemAttrs :: "attrs \<Rightarrow> verr option" where
  "validateSystemAttrs attrs =
     then_check (requiredText attrs ''vendor'')
    (then_check (requiredText attrs ''model'')
    (then_check (optionalEnum attrs ''form_factor'' validSystemFormFactors)
    (then_check (optionalInt attrs ''ram_gb'' 1 8192)
     (optionalInt attrs ''storage_gb'' 1 1048576))))"

definition validateWorkstation :: "attrs \<Rightarrow> verr option" where
  "validateWorkstation attrs = validateSystemAttrs attrs"

definition validateDesktop :: "attrs \<Rightarrow> verr option" where
  "validateDesktop attrs = validateSystemAttrs attrs"

definition validate_type :: "component_type \<Rightarrow> attrs \<Rightarrow> verr option" where
  "validate_type componentType attrs =
     (if componentType = ComponentRAM then validateRAM attrs
      else if componentType = ComponentDrive then validateDrive attrs
      else if componentType = ComponentServer then validateServer attrs
      else if componentType = ComponentCPU then validateCPU attrs
      else if componentType = ComponentNIC then validateNIC attrs
      else if componentType = ComponentGPU then validateGPU attrs
      else if componentType = ComponentWorkstation then validateWorkstation attrs
      else if componentType = ComponentDesktop then validateDesktop attrs
      else None)"

definition ValidateExtraction :: "component_type \<Rightarrow> attrs \<Rightarrow> attrs \<times> verr option" where
  "ValidateExtraction componentType attrs = (case validateCommon attrs of
     (attrs, Some err) \<Rightarrow> (attrs, Some err)
   | (attrs, None) \<Rightarrow> (attrs, validate_type componentType attrs))"

section \<open>The schema\<close>

datatype rule =
    ReqText
  | ReqEnum "string list"
  | OptEnum "string list"
  | ReqInt int int
  | OptInt int int
  | ReqFloat rat rat
  | OptFloat rat rat
  | OptPositive

definition float_in :: "rat \<Rightarrow> rat \<Rightarrow> f64 \<Rightarrow> bool" where
  "float_in lo hi x \<longleftrightarrow> \<not> flt x (Fin lo) \<and> \<not> flt (Fin hi) x"

text \<open>The violation of one rule by the value of one attribute, if any.\<close>

definition allowed :: "('a \<Rightarrow> bool) \<Rightarrow> verr \<Rightarrow> verr option \<Rightarrow> 'a option \<Rightarrow> verr option" where
  "allowed P bad missing x = (case x of None \<Rightarrow> missing | Some v \<Rightarrow> if P v then None else Some bad)"

fun violation :: "attrs \<Rightarrow> string \<times> rule \<Rightarrow> verr option" where
  "violation m (k, ReqText) = allowed (\<lambda>s. s \<noteq> []) (MissingField k) (Some (MissingField k)) (attrString m k)"
| "violation m (k, ReqEnum vs) = allowed (\<lambda>s. s \<in> set vs) (InvalidEnum k) (Some (MissingField k)) (attrString m k)"
| "violation m (k, OptEnum vs) = allowed (\<lambda>s. s \<in> set vs) (InvalidEnum k) None (attrString m k)"
| "violation m (k, ReqInt lo hi) = allowed (\<lambda>n. lo \<le> n \<and> n \<le> hi) (OutOfRange k) (Some (MissingField k)) (attrInt m k)"
| "violation m (k, OptInt lo hi) = allowed (\<lambda>n. lo \<le> n \<and> n \<le> hi) (OutOfRange k) None (attrInt m k)"
| "violation m (k, ReqFloat lo hi) = allowed (float_in lo hi) (OutOfRange k) (Some (MissingField k)) (attrFloat m k)"
| "violation m (k, OptFloat lo hi) = allowed (float_in lo hi) (OutOfRange k) None (attrFloat m k)"
| "violation m (k, OptPositive) = allowed (\<lambda>n. 1 \<le> n) (OutOfRange k) None (attrInt m k)"

definition common_schema :: "(string \<times> rule) list" where
  "common_schema = [(''confidence'', ReqFloat 0 1), (''quantity'', OptPositive)]"

definition system_schema :: "(string \<times> rule) list" where
  "system_schema = [(''vendor'', ReqText), (''model'', ReqText), (''form_factor'', OptEnum validSystemFormFactors),
     (''ram_gb'', OptInt 1 8192), (''storage_gb'', OptInt 1 1048576)]"

definition schemas :: "(component_type \<times> (string \<times> rule) list) list" where
  "schemas =
    [(''ram'', [(''capacity_gb'', ReqInt 1 1024), (''generation'', ReqEnum validRAMGenerations),
        (''speed_mhz'', OptInt 800 8400)]),
     (''drive'', [(''capacity'', ReqText), (''interface'', ReqEnum validDriveInterfaces),
        (''form_factor'', OptEnum validDriveFormFactor), (''type'', OptEnum validDriveTypes)]),
     (''server'', [(''manufacturer'', ReqText), (''model'', ReqText), (''form_factor'', OptEnum validServerFormFactors)]),
     (''cpu'', [(''manufacturer'', ReqEnum validCPUManufacturers), (''family'', ReqEnum validCPUFamilies),
        (''model'', ReqText), (''cores'', OptInt 1 256), (''base_clock_ghz'', OptFloat (1 / 2) 6),
        (''tdp_watts'', OptInt 10 500)]),
     (''nic'', [(''speed'', ReqEnum validNICSpeeds), (''port_count'', ReqInt 1 8),
        (''port_type'', OptEnum validNICPortTypes)]),
     (''gpu'', [(''manufacturer'', ReqEnum validGPUManufacturers), (''model'', ReqText), (''vram_gb'', ReqInt 1 256),
        (''memory_type'', OptEnum validGPUMemoryTypes), (''interface'', OptEnum validGPUInterfaces),
        (''tdp_watts'', OptInt 15 700), (''form_factor'', OptEnum validGPUFormFactors),
        (''cooling'', OptEnum validGPUCoolings)]),
     (''workstation'', system_schema), (''desktop'', system_schema)]"

definition schema :: "component_type \<Rightarrow> (string \<times> rule) list" where
  "schema t = (case map_of schemas t of Some s \<Rightarrow> s | None \<Rightarrow> [])"

fun first_violation :: "attrs \<Rightarrow> (string \<times> rule) list \<Rightarrow> verr option" where
  "first_violation m [] = None"
| "first_violation m (r # rs) = (case violation m r of Some e \<Rightarrow> Some e | None \<Rightarrow> first_violation m rs)"

lemma first_violation_None: "first_violation m rs = None \<longleftrightarrow> list_all (\<lambda>r. violation m r = None) rs"
  by (induction rs) (auto split: option.splits)

lemma first_violation_append:
  "first_violation m (rs @ ss) = then_check (first_violation m rs) (first_violation m ss)"
  by (induction rs) (auto simp: then_check_def split: option.splits)

lemma check_violation [simp]:
  "requiredInt m k lo hi = violation m (k, ReqInt lo hi)"
  "optionalInt m k lo hi = violation m (k, OptInt lo hi)"
  "requiredEnum m k vs = violation m (k, ReqEnum vs)"
  "optionalEnum m k vs = violation m (k, OptEnum vs)"
  "requiredText m k = violation m (k, ReqText)"
  by (auto simp: requiredInt_def optionalInt_def requiredEnum_def optionalEnum_def requiredText_def int_in_def allowed_def
      split: option.splits)

lemma case_option_id: "(case x of None \<Rightarrow> None | Some e \<Rightarrow> Some e) = x"
  by (simp split: option.split)

lemma then_check_assoc: "then_check (then_check a b) c = then_check a (then_check b c)"
  by (simp add: then_check_def split: option.split)

lemma fl_half: "fl (1 / 2) = Fin (1 / 2)"
  by code_simp

lemma base_clock_violation:
  "(case attrFloat m k of None \<Rightarrow> None
    | Some clk \<Rightarrow> if flt clk (fl (1 / 2)) \<or> flt (Fin 6) clk then Some (OutOfRange k) else None)
   = violation m (k, OptFloat (1 / 2) 6)"
  by (auto simp: float_in_def fl_half allowed_def split: option.split)

lemmas validator_defs = validateRAM_def validateDrive_def validateServer_def validateCPU_def
  validateCPURequired_def validateCPUOptional_def validateNIC_def validateGPU_def validateGPURequired_def
  validateGPUOptional_def validateWorkstation_def validateDesktop_def validateSystemAttrs_def

lemma validate_type_schema: "validate_type t m = first_violation m (schema t)"
  unfolding validate_type_def schema_def schemas_def system_schema_def component_defs validator_defs
    base_clock_violation check_violation then_check_assoc
  by (simp del: violation.simps add: then_check_def case_option_id cong: option.case_cong)

text \<open>The common checks: the condition first, then the common schema on the rewritten map. The
  enum error for the condition never occurs, because every text normalises to a valid one.\<close>

lemma validateCommon_schema:
  "validateCommon m = (case attrString m ''condition'' of
     None \<Rightarrow> (m, Some (MissingField ''condition''))
   | Some c \<Rightarrow> let m' = mput ''condition'' (JStr (NormalizeCondition c)) m
              in (m', first_violation m' common_schema))"
proof -
  have "(case attrFloat m' k of None \<Rightarrow> Some (MissingField k)
        | Some conf \<Rightarrow> if flt conf (Fin 0) \<or> flt (Fin 1) conf then Some (OutOfRange k) else None)
      = violation m' (k, ReqFloat 0 1)" for m' k
    by (auto simp: float_in_def allowed_def split: option.split)
  moreover have "(case attrInt m' k of None \<Rightarrow> None | Some qty \<Rightarrow> if qty < 1 then Some (OutOfRange k) else None)
      = violation m' (k, OptPositive)" for m' k
    by (auto simp: allowed_def split: option.split)
  ultimately show ?thesis
    by (simp add: validateCommon_def Let_def NormalizeCondition_valid common_schema_def then_check_def
        case_option_id del: violation.simps attrInt_mput attrFloat_mput attrString_mput split: option.split)
qed

lemma ValidateExtraction_schema_eq:
  "ValidateExtraction t m = (case attrString m ''condition'' of
     None \<Rightarrow> (m, Some (MissingField ''condition''))
   | Some c \<Rightarrow> let m' = mput ''condition'' (JStr (NormalizeCondition c)) m
              in (m', first_violation m' (common_schema @ schema t)))"
  by (auto simp: ValidateExtraction_def validateCommon_schema validate_type_schema first_violation_append
      then_check_def Let_def split: option.split)

text \<open>C22. The validator is its schema: it reports exactly the first violated rule of the component
  type's table, in the table's order, after the condition and the common rules; without a
  violation it succeeds, and the only attribute it rewrites is the condition.\<close>

theorem ValidateExtraction_schema:
  "ValidateExtraction t m = (case attrString m ''condition'' of
     None \<Rightarrow> (m, Some (MissingField ''condition''))
   | Some c \<Rightarrow> let m' = mput ''condition'' (JStr (NormalizeCondition c)) m
              in (m', first_violation m' (common_schema @ schema t)))"
  by (rule ValidateExtraction_schema_eq)

definition well_formed :: "component_type \<Rightarrow> attrs \<Rightarrow> bool" where
  "well_formed t m \<longleftrightarrow> attrString m ''condition'' \<noteq> None \<and>
     list_all (\<lambda>r. violation m r = None) (common_schema @ schema t)"

lemma schema_no_condition: "''condition'' \<notin> fst ` set (common_schema @ schema t)"
proof (cases "map_of schemas t")
  case (Some rs)
  have "list_all (\<lambda>(t, s). ''condition'' \<notin> fst ` set s) schemas"
    by (simp add: schemas_def system_schema_def)
  then have "''condition'' \<notin> fst ` set rs"
    using map_of_SomeD [OF Some] unfolding list_all_iff by (auto dest!: bspec)
  then show ?thesis by (auto simp: common_schema_def schema_def Some)
qed (simp add: common_schema_def schema_def)

lemma violation_other: "k \<noteq> fst r \<Longrightarrow> violation (mput k v m) r = violation m r"
  by (cases "(m, r)" rule: violation.cases) simp_all

lemma violations_condition:
  "list_all (\<lambda>r. violation (mput ''condition'' v m) r = None) (common_schema @ schema t) =
   list_all (\<lambda>r. violation m r = None) (common_schema @ schema t)"
proof (rule list.pred_cong [OF refl])
  fix r assume "r \<in> set (common_schema @ schema t)"
  then have "''condition'' \<noteq> fst r" using schema_no_condition [of t] by force
  then show "(violation (mput ''condition'' v m) r = None) = (violation m r = None)"
    by (simp add: violation_other)
qed

lemma ValidateExtraction_None: "snd (ValidateExtraction t m) = None \<longleftrightarrow> well_formed t m"
  using violations_condition [of _ m t]
  by (auto simp: ValidateExtraction_schema_eq well_formed_def first_violation_None Let_def split: option.split)

lemma ValidateExtraction_again:
  assumes "ValidateExtraction t m = (m', None)" shows "well_formed t m'"
proof -
  have "well_formed t m" using ValidateExtraction_None [of t m] assms by simp
  moreover obtain c where "m' = mput ''condition'' (JStr (NormalizeCondition c)) m"
    using assms by (auto simp: ValidateExtraction_schema_eq Let_def split: option.splits)
  ultimately show ?thesis using violations_condition [of _ m t] by (simp add: well_formed_def)
qed

text \<open>Validation succeeds exactly on the well-formed maps, and it is stable: the map it returns
  on success validates again, to the same map.\<close>

theorem ValidateExtraction_iff:
  "(snd (ValidateExtraction t m) = None \<longleftrightarrow> well_formed t m) \<and>
   (ValidateExtraction t m = (m', None) \<longrightarrow>
      (\<exists>m''. ValidateExtraction t m' = (m'', None) \<and> map_eq m'' m'))"
proof -
  have "\<exists>m''. ValidateExtraction t m' = (m'', None) \<and> map_eq m'' m'"
    if v: "ValidateExtraction t m = (m', None)"
  proof -
    have wf: "well_formed t m" using ValidateExtraction_None [of t m] v by simp
    obtain c where m': "m' = mput ''condition'' (JStr (NormalizeCondition c)) m"
      using v by (auto simp: ValidateExtraction_schema_eq Let_def split: option.splits)
    then have c': "attrString m' ''condition'' = Some (NormalizeCondition c)" by simp
    have "well_formed t m'"
      using wf violations_condition [of _ m t] by (simp add: well_formed_def m')
    then have "snd (ValidateExtraction t m') = None" by (simp add: ValidateExtraction_None)
    moreover have "fst (ValidateExtraction t m') = mput ''condition'' (JStr (NormalizeCondition c)) m'"
      using c' by (simp add: ValidateExtraction_schema_eq Let_def NormalizeCondition_fixed [OF NormalizeCondition_valid])
    moreover have "map_eq (mput ''condition'' (JStr (NormalizeCondition c)) m') m'"
      by (simp add: map_eq_def m')
    ultimately show ?thesis by (metis prod.collapse)
  qed
  then show ?thesis by (simp add: ValidateExtraction_None)
qed

definition sample_ram_attrs :: attrs where
  "sample_ram_attrs = [(''condition'', JStr ''Used''), (''confidence'', JNum (fl (9 / 10))), (''quantity'', JInt 4),
     (''capacity_gb'', JNum (Fin 32)), (''generation'', JStr ''DDR4''), (''speed_mhz'', JNull)]"

theorem ValidateExtraction_iff_witness:
  "snd (ValidateExtraction ComponentRAM sample_ram_attrs) = None"
proof -
  have "well_formed ComponentRAM sample_ram_attrs" by code_simp
  then show ?thesis using ValidateExtraction_iff [of ComponentRAM sample_ram_attrs] by simp
qed

end
