(* ===== verification/ProductKey.thy ===== *)
theory ProductKey
  imports Attributes
begin

text \<open>
  The product key that groups listings into price baselines (\<open>pkg/extract/productkey.go\<close>).
  \<open>fmt.Sprintf\<close> with \<open>%s\<close> and \<open>%d\<close> is concatenation with \<open>itoa\<close>.
\<close>

definition unknownKey :: string where "unknownKey = ''unknown''"

definition normalizeStr :: "jval option \<Rightarrow> string" where
  "normalizeStr v = (case v of
     Some (JStr s) \<Rightarrow> if s = [] then unknownKey else replace_char (CHR '' '') (CHR ''_'') (to_lower s)
   | _ \<Rightarrow> unknownKey)"

definition pkInt :: "attrs \<Rightarrow> string \<Rightarrow> int" where
  "pkInt attrs key = (case mget attrs key of
     Some (JInt n) \<Rightarrow> n | Some (JNum x) \<Rightarrow> f64_trunc x | _ \<Rightarrow> 0)"

definition ramType :: "attrs \<Rightarrow> string" where
  "ramType attrs = (case mget attrs ''ecc'' of
     Some (JBool eccBool) \<Rightarrow>
       if eccBool
       then (case mget attrs ''registered'' of
         Some (JBool regBool) \<Rightarrow> if regBool then ''ecc_reg'' else ''ecc_unbuf''
       | _ \<Rightarrow> ''ecc_unbuf'')
       else ''non_ecc''
   | _ \<Rightarrow> unknownKey)"

definition driveType :: "attrs \<Rightarrow> string" where
  "driveType attrs = (case mget attrs ''type'' of
     Some (JStr s) \<Rightarrow>
       if equal_fold s ''SSD'' then ''ssd''
       else (let rpm = pkInt attrs ''rpm'' in
         if rpm = 7200 then ''7k2'' else if rpm = 10000 then ''10k'' else if rpm = 15000 then ''15k'' else ''hdd'')
   | _ \<Rightarrow> unknownKey)"

definition norm_attr :: "attrs \<Rightarrow> string \<Rightarrow> string" where
  "norm_attr attrs key = normalizeStr (mget attrs key)"

definition ProductKey :: "component_type \<Rightarrow> attrs \<Rightarrow> string" where
  "ProductKey componentType attrs =
     (if componentType = ''ram'' then
        ''ram:'' @ norm_attr attrs ''generation'' @ '':'' @ ramType attrs @ '':'' @
        itoa (pkInt attrs ''capacity_gb'') @ ''gb:'' @ itoa (pkInt attrs ''speed_mhz'')
      else if componentType = ''drive'' then
        ''drive:'' @ norm_attr attrs ''interface'' @ '':'' @ norm_attr attrs ''form_factor'' @ '':'' @
        norm_attr attrs ''capacity'' @ '':'' @ driveType attrs
      else if componentType = ''server'' then
        ''server:'' @ norm_attr attrs ''manufacturer'' @ '':'' @ norm_attr attrs ''model'' @ '':'' @
        norm_attr attrs ''drive_form_factor'' @ '':'' @ norm_attr attrs ''tier''
      else if componentType = ''cpu'' then
        ''cpu:'' @ norm_attr attrs ''manufacturer'' @ '':'' @ norm_attr attrs ''family'' @ '':'' @ norm_attr attrs ''model''
      else if componentType = ''nic'' then
        ''nic:'' @ norm_attr attrs ''speed'' @ '':'' @ itoa (pkInt attrs ''port_count'') @ ''p:'' @ norm_attr attrs ''port_type''
      else if componentType = ''gpu'' then
        ''gpu:'' @ norm_attr attrs ''manufacturer'' @ '':'' @ norm_attr attrs ''family'' @ '':'' @
        norm_attr attrs ''model'' @ '':'' @ itoa (pkInt attrs ''vram_gb'') @ ''gb''
      else if componentType = ''workstation'' then
        ''workstation:'' @ norm_attr attrs ''vendor'' @ '':'' @ norm_attr attrs ''line'' @ '':'' @ norm_attr attrs ''model''
      else if componentType = ''desktop'' then
        ''desktop:'' @ norm_attr attrs ''vendor'' @ '':'' @ norm_attr attrs ''line'' @ '':'' @ norm_attr attrs ''model''
      else ''other:'' @ componentType)"

section \<open>Segments\<close>

text \<open>A text without the separator in front of it can be cut off again.\<close>

lemma cut_at:
  "c \<notin> set x \<Longrightarrow> c \<notin> set y \<Longrightarrow> x @ c # r = y @ c # r' \<Longrightarrow> x = y \<and> r = r'"
proof (induction x arbitrary: y)
  case Nil
  then show ?case by (cases y) auto
next
  case (Cons a x)
  then show ?case by (cases y) auto
qed

lemma itoa_chars: "c \<in> set (itoa n) \<Longrightarrow> is_digit c \<or> c = CHR ''-''"
  using digits_of_digits by (auto simp: itoa_def list_all_iff split: if_splits)

lemma itoa_no_letter: "\<not> is_digit c \<Longrightarrow> c \<noteq> CHR ''-'' \<Longrightarrow> c \<notin> set (itoa n)"
  using itoa_chars by blast

definition key_type :: "string \<Rightarrow> string" where
  "key_type k = takeWhile (\<lambda>c. c \<noteq> CHR '':'') k"

definition known_types :: "string list" where
  "known_types = [''ram'', ''drive'', ''server'', ''cpu'', ''nic'', ''gpu'', ''workstation'', ''desktop'']"

lemma key_type_ProductKey: "key_type (ProductKey t m) = (if t \<in> set known_types then t else ''other'')"
  by (simp add: ProductKey_def key_type_def known_types_def)

text \<open>Listings of different component types never share a baseline: the key determines the type.\<close>

theorem ProductKey_determines_type:
  assumes "ProductKey t m = ProductKey t' m'"
  shows "t = t'"
proof -
  have k: "(if t \<in> set known_types then t else ''other'') = (if t' \<in> set known_types then t' else ''other'')"
    using arg_cong [OF assms, of key_type] by (simp only: key_type_ProductKey)
  have no: "''other'' \<notin> set known_types" by (simp add: known_types_def)
  show ?thesis
  proof (cases "t \<in> set known_types \<or> t' \<in> set known_types")
    case True
    then show ?thesis using k no by (auto split: if_splits)
  next
    case False
    then have "ProductKey t m = ''other:'' @ t" "ProductKey t' m' = ''other:'' @ t'"
      by (auto simp: ProductKey_def known_types_def)
    then show ?thesis using assms by simp
  qed
qed

theorem ProductKey_determines_type_witness:
  "ProductKey ''ram'' [] = ProductKey ''ram'' [(''capacity_gb'', JInt 0)] \<and> ''ram'' = ''ram''"
proof -
  have e: "ProductKey ''ram'' [] = ProductKey ''ram'' [(''capacity_gb'', JInt 0)]"
    by (simp add: ProductKey_def norm_attr_def ramType_def pkInt_def)
  from ProductKey_determines_type [OF e] e show ?thesis by simp
qed

lemma lower_generations:
  "to_lower ''DDR3'' = ''ddr3''" "to_lower ''DDR4'' = ''ddr4''" "to_lower ''DDR5'' = ''ddr5''"
  by code_simp+

text \<open>RAM baselines are exact: two maps whose generation is one of the three valid ones have the
  same key if and only if generation, ECC type, capacity and speed all agree.\<close>

theorem ProductKey_RAM_exact:
  assumes "attrString m ''generation'' = Some g" and "attrString m' ''generation'' = Some g'"
    and "g \<in> {''DDR3'', ''DDR4'', ''DDR5''}" and "g' \<in> {''DDR3'', ''DDR4'', ''DDR5''}"
  shows "ProductKey ComponentRAM m = ProductKey ComponentRAM m' \<longleftrightarrow>
    g = g' \<and> ramType m = ramType m' \<and> pkInt m ''capacity_gb'' = pkInt m' ''capacity_gb'' \<and>
    pkInt m ''speed_mhz'' = pkInt m' ''speed_mhz''"
proof -
  have n: "norm_attr k ''generation'' = to_lower h \<and> CHR '':'' \<notin> set (to_lower h)"
    if "attrString k ''generation'' = Some h" "h \<in> {''DDR3'', ''DDR4'', ''DDR5''}" for k h
    using that by (auto simp: attrString_def norm_attr_def normalizeStr_def replace_char_def lower_generations
        split: option.splits jval.splits)
  have inj: "to_lower g = to_lower g' \<longleftrightarrow> g = g'"
    using assms(3,4) by (auto simp: lower_generations)
  have rt: "CHR '':'' \<notin> set (ramType k)" for k
    by (simp add: ramType_def unknownKey_def split: option.split jval.split)
  have gb: "CHR ''g'' \<notin> set (itoa i)" for i by (rule itoa_no_letter) (simp_all add: is_digit_def)
  note N = n [OF assms(1,3)] n [OF assms(2,4)]
  show ?thesis (is "?l = ?r")
  proof
    assume ?l
    then have e: "to_lower g @ CHR '':'' # ramType m @ CHR '':'' # itoa (pkInt m ''capacity_gb'') @ CHR ''g'' # CHR ''b'' # CHR '':'' # itoa (pkInt m ''speed_mhz'')
        = to_lower g' @ CHR '':'' # ramType m' @ CHR '':'' # itoa (pkInt m' ''capacity_gb'') @ CHR ''g'' # CHR ''b'' # CHR '':'' # itoa (pkInt m' ''speed_mhz'')"
      using N by (simp add: ProductKey_def ComponentRAM_def)
    from cut_at [OF conjunct2 [OF N(1)] conjunct2 [OF N(2)] e] have 1: "to_lower g = to_lower g'"
      and e1: "ramType m @ CHR '':'' # itoa (pkInt m ''capacity_gb'') @ CHR ''g'' # CHR ''b'' # CHR '':'' # itoa (pkInt m ''speed_mhz'')
        = ramType m' @ CHR '':'' # itoa (pkInt m' ''capacity_gb'') @ CHR ''g'' # CHR ''b'' # CHR '':'' # itoa (pkInt m' ''speed_mhz'')"
      by auto
    from cut_at [OF rt rt e1] have 2: "ramType m = ramType m'"
      and e2: "itoa (pkInt m ''capacity_gb'') @ CHR ''g'' # CHR ''b'' # CHR '':'' # itoa (pkInt m ''speed_mhz'')
        = itoa (pkInt m' ''capacity_gb'') @ CHR ''g'' # CHR ''b'' # CHR '':'' # itoa (pkInt m' ''speed_mhz'')"
      by auto
    from cut_at [OF gb gb e2] show ?r using 1 2 inj by (auto dest: itoa_inj)
  next
    assume ?r
    then show ?l using N by (simp add: ProductKey_def ComponentRAM_def)
  qed
qed

definition sample_dimm :: "string \<Rightarrow> attrs" where
  "sample_dimm g = [(''generation'', JStr g), (''ecc'', JBool True), (''capacity_gb'', JInt 32)]"

theorem ProductKey_RAM_exact_witness:
  "ProductKey ComponentRAM (sample_dimm ''DDR4'') \<noteq> ProductKey ComponentRAM (sample_dimm ''DDR5'')"
  using ProductKey_RAM_exact [of "sample_dimm ''DDR4''" "''DDR4''" "sample_dimm ''DDR5''" "''DDR5''"]
  by (simp add: sample_dimm_def attrString_def)

end
