(* ===== verification/Normalize.thy ===== *)
theory Normalize
  imports RamSpeed GpuNormalize SystemNormalize Preclassify Validate ProductKey
begin

text \<open>
  The clean-up of raw model output before validation (\<open>pkg/extract/normalize.go\<close>), and what it
  gives together with the validator and the product key.
\<close>

definition placeholderValues :: "string list" where
  "placeholderValues = [''n/a'', ''na'', ''unknown'', ''none'', ''null'', ''not specified'', ''not applicable'']"

definition optionalEnumFields :: "string list" where
  "optionalEnumFields = [''form_factor'', ''type'', ''interface'', ''port_type'']"

fun strip_fields :: "string list \<Rightarrow> attrs \<Rightarrow> attrs" where
  "strip_fields [] attrs = attrs"
| "strip_fields (key # keys) attrs = (case attrString attrs key of
     None \<Rightarrow> strip_fields keys attrs
   | Some s \<Rightarrow> strip_fields keys
       (if to_lower (trim_space s) \<in> set placeholderValues then mdel key attrs else attrs))"

definition stripPlaceholderEnums :: "attrs \<Rightarrow> attrs" where
  "stripPlaceholderEnums attrs = strip_fields optionalEnumFields attrs"

definition defaultConfidence :: "attrs \<Rightarrow> attrs" where
  "defaultConfidence attrs =
     (case mget attrs ''confidence'' of None \<Rightarrow> mput ''confidence'' (JNum (fl (1 / 2))) attrs | Some _ \<Rightarrow> attrs)"

definition normalizeCapacityGB :: "attrs \<Rightarrow> attrs" where
  "normalizeCapacityGB attrs = (case attrInt attrs ''capacity_gb'' of
     None \<Rightarrow> attrs
   | Some capacity \<Rightarrow> if capacity \<le> 1024 then attrs
       else case unit_candidate [1024, 1000] 1024 capacity of
         Some candidate \<Rightarrow> mput ''capacity_gb'' (JInt candidate) attrs
       | None \<Rightarrow> attrs)"

definition NormalizeExtraction :: "component_type \<Rightarrow> string \<Rightarrow> attrs \<Rightarrow> attrs" where
  "NormalizeExtraction componentType title attrs =
     (let attrs = defaultConfidence (stripPlaceholderEnums attrs);
          attrs = (if componentType = ComponentRAM
                   then fst (NormalizeRAMSpeed title (normalizeCapacityGB attrs)) else attrs);
          attrs = (if componentType = ComponentServer
                   then mput ''tier'' (JStr (DetectServerTier title)) attrs else attrs);
          attrs = (if componentType = ComponentGPU then NormalizeGPUExtraction attrs else attrs)
      in if componentType = ComponentWorkstation \<or> componentType = ComponentDesktop
         then NormalizeSystemExtraction componentType attrs else attrs)"

section \<open>Single steps\<close>

definition is_placeholder :: "attrs \<Rightarrow> string \<Rightarrow> bool" where
  "is_placeholder m k = (case attrString m k of
     Some s \<Rightarrow> to_lower (trim_space s) \<in> set placeholderValues | None \<Rightarrow> False)"

lemma strip_fields_Cons:
  "strip_fields (key # keys) m = strip_fields keys (if is_placeholder m key then mdel key m else m)"
  by (simp add: is_placeholder_def split: option.split)

lemma is_placeholder_mdel: "is_placeholder (mdel key m) k = (k \<noteq> key \<and> is_placeholder m k)"
  by (simp add: is_placeholder_def)

lemma strip_fields_get:
  "mget (strip_fields keys m) k = (if k \<in> set keys \<and> is_placeholder m k then None else mget m k)"
proof (induction keys arbitrary: m)
  case (Cons key keys)
  show ?case unfolding strip_fields_Cons Cons.IH by (auto simp: is_placeholder_mdel)
qed simp

text \<open>Placeholders such as "N/A" or " Unknown " disappear from the optional enum fields, so that
  they cannot fail validation; nothing else is touched.\<close>

theorem placeholders_stripped:
  "mget (stripPlaceholderEnums m) k =
     (if k \<in> set optionalEnumFields \<and> is_placeholder m k then None else mget m k)"
  unfolding stripPlaceholderEnums_def by (rule strip_fields_get)

lemma attrInt_stripped:
  "k \<notin> set optionalEnumFields \<Longrightarrow> mget (stripPlaceholderEnums m) k = mget m k"
  by (simp add: stripPlaceholderEnums_def strip_fields_get)

lemma NormalizeRAMSpeed_other:
  "k \<noteq> ''speed_mhz'' \<Longrightarrow> mget (fst (NormalizeRAMSpeed title m)) k = mget m k"
  by (simp add: NormalizeRAMSpeed_def split: option.split)

lemma normalizeCapacityGB_other:
  "k \<noteq> ''capacity_gb'' \<Longrightarrow> mget (normalizeCapacityGB m) k = mget m k"
  by (simp add: normalizeCapacityGB_def split: option.split)

lemma defaultConfidence_other:
  "k \<noteq> ''confidence'' \<Longrightarrow> mget (defaultConfidence m) k = mget m k"
  by (simp add: defaultConfidence_def split: option.split)

lemma Normalize_RAM:
  "NormalizeExtraction ComponentRAM title m =
   fst (NormalizeRAMSpeed title (normalizeCapacityGB (defaultConfidence (stripPlaceholderEnums m))))"
  by (simp add: NormalizeExtraction_def component_defs Let_def)

lemma Normalize_GPU:
  "NormalizeExtraction ComponentGPU title m =
   NormalizeGPUExtraction (defaultConfidence (stripPlaceholderEnums m))"
  by (simp add: NormalizeExtraction_def component_defs Let_def)

lemma capacity_after:
  "attrInt (NormalizeExtraction ComponentRAM title m) ''capacity_gb'' = attrInt (normalizeCapacityGB m) ''capacity_gb''"
proof -
  define m' where "m' = defaultConfidence (stripPlaceholderEnums m)"
  have m': "attrInt m' ''capacity_gb'' = attrInt m ''capacity_gb''"
    unfolding m'_def
    by (rule attrInt_cong) (simp add: defaultConfidence_other attrInt_stripped optionalEnumFields_def)
  have "attrInt (NormalizeExtraction ComponentRAM title m) ''capacity_gb'' = attrInt (normalizeCapacityGB m') ''capacity_gb''"
    unfolding Normalize_RAM m'_def [symmetric] by (rule attrInt_cong) (simp add: NormalizeRAMSpeed_other)
  also have "\<dots> = attrInt (normalizeCapacityGB m) ''capacity_gb''"
    using m' by (simp add: normalizeCapacityGB_def split: option.split)
  finally show ?thesis .
qed

section \<open>Units\<close>

text \<open>The capacity of a module given in MiB is recovered exactly for every size of 2 to 1024 GB.
  Given in MB it is recovered unless 128 divides the size: then the value is also a multiple of
  1024, the code divides by that first, and 128 GB becomes 125.\<close>

theorem RAM_capacity_recovered:
  assumes "2 \<le> c" and "c \<le> 1024"
  shows "(attrInt m ''capacity_gb'' = Some (c * 1024) \<longrightarrow>
       attrInt (NormalizeExtraction ComponentRAM title m) ''capacity_gb'' = Some c) \<and>
     (attrInt m ''capacity_gb'' = Some (c * 1000) \<longrightarrow>
       attrInt (NormalizeExtraction ComponentRAM title m) ''capacity_gb'' =
         Some (if 128 dvd c then 125 * (c div 128) else c))"
  unfolding capacity_after
  using assms unit_candidate_1024 [of c 1024] unit_candidate_1000 [of c 1024]
  by (auto simp: normalizeCapacityGB_def simp del: unit_candidate.simps)

theorem RAM_capacity_recovered_witness:
  "attrInt (NormalizeExtraction ComponentRAM ''DIMM'' [(''capacity_gb'', JInt 32768)]) ''capacity_gb'' = Some 32 \<and>
   attrInt (NormalizeExtraction ComponentRAM ''DIMM'' [(''capacity_gb'', JInt 128000)]) ''capacity_gb'' = Some 125"
  using RAM_capacity_recovered [of 32 "[(''capacity_gb'', JInt 32768)]" "''DIMM''"]
    RAM_capacity_recovered [of 128 "[(''capacity_gb'', JInt 128000)]" "''DIMM''"]
  by (simp add: attrInt_def)

section \<open>Normalisation and validation together\<close>

text \<open>After normalisation a RAM extraction is never rejected for its speed: whatever the model
  wrote into \<open>speed_mhz\<close> and whatever the title says, the only errors left are about other fields.\<close>

theorem RAM_speed_never_rejected:
  "snd (ValidateExtraction ComponentRAM (NormalizeExtraction ComponentRAM title m)) \<noteq> Some (OutOfRange ''speed_mhz'')"
proof -
  define n where "n = NormalizeExtraction ComponentRAM title m"
  have sp: "violation (mput ''condition'' v n) (''speed_mhz'', OptInt 800 8400) = None" for v
  proof -
    have "attrInt n ''speed_mhz'' = None \<or> (\<exists>k. attrInt n ''speed_mhz'' = Some k \<and> 800 \<le> k \<and> k \<le> 8400)"
      unfolding n_def Normalize_RAM
      by (cases rule: NormalizeRAMSpeed_cases [of "normalizeCapacityGB (defaultConfidence (stripPlaceholderEnums m))" title])
        (auto simp: speedInValidRange_def validRAMSpeedMHzMin_def validRAMSpeedMHzMax_def)
    then show ?thesis by (auto simp: allowed_def)
  qed
  have "schema ComponentRAM = [(''capacity_gb'', ReqInt 1 1024), (''generation'', ReqEnum validRAMGenerations),
        (''speed_mhz'', OptInt 800 8400)]"
    by (simp add: schema_def schemas_def ComponentRAM_def)
  then have "first_violation (mput ''condition'' v n) (common_schema @ schema ComponentRAM) \<noteq> Some (OutOfRange ''speed_mhz'')" for v
    using sp [of v] by (auto simp: common_schema_def allowed_def split: option.splits if_splits)
  then show ?thesis
    unfolding n_def [symmetric] ValidateExtraction_schema_eq by (auto simp: Let_def split: option.split)
qed

section \<open>One baseline per card\<close>

lemma attrString_stripped:
  "k \<notin> set optionalEnumFields \<Longrightarrow> attrString (stripPlaceholderEnums m) k = attrString m k"
  by (simp add: attrString_def attrInt_stripped)

lemma family_normalized:
  assumes "attrString m ''model'' = Some model" and "CanonicalizeGPUModel model \<noteq> []"
    and "DetectGPUFamilyFromModel (CanonicalizeGPUModel model) \<noteq> []"
  shows "mget (NormalizeGPUExtraction m) ''family'' = Some (JStr (DetectGPUFamilyFromModel (CanonicalizeGPUModel model)))"
    and "mget (NormalizeGPUExtraction m) ''model'' = Some (JStr (CanonicalizeGPUModel model))"
proof -
  have "attrString (normalizeGPUVRAMUnit m) ''model'' = Some model"
    using assms(1) by (simp add: attrString_def)
  then have c: "canonicalizeGPUModelInPlace (normalizeGPUVRAMUnit m) =
      mput ''model'' (JStr (CanonicalizeGPUModel model)) (normalizeGPUVRAMUnit m)"
    using assms(2) by (simp add: canonicalizeGPUModelInPlace_def Let_def)
  show "mget (NormalizeGPUExtraction m) ''family'' = Some (JStr (DetectGPUFamilyFromModel (CanonicalizeGPUModel model)))"
    using assms(3) by (simp add: NormalizeGPUExtraction_def c normalizeGPUFamily_def Let_def str_or_empty_def)
  show "mget (NormalizeGPUExtraction m) ''model'' = Some (JStr (CanonicalizeGPUModel model))"
    by (simp add: NormalizeGPUExtraction_def c)
qed

text \<open>For a GPU model the code recognises, the family the model wrote does not matter: two
  extractions that differ at most in the family have the same product key, so that one card does
  not split over two baselines.\<close>

theorem GPU_key_ignores_family:
  assumes "attrString m ''model'' = Some model" and "CanonicalizeGPUModel model \<noteq> []"
    and "DetectGPUFamilyFromModel (CanonicalizeGPUModel model) \<noteq> []"
    and "\<forall>k. k \<noteq> ''family'' \<longrightarrow> mget m' k = mget m k"
  shows "ProductKey ComponentGPU (NormalizeExtraction ComponentGPU title m') =
    ProductKey ComponentGPU (NormalizeExtraction ComponentGPU title m)"
proof -
  define n where "n k = defaultConfidence (stripPlaceholderEnums k)" for k
  have get: "mget (n m) k = mget m k" if "k \<in> {''model'', ''vram_gb'', ''manufacturer'', ''family''}" for m k
    using that by (auto simp: n_def defaultConfidence_other attrInt_stripped optionalEnumFields_def)
  have mod: "attrString (n m) ''model'' = Some model" "attrString (n m') ''model'' = Some model"
    using assms(1,4) by (simp_all add: attrString_def get)
  have vram: "attrInt (NormalizeGPUExtraction (n m')) ''vram_gb'' = attrInt (NormalizeGPUExtraction (n m)) ''vram_gb''"
  proof -
    have "attrInt (n m') ''vram_gb'' = attrInt (n m) ''vram_gb''"
      by (rule attrInt_cong) (use assms(4) in \<open>simp add: get\<close>)
    then have "attrInt (normalizeGPUVRAMUnit (n m')) ''vram_gb'' = attrInt (normalizeGPUVRAMUnit (n m)) ''vram_gb''"
      by (simp add: normalizeGPUVRAMUnit_def split: option.split)
    then show ?thesis
      unfolding vram_of_normalized by (simp add: roundGPUVRAM_def split: option.split)
  qed
  have pk: "pkInt k ''vram_gb'' = int_or_zero (attrInt k ''vram_gb'')" for k
    by (simp add: pkInt_def attrInt_def int_or_zero_def split: option.split jval.split)
  have mfr: "mget (NormalizeGPUExtraction (n m')) ''manufacturer'' = mget (NormalizeGPUExtraction (n m)) ''manufacturer''"
    using assms(4) by (simp add: NormalizeGPUExtraction_def get)
  show ?thesis
    unfolding Normalize_GPU n_def [symmetric] ProductKey_def
    using family_normalized [OF mod(1) assms(2,3)] family_normalized [OF mod(2) assms(2,3)] mfr vram
    by (simp add: ComponentGPU_def norm_attr_def pk)
qed

definition sample_gpu :: "string \<Rightarrow> attrs" where
  "sample_gpu family = [(''family'', JStr family), (''model'', JStr ''A100''), (''manufacturer'', JStr ''NVIDIA''), (''vram_gb'', JInt 80)]"

theorem GPU_key_ignores_family_witness:
  "ProductKey ComponentGPU (NormalizeExtraction ComponentGPU [] (sample_gpu ''Tesla'')) =
   ProductKey ComponentGPU (NormalizeExtraction ComponentGPU [] (sample_gpu ''Ampere''))"
proof (rule GPU_key_ignores_family [of _ "''A100''"])
  have "CanonicalizeGPUModel ''A100'' = ''a100''" "DetectGPUFamilyFromModel ''a100'' = ''a-series''" by code_simp+
  then show "CanonicalizeGPUModel ''A100'' \<noteq> []" "DetectGPUFamilyFromModel (CanonicalizeGPUModel ''A100'') \<noteq> []"
    by simp_all
qed (simp_all add: sample_gpu_def attrString_def)

end
