(* ===== verification/Prompts.thy ===== *)
theory Prompts
  imports Domain
begin

text \<open>
  The prompts sent to the language model (\<open>pkg/extract/prompts.go\<close>). A template is the list of
  its segments: literal text, or one of the three fields of \<open>PromptData\<close>. \<open>text/template\<close>
  substitutes a string field as it is, so that rendering is concatenation. The em dash is its
  three bytes in UTF-8.
\<close>

record prompt_data =
  pd_Title :: string
  pd_ItemSpecifics :: string
  pd_Description :: string

datatype segment = Txt string | FTitle | FItemSpecifics | FDescription

type_synonym template = "segment list"

text \<open>\<open>strings.Join\<close>\<close>

fun join :: "string \<Rightarrow> string list \<Rightarrow> string" where
  "join sep [] = []"
| "join sep [s] = s"
| "join sep (s # t # ss) = s @ sep @ join sep (t # ss)"

definition lines :: "string list \<Rightarrow> string" where "lines ss = join [char_of (10 :: nat)] ss"

definition emdash :: string where "emdash = [char_of (226 :: nat), char_of (128 :: nat), char_of (148 :: nat)]"

section \<open>The templates\<close>

definition classifyTmpl :: template where
  "classifyTmpl =
   [Txt (lines [
      ''Classify this eBay listing into exactly one component type.'',
      [],
      ''Title: '']),
    FTitle,
    Txt (lines [
      [],
      [],
      ''Types: ram, drive, server, cpu, nic, gpu, workstation, desktop, other'',
      [],
      ''Rules:'',
      ''- Pick the type of the actual item being sold, not what it is for or compatible with.'',
      ''- Accessories and parts that are not themselves the component go to \"other\". Examples: drive caddies/trays, rack rails, bezels, brackets, mounting kits, cables, fans, heatsinks, risers, backplanes (when sold alone), power supplies (when sold alone).'',
      ''- Only pick \"drive\" for actual storage drives (HDD/SSD/NVMe), not drive accessories.'',
      ''- Only pick \"server\" for complete or barebones rack-mountable server chassis (Dell PowerEdge, HP ProLiant, Cisco UCS, Supermicro). A tower with workstation lineage is NOT a server, regardless of CPU class.'',
      ''- Pick \"gpu\" for standalone graphics cards / accelerators (Tesla, Quadro, RTX, A/L/H-series, Radeon Pro, Instinct, Arc).'',
      ''- \"gpu riser\", \"GPU bracket\", and \"GPU power cable\" stay in \"other\" (they are accessories, not the GPU itself).'',
      ''- Pick \"workstation\" for vendor-defined workstation product lines: Dell Precision (T-series), Dell Pro Max, Lenovo ThinkStation (P-series), HP Z-series.'',
      ''- Pick \"desktop\" for tower-form general-purpose computers without a workstation product line: Dell OptiPlex / Dell Pro, Lenovo ThinkCentre, HP EliteDesk, custom builds.'',
      ''- Workstations and desktops that contain a GPU still classify as \"workstation\" or \"desktop\" '' @ emdash @ '' not \"gpu\". The GPU is part of the bundled system.'',
      [],
      ''Respond with ONLY a single word from the list above. No explanation, no parentheses, no extra text.''])]"

definition ramTmpl :: template where
  "ramTmpl =
   [Txt (lines [
      ''Extract structured attributes from this eBay server RAM listing.'',
      ''Respond ONLY with a valid JSON object. No markdown, no explanation.'',
      [],
      ''Rules:'',
      ''- For enum fields, you MUST use one of the listed values exactly. Never return null for enum fields.'',
      ''- \"condition\": if the listing does not specify, use \"unknown\".'',
      ''- \"confidence\": always return a float between 0.0 and 1.0. Never null.'',
      ''- \"quantity\": default to 1 unless the title explicitly indicates a lot or bundle.'',
      ''- \"speed_mhz\": Convert PC module numbers to MHz speed. Common mappings:'',
      ''  PC3-10600=1333, PC3-12800=1600, PC3-14900=1866,'',
      ''  PC4-17000=2133, PC4-19200=2400, PC4-21300=2666, PC4-23400=2933, PC4-25600=3200,'',
      ''  PC5-38400=4800, PC5-44800=5600, PC5-51200=6400.'',
      ''  Ignore any letter suffix (V, R, T, U, E) after the number. Always convert when present.'',
      ''- Only use null for optional string/integer/boolean fields that truly cannot be determined.'',
      [],
      ''Title: '']),
    FTitle,
    Txt (lines [
      [],
      ''Item Specifics: '']),
    FItemSpecifics,
    Txt (lines [
      [],
      [],
      ''Schema:'',
      ''{'',
      ''  \"manufacturer\": string | null,'',
      ''  \"part_number\": string | null,'',
      ''  \"capacity_gb\": integer | null,'',
      ''  \"quantity\": integer,'',
      ''  \"generation\": \"DDR3\" | \"DDR4\" | \"DDR5\",'',
      ''  \"speed_mhz\": integer (e.g. 2133, 2400, 2666, 3200; derived from PC module number if present) | null,'',
      ''  \"ecc\": boolean | null,'',
      ''  \"registered\": boolean | null,'',
      ''  \"form_factor\": string | null,'',
      ''  \"rank\": string | null,'',
      ''  \"voltage\": string | null,'',
      ''  \"condition\": \"new\" | \"like_new\" | \"used_working\" | \"for_parts\" | \"unknown\",'',
      ''  \"compatible_servers\": [string],'',
      ''  \"confidence\": float (0.0-1.0)'',
      ''}''])]"

definition driveTmpl :: template where
  "driveTmpl =
   [Txt (lines [
      ''Extract structured attributes from this eBay server drive listing.'',
      ''Respond ONLY with a valid JSON object. No markdown, no explanation.'',
      [],
      ''Rules:'',
      ''- For enum fields, you MUST use one of the listed values exactly. Never return null for enum fields.'',
      ''- \"interface\": determine from the title (e.g. \"SATA\", \"SAS\", \"NVMe\", \"U.2\"). Never null.'',
      ''- \"form_factor\": use only \"2.5\" or \"3.5\" as plain strings without quotes or inch marks.'',
      ''- \"condition\": if the listing does not specify, use \"unknown\".'',
      ''- \"confidence\": always return a float between 0.0 and 1.0. Never null.'',
      ''- \"quantity\": default to 1 unless the title explicitly indicates a lot or bundle.'',
      ''- Only use null for optional string/integer/boolean fields that truly cannot be determined.'',
      [],
      ''Title: '']),
    FTitle,
    Txt (lines [
      [],
      ''Item Specifics: '']),
    FItemSpecifics,
    Txt (lines [
      [],
      [],
      ''Schema:'',
      ''{'',
      ''  \"manufacturer\": string | null,'',
      ''  \"part_number\": string | null,'',
      ''  \"capacity\": string | null,'',
      ''  \"capacity_bytes\": integer | null,'',
      ''  \"quantity\": integer,'',
      ''  \"interface\": \"SAS\" | \"SATA\" | \"NVMe\" | \"U.2\",'',
      ''  \"form_factor\": \"2.5\" | \"3.5\" | null,'',
      ''  \"type\": \"SSD\" | \"HDD\",'',
      ''  \"rpm\": integer | null,'',
      ''  \"endurance\": string | null,'',
      ''  \"encryption\": boolean | null,'',
      ''  \"carrier_included\": boolean | null,'',
      ''  \"carrier_type\": string | null,'',
      ''  \"condition\": \"new\" | \"like_new\" | \"used_working\" | \"for_parts\" | \"unknown\",'',
      ''  \"confidence\": float (0.0-1.0)'',
      ''}''])]"

definition serverTmpl :: template where
  "serverTmpl =
   [Txt (lines [
      ''Extract structured attributes from this eBay server listing.'',
      ''Respond ONLY with a valid JSON object. No markdown, no explanation.'',
      [],
      ''Rules:'',
      ''- For enum fields, you MUST use one of the listed values exactly. Never return null for enum fields.'',
      ''- \"manufacturer\" and \"model\" are required. Never null.'',
      ''- \"condition\": if the listing does not specify, use \"unknown\".'',
      ''- \"confidence\": always return a float between 0.0 and 1.0. Never null.'',
      ''- \"quantity\": default to 1 unless the title explicitly indicates a lot or bundle.'',
      ''- Only use null for optional string/integer/boolean fields that truly cannot be determined.'',
      [],
      ''Title: '']),
    FTitle,
    Txt (lines [
      [],
      ''Item Specifics: '']),
    FItemSpecifics,
    Txt (lines [
      [],
      ''Description (first 500 chars): '']),
    FDescription,
    Txt (lines [
      [],
      [],
      ''Schema:'',
      ''{'',
      ''  \"manufacturer\": string,'',
      ''  \"model\": string,'',
      ''  \"generation\": string | null,'',
      ''  \"form_factor\": \"1U\" | \"2U\" | \"3U\" | \"4U\" | \"5U\" | \"6U\" | \"7U\" | \"8U\" | \"10U\" | \"tower\" | null,'',
      ''  \"drive_bays\": string | null,'',
      ''  \"drive_form_factor\": string | null,'',
      ''  \"cpu_count\": integer | null,'',
      ''  \"cpu_model\": string | null,'',
      ''  \"cpu_installed\": boolean | null,'',
      ''  \"ram_total_gb\": integer | null,'',
      ''  \"ram_stick_count\": integer | null,'',
      ''  \"ram_slots_total\": integer | null,'',
      ''  \"drives_included\": boolean | null,'',
      ''  \"drive_blanks_included\": boolean | null,'',
      ''  \"raid_controller\": string | null,'',
      ''  \"power_supplies\": integer | null,'',
      ''  \"idrac_license\": string | null,'',
      ''  \"ilo_license\": string | null,'',
      ''  \"rails_included\": boolean | null,'',
      ''  \"bezel_included\": boolean | null,'',
      ''  \"network_card\": string | null,'',
      ''  \"quantity\": integer,'',
      ''  \"condition\": \"new\" | \"like_new\" | \"used_working\" | \"for_parts\" | \"unknown\",'',
      ''  \"boots_tested\": boolean | null,'',
      ''  \"confidence\": float (0.0-1.0)'',
      ''}''])]"

definition cpuTmpl :: template where
  "cpuTmpl =
   [Txt (lines [
      ''Extract structured attributes from this eBay server CPU listing.'',
      ''Respond ONLY with a valid JSON object. No markdown, no explanation.'',
      [],
      ''Rules:'',
      ''- For enum fields, you MUST use one of the listed values exactly. Never return null for enum fields.'',
      ''- \"manufacturer\": must be \"Intel\" or \"AMD\".'',
      ''- \"family\": must be \"Xeon\" or \"EPYC\". For \"Xeon Gold 6248R\", family is \"Xeon\", series is \"Gold\", model is \"6248R\".'',
      ''- \"condition\": if the listing does not specify, use \"unknown\".'',
      ''- \"confidence\": always return a float between 0.0 and 1.0. Never null.'',
      ''- \"quantity\": default to 1 unless the title explicitly indicates a lot or bundle.'',
      ''- Only use null for optional string/integer/boolean fields that truly cannot be determined.'',
      [],
      ''Title: '']),
    FTitle,
    Txt (lines [
      [],
      ''Item Specifics: '']),
    FItemSpecifics,
    Txt (lines [
      [],
      [],
      ''Schema:'',
      ''{'',
      ''  \"manufacturer\": \"Intel\" | \"AMD\",'',
      ''  \"family\": \"Xeon\" | \"EPYC\",'',
      ''  \"series\": string | null,'',
      ''  \"model\": string,'',
      ''  \"generation\": string | null,'',
      ''  \"cores\": integer | null,'',
      ''  \"threads\": integer | null,'',
      ''  \"base_clock_ghz\": float | null,'',
      ''  \"boost_clock_ghz\": float | null,'',
      ''  \"tdp_watts\": integer | null,'',
      ''  \"socket\": string | null,'',
      ''  \"l3_cache_mb\": integer | null,'',
      ''  \"part_number\": string | null,'',
      ''  \"quantity\": integer,'',
      ''  \"condition\": \"new\" | \"like_new\" | \"used_working\" | \"for_parts\" | \"unknown\",'',
      ''  \"matched_pair\": boolean | null,'',
      ''  \"confidence\": float (0.0-1.0)'',
      ''}''])]"

definition nicTmpl :: template where
  "nicTmpl =
   [Txt (lines [
      ''Extract structured attributes from this eBay server network card listing.'',
      ''Respond ONLY with a valid JSON object. No markdown, no explanation.'',
      [],
      ''Rules:'',
      ''- For enum fields, you MUST use one of the listed values exactly. Never return null for enum fields.'',
      ''- \"speed\": must be one of the listed values. Determine from the title (e.g. \"25GbE\", \"10GbE\").'',
      ''- \"port_count\": determine from the title (e.g. \"Dual Port\" = 2, \"Quad Port\" = 4). Never null.'',
      ''- \"condition\": if the listing does not specify, use \"unknown\".'',
      ''- \"confidence\": always return a float between 0.0 and 1.0. Never null.'',
      ''- \"quantity\": default to 1 unless the title explicitly indicates a lot or bundle.'',
      ''- Only use null for optional string/integer/boolean fields that truly cannot be determined.'',
      [],
      ''Title: '']),
    FTitle,
    Txt (lines [
      [],
      ''Item Specifics: '']),
    FItemSpecifics,
    Txt (lines [
      [],
      [],
      ''Schema:'',
      ''{'',
      ''  \"manufacturer\": string | null,'',
      ''  \"model\": string | null,'',
      ''  \"speed\": \"1GbE\" | \"10GbE\" | \"25GbE\" | \"40GbE\" | \"100GbE\",'',
      ''  \"port_count\": integer (1-8),'',
      ''  \"port_type\": \"SFP+\" | \"SFP28\" | \"QSFP+\" | \"QSFP28\" | \"RJ45\" | \"BaseT\" | null,'',
      ''  \"interface\": string | null,'',
      ''  \"pcie_generation\": string | null,'',
      ''  \"firmware_protocol\": string | null,'',
      ''  \"part_number\": string | null,'',
      ''  \"oem_part_number\": string | null,'',
      ''  \"low_profile\": boolean | null,'',
      ''  \"transceivers_included\": boolean | null,'',
      ''  \"quantity\": integer,'',
      ''  \"condition\": \"new\" | \"like_new\" | \"used_working\" | \"for_parts\" | \"unknown\",'',
      ''  \"confidence\": float (0.0-1.0)'',
      ''}''])]"

definition gpuTmpl :: template where
  "gpuTmpl =
   [Txt (lines [
      ''Extract structured attributes from this eBay server GPU / accelerator listing.'',
      ''Respond ONLY with a valid JSON object. No markdown, no explanation.'',
      [],
      ''Rules:'',
      ''- For enum fields, you MUST use one of the listed values exactly. Never return null for enum fields.'',
      ''- \"manufacturer\": derive from the brand token in the title (NVIDIA, AMD, Intel). Never null.'',
      ''- \"model\": the card model token (e.g. \"P40\", \"A100\", \"MI210\", \"RTX A4000\"). Never null.'',
      ''- \"vram_gb\": VRAM capacity in GB as an integer. Convert any \"24GB\" / \"24 GB\" / \"24-GB\" to 24. Never null.'',
      ''- \"family\": short product line name as a free-form string (e.g. \"Tesla\", \"Quadro\", \"RTX\",'',
      ''  \"Ampere\", \"Hopper\", \"Instinct\", \"Radeon Pro\", \"Arc\"). May be null if truly indeterminate.'',
      ''- \"condition\": if the listing does not specify, use \"unknown\".'',
      ''- \"confidence\": always return a float between 0.0 and 1.0. Never null.'',
      ''- \"quantity\": default to 1 unless the title explicitly indicates a lot or bundle.'',
      ''- Only use null for optional string/integer/boolean fields that truly cannot be determined.'',
      [],
      ''Title: '']),
    FTitle,
    Txt (lines [
      [],
      ''Item Specifics: '']),
    FItemSpecifics,
    Txt (lines [
      [],
      [],
      ''Schema:'',
      ''{'',
      ''  \"manufacturer\": \"NVIDIA\" | \"AMD\" | \"Intel\",'',
      ''  \"family\": string | null,'',
      ''  \"model\": string,'',
      ''  \"vram_gb\": integer (1-256),'',
      ''  \"memory_type\": \"GDDR5\" | \"GDDR6\" | \"GDDR6X\" | \"HBM2\" | \"HBM2e\" | \"HBM3\" | null,'',
      ''  \"interface\": \"PCIe 3.0 x16\" | \"PCIe 4.0 x16\" | \"PCIe 5.0 x16\" | \"SXM2\" | \"SXM4\" | \"SXM5\" | null,'',
      ''  \"tdp_watts\": integer (15-700) | null,'',
      ''  \"form_factor\": \"single_slot\" | \"dual_slot\" | \"triple_slot\" | \"FHFL\" | \"HHHL\" | \"LP\" | null,'',
      ''  \"cooling\": \"passive\" | \"active\" | \"blower\" | null,'',
      ''  \"power_connectors\": string | null,'',
      ''  \"part_number\": string | null,'',
      ''  \"quantity\": integer,'',
      ''  \"condition\": \"new\" | \"like_new\" | \"used_working\" | \"for_parts\" | \"unknown\",'',
      ''  \"confidence\": float (0.0-1.0)'',
      ''}''])]"

definition workstationTmpl :: template where
  "workstationTmpl =
   [Txt (lines [
      ''Extract structured attributes from this eBay workstation listing.'',
      ''Respond ONLY with a valid JSON object. No markdown, no explanation.'',
      [],
      ''Rules:'',
      ''- For enum fields, you MUST use one of the listed values exactly. Never return null for enum fields.'',
      ''- \"vendor\" and \"model\" are required. Never null.'',
      ''- \"vendor\": derive from the brand token (Dell, HP, Lenovo). Lowercase preferred.'',
      ''- \"line\": product line name as a free-form string (e.g. \"Precision\", \"ThinkStation\",'',
      ''  \"Z by HP\", \"Pro Max\"). May be null '' @ emdash @ '' the normaliser fills it from known model patterns.'',
      ''- \"model\": the chassis/SKU token (e.g. \"T7920\", \"P620\", \"Z8 G4\"). Strip vendor prefix.'',
      ''- \"form_factor\": chassis class. May be null when ambiguous.'',
      ''- \"ram_gb\": total installed RAM in GB. Convert any \"256GB\" / \"256 GB\" / \"256-GB\" to 256.'',
      ''- \"storage_gb\": total installed storage in GB. Convert TB to GB (1 TB = 1024).'',
      ''- \"condition\": if the listing does not specify, use \"unknown\".'',
      ''- \"confidence\": always return a float between 0.0 and 1.0. Never null.'',
      ''- \"quantity\": default to 1 unless the title explicitly indicates a lot or bundle.'',
      ''- Only use null for optional string/integer/boolean fields that truly cannot be determined.'',
      [],
      ''Title: '']),
    FTitle,
    Txt (lines [
      [],
      ''Item Specifics: '']),
    FItemSpecifics,
    Txt (lines [
      [],
      [],
      ''Schema:'',
      ''{'',
      ''  \"vendor\": string,'',
      ''  \"line\": string | null,'',
      ''  \"model\": string,'',
      ''  \"cpu\": string | null,'',
      ''  \"gpu\": string | null,'',
      ''  \"ram_gb\": integer | null,'',
      ''  \"storage_gb\": integer | null,'',
      ''  \"form_factor\": \"tower\" | \"sff\" | \"micro\" | \"mini\" | null,'',
      ''  \"part_number\": string | null,'',
      ''  \"quantity\": integer,'',
      ''  \"condition\": \"new\" | \"like_new\" | \"used_working\" | \"for_parts\" | \"unknown\",'',
      ''  \"confidence\": float (0.0-1.0)'',
      ''}''])]"

definition desktopTmpl :: template where
  "desktopTmpl =
   [Txt (lines [
      ''Extract structured attributes from this eBay desktop computer listing.'',
      ''Respond ONLY with a valid JSON object. No markdown, no explanation.'',
      [],
      ''Rules:'',
      ''- For enum fields, you MUST use one of the listed values exactly. Never return null for enum fields.'',
      ''- \"vendor\" and \"model\" are required. Never null.'',
      ''- \"vendor\": derive from the brand token (Dell, HP, Lenovo). Lowercase preferred.'',
      ''- \"line\": product line name as a free-form string (e.g. \"OptiPlex\", \"ThinkCentre\",'',
      ''  \"EliteDesk\", \"Pro\"). May be null '' @ emdash @ '' the normaliser fills it from known model patterns.'',
      ''- \"model\": the chassis/SKU token (e.g. \"7080\", \"M920\", \"800 G6\"). Strip vendor prefix.'',
      ''- \"form_factor\": chassis class. May be null when ambiguous.'',
      ''- \"ram_gb\": total installed RAM in GB. Convert any \"32GB\" / \"32 GB\" / \"32-GB\" to 32.'',
      ''- \"storage_gb\": total installed storage in GB. Convert TB to GB (1 TB = 1024).'',
      ''- \"condition\": if the listing does not specify, use \"unknown\".'',
      ''- \"confidence\": always return a float between 0.0 and 1.0. Never null.'',
      ''- \"quantity\": default to 1 unless the title explicitly indicates a lot or bundle.'',
      ''- Only use null for optional string/integer/boolean fields that truly cannot be determined.'',
      [],
      ''Title: '']),
    FTitle,
    Txt (lines [
      [],
      ''Item Specifics: '']),
    FItemSpecifics,
    Txt (lines [
      [],
      [],
      ''Schema:'',
      ''{'',
      ''  \"vendor\": string,'',
      ''  \"line\": string | null,'',
      ''  \"model\": string,'',
      ''  \"cpu\": string | null,'',
      ''  \"gpu\": string | null,'',
      ''  \"ram_gb\": integer | null,'',
      ''  \"storage_gb\": integer | null,'',
      ''  \"form_factor\": \"tower\" | \"sff\" | \"micro\" | \"mini\" | null,'',
      ''  \"part_number\": string | null,'',
      ''  \"quantity\": integer,'',
      ''  \"condition\": \"new\" | \"like_new\" | \"used_working\" | \"for_parts\" | \"unknown\",'',
      ''  \"confidence\": float (0.0-1.0)'',
      ''}''])]"

section \<open>Rendering\<close>

fun field :: "prompt_data \<Rightarrow> segment \<Rightarrow> string" where
  "field d (Txt s) = s"
| "field d FTitle = pd_Title d"
| "field d FItemSpecifics = pd_ItemSpecifics d"
| "field d FDescription = pd_Description d"

definition Execute :: "template \<Rightarrow> prompt_data \<Rightarrow> string" where
  "Execute t d = concat (map (field d) t)"

definition templates :: "(component_type \<times> template) list" where
  "templates =
     [(ComponentRAM, ramTmpl), (ComponentDrive, driveTmpl), (ComponentServer, serverTmpl), (ComponentCPU, cpuTmpl),
      (ComponentNIC, nicTmpl), (ComponentGPU, gpuTmpl), (ComponentWorkstation, workstationTmpl),
      (ComponentDesktop, desktopTmpl)]"

definition RenderClassifyPrompt :: "string \<Rightarrow> string" where
  "RenderClassifyPrompt title =
     Execute classifyTmpl \<lparr> pd_Title = title, pd_ItemSpecifics = [], pd_Description = [] \<rparr>"

definition formatItemSpecifics :: "(string, string) gomap \<Rightarrow> string" where
  "formatItemSpecifics specs =
     (if specs = [] then ''N/A'' else join '', '' (map (\<lambda>(k, v). k @ '': '' @ v) specs))"

definition RenderExtractPrompt :: "component_type \<Rightarrow> string \<Rightarrow> (string, string) gomap \<Rightarrow> string option" where
  "RenderExtractPrompt componentType title itemSpecifics = (case map_of templates componentType of
     None \<Rightarrow> None
   | Some tmpl \<Rightarrow> Some (Execute tmpl
       \<lparr> pd_Title = title, pd_ItemSpecifics = formatItemSpecifics itemSpecifics, pd_Description = [] \<rparr>))"

definition RenderServerExtractPrompt :: "string \<Rightarrow> (string, string) gomap \<Rightarrow> string \<Rightarrow> string" where
  "RenderServerExtractPrompt title itemSpecifics description =
     Execute serverTmpl
       \<lparr> pd_Title = title, pd_ItemSpecifics = formatItemSpecifics itemSpecifics, pd_Description = description \<rparr>"

lemma Execute_field: "s \<in> set t \<Longrightarrow> \<exists>u v. Execute t d = u @ field d s @ v"
  by (auto simp: Execute_def dest!: split_list) blast

lemma template_fields:
  "list_all (\<lambda>(ct, t). list_ex (\<lambda>s. s = FTitle) t \<and> list_ex (\<lambda>s. s = FItemSpecifics) t) templates"
  unfolding templates_def ramTmpl_def driveTmpl_def serverTmpl_def cpuTmpl_def nicTmpl_def gpuTmpl_def
    workstationTmpl_def desktopTmpl_def
  by simp

lemma RenderExtractPrompt_cases:
  assumes "RenderExtractPrompt ct title specs = Some p"
  shows "(\<exists>u v. p = u @ title @ v) \<and> (\<exists>u v. p = u @ formatItemSpecifics specs @ v)"
proof -
  obtain t where t: "map_of templates ct = Some t"
    and p: "p = Execute t \<lparr> pd_Title = title, pd_ItemSpecifics = formatItemSpecifics specs, pd_Description = [] \<rparr>"
    using assms by (auto simp: RenderExtractPrompt_def split: option.splits)
  have "FTitle \<in> set t" "FItemSpecifics \<in> set t"
    using template_fields map_of_SomeD [OF t] by (auto simp: list_all_iff list_ex_iff)
  from Execute_field [OF this(1)] Execute_field [OF this(2)] show ?thesis
    unfolding p by (metis field.simps(2,3) prompt_data.select_convs(1,2))
qed

definition has_template :: "component_type \<Rightarrow> bool" where
  "has_template ct \<longleftrightarrow> ct \<in> set [ComponentRAM, ComponentDrive, ComponentServer, ComponentCPU, ComponentNIC,
     ComponentGPU, ComponentWorkstation, ComponentDesktop]"

lemma RenderExtractPrompt_None: "RenderExtractPrompt ct title specs = None \<longleftrightarrow> \<not> has_template ct"
  by (auto simp: RenderExtractPrompt_def templates_def has_template_def split: option.splits if_splits)

text \<open>Every component type except other has an extraction prompt, and the prompt shows the model
  the whole title and all item specifics, unchanged.\<close>

theorem extract_prompt_complete:
  "(RenderExtractPrompt ct title specs \<noteq> None \<longleftrightarrow> has_template ct) \<and>
   (RenderExtractPrompt ct title specs = Some p \<longrightarrow>
      (\<exists>u v. p = u @ title @ v) \<and> (\<exists>u v. p = u @ formatItemSpecifics specs @ v))"
  by (intro conjI impI RenderExtractPrompt_cases) (simp_all add: RenderExtractPrompt_None)

theorem extract_prompt_complete_witness:
  "RenderExtractPrompt ComponentRAM ''DIMM'' [] \<noteq> None \<and> RenderExtractPrompt ComponentOther ''DIMM'' [] = None"
  using extract_prompt_complete [of ComponentRAM "''DIMM''" "[]" undefined]
    extract_prompt_complete [of ComponentOther "''DIMM''" "[]" undefined]
  by (simp add: has_template_def component_defs)

end
