(* ===== verification/Langfuse.thy ===== *)
theory Langfuse
  imports Domain
begin

text \<open>
  The Langfuse client types (\<open>pkg/observability/langfuse/types.go\<close>) and the buffered client
  (\<open>buffered_client.go\<close>): a bounded channel between the callers and one drain goroutine.

  The buffered client is a step relation. The channel is a list, oldest job first; the drain
  goroutine is a phase. Every statement of the code that other goroutines can interleave with is
  a step of its own: a send, a receive, the close of \<open>stopCh\<close>, the move into
  \<open>flushRemaining\<close>, the end of it. Ghost fields record what was accepted, dropped and written.
\<close>

section \<open>Types\<close>

record lf_token_usage =
  lu_InputTokens :: int
  lu_OutputTokens :: int
  lu_TotalTokens :: int

record model_cost =
  mc_InputUSDPerMillion :: f64
  mc_OutputUSDPerMillion :: f64

definition ComputeCost :: "model_cost \<Rightarrow> lf_token_usage \<Rightarrow> f64" where
  "ComputeCost m usage =
     (let tokensPerMillion = Fin 1000000 in
      fadd (fmul (fdiv (f64_of_int (lu_InputTokens usage)) tokensPerMillion) (mc_InputUSDPerMillion m))
           (fmul (fdiv (f64_of_int (lu_OutputTokens usage)) tokensPerMillion) (mc_OutputUSDPerMillion m)))"

definition LevelDefault :: string where "LevelDefault = ''DEFAULT''"
definition LevelError :: string where "LevelError = ''ERROR''"
definition LevelWarning :: string where "LevelWarning = ''WARNING''"

record generation_record =
  gen_TraceID :: string
  gen_SessionID :: string
  gen_Name :: string
  gen_Model :: string
  gen_Prompt :: string
  gen_Completion :: string
  gen_StartTime :: instant
  gen_EndTime :: instant
  gen_Usage :: lf_token_usage
  gen_CostUSD :: f64
  gen_Metadata :: "(string, string) gomap"
  gen_Level :: string
  gen_StatusMsg :: string

record trace_handle =
  th_TraceID :: string

record dataset_item =
  di_ID :: string
  di_Input :: attrs
  di_ExpectedOutput :: attrs
  di_Metadata :: "(string, string) gomap"

record dataset_run_item =
  ri_DatasetItemID :: string
  ri_Output :: attrs
  ri_TraceID :: string

record dataset_run =
  dr_DatasetID :: string
  dr_RunName :: string
  dr_Description :: string
  dr_Metadata :: "(string, string) gomap"
  dr_ItemResults :: "dataset_run_item list"

definition trim_right :: "char \<Rightarrow> string \<Rightarrow> string" where
  "trim_right c s = rev (dropWhile (\<lambda>x. x = c) (rev s))"

definition BuildTraceURL :: "string \<Rightarrow> string \<Rightarrow> string" where
  "BuildTraceURL endpoint traceID =
     (if endpoint = [] \<or> traceID = [] then []
      else trim_right (CHR ''/'') endpoint @ ''/trace/'' @ traceID)"

section \<open>The buffered client\<close>

datatype phase = NotStarted | Running | Flushing | Exited

record 'j buffered =
  bc_capacity :: nat
  bc_jobs :: "'j list"
  bc_once :: bool
  bc_stop :: bool
  bc_phase :: phase
  bc_accepted :: "'j list"
  bc_dropped :: "'j list"
  bc_written :: "('j \<times> bool) list"

definition NewBufferedClient :: "int \<Rightarrow> 'j buffered" where
  "NewBufferedClient capacity =
     \<lparr> bc_capacity = (if capacity \<le> 0 then 1000 else nat capacity), bc_jobs = [], bc_once = False, bc_stop = False,
       bc_phase = NotStarted, bc_accepted = [], bc_dropped = [], bc_written = [] \<rparr>"

text \<open>\<open>enqueue\<close>: a non-blocking send, the default branch drops the new job.\<close>

definition enqueue :: "'j \<Rightarrow> 'j buffered \<Rightarrow> 'j buffered" where
  "enqueue job b =
     (if length (bc_jobs b) < bc_capacity b
      then b\<lparr> bc_jobs := bc_jobs b @ [job], bc_accepted := bc_accepted b @ [job] \<rparr>
      else b\<lparr> bc_dropped := bc_dropped b @ [job] \<rparr>)"

text \<open>\<open>Start\<close>: \<open>startOnce.Do\<close>, and nothing to spawn once \<open>Stop\<close> has run.\<close>

definition Start :: "'j buffered \<Rightarrow> 'j buffered" where
  "Start b = (if bc_once b then b
     else if bc_stop b then b\<lparr> bc_once := True \<rparr>
     else b\<lparr> bc_once := True, bc_phase := Running \<rparr>)"

definition Stop_signal :: "'j buffered \<Rightarrow> 'j buffered" where
  "Stop_signal b = b\<lparr> bc_stop := True \<rparr>"

text \<open>\<open>wg.Wait\<close> returns when no drain goroutine is alive.\<close>

definition Stop_returns :: "'j buffered \<Rightarrow> bool" where
  "Stop_returns b \<longleftrightarrow> bc_stop b \<and> bc_phase b \<in> {NotStarted, Exited}"

definition runJob :: "bool \<Rightarrow> 'j buffered \<Rightarrow> 'j buffered" where
  "runJob success b = (case bc_jobs b of
     [] \<Rightarrow> b
   | job # rest \<Rightarrow> b\<lparr> bc_jobs := rest, bc_written := bc_written b @ [(job, success)] \<rparr>)"

text \<open>One scheduling step of the callers (enqueue, Start, Stop) or of the drain goroutine.\<close>

inductive bstep :: "'j buffered \<Rightarrow> 'j buffered \<Rightarrow> bool" where
  b_enqueue: "bstep b (enqueue job b)"
| b_start: "bstep b (Start b)"
| b_stop: "bstep b (Stop_signal b)"
| b_receive: "bc_phase b = Running \<Longrightarrow> bc_jobs b \<noteq> [] \<Longrightarrow> bstep b (runJob success b)"
| b_see_stop: "bc_phase b = Running \<Longrightarrow> bc_stop b \<Longrightarrow> bstep b (b\<lparr> bc_phase := Flushing \<rparr>)"
| b_flush: "bc_phase b = Flushing \<Longrightarrow> bc_jobs b \<noteq> [] \<Longrightarrow> bstep b (runJob success b)"
| b_exit: "bc_phase b = Flushing \<Longrightarrow> bc_jobs b = [] \<Longrightarrow> bstep b (b\<lparr> bc_phase := Exited \<rparr>)"

inductive_cases bstepE: "bstep b b'"

inductive breach :: "int \<Rightarrow> 'j buffered \<Rightarrow> bool" for capacity where
  br_init: "breach capacity (NewBufferedClient capacity)"
| br_step: "breach capacity b \<Longrightarrow> bstep b b' \<Longrightarrow> breach capacity b'"

definition binv :: "int \<Rightarrow> 'j buffered \<Rightarrow> bool" where
  "binv capacity b \<longleftrightarrow>
     bc_capacity b = (if capacity \<le> 0 then 1000 else nat capacity) \<and>
     length (bc_jobs b) \<le> bc_capacity b \<and>
     bc_accepted b = map fst (bc_written b) @ bc_jobs b \<and>
     (bc_phase b \<noteq> NotStarted \<longrightarrow> bc_once b) \<and>
     (bc_phase b \<in> {Flushing, Exited} \<longrightarrow> bc_stop b)"

lemma binv_new: "binv capacity (NewBufferedClient capacity)"
  by (simp add: binv_def NewBufferedClient_def)

lemma binv_enqueue: "binv capacity b \<Longrightarrow> binv capacity (enqueue job b)"
  by (auto simp: binv_def enqueue_def)

lemma binv_start: "binv capacity b \<Longrightarrow> binv capacity (Start b)"
  by (auto simp: binv_def Start_def)

lemma binv_stop: "binv capacity b \<Longrightarrow> binv capacity (Stop_signal b)"
  by (auto simp: binv_def Stop_signal_def)

lemma binv_run: "binv capacity b \<Longrightarrow> binv capacity (runJob success b)"
  by (auto simp: binv_def runJob_def split: list.split)

lemma binv_step: "bstep b b' \<Longrightarrow> binv capacity b \<Longrightarrow> binv capacity b'"
  by (erule bstepE) (simp_all add: binv_enqueue binv_start binv_stop binv_run, simp_all add: binv_def)

lemma breach_binv: "breach capacity b \<Longrightarrow> binv capacity b"
  by (induction rule: breach.induct) (auto intro: binv_new binv_step)

lemmas breach_steps = br_init br_step [OF _ b_enqueue] br_step [OF _ b_start] br_step [OF _ b_stop]
  br_step [OF _ b_receive] br_step [OF _ b_see_stop] br_step [OF _ b_flush]


definition sample_buffer :: "nat buffered" where
  "sample_buffer = runJob True (Start (enqueue 3 (enqueue 2 (enqueue 1 (NewBufferedClient 2)))))"

lemma sample_buffer_reach: "breach 2 sample_buffer"
  unfolding sample_buffer_def
  by (intro breach_steps)
    (simp_all add: Start_def enqueue_def NewBufferedClient_def)


lemma bstep_phase:
  assumes "bstep b b'" "bc_phase b = Flushing" "bc_phase b' = Exited" shows "bc_jobs b = [] \<and> b' = b\<lparr> bc_phase := Exited \<rparr>"
  using assms
  by (cases rule: bstepE) (auto simp: enqueue_def Start_def Stop_signal_def runJob_def split: if_splits list.splits)

text \<open>A graceful stop loses nothing: when the drain goroutine was started and \<open>Stop\<close> returns, the
  only jobs not written are those enqueued after the final flush found the channel empty.\<close>

theorem buffer_graceful_stop:
  assumes "breach capacity b" and "bstep b b'" and "bc_phase b = Flushing" and "bc_phase b' = Exited"
  shows "map fst (bc_written b') = bc_accepted b' \<and> Stop_returns b'"
proof -
  from bstep_phase [OF assms(2-4)] have "bc_jobs b = []" "b' = b\<lparr> bc_phase := Exited \<rparr>" by simp_all
  then show ?thesis using breach_binv [OF assms(1)] assms(3) by (simp add: binv_def Stop_returns_def)
qed

definition sample_flushing :: "nat buffered" where
  "sample_flushing = (runJob False ((Stop_signal (Start (enqueue 1 (NewBufferedClient 2))))\<lparr> bc_phase := Flushing \<rparr>))"

lemma sample_flushing_reach: "breach 2 sample_flushing"
  unfolding sample_flushing_def
  by (intro breach_steps)
    (simp_all add: Start_def enqueue_def NewBufferedClient_def Stop_signal_def)

theorem buffer_graceful_stop_witness:
  "map fst (bc_written (sample_flushing\<lparr> bc_phase := Exited \<rparr>)) = [1]"
proof -
  have f: "bc_phase sample_flushing = Flushing" "bc_jobs sample_flushing = []" "bc_accepted sample_flushing = [1]"
    by (simp_all add: sample_flushing_def runJob_def Start_def enqueue_def NewBufferedClient_def Stop_signal_def)
  have "bstep sample_flushing (sample_flushing\<lparr> bc_phase := Exited \<rparr>)" by (rule b_exit [OF f(1,2)])
  from buffer_graceful_stop [OF sample_flushing_reach this f(1)] f(3) show ?thesis by simp
qed

end
