(* ===== verification/Backends.thy ===== *)
theory Backends
  imports Langfuse
begin

text \<open>
  The language-model backends: the interface of \<open>pkg/extract/backend.go\<close>, the Ollama, OpenAI
  and Anthropic clients (\<open>ollama.go\<close>, \<open>openai_compat.go\<close>, \<open>anthropic.go\<close>) and the Langfuse
  decorator (\<open>langfuse_backend.go\<close>).

  A backend is a function on a state, so that calls can be counted. The network is a parameter:
  it takes a request (URL, headers, JSON body as a \<open>jval\<close>) and gives a transport error, a body
  that cannot be read, or a status with the body. Decoding of a body by \<open>encoding/json\<close> into the response struct is a
  parameter too; None is its error.
\<close>

definition FormatJSON :: string where "FormatJSON = ''json''"

record generate_request =
  gr_Prompt :: string
  gr_SystemMsg :: string
  gr_Format :: string
  gr_Temperature :: f64
  gr_MaxTokens :: int

record token_usage =
  tu_PromptTokens :: int
  tu_CompletionTokens :: int
  tu_TotalTokens :: int

record generate_response =
  gs_Content :: string
  gs_Model :: string
  gs_Usage :: token_usage

definition zero_response :: generate_response where
  "zero_response = \<lparr> gs_Content = [], gs_Model = [],
     gs_Usage = \<lparr> tu_PromptTokens = 0, tu_CompletionTokens = 0, tu_TotalTokens = 0 \<rparr> \<rparr>"

datatype backend_error =
    NoApiKey
  | MarshalError
  | TransportError string
  | ReadError
  | StatusError int string
  | ApiError int string string
  | DecodeFailed
  | EmptyResponse

text \<open>\<open>(GenerateResponse, error)\<close>: the response is the zero value whenever there is an error.\<close>

type_synonym 's backend = "generate_request \<Rightarrow> 's \<Rightarrow> (backend_error + generate_response) \<times> 's"

record http_request =
  hr_url :: string
  hr_headers :: "(string \<times> string) list"
  hr_body :: jval

type_synonym 's network = "http_request \<Rightarrow> 's \<Rightarrow> http_result \<times> 's"

text \<open>\<open>json.Marshal\<close> refuses NaN and the infinities; \<open>omitempty\<close> drops an empty string, a zero and nil.\<close>

definition json_ok :: "f64 \<Rightarrow> bool" where
  "json_ok x = (case x of Fin _ \<Rightarrow> True | _ \<Rightarrow> False)"

definition omit_str :: "string \<Rightarrow> string \<Rightarrow> (string \<times> jval) list" where
  "omit_str k s = (if s = [] then [] else [(k, JStr s)])"

definition omit_int :: "string \<Rightarrow> int \<Rightarrow> (string \<times> jval) list" where
  "omit_int k n = (if n = 0 then [] else [(k, JInt n)])"

definition positive :: "f64 \<Rightarrow> bool" where "positive t \<longleftrightarrow> flt (Fin 0) t"

definition post_json :: "'s network \<Rightarrow> http_request \<Rightarrow> 's \<Rightarrow> (backend_error + string) \<times> 's" where
  "post_json net r s = (case net r s of
     (HttpFailed e, s) \<Rightarrow> (Inl (TransportError e), s)
   | (BodyUnreadable, s) \<Rightarrow> (Inl ReadError, s)
   | (HttpOK status body, s) \<Rightarrow> (if status \<noteq> 200 then Inl (StatusError status body) else Inr body, s))"

section \<open>Ollama\<close>

record ollama_backend =
  ol_endpoint :: string
  ol_model :: string

record ollama_response =
  or_Model :: string
  or_Response :: string
  or_PromptEvalCount :: int
  or_EvalCount :: int

definition ollamaRequest :: "ollama_backend \<Rightarrow> generate_request \<Rightarrow> jval" where
  "ollamaRequest b req = JObj
     ([(''model'', JStr (ol_model b)), (''prompt'', JStr (gr_Prompt req))] @
      omit_str ''system'' (gr_SystemMsg req) @
      (if gr_Format req = FormatJSON then [(''format'', JStr FormatJSON)] else []) @
      [(''stream'', JBool False)] @
      (if positive (gr_Temperature req)
       then [(''options'', JObj [(''temperature'', JNum (gr_Temperature req))])] else []) @
      omit_int ''num_predict'' (gr_MaxTokens req))"

definition OllamaGenerate ::
  "ollama_backend \<Rightarrow> (string \<Rightarrow> ollama_response option) \<Rightarrow> 's network \<Rightarrow> 's backend" where
  "OllamaGenerate b unmarshal net req s =
     (if positive (gr_Temperature req) \<and> \<not> json_ok (gr_Temperature req) then (Inl MarshalError, s)
      else case post_json net \<lparr> hr_url = ol_endpoint b @ ''/api/generate'',
             hr_headers = [(''Content-Type'', ''application/json'')], hr_body = ollamaRequest b req \<rparr> s of
        (Inl e, s) \<Rightarrow> (Inl e, s)
      | (Inr body, s) \<Rightarrow> (case unmarshal body of
          None \<Rightarrow> (Inl DecodeFailed, s)
        | Some r \<Rightarrow> (Inr \<lparr> gs_Content = or_Response r, gs_Model = or_Model r,
            gs_Usage = \<lparr> tu_PromptTokens = or_PromptEvalCount r, tu_CompletionTokens = or_EvalCount r,
              tu_TotalTokens = wrap64 (or_PromptEvalCount r + or_EvalCount r) \<rparr> \<rparr>, s)))"

section \<open>OpenAI-compatible\<close>

record openai_backend =
  oa_endpoint :: string
  oa_model :: string
  oa_apiKey :: string

record openai_usage =
  ou_PromptTokens :: int
  ou_CompletionTokens :: int
  ou_TotalTokens :: int

text \<open>A choice is the content of its message.\<close>

record openai_chat_response =
  oc_Choices :: "string list"
  oc_Model :: string
  oc_Usage :: openai_usage

definition openAIMessage :: "string \<Rightarrow> string \<Rightarrow> jval" where
  "openAIMessage role content = JObj [(''role'', JStr role), (''content'', JStr content)]"

definition openAIChatRequest :: "openai_backend \<Rightarrow> generate_request \<Rightarrow> jval" where
  "openAIChatRequest b req =
     (let messages = [openAIMessage ''user'' (gr_Prompt req)];
          messages = (if gr_SystemMsg req \<noteq> [] then openAIMessage ''system'' (gr_SystemMsg req) # messages else messages)
      in JObj ([(''model'', JStr (oa_model b)), (''messages'', JArr messages)] @
           (if positive (gr_Temperature req) then [(''temperature'', JNum (gr_Temperature req))] else []) @
           omit_int ''max_tokens'' (gr_MaxTokens req) @
           (if gr_Format req = FormatJSON
            then [(''response_format'', JObj [(''type'', JStr ''json_object'')])] else [])))"

definition OpenAIGenerate ::
  "openai_backend \<Rightarrow> (string \<Rightarrow> openai_chat_response option) \<Rightarrow> 's network \<Rightarrow> 's backend" where
  "OpenAIGenerate b unmarshal net req s =
     (if positive (gr_Temperature req) \<and> \<not> json_ok (gr_Temperature req) then (Inl MarshalError, s)
      else case post_json net \<lparr> hr_url = oa_endpoint b @ ''/v1/chat/completions'',
             hr_headers = (''Content-Type'', ''application/json'') #
               (if oa_apiKey b \<noteq> [] then [(''Authorization'', ''Bearer '' @ oa_apiKey b)] else []),
             hr_body = openAIChatRequest b req \<rparr> s of
        (Inl e, s) \<Rightarrow> (Inl e, s)
      | (Inr body, s) \<Rightarrow> (case unmarshal body of
          None \<Rightarrow> (Inl DecodeFailed, s)
        | Some r \<Rightarrow> (case oc_Choices r of
            [] \<Rightarrow> (Inl EmptyResponse, s)
          | c # _ \<Rightarrow> (Inr \<lparr> gs_Content = c, gs_Model = oc_Model r,
              gs_Usage = \<lparr> tu_PromptTokens = ou_PromptTokens (oc_Usage r),
                tu_CompletionTokens = ou_CompletionTokens (oc_Usage r),
                tu_TotalTokens = ou_TotalTokens (oc_Usage r) \<rparr> \<rparr>, s))))"

section \<open>Anthropic\<close>

record anthropic_backend =
  an_apiKey :: string
  an_model :: string
  an_endpoint :: string
  an_apiVersion :: string

record anthropic_usage =
  au_InputTokens :: int
  au_OutputTokens :: int

text \<open>A content block is its type and text.\<close>

record anthropic_response =
  ar_Content :: "(string \<times> string) list"
  ar_Model :: string
  ar_Usage :: anthropic_usage

definition anthropicRequest :: "anthropic_backend \<Rightarrow> generate_request \<Rightarrow> jval" where
  "anthropicRequest b req =
     (let maxTokens = (if gr_MaxTokens req \<le> 0 then 512 else gr_MaxTokens req)
      in JObj ([(''model'', JStr (an_model b)), (''max_tokens'', JInt maxTokens)] @
           omit_str ''system'' (gr_SystemMsg req) @
           [(''messages'', JArr [openAIMessage ''user'' (gr_Prompt req)])] @
           (if positive (gr_Temperature req) then [(''temperature'', JNum (gr_Temperature req))] else [])))"

text \<open>\<open>unmarshal_error\<close> gives type and message of an API error body.\<close>

definition AnthropicGenerate ::
  "anthropic_backend \<Rightarrow> (string \<Rightarrow> anthropic_response option) \<Rightarrow> (string \<Rightarrow> (string \<times> string) option) \<Rightarrow>
   's network \<Rightarrow> 's backend" where
  "AnthropicGenerate b unmarshal unmarshal_error net req s =
     (if an_apiKey b = [] then (Inl NoApiKey, s)
      else if positive (gr_Temperature req) \<and> \<not> json_ok (gr_Temperature req) then (Inl MarshalError, s)
      else case post_json net \<lparr> hr_url = an_endpoint b,
             hr_headers = [(''Content-Type'', ''application/json''), (''x-api-key'', an_apiKey b),
               (''anthropic-version'', an_apiVersion b)],
             hr_body = anthropicRequest b req \<rparr> s of
        (Inl (StatusError status body), s) \<Rightarrow> (case unmarshal_error body of
            Some (ty, msg) \<Rightarrow> (if msg \<noteq> [] then Inl (ApiError status ty msg) else Inl (StatusError status body), s)
          | None \<Rightarrow> (Inl (StatusError status body), s))
      | (Inl e, s) \<Rightarrow> (Inl e, s)
      | (Inr body, s) \<Rightarrow> (case unmarshal body of
          None \<Rightarrow> (Inl DecodeFailed, s)
        | Some r \<Rightarrow> (case ar_Content r of
            [] \<Rightarrow> (Inl EmptyResponse, s)
          | (ty, c) # _ \<Rightarrow> (Inr \<lparr> gs_Content = c, gs_Model = ar_Model r,
              gs_Usage = \<lparr> tu_PromptTokens = au_InputTokens (ar_Usage r),
                tu_CompletionTokens = au_OutputTokens (ar_Usage r),
                tu_TotalTokens = wrap64 (au_InputTokens (ar_Usage r) + au_OutputTokens (ar_Usage r)) \<rparr> \<rparr>, s))))"

section \<open>The Langfuse decorator\<close>

text \<open>What one call reads from its context and the clock, and the build information. The record is
  handed to the Langfuse client, whose error is ignored; the state of the decorator is the
  state of the inner backend and the records handed over so far. The error text of a failed call and the formatting of
  the temperature are parameters.\<close>

record lf_context =
  lc_TraceID :: string
  lc_SessionID :: string
  lc_Start :: instant
  lc_End :: instant
  lc_CommitSHA :: string
  lc_Semver :: string
  lc_FormatFloat :: "f64 \<Rightarrow> string"
  lc_ErrorText :: "backend_error \<Rightarrow> string"

record langfuse_backend =
  lb_name :: string
  lb_costs :: "(string, model_cost) gomap"

definition buildGenerationRecord ::
  "lf_context \<Rightarrow> string \<Rightarrow> generate_request \<Rightarrow> generate_response \<Rightarrow> backend_error option \<Rightarrow> generation_record" where
  "buildGenerationRecord c name req resp callErr =
     \<lparr> gen_TraceID = lc_TraceID c, gen_SessionID = [], gen_Name = name, gen_Model = gs_Model resp,
       gen_Prompt = gr_Prompt req, gen_Completion = gs_Content resp,
       gen_StartTime = lc_Start c, gen_EndTime = lc_End c,
       gen_Usage = \<lparr> lu_InputTokens = tu_PromptTokens (gs_Usage resp),
         lu_OutputTokens = tu_CompletionTokens (gs_Usage resp), lu_TotalTokens = tu_TotalTokens (gs_Usage resp) \<rparr>,
       gen_CostUSD = Fin 0,
       gen_Metadata = [(''commit_sha'', lc_CommitSHA c), (''semver'', lc_Semver c), (''format'', gr_Format req),
         (''max_tokens'', itoa (gr_MaxTokens req)), (''temperature'', lc_FormatFloat c (gr_Temperature req))],
       gen_Level = (case callErr of None \<Rightarrow> LevelDefault | Some _ \<Rightarrow> LevelError),
       gen_StatusMsg = (case callErr of None \<Rightarrow> [] | Some e \<Rightarrow> lc_ErrorText c e) \<rparr>"

definition LangfuseGenerate ::
  "langfuse_backend \<Rightarrow> lf_context \<Rightarrow> 's backend \<Rightarrow> ('s \<times> generation_record list) backend" where
  "LangfuseGenerate b c inner req st =
     (let (result, s) = inner req (fst st) in
      if lc_TraceID c = [] then (result, (s, snd st))
      else let resp = (case result of Inr r \<Rightarrow> r | Inl _ \<Rightarrow> zero_response);
               err = (case result of Inr _ \<Rightarrow> None | Inl e \<Rightarrow> Some e);
               gen = (buildGenerationRecord c (lb_name b) req resp err)\<lparr> gen_SessionID := lc_SessionID c \<rparr>;
               gen = (case mget (lb_costs b) (gs_Model resp) of
                  Some cost \<Rightarrow> gen\<lparr> gen_CostUSD := ComputeCost cost (gen_Usage gen) \<rparr> | None \<Rightarrow> gen)
           in (result, (s, snd st @ [gen])))"

text \<open>What a client may expect of a wrapped backend: the results of the inner one, on the part of
  the state the inner one owns.\<close>

locale transparent_backend =
  fixes inner :: "'s backend" and outer :: "'t backend" and own :: "'t \<Rightarrow> 's"
  assumes result: "fst (outer req t) = fst (inner req (own t))"
    and state: "own (snd (outer req t)) = snd (inner req (own t))"
begin

lemma step: "inner req (own t) = (r, s) \<Longrightarrow> \<exists>t'. outer req t = (r, t') \<and> own t' = s"
  by (metis fst_conv prod.collapse result snd_conv state)

end

interpretation lfb: transparent_backend inner "LangfuseGenerate b c inner" fst for b c inner
  by unfold_locales (simp_all add: LangfuseGenerate_def Let_def split: prod.split)

lemma LangfuseGenerate_log:
  "snd (snd (LangfuseGenerate b c inner req st)) =
     (if lc_TraceID c = [] then snd st else snd st @ [last (snd (snd (LangfuseGenerate b c inner req st)))])"
  by (simp add: LangfuseGenerate_def Let_def split: prod.split)

text \<open>The backends fail closed: a response is read only from a status 200, so that on any other
  status and on every transport error each of them returns an error and never a partial response;
  and without an API key the Anthropic client does not touch the network.\<close>

theorem backends_fail_closed:
  assumes "\<forall>r s body. fst (net r s) \<noteq> HttpOK 200 body"
  shows "(\<exists>e. fst (OllamaGenerate ol unmarshal_o net req s) = Inl e) \<and>
    (\<exists>e. fst (OpenAIGenerate oa unmarshal_c net req s) = Inl e) \<and>
    (\<exists>e. fst (AnthropicGenerate an unmarshal_a unmarshal_e net req s) = Inl e) \<and>
    (an_apiKey an = [] \<longrightarrow> AnthropicGenerate an unmarshal_a unmarshal_e net req s = (Inl NoApiKey, s))"
proof -
  have "\<exists>e s'. post_json net r s = (Inl e, s')" for r
    using assms by (auto simp: post_json_def split: prod.split http_result.split) (metis fst_conv)
  then obtain err st where post: "post_json net r s = (Inl (err r), st r)" for r
    by metis
  show ?thesis
    by (auto simp: OllamaGenerate_def OpenAIGenerate_def AnthropicGenerate_def post
        split: backend_error.split option.split)
qed

definition sample_ollama :: ollama_backend where
  "sample_ollama = \<lparr> ol_endpoint = ''http://ollama:11434'', ol_model = ''mistral'' \<rparr>"

definition sample_request :: generate_request where
  "sample_request = \<lparr> gr_Prompt = ''hi'', gr_SystemMsg = [], gr_Format = FormatJSON, gr_Temperature = Fin 0,
     gr_MaxTokens = 50 \<rparr>"

theorem backends_fail_closed_witness:
  "\<exists>e. fst (OllamaGenerate sample_ollama (\<lambda>_. None) (\<lambda>r s. (HttpOK 503 [], s + (1 :: nat))) sample_request 0) = Inl e"
  using backends_fail_closed [of "\<lambda>r s. (HttpOK 503 [], s + (1 :: nat))" sample_ollama "\<lambda>_. None" sample_request 0]
  by simp

end
