(* ===== verification/Extractor.thy ===== *)
theory Extractor
  imports Backends Prompts Normalize
begin

text \<open>
  The extraction pipeline (\<open>pkg/extract/extractor.go\<close>): pre-classification, classification by
  the model, extraction, normalisation and validation. The backend is a parameter with a state,
  the JSON decoder of the attributes a parameter: it may fail, give a map, or give the nil map
  (the JSON value null decodes to it without an error). Writing to the nil map is Go's run-time
  panic and the value \<open>NilMapPanic\<close>. Spans, logs, token metrics and the confidence score sent to
  Langfuse have no influence on the result and are left out.
\<close>

datatype decoded = NotJSON | NilMap | DecodedMap attrs

datatype xerr =
    NoPrompt component_type
  | BackendFailed backend_error
  | InvalidComponentType string
  | ParseFailed
  | InvalidExtraction verr
  | NilMapPanic

record 's extractor =
  ex_backend :: "'s backend"
  ex_decode :: "string \<Rightarrow> decoded"
  ex_temperature :: f64
  ex_maxTokens :: int

definition NewLLMExtractor :: "'s backend \<Rightarrow> (string \<Rightarrow> decoded) \<Rightarrow> 's extractor" where
  "NewLLMExtractor backend decode =
     \<lparr> ex_backend = backend, ex_decode = decode, ex_temperature = fl (1 / 10), ex_maxTokens = 512 \<rparr>"

definition fence :: string where "fence = ''```''"

definition stripJSONFences :: "string \<Rightarrow> string" where
  "stripJSONFences s =
     (let s = trim_space s in
      if \<not> has_prefix s fence then s
      else let s = trim_prefix s (fence @ ''json'');
               s = trim_prefix s fence;
               s = trim_suffix s fence
           in trim_space s)"

definition validComponentTypes :: "(string \<times> component_type) list" where
  "validComponentTypes =
     [(''ram'', ComponentRAM), (''drive'', ComponentDrive), (''server'', ComponentServer), (''cpu'', ComponentCPU),
      (''nic'', ComponentNIC), (''gpu'', ComponentGPU), (''workstation'', ComponentWorkstation),
      (''desktop'', ComponentDesktop), (''other'', ComponentOther)]"

definition Classify :: "'s extractor \<Rightarrow> string \<Rightarrow> 's \<Rightarrow> (xerr + component_type) \<times> 's" where
  "Classify e title s =
     (case ex_backend e \<lparr> gr_Prompt = RenderClassifyPrompt title, gr_SystemMsg = [], gr_Format = [],
             gr_Temperature = ex_temperature e, gr_MaxTokens = 50 \<rparr> s of
        (Inl err, s) \<Rightarrow> (Inl (BackendFailed err), s)
      | (Inr resp, s) \<Rightarrow>
          (let raw = trim_space (to_lower (gs_Content resp)) in
           case map_of validComponentTypes raw of
             None \<Rightarrow> (Inl (InvalidComponentType raw), s)
           | Some ct \<Rightarrow> (Inr ct, s)))"

definition parseExtractAttrs :: "'s extractor \<Rightarrow> string \<Rightarrow> xerr + attrs option" where
  "parseExtractAttrs e content = (case ex_decode e content of
     NotJSON \<Rightarrow> Inl ParseFailed | NilMap \<Rightarrow> Inr None | DecodedMap m \<Rightarrow> Inr (Some m))"

text \<open>\<open>NormalizeExtraction\<close> then \<open>ValidateExtraction\<close> on the decoded map; on the nil map the first
  write, the default confidence, panics.\<close>

definition normalize_and_validate :: "component_type \<Rightarrow> string \<Rightarrow> attrs option \<Rightarrow> xerr + attrs" where
  "normalize_and_validate ct title m = (case m of
     None \<Rightarrow> Inl NilMapPanic
   | Some attrs \<Rightarrow> (case ValidateExtraction ct (NormalizeExtraction ct title attrs) of
       (attrs, Some err) \<Rightarrow> Inl (InvalidExtraction err)
     | (attrs, None) \<Rightarrow> Inr attrs))"

definition Extract ::
  "'s extractor \<Rightarrow> component_type \<Rightarrow> string \<Rightarrow> specs \<Rightarrow> 's \<Rightarrow> (xerr + attrs) \<times> 's" where
  "Extract e ct title itemSpecifics s =
     (case RenderExtractPrompt ct title itemSpecifics of
        None \<Rightarrow> (Inl (NoPrompt ct), s)
      | Some prompt \<Rightarrow>
          (case ex_backend e \<lparr> gr_Prompt = prompt, gr_SystemMsg = [], gr_Format = FormatJSON,
                 gr_Temperature = ex_temperature e, gr_MaxTokens = ex_maxTokens e \<rparr> s of
             (Inl err, s) \<Rightarrow> (Inl (BackendFailed err), s)
           | (Inr resp, s) \<Rightarrow>
               (case parseExtractAttrs e (stripJSONFences (gs_Content resp)) of
                  Inl err \<Rightarrow> (Inl err, s)
                | Inr m \<Rightarrow> (normalize_and_validate ct title m, s))))"

definition accessoryShortCircuitConfidence :: f64 where
  "accessoryShortCircuitConfidence = fl (95 / 100)"

definition ClassifyAndExtract ::
  "'s extractor \<Rightarrow> string \<Rightarrow> specs \<Rightarrow> 's \<Rightarrow> (component_type \<times> (xerr + attrs)) \<times> 's" where
  "ClassifyAndExtract e title itemSpecifics s =
     (let ct = DetectSystemTypeFromTitle title in
      if ct \<noteq> [] then (case Extract e ct title itemSpecifics s of (r, s) \<Rightarrow> ((ct, r), s))
      else if IsAccessoryOnly title
        then ((ComponentOther, Inr [(''confidence'', JNum accessoryShortCircuitConfidence)]), s)
      else let ct = DetectSystemTypeFromSpecifics itemSpecifics in
        if ct \<noteq> [] then (case Extract e ct title itemSpecifics s of (r, s) \<Rightarrow> ((ct, r), s))
        else (case Classify e title s of
            (Inl err, s) \<Rightarrow> (([], Inl err), s)
          | (Inr ct, s) \<Rightarrow> (case Extract e ct title itemSpecifics s of (r, s) \<Rightarrow> ((ct, r), s))))"

section \<open>What comes out\<close>

lemma normalize_and_validate_Inr:
  "normalize_and_validate ct title m = Inr attrs \<Longrightarrow>
   \<exists>m0. m = Some m0 \<and> ValidateExtraction ct (NormalizeExtraction ct title m0) = (attrs, None)"
  by (auto simp: normalize_and_validate_def split: option.splits prod.splits)

lemma Extract_Inr:
  assumes "Extract e ct title specs s = (Inr attrs, s')"
  shows "has_template ct \<and> (\<exists>m0. ValidateExtraction ct (NormalizeExtraction ct title m0) = (attrs, None))"
  using assms RenderExtractPrompt_None [of ct title specs]
  by (auto simp: Extract_def split: option.splits prod.splits sum.splits dest!: normalize_and_validate_Inr)

lemma ClassifyAndExtract_cases:
  obtains (title) ct where "DetectSystemTypeFromTitle title = ct" "ct \<noteq> []"
      "ClassifyAndExtract e title specs s = ((ct, fst (Extract e ct title specs s)), snd (Extract e ct title specs s))"
  | (accessory) "DetectSystemTypeFromTitle title = []" "IsAccessoryOnly title"
      "ClassifyAndExtract e title specs s =
         ((ComponentOther, Inr [(''confidence'', JNum accessoryShortCircuitConfidence)]), s)"
  | (specifics) ct where "DetectSystemTypeFromTitle title = []" "\<not> IsAccessoryOnly title"
      "DetectSystemTypeFromSpecifics specs = ct" "ct \<noteq> []"
      "ClassifyAndExtract e title specs s = ((ct, fst (Extract e ct title specs s)), snd (Extract e ct title specs s))"
  | (unclassified) err s' where "Classify e title s = (Inl err, s')"
      "ClassifyAndExtract e title specs s = (([], Inl err), s')"
  | (classified) ct s' where "Classify e title s = (Inr ct, s')"
      "ClassifyAndExtract e title specs s = ((ct, fst (Extract e ct title specs s')), snd (Extract e ct title specs s'))"
proof (cases "Classify e title s")
  case (Pair r s')
  then show ?thesis
    using title accessory specifics unclassified classified
    by (cases r; cases "DetectSystemTypeFromTitle title = []"; cases "IsAccessoryOnly title";
        cases "DetectSystemTypeFromSpecifics specs = []")
      (simp_all add: ClassifyAndExtract_def Let_def split_beta)
qed

text \<open>C6. The pipeline only ever returns well-formed attributes: a successful extraction that is not
  an accessory has a component type with a schema, and its attributes satisfy every rule of it,
  whatever the model answered. An accessory carries its fixed confidence and nothing else.\<close>

theorem ClassifyAndExtract_well_formed:
  assumes "ClassifyAndExtract e title specs s = ((ct, Inr attrs), s')"
  shows "(ct = ComponentOther \<and> s' = s \<and> attrs = [(''confidence'', JNum accessoryShortCircuitConfidence)]) \<or>
    (has_template ct \<and> well_formed ct attrs)"
proof -
  have ext: "has_template c \<and> well_formed c attrs" if fe: "fst (Extract e c title specs t) = Inr attrs" for c t
  proof -
    obtain t' where "Extract e c title specs t = (Inr attrs, t')" using fe by (metis prod.collapse)
    from Extract_Inr [OF this] obtain m0
      where ht: "has_template c" and v: "ValidateExtraction c (NormalizeExtraction c title m0) = (attrs, None)" by blast
    from ValidateExtraction_again [OF v] have "well_formed c attrs" .
    with ht show ?thesis by simp
  qed
  show ?thesis
    by (cases rule: ClassifyAndExtract_cases [of title e specs s]) (use assms ext in auto)
qed

text \<open>A backend with a script: it answers with the next text and counts its calls in the list left over.\<close>

definition scripted :: "string list backend" where
  "scripted req script = (case script of
     [] \<Rightarrow> (Inl EmptyResponse, [])
   | a # as \<Rightarrow> (Inr (zero_response\<lparr> gs_Content := a \<rparr>), as))"

definition sample_extractor :: "decoded \<Rightarrow> string list extractor" where
  "sample_extractor d = NewLLMExtractor scripted (\<lambda>_. d)"

definition sample_answer :: attrs where
  "sample_answer = [(''condition'', JStr ''Used''), (''capacity_gb'', JInt 32768), (''generation'', JStr ''DDR4'')]"

lemma sample_title_facts:
  "DetectSystemTypeFromTitle ''Samsung DIMM'' = []" "\<not> IsAccessoryOnly ''Samsung DIMM''"
  by code_simp+

lemma scripted_step: "scripted req (a # as) = (Inr (zero_response\<lparr> gs_Content := a \<rparr>), as)"
  by (simp add: scripted_def)

lemma sample_run:
  assumes "map_of validComponentTypes (trim_space (to_lower a)) = Some ct"
  shows "ClassifyAndExtract (sample_extractor d) ''Samsung DIMM'' [] [a, b] =
    (let r = Extract (sample_extractor d) ct ''Samsung DIMM'' [] [b] in ((ct, fst r), snd r))"
  using assms by (simp add: ClassifyAndExtract_def sample_title_facts DetectSystemTypeFromSpecifics_def Classify_def
      sample_extractor_def NewLLMExtractor_def scripted_step Let_def split_beta)

lemma sample_ram_run:
  "ClassifyAndExtract (sample_extractor (DecodedMap sample_answer)) ''Samsung DIMM'' [] [''ram'', ''{}''] =
   ((ComponentRAM, normalize_and_validate ComponentRAM ''Samsung DIMM'' (Some sample_answer)), [])"
proof -
  have a: "map_of validComponentTypes (trim_space (to_lower ''ram'')) = Some ComponentRAM" by code_simp
  have t: "RenderExtractPrompt ComponentRAM ''Samsung DIMM'' [] \<noteq> None"
    by (simp add: RenderExtractPrompt_None has_template_def)
  show ?thesis
    using t unfolding sample_run [OF a]
    by (auto simp: Extract_def sample_extractor_def NewLLMExtractor_def scripted_step parseExtractAttrs_def Let_def)
qed

lemma sample_ram_ok:
  "\<exists>attrs. normalize_and_validate ComponentRAM ''Samsung DIMM'' (Some sample_answer) = Inr attrs"
proof -
  have "snd (ValidateExtraction ComponentRAM (NormalizeExtraction ComponentRAM ''Samsung DIMM'' sample_answer)) = None"
    by code_simp
  then show ?thesis by (auto simp: normalize_and_validate_def split: prod.split)
qed

theorem ClassifyAndExtract_well_formed_witness:
  "\<exists>attrs. fst (ClassifyAndExtract (sample_extractor (DecodedMap sample_answer)) ''Samsung DIMM'' [] [''ram'', ''{}''])
     = (ComponentRAM, Inr attrs) \<and> well_formed ComponentRAM attrs"
proof -
  obtain attrs where a: "normalize_and_validate ComponentRAM ''Samsung DIMM'' (Some sample_answer) = Inr attrs"
    using sample_ram_ok by blast
  have run: "ClassifyAndExtract (sample_extractor (DecodedMap sample_answer)) ''Samsung DIMM'' [] [''ram'', ''{}'']
      = ((ComponentRAM, Inr attrs), [])"
    unfolding sample_ram_run a ..
  from ClassifyAndExtract_well_formed [OF run] have "well_formed ComponentRAM attrs" by (auto simp: component_defs)
  with run show ?thesis by simp
qed

text \<open>Accessories cost nothing: a title the rules recognise as a bare accessory, and not as a
  complete system, gets its type without any call to the model, whatever the backend would do and
  whatever the item specifics say.\<close>

theorem accessory_never_calls_model:
  assumes "IsAccessoryOnly title" and "DetectSystemTypeFromTitle title = []"
  shows "ClassifyAndExtract e title specs s =
    ((ComponentOther, Inr [(''confidence'', JNum accessoryShortCircuitConfidence)]), s)"
  using assms by (simp add: ClassifyAndExtract_def)

theorem accessory_never_calls_model_witness:
  "ClassifyAndExtract (sample_extractor NotJSON) ''Dell R740XD SAS Cable 0YPNRC'' [] [''server''] =
    ((ComponentOther, Inr [(''confidence'', JNum accessoryShortCircuitConfidence)]), [''server''])"
proof (rule accessory_never_calls_model)
  show "IsAccessoryOnly ''Dell R740XD SAS Cable 0YPNRC''" by code_simp
  show "DetectSystemTypeFromTitle ''Dell R740XD SAS Cable 0YPNRC'' = []" by code_simp
qed

text \<open>When the model classifies a listing as other, the pipeline fails: other has no extraction
  prompt, so every listing the classification prompt tells the model to put there ends in an
  error instead of the type other, after the one classification call.\<close>

theorem classified_other_fails:
  assumes "Classify e title s = (Inr ComponentOther, s')" and "DetectSystemTypeFromTitle title = []"
    and "\<not> IsAccessoryOnly title" and "DetectSystemTypeFromSpecifics specs = []"
  shows "ClassifyAndExtract e title specs s = ((ComponentOther, Inl (NoPrompt ComponentOther)), s')"
proof -
  have "RenderExtractPrompt ComponentOther title specs = None"
    by (simp add: RenderExtractPrompt_None has_template_def component_defs)
  then show ?thesis using assms by (simp add: ClassifyAndExtract_def Extract_def)
qed

theorem classified_other_fails_witness:
  "fst (ClassifyAndExtract (sample_extractor NotJSON) ''Samsung DIMM'' [] [''Other'']) =
    (ComponentOther, Inl (NoPrompt ComponentOther))"
proof -
  have "map_of validComponentTypes (trim_space (to_lower ''Other'')) = Some ComponentOther" by code_simp
  then have "Classify (sample_extractor NotJSON) ''Samsung DIMM'' [''Other''] = (Inr ComponentOther, [])"
    by (simp add: Classify_def sample_extractor_def NewLLMExtractor_def scripted_step Let_def)
  from classified_other_fails [OF this sample_title_facts] show ?thesis
    by (simp add: DetectSystemTypeFromSpecifics_def)
qed

text \<open>An answer that decodes to the nil map (the JSON text null) panics for every component type
  that has a prompt: the default confidence is written into a map that does not exist.\<close>

theorem null_answer_panics:
  assumes "has_template ct" and "\<forall>req. \<exists>resp s'. ex_backend e req s = (Inr resp, s') \<and>
    ex_decode e (stripJSONFences (gs_Content resp)) = NilMap"
  shows "fst (Extract e ct title specs s) = Inl NilMapPanic"
proof -
  obtain prompt where p: "RenderExtractPrompt ct title specs = Some prompt"
    using assms(1) RenderExtractPrompt_None [of ct title specs] by auto
  define req where "req = \<lparr> gr_Prompt = prompt, gr_SystemMsg = [], gr_Format = FormatJSON,
    gr_Temperature = ex_temperature e, gr_MaxTokens = ex_maxTokens e \<rparr>"
  obtain resp s' where "ex_backend e req s = (Inr resp, s')"
    "ex_decode e (stripJSONFences (gs_Content resp)) = NilMap" using assms(2) by blast
  then show ?thesis
    by (simp add: Extract_def p req_def [symmetric] parseExtractAttrs_def normalize_and_validate_def)
qed

theorem null_answer_panics_witness:
  "fst (Extract (sample_extractor NilMap) ComponentRAM ''DIMM'' [] [''null'']) = Inl NilMapPanic"
  by (rule null_answer_panics)
    (simp_all add: has_template_def sample_extractor_def NewLLMExtractor_def scripted_step)

section \<open>A wrapped backend\<close>

definition same_extractor :: "'s extractor \<Rightarrow> 't extractor \<Rightarrow> bool" where
  "same_extractor e e' \<longleftrightarrow> ex_decode e = ex_decode e' \<and> ex_temperature e = ex_temperature e' \<and>
     ex_maxTokens e = ex_maxTokens e'"

context transparent_backend
begin

lemma Classify_same:
  assumes "same_extractor e e'" "ex_backend e = inner" "ex_backend e' = outer"
  shows "fst (Classify e' title t) = fst (Classify e title (own t)) \<and>
    own (snd (Classify e' title t)) = snd (Classify e title (own t))"
proof -
  define req where "req = \<lparr> gr_Prompt = RenderClassifyPrompt title, gr_SystemMsg = [], gr_Format = [],
             gr_Temperature = ex_temperature e, gr_MaxTokens = 50 \<rparr>"
  obtain r s where i: "inner req (own t) = (r, s)" by fastforce
  from step [OF i] obtain t' where o: "outer req t = (r, t')" "own t' = s" by blast
  show ?thesis
    using assms i o unfolding Classify_def same_extractor_def
    by (cases r) (auto simp: req_def Let_def split: option.split)
qed

lemma Extract_same:
  assumes "same_extractor e e'" "ex_backend e = inner" "ex_backend e' = outer"
  shows "fst (Extract e' ct title specs t) = fst (Extract e ct title specs (own t)) \<and>
    own (snd (Extract e' ct title specs t)) = snd (Extract e ct title specs (own t))"
proof (cases "RenderExtractPrompt ct title specs")
  case (Some prompt)
  define req where "req = \<lparr> gr_Prompt = prompt, gr_SystemMsg = [], gr_Format = FormatJSON,
    gr_Temperature = ex_temperature e, gr_MaxTokens = ex_maxTokens e \<rparr>"
  obtain r s where i: "inner req (own t) = (r, s)" by fastforce
  from step [OF i] obtain t' where o: "outer req t = (r, t')" "own t' = s" by blast
  have p: "parseExtractAttrs e' = parseExtractAttrs e"
    using assms(1) by (simp add: parseExtractAttrs_def same_extractor_def fun_eq_iff)
  show ?thesis
    using assms i o unfolding Extract_def same_extractor_def Some
    by (cases r) (auto simp: req_def p split: sum.split)
qed (simp add: Extract_def)

lemma ClassifyAndExtract_same:
  assumes "same_extractor e e'" "ex_backend e = inner" "ex_backend e' = outer"
  shows "fst (ClassifyAndExtract e' title specs t) = fst (ClassifyAndExtract e title specs (own t)) \<and>
    own (snd (ClassifyAndExtract e' title specs t)) = snd (ClassifyAndExtract e title specs (own t))"
proof -
  note C = Classify_same [OF assms] and E = Extract_same [OF assms]
  obtain r t1 where c: "Classify e' title t = (r, t1)" by fastforce
  then have c': "Classify e title (own t) = (r, own t1)" using C [of title t] by (metis fst_conv prod.collapse snd_conv)
  show ?thesis
    unfolding ClassifyAndExtract_def Let_def split_beta c c'
    using E by (cases r) simp_all
qed

end

text \<open>C23. Recording the calls in Langfuse changes nothing: with the decorated backend the pipeline
  returns the same component type, attributes or error, and drives the inner backend through the
  same calls, as with the backend alone.\<close>

theorem langfuse_transparent:
  assumes "same_extractor e e'" and "ex_backend e = inner" and "ex_backend e' = LangfuseGenerate b c inner"
  shows "fst (ClassifyAndExtract e' title specs t) = fst (ClassifyAndExtract e title specs (fst t)) \<and>
    fst (snd (ClassifyAndExtract e' title specs t)) = snd (ClassifyAndExtract e title specs (fst t))"
  by (rule lfb.ClassifyAndExtract_same [OF assms])

definition sample_lf :: lf_context where
  "sample_lf = \<lparr> lc_TraceID = ''t'', lc_SessionID = [], lc_Start = 0, lc_End = 1, lc_CommitSHA = [], lc_Semver = [],
     lc_FormatFloat = (\<lambda>_. []), lc_ErrorText = (\<lambda>_. []) \<rparr>"

theorem langfuse_transparent_witness:
  "fst (ClassifyAndExtract (NewLLMExtractor (LangfuseGenerate \<lparr> lb_name = ''n'', lb_costs = [] \<rparr> sample_lf scripted)
      (\<lambda>_. NotJSON)) ''Samsung DIMM'' [] ([''ram'', ''{''], []))
   = fst (ClassifyAndExtract (sample_extractor NotJSON) ''Samsung DIMM'' [] [''ram'', ''{''])"
  using langfuse_transparent [of "sample_extractor NotJSON" "NewLLMExtractor (LangfuseGenerate \<lparr> lb_name = ''n'', lb_costs = [] \<rparr> sample_lf scripted)
      (\<lambda>_. NotJSON)" scripted "\<lparr> lb_name = ''n'', lb_costs = [] \<rparr>" sample_lf "''Samsung DIMM''" "[]" "([''ram'', ''{''], [])"]
  by (simp add: same_extractor_def sample_extractor_def NewLLMExtractor_def)

end
