(* ===== verification/RateLimiter.thy ===== *)
theory RateLimiter
  imports Prelude
begin

text \<open>
  The limiter of the eBay client (\<open>internal/ebay/ratelimit.go\<close>): a daily quota over a rolling
  window of 24 hours on top of a token bucket. The token bucket of \<open>golang.org/x/time/rate\<close> is
  outside the repository; its \<open>Wait\<close> either lets the call through or fails, and the model leaves
  that open.

  \<open>Wait\<close> is given twice: as the function a single caller runs, and as the sequence of its
  atomic actions (the locked reset, the load and comparison, the wait on the bucket, the add)
  that concurrent callers interleave.
\<close>

record limiter =
  rl_daily :: int
  rl_maxDaily :: int
  rl_windowStart :: instant
  rl_resetAt :: instant

datatype wait_error = DailyLimitReached int int | LimiterWait

definition NewRateLimiter :: "int \<Rightarrow> instant \<Rightarrow> limiter" where
  "NewRateLimiter maxDaily now =
     \<lparr> rl_daily = 0, rl_maxDaily = maxDaily, rl_windowStart = now, rl_resetAt = now + 24 * hour \<rparr>"

definition checkDailyReset :: "instant \<Rightarrow> limiter \<Rightarrow> limiter" where
  "checkDailyReset now r =
     (if now > rl_resetAt r
      then r\<lparr> rl_daily := 0, rl_windowStart := now, rl_resetAt := now + 24 * hour \<rparr> else r)"

definition Wait :: "instant \<Rightarrow> bool \<Rightarrow> limiter \<Rightarrow> wait_error option \<times> limiter" where
  "Wait now bucket r =
     (let r = checkDailyReset now r in
      if rl_daily r \<ge> rl_maxDaily r then (Some (DailyLimitReached (rl_daily r) (rl_maxDaily r)), r)
      else if \<not> bucket then (Some LimiterWait, r)
      else (None, r\<lparr> rl_daily := wrap64 (rl_daily r + 1) \<rparr>))"

definition DailyCount :: "limiter \<Rightarrow> int" where "DailyCount r = rl_daily r"
definition MaxDaily :: "limiter \<Rightarrow> int" where "MaxDaily r = rl_maxDaily r"

definition Remaining :: "limiter \<Rightarrow> int" where
  "Remaining r = (let remaining = wrap64 (rl_maxDaily r - rl_daily r) in if remaining < 0 then 0 else remaining)"

definition ResetAt :: "limiter \<Rightarrow> instant" where "ResetAt r = rl_resetAt r"

definition Sync :: "int \<Rightarrow> int \<Rightarrow> instant \<Rightarrow> limiter \<Rightarrow> limiter" where
  "Sync count limit resetAt r =
     r\<lparr> rl_maxDaily := limit, rl_daily := count, rl_resetAt := resetAt, rl_windowStart := resetAt - 24 * hour \<rparr>"

section \<open>Concurrent callers\<close>

text \<open>Where a caller is inside \<open>Wait\<close>.\<close>

datatype pc = Outside | Checked | Passed | Granted

record shared =
  sh_lim :: limiter
  sh_pc :: "pc list"

inductive wstep :: "shared \<Rightarrow> shared \<Rightarrow> bool" where
  w_reset: "i < length (sh_pc s) \<Longrightarrow> sh_pc s ! i = Outside \<Longrightarrow>
     wstep s (s\<lparr> sh_lim := checkDailyReset now (sh_lim s), sh_pc := (sh_pc s)[i := Checked] \<rparr>)"
| w_refuse: "i < length (sh_pc s) \<Longrightarrow> sh_pc s ! i = Checked \<Longrightarrow> rl_daily (sh_lim s) \<ge> rl_maxDaily (sh_lim s) \<Longrightarrow>
     wstep s (s\<lparr> sh_pc := (sh_pc s)[i := Outside] \<rparr>)"
| w_pass: "i < length (sh_pc s) \<Longrightarrow> sh_pc s ! i = Checked \<Longrightarrow> rl_daily (sh_lim s) < rl_maxDaily (sh_lim s) \<Longrightarrow>
     wstep s (s\<lparr> sh_pc := (sh_pc s)[i := Passed] \<rparr>)"
| w_grant: "i < length (sh_pc s) \<Longrightarrow> sh_pc s ! i = Passed \<Longrightarrow> wstep s (s\<lparr> sh_pc := (sh_pc s)[i := Granted] \<rparr>)"
| w_cancel: "i < length (sh_pc s) \<Longrightarrow> sh_pc s ! i = Passed \<Longrightarrow> wstep s (s\<lparr> sh_pc := (sh_pc s)[i := Outside] \<rparr>)"
| w_add: "i < length (sh_pc s) \<Longrightarrow> sh_pc s ! i = Granted \<Longrightarrow>
     wstep s (s\<lparr> sh_lim := (sh_lim s)\<lparr> rl_daily := wrap64 (rl_daily (sh_lim s) + 1) \<rparr>, sh_pc := (sh_pc s)[i := Outside] \<rparr>)"

inductive_cases wstepE: "wstep s s'"

text \<open>Callers between the comparison and the add.\<close>

definition flying :: "pc \<Rightarrow> bool" where "flying p \<longleftrightarrow> p = Passed \<or> p = Granted"

primrec in_flight :: "pc list \<Rightarrow> int" where
  "in_flight [] = 0"
| "in_flight (p # ps) = of_bool (flying p) + in_flight ps"

inductive wreach :: "nat \<Rightarrow> int \<Rightarrow> instant \<Rightarrow> shared \<Rightarrow> bool" for n maxDaily start where
  wr_init: "wreach n maxDaily start \<lparr> sh_lim = NewRateLimiter maxDaily start, sh_pc = replicate n Outside \<rparr>"
| wr_step: "wreach n maxDaily start s \<Longrightarrow> wstep s s' \<Longrightarrow> wreach n maxDaily start s'"

definition winv :: "nat \<Rightarrow> int \<Rightarrow> shared \<Rightarrow> bool" where
  "winv n maxDaily s \<longleftrightarrow> length (sh_pc s) = n \<and> rl_maxDaily (sh_lim s) = maxDaily \<and> 0 \<le> rl_daily (sh_lim s) \<and>
     rl_daily (sh_lim s) + in_flight (sh_pc s) \<le> maxDaily + int n - 1"

lemma in_flight_update:
  "i < length ps \<Longrightarrow> in_flight (ps[i := p]) = in_flight ps - of_bool (flying (ps ! i)) + of_bool (flying p)"
proof (induction ps arbitrary: i)
  case (Cons a ps)
  then show ?case by (cases i) simp_all
qed simp

lemma in_flight_le: "in_flight ps \<le> int (length ps)"
  by (induction ps) simp_all

lemma in_flight_nonneg: "0 \<le> in_flight ps"
  by (induction ps) simp_all

lemma in_flight_strict: "Checked \<in> set ps \<Longrightarrow> in_flight ps < int (length ps)"
proof (induction ps)
  case (Cons a ps)
  then show ?case using in_flight_le [of ps] by (cases "a = Checked") (auto simp: flying_def)
qed simp

lemma winv_step:
  assumes "wstep s s'" "winv n maxDaily s" "1 \<le> maxDaily" "maxDaily + int n \<le> int64_max"
  shows "winv n maxDaily s'"
  using assms(1)
proof (cases rule: wstep.cases)
  case (w_reset i now)
  have "in_flight (sh_pc s) \<le> int n" using assms(2) in_flight_le [of "sh_pc s"] by (simp add: winv_def)
  then show ?thesis
    using w_reset assms by (auto simp: winv_def in_flight_update flying_def checkDailyReset_def)
next
  case (w_pass i)
  then have "in_flight (sh_pc s) < int n" using assms(2) in_flight_strict [of "sh_pc s"] nth_mem [of i "sh_pc s"] by (simp add: winv_def)
  then show ?thesis using w_pass assms by (auto simp: winv_def in_flight_update flying_def)
next
  case (w_add i)
  have "0 \<le> rl_daily (sh_lim s)" "rl_daily (sh_lim s) + 1 \<le> maxDaily + int n"
    using assms(2) in_flight_nonneg [of "sh_pc s"] by (auto simp: winv_def)
  then have "wrap64 (rl_daily (sh_lim s) + 1) = rl_daily (sh_lim s) + 1"
    using assms(4) by (intro wrap64_id) (simp add: in_int64_def int64_min_def int64_max_def)
  then show ?thesis using w_add assms by (auto simp: winv_def in_flight_update flying_def)
qed (use assms in \<open>auto simp: winv_def in_flight_update flying_def\<close>)

lemma wreach_winv:
  assumes "wreach n maxDaily start s" "1 \<le> maxDaily" "maxDaily + int n \<le> int64_max" "1 \<le> n"
  shows "winv n maxDaily s"
  using assms
proof (induction rule: wreach.induct)
  case wr_init
  have "in_flight (replicate k Outside) = 0" for k by (induction k) (simp_all add: flying_def)
  then show ?case using wr_init by (simp add: winv_def NewRateLimiter_def)
next
  case (wr_step s s')
  then show ?case by (intro winv_step [of s s']) auto
qed


definition race_state :: "int \<Rightarrow> pc \<Rightarrow> pc \<Rightarrow> shared" where
  "race_state d p q = \<lparr> sh_lim = \<lparr> rl_daily = d, rl_maxDaily = 1, rl_windowStart = 0, rl_resetAt = 24 * hour \<rparr>,
     sh_pc = [p, q] \<rparr>"

lemma race_step:
  "wreach 2 1 0 (race_state 0 Outside Outside)"
  "wreach 2 1 0 (race_state 0 Outside Outside) \<Longrightarrow> wreach 2 1 0 (race_state 0 Checked Outside)"
  "wreach 2 1 0 (race_state 0 Checked Outside) \<Longrightarrow> wreach 2 1 0 (race_state 0 Checked Checked)"
  "wreach 2 1 0 (race_state 0 Checked Checked) \<Longrightarrow> wreach 2 1 0 (race_state 0 Passed Checked)"
  "wreach 2 1 0 (race_state 0 Passed Checked) \<Longrightarrow> wreach 2 1 0 (race_state 0 Passed Passed)"
  "wreach 2 1 0 (race_state 0 Passed Passed) \<Longrightarrow> wreach 2 1 0 (race_state 0 Granted Passed)"
  "wreach 2 1 0 (race_state 0 Granted Passed) \<Longrightarrow> wreach 2 1 0 (race_state 0 Granted Granted)"
  "wreach 2 1 0 (race_state 0 Granted Granted) \<Longrightarrow> wreach 2 1 0 (race_state 1 Outside Granted)"
  "wreach 2 1 0 (race_state 1 Outside Granted) \<Longrightarrow> wreach 2 1 0 (race_state 2 Outside Outside)"
proof -
  show "wreach 2 1 0 (race_state 0 Outside Outside)"
    using wr_init [of 2 1 0] by (simp add: race_state_def NewRateLimiter_def numeral_2_eq_2)
  show "wreach 2 1 0 (race_state 0 Outside Outside) \<Longrightarrow> wreach 2 1 0 (race_state 0 Checked Outside)"
    by (erule wr_step) (use w_reset [of 0 "race_state 0 Outside Outside" 0] in \<open>simp add: race_state_def checkDailyReset_def\<close>)
  show "wreach 2 1 0 (race_state 0 Checked Outside) \<Longrightarrow> wreach 2 1 0 (race_state 0 Checked Checked)"
    by (erule wr_step) (use w_reset [of 1 "race_state 0 Checked Outside" 0] in \<open>simp add: race_state_def checkDailyReset_def\<close>)
  show "wreach 2 1 0 (race_state 0 Checked Checked) \<Longrightarrow> wreach 2 1 0 (race_state 0 Passed Checked)"
    by (erule wr_step) (use w_pass [of 0 "race_state 0 Checked Checked"] in \<open>simp add: race_state_def\<close>)
  show "wreach 2 1 0 (race_state 0 Passed Checked) \<Longrightarrow> wreach 2 1 0 (race_state 0 Passed Passed)"
    by (erule wr_step) (use w_pass [of 1 "race_state 0 Passed Checked"] in \<open>simp add: race_state_def\<close>)
  show "wreach 2 1 0 (race_state 0 Passed Passed) \<Longrightarrow> wreach 2 1 0 (race_state 0 Granted Passed)"
    by (erule wr_step) (use w_grant [of 0 "race_state 0 Passed Passed"] in \<open>simp add: race_state_def\<close>)
  show "wreach 2 1 0 (race_state 0 Granted Passed) \<Longrightarrow> wreach 2 1 0 (race_state 0 Granted Granted)"
    by (erule wr_step) (use w_grant [of 1 "race_state 0 Granted Passed"] in \<open>simp add: race_state_def\<close>)
  show "wreach 2 1 0 (race_state 0 Granted Granted) \<Longrightarrow> wreach 2 1 0 (race_state 1 Outside Granted)"
    by (erule wr_step) (use w_add [of 0 "race_state 0 Granted Granted"] in \<open>simp add: race_state_def wrap64_def\<close>)
  show "wreach 2 1 0 (race_state 1 Outside Granted) \<Longrightarrow> wreach 2 1 0 (race_state 2 Outside Outside)"
    by (erule wr_step) (use w_add [of 1 "race_state 1 Outside Granted"] in \<open>simp add: race_state_def wrap64_def\<close>)
qed

lemma race_reach: "wreach 2 1 0 (race_state 2 Outside Outside)"
  by (intro race_step)

text \<open>The bound is reached: two callers with a quota of one both pass the comparison before
  either counts its call, and two calls are made.\<close>

theorem daily_quota_exceeded:
  "\<exists>s. wreach 2 1 0 s \<and> rl_daily (sh_lim s) = 2 \<and> rl_maxDaily (sh_lim s) = 1"
  using race_reach by (intro exI [of _ "race_state 2 Outside Outside"]) (simp add: race_state_def)


section \<open>One caller\<close>

text \<open>The function is one way through the steps, from entering to leaving, for any outcome.\<close>

lemma Wait_is_steps:
  "wstep\<^sup>*\<^sup>* \<lparr> sh_lim = r, sh_pc = [Outside] \<rparr> \<lparr> sh_lim = snd (Wait now bucket r), sh_pc = [Outside] \<rparr>"
proof -
  let ?s = "\<lambda>l p. \<lparr> sh_lim = l, sh_pc = [p] \<rparr>"
  let ?r = "checkDailyReset now r"
  have reset: "wstep (?s r Outside) (?s ?r Checked)"
    using w_reset [of 0 "?s r Outside" now] by simp
  have refuse: "wstep (?s ?r Checked) (?s ?r Outside)" if "rl_daily ?r \<ge> rl_maxDaily ?r"
    using that w_refuse [of 0 "?s ?r Checked"] by simp
  have pass: "wstep (?s ?r Checked) (?s ?r Passed)" if "\<not> rl_daily ?r \<ge> rl_maxDaily ?r"
    using that w_pass [of 0 "?s ?r Checked"] by simp
  have cancel: "wstep (?s ?r Passed) (?s ?r Outside)"
    using w_cancel [of 0 "?s ?r Passed"] by simp
  have grant: "wstep (?s ?r Passed) (?s ?r Granted)"
    using w_grant [of 0 "?s ?r Passed"] by simp
  have add: "wstep (?s ?r Granted) (?s (?r\<lparr> rl_daily := wrap64 (rl_daily ?r + 1) \<rparr>) Outside)"
    using w_add [of 0 "?s ?r Granted"] by simp
  consider "rl_daily ?r \<ge> rl_maxDaily ?r"
    | "\<not> rl_daily ?r \<ge> rl_maxDaily ?r" "\<not> bucket" | "\<not> rl_daily ?r \<ge> rl_maxDaily ?r" "bucket" by blast
  then show ?thesis
  proof cases
    case 1
    then show ?thesis using reset refuse by (simp add: Wait_def Let_def)
  next
    case 2
    then show ?thesis using reset pass cancel
      by (simp add: Wait_def Let_def)
  next
    case 3
    then show ?thesis using reset pass grant add
      by (simp add: Wait_def Let_def)
  qed
qed

lemma checkDailyReset_open: "now \<le> rl_resetAt (checkDailyReset now r)"
  by (simp add: checkDailyReset_def)

text \<open>A granted call is counted, in a window that is still open: the quota left falls by exactly one
  and is never negative. A refused call counts nothing: it says that the quota is used up, or that the
  token bucket refused.\<close>

theorem Wait_accounts:
  assumes "0 \<le> rl_daily r" and "rl_daily r \<le> int64_max" and "0 \<le> rl_maxDaily r" and "rl_maxDaily r \<le> int64_max"
  shows "case Wait now bucket r of
      (None, r') \<Rightarrow> bucket \<and> Remaining r' = Remaining (checkDailyReset now r) - 1 \<and> 0 \<le> Remaining r'
                     \<and> now \<le> rl_resetAt r'
    | (Some LimiterWait, r') \<Rightarrow> \<not> bucket \<and> r' = checkDailyReset now r
    | (Some (DailyLimitReached c m), r') \<Rightarrow> r' = checkDailyReset now r \<and> Remaining r' = 0 \<and> m \<le> c"
proof -
  let ?r = "checkDailyReset now r"
  have r: "0 \<le> rl_daily ?r" "rl_daily ?r \<le> int64_max" "0 \<le> rl_maxDaily ?r" "rl_maxDaily ?r \<le> int64_max"
    using assms by (simp_all add: checkDailyReset_def int64_max_def)
  show ?thesis
  proof (cases "rl_daily ?r \<ge> rl_maxDaily ?r")
    case True
    have "wrap64 (rl_maxDaily ?r - rl_daily ?r) = rl_maxDaily ?r - rl_daily ?r"
      using r by (intro wrap64_id) (simp add: in_int64_def int64_min_def int64_max_def)
    then have "Remaining ?r = 0" using True by (simp add: Remaining_def Let_def)
    then show ?thesis using True by (simp add: Wait_def Let_def)
  next
    case False
    then have w: "wrap64 (rl_daily ?r + 1) = rl_daily ?r + 1"
      "wrap64 (rl_maxDaily ?r - rl_daily ?r) = rl_maxDaily ?r - rl_daily ?r"
      "wrap64 (rl_maxDaily ?r - (rl_daily ?r + 1)) = rl_maxDaily ?r - (rl_daily ?r + 1)"
      using r by (auto intro!: wrap64_id simp: in_int64_def int64_min_def int64_max_def)
    then show ?thesis
      using False checkDailyReset_open [of now r] by (simp add: Wait_def Let_def Remaining_def)
  qed
qed

theorem Wait_accounts_witness:
  "Remaining (snd (Wait 5 True (NewRateLimiter 3 0))) = 2 \<and> rl_daily (NewRateLimiter 3 0) = 0"
  using Wait_accounts [where r = "NewRateLimiter 3 0" and now = 5 and bucket = True]
  by (simp add: NewRateLimiter_def Wait_def checkDailyReset_def int64_max_def Remaining_def wrap64_def)

end
