(* ===== verification/Url.thy ===== *)
theory Url
  imports GoStrings "HOL-Library.Char_ord" "HOL-Library.List_Lexorder"
begin

text \<open>
  The part of \<open>net/url\<close> the clients use: escaping of a query component, \<open>Values.Encode\<close> with its
  sorted keys, and the decoders they are checked against. A \<open>url.Values\<close> that is only ever written by
  \<open>Set\<close> holds one value per key and is a Go map.
\<close>

section \<open>Escaping\<close>

definition hex_digit :: "nat \<Rightarrow> char" where
  "hex_digit n = (if n < 10 then char_of (48 + n) else char_of (55 + n))"

definition hex_val :: "char \<Rightarrow> nat option" where
  "hex_val c = (let n = of_char c in
     if 48 \<le> n \<and> n \<le> 57 then Some (n - 48)
     else if 65 \<le> n \<and> n \<le> 70 then Some (n - 55)
     else if 97 \<le> n \<and> n \<le> 102 then Some (n - 87) else None)"

definition unreserved :: "char \<Rightarrow> bool" where
  "unreserved c \<longleftrightarrow> is_word c \<or> c = CHR ''-'' \<or> c = CHR ''.'' \<or> c = CHR ''~''"

definition escape_char :: "char \<Rightarrow> string" where
  "escape_char c =
     (if unreserved c then [c] else if c = CHR '' '' then ''+''
      else [CHR ''%'', hex_digit (of_char c div 16), hex_digit (of_char c mod 16)])"

definition QueryEscape :: "string \<Rightarrow> string" where
  "QueryEscape s = concat (map escape_char s)"

fun QueryUnescape :: "string \<Rightarrow> string option" where
  "QueryUnescape [] = Some []"
| "QueryUnescape (c # cs) =
     (if c = CHR ''%'' then
        (case cs of
           h # l # cs' \<Rightarrow> (case (hex_val h, hex_val l) of
               (Some a, Some b) \<Rightarrow> map_option (Cons (char_of (16 * a + b))) (QueryUnescape cs')
             | _ \<Rightarrow> None)
         | _ \<Rightarrow> None)
      else map_option (Cons (if c = CHR ''+'' then CHR '' '' else c)) (QueryUnescape cs))"

section \<open>Queries\<close>

type_synonym url_values = "(string, string) gomap"

fun join :: "string \<Rightarrow> string list \<Rightarrow> string" where
  "join sep [] = []"
| "join sep [w] = w"
| "join sep (w # ws) = w @ sep @ join sep ws"

definition Encode :: "url_values \<Rightarrow> string" where
  "Encode v = join ''&'' (map (\<lambda>(k, x). QueryEscape k @ ''='' @ QueryEscape x) (sort_key fst v))"

fun split_at :: "char \<Rightarrow> string \<Rightarrow> string list" where
  "split_at d [] = [[]]"
| "split_at d (c # cs) =
     (if c = d then [] # split_at d cs
      else case split_at d cs of [] \<Rightarrow> [[c]] | w # ws \<Rightarrow> (c # w) # ws)"

definition parse_pair :: "string \<Rightarrow> (string \<times> string) option" where
  "parse_pair w =
     (case (QueryUnescape (takeWhile (\<lambda>c. c \<noteq> CHR ''='') w), QueryUnescape (drop 1 (dropWhile (\<lambda>c. c \<noteq> CHR ''='') w))) of
        (Some k, Some x) \<Rightarrow> Some (k, x) | _ \<Rightarrow> None)"

fun parse_pairs :: "string list \<Rightarrow> (string \<times> string) list option" where
  "parse_pairs [] = Some []"
| "parse_pairs (w # ws) =
     (if w = [] then parse_pairs ws
      else case (parse_pair w, parse_pairs ws) of (Some p, Some ps) \<Rightarrow> Some (p # ps) | _ \<Rightarrow> None)"

definition ParseQuery :: "string \<Rightarrow> (string \<times> string) list option" where
  "ParseQuery s = parse_pairs (split_at (CHR ''&'') s)"

section \<open>Round trips\<close>

lemma of_char_less: "(of_char (c::char) :: nat) < 256"
  using of_char_mod_256 [of c, where 'a = nat] by simp

lemma of_char_hex: "n < 16 \<Longrightarrow> of_char (hex_digit n) = (if n < 10 then 48 + n else 55 + n :: nat)"
  by (simp add: hex_digit_def)

lemma hex_val_digit: "n < 16 \<Longrightarrow> hex_val (hex_digit n) = Some n"
  by (simp add: hex_val_def of_char_hex Let_def)

lemma char_of_hex: "char_of (16 * (of_char c div 16) + of_char c mod 16 :: nat) = c"
  by (simp add: mult.commute)

lemma is_word_percent: "\<not> unreserved (CHR ''%'')" "\<not> unreserved (CHR ''+'')" "\<not> unreserved (CHR ''='')"
  "\<not> unreserved (CHR ''&'')" "\<not> unreserved (CHR '' '')"
  by (simp_all add: unreserved_def is_word_def is_digit_def is_upper_def is_lower_def)

lemma unescape_char: "QueryUnescape (escape_char c @ s) = map_option (Cons c) (QueryUnescape s)"
proof (cases "unreserved c \<or> c = CHR '' ''")
  case True
  then show ?thesis using is_word_percent by (auto simp: escape_char_def)
next
  case False
  have "of_char c div 16 < (16::nat)" using of_char_less [of c] by (simp add: less_mult_imp_div_less)
  then show ?thesis using False by (simp add: escape_char_def hex_val_digit char_of_hex)
qed

lemma unescape_escape: "QueryUnescape (QueryEscape s) = Some s"
  by (induction s) (simp_all add: QueryEscape_def unescape_char)

lemma hex_digit_unreserved: "n < 16 \<Longrightarrow> unreserved (hex_digit n)"
  by (auto simp: unreserved_def is_word_def is_digit_def is_upper_def of_char_hex Let_def)

lemma escape_chars: "c \<in> set (QueryEscape s) \<Longrightarrow> unreserved c \<or> c = CHR ''+'' \<or> c = CHR ''%''"
proof -
  assume "c \<in> set (QueryEscape s)"
  then obtain a where a: "c \<in> set (escape_char a)" by (auto simp: QueryEscape_def)
  have "of_char a div 16 < (16::nat)" using of_char_less [of a] by (simp add: less_mult_imp_div_less)
  then show ?thesis using a by (auto simp: escape_char_def hex_digit_unreserved split: if_splits)
qed

lemma escape_no_delimiter: "CHR ''='' \<notin> set (QueryEscape s)" "CHR ''&'' \<notin> set (QueryEscape s)"
  using escape_chars [of "CHR ''=''" s] escape_chars [of "CHR ''&''" s] is_word_percent by auto

lemma split_at_nonempty [simp]: "split_at d s \<noteq> []"
  by (cases s) (auto split: list.split)

lemma split_at_word: "d \<notin> set w \<Longrightarrow> split_at d w = [w]"
  by (induction w) auto

lemma split_at_append: "d \<notin> set w \<Longrightarrow> split_at d (w @ d # s) = w # split_at d s"
  by (induction w) auto

lemma split_at_join:
  "ws \<noteq> [] \<Longrightarrow> \<forall>w\<in>set ws. d \<notin> set w \<Longrightarrow> split_at d (join [d] ws) = ws"
  by (induction "[d]" ws rule: join.induct) (simp_all add: split_at_word split_at_append)

lemma takeWhile_cut: "d \<notin> set a \<Longrightarrow> takeWhile (\<lambda>c. c \<noteq> d) (a @ d # b) = a"
  by (induction a) auto

lemma dropWhile_cut: "d \<notin> set a \<Longrightarrow> dropWhile (\<lambda>c. c \<noteq> d) (a @ d # b) = d # b"
  by (induction a) auto

lemma parse_pair_encoded: "parse_pair (QueryEscape k @ ''='' @ QueryEscape x) = Some (k, x)"
  by (simp add: parse_pair_def takeWhile_cut dropWhile_cut escape_no_delimiter unescape_escape)

lemma parse_pairs_encoded:
  "parse_pairs (map (\<lambda>(k, x). QueryEscape k @ ''='' @ QueryEscape x) ps) = Some ps"
  by (induction ps) (auto simp: parse_pair_encoded simp flip: append_Cons)

lemma ParseQuery_Encode: "ParseQuery (Encode v) = Some (sort_key fst v)"
proof (cases "v = []")
  case True
  then show ?thesis by (simp add: Encode_def ParseQuery_def)
next
  case False
  let ?ws = "map (\<lambda>(k, x). QueryEscape k @ ''='' @ QueryEscape x) (sort_key fst v)"
  have "sort_key fst v \<noteq> []" using False by (metis length_0_conv length_sort)
  then have "split_at (CHR ''&'') (join ''&'' ?ws) = ?ws"
    by (intro split_at_join) (auto simp: escape_no_delimiter)
  then show ?thesis
    by (simp only: Encode_def ParseQuery_def parse_pairs_encoded)
qed

text \<open>Writing \<open>url.Values\<close> in any order gives the same query string.\<close>

lemma sort_key_map_eq:
  fixes v w :: "(string \<times> 'a) list"
  assumes "map_eq v w" and "distinct (map fst v)" and "distinct (map fst w)"
  shows "sort_key fst v = sort_key fst w"
proof -
  have "(k, x) \<in> set v \<longleftrightarrow> (k, x) \<in> set w" for k x
    using map_of_eq_Some_iff [OF assms(2), of k x] map_of_eq_Some_iff [OF assms(3), of k x] assms(1)
    by (simp add: map_eq_def)
  then have "set v = set w" by auto
  moreover have "distinct (map fst (sort_key fst v))" "distinct (map fst (sort_key fst w))"
    using assms(2,3) by (simp_all add: distinct_map)
  moreover have "inj_on fst (set v)" using assms(2) by (simp add: distinct_map)
  ultimately show ?thesis
    by (intro map_sorted_distinct_set_unique [of fst]) simp_all
qed

end
