(* ===== verification/Numbers.thy ===== *)
theory Numbers
  imports GoStrings Float64
begin

text \<open>
  \<open>strconv.ParseFloat\<close> and the conversion of seconds to durations. The spellings of infinities and NaN,
  hexadecimal floats and digit separators, which none of the services send, count as syntax errors here.
\<close>

fun span_digits :: "string \<Rightarrow> string \<times> string" where
  "span_digits [] = ([], [])"
| "span_digits (c # cs) = (if is_digit c then (case span_digits cs of (ds, r) \<Rightarrow> (c # ds, r)) else ([], c # cs))"

text \<open>\<open>strconv.ParseFloat\<close> for an optional sign, decimal digits with an optional point, and an optional
  exponent; a value that rounds to an infinity is the range error.\<close>

definition parse_sign :: "string \<Rightarrow> bool \<times> string" where
  "parse_sign s = (case s of
     c # cs \<Rightarrow> if c = CHR ''-'' then (True, cs) else if c = CHR ''+'' then (False, cs) else (False, s)
   | [] \<Rightarrow> (False, []))"

definition parse_exponent :: "string \<Rightarrow> int option" where
  "parse_exponent s = (case s of
     [] \<Rightarrow> Some 0
   | c # cs \<Rightarrow> if c = CHR ''e'' \<or> c = CHR ''E''
       then (let (neg, ds) = parse_sign cs in
         if ds \<noteq> [] \<and> list_all is_digit ds
         then Some (if neg then - int (digits_val ds) else int (digits_val ds)) else None)
       else None)"

definition scale10 :: "int \<Rightarrow> rat" where
  "scale10 e = (if 0 \<le> e then 10 ^ nat e else 1 / 10 ^ nat (- e))"

definition ParseFloat :: "string \<Rightarrow> f64 option" where
  "ParseFloat s =
     (let (neg, s) = parse_sign s;
          (ip, s) = span_digits s;
          (fp, s) = (case s of c # cs \<Rightarrow> if c = CHR ''.'' then span_digits cs else ([], s) | [] \<Rightarrow> ([], []))
      in if ip @ fp = [] then None
         else case parse_exponent s of
           None \<Rightarrow> None
         | Some e \<Rightarrow>
             (let m = of_nat (digits_val (ip @ fp)) * scale10 (e - int (length fp))
              in case fl (if neg then - m else m) of Fin q \<Rightarrow> Some (Fin q) | _ \<Rightarrow> None))"

text \<open>\<open>time.Duration(secs * float64(time.Second))\<close>.\<close>

definition duration_of_seconds :: "f64 \<Rightarrow> duration" where
  "duration_of_seconds secs = f64_trunc (fmul secs (f64_of_int second))"

end
