(* ===== verification/Ebay.thy ===== *)
theory Ebay
  imports RateLimiter Attributes Url Numbers
begin

text \<open>
  The eBay client: conversion of search results (\<open>internal/ebay/convert.go\<close>), pagination
  (\<open>paginator.go\<close>), the OAuth token cache (\<open>auth.go\<close>), the search call (\<open>browse.go\<close>) and the
  quota report (\<open>analytics.go\<close>).

  The network is a parameter, and so are the decoders of its bodies and \<open>time.Parse\<close> for RFC 3339
  time stamps.
\<close>

section \<open>Search results\<close>

record item_price =
  ip_Value :: string
  ip_Currency :: string

record item_seller =
  is_Username :: string
  is_FeedbackScore :: int
  is_FeedbackPercentage :: string

record item_summary =
  it_ItemID :: string
  it_Title :: string
  it_Price :: item_price
  it_ItemWebURL :: string
  it_Image :: "string option"
  it_Seller :: "item_seller option"
  it_Condition :: string
  it_ConditionID :: string
  it_BuyingOptions :: "string list"
  it_ShippingOptions :: "item_price option list"
  it_ItemEndDate :: string
  it_Categories :: "string list"
  it_TopRatedBuyingExperience :: bool

definition parseListingType :: "string list \<Rightarrow> listing_type" where
  "parseListingType buyingOptions =
     (if ''AUCTION'' \<in> set buyingOptions then ListingAuction
      else if ''BEST_OFFER'' \<in> set buyingOptions then ListingBestOffer
      else ListingBuyItNow)"

definition zero_listing :: listing where
  "zero_listing = \<lparr> l_id = [], l_ebay_id = [], l_title = [], l_item_url = [], l_image_url = [], l_price = Fin 0,
     l_currency = [], l_shipping_cost = None, l_listing_type = [], l_seller_name = [], l_seller_feedback = 0,
     l_seller_feedback_pct = Fin 0, l_seller_top_rated = False, l_component_type = [], l_condition_raw = [],
     l_condition_norm = [], l_quantity = 0, l_attributes = [], l_extraction_confidence = Fin 0, l_product_key = [],
     l_score = None, l_score_breakdown = [], l_active = False, l_listed_at = None, l_sold_at = None,
     l_sold_price = None, l_auction_end_at = None, l_first_seen_at = 0, l_updated_at = 0 \<rparr>"

definition toListing :: "(string \<Rightarrow> instant option) \<Rightarrow> item_summary \<Rightarrow> listing" where
  "toListing parse_time item =
     (let l = zero_listing\<lparr> l_ebay_id := it_ItemID item, l_title := it_Title item, l_item_url := it_ItemWebURL item,
            l_currency := ip_Currency (it_Price item), l_listing_type := parseListingType (it_BuyingOptions item),
            l_quantity := 1 \<rparr>;
          l = (case ParseFloat (ip_Value (it_Price item)) of Some p \<Rightarrow> l\<lparr> l_price := p \<rparr> | None \<Rightarrow> l);
          l = (case it_Image item of
                 Some u \<Rightarrow> if u \<noteq> [] then l\<lparr> l_image_url := u \<rparr> else l | None \<Rightarrow> l);
          l = (case it_Seller item of
                 Some sl \<Rightarrow>
                   (let l = l\<lparr> l_seller_name := is_Username sl, l_seller_feedback := is_FeedbackScore sl \<rparr>
                    in case ParseFloat (is_FeedbackPercentage sl) of
                      Some pct \<Rightarrow> l\<lparr> l_seller_feedback_pct := pct \<rparr> | None \<Rightarrow> l)
               | None \<Rightarrow> l);
          l = l\<lparr> l_seller_top_rated := it_TopRatedBuyingExperience item \<rparr>;
          l = (if it_ItemEndDate item \<noteq> []
               then (case parse_time (it_ItemEndDate item) of Some t \<Rightarrow> l\<lparr> l_auction_end_at := Some t \<rparr> | None \<Rightarrow> l)
               else l);
          l = l\<lparr> l_condition_raw := it_Condition item, l_condition_norm := NormalizeCondition (it_Condition item) \<rparr>
      in case it_ShippingOptions item of
           Some sc # _ \<Rightarrow> (case ParseFloat (ip_Value sc) of
             Some cost \<Rightarrow> l\<lparr> l_shipping_cost := Some cost \<rparr> | None \<Rightarrow> l)
         | _ \<Rightarrow> l)"

definition ToListings :: "(string \<Rightarrow> instant option) \<Rightarrow> item_summary list \<Rightarrow> listing list" where
  "ToListings parse_time items = map (toListing parse_time) items"

section \<open>Pagination\<close>

definition defaultPageSize :: int where "defaultPageSize = 200"
definition defaultMaxPages :: int where "defaultMaxPages = 10"
definition defaultFirstRunPages :: int where "defaultFirstRunPages = 5"

record search_request =
  sr_Query :: string
  sr_CategoryID :: string
  sr_Limit :: int
  sr_Offset :: int
  sr_Sort :: string
  sr_Filters :: "(string, string) gomap"

record search_response =
  sp_Items :: "item_summary list"
  sp_Total :: int
  sp_Offset :: int
  sp_Limit :: int
  sp_HasMore :: bool

text \<open>\<open>EbayClient.Search\<close> and \<open>ListingChecker.GetListing\<close>; the checker's error is logged and ignored.\<close>

type_synonym ('e, 's) ebay_client = "search_request \<Rightarrow> 's \<Rightarrow> ('e + search_response) \<times> 's"
type_synonym 's listing_checker = "string \<Rightarrow> 's \<Rightarrow> listing option \<times> 's"

record paginator =
  pg_pageSize :: int
  pg_maxPages :: int

definition NewPaginator :: paginator where
  "NewPaginator = \<lparr> pg_pageSize = defaultPageSize, pg_maxPages = defaultMaxPages \<rparr>"

record paginate_result =
  pr_NewListings :: "listing list"
  pr_TotalSeen :: int
  pr_PagesUsed :: int
  pr_StoppedAt :: string

text \<open>The loop over the listings of a page; the flag is \<open>foundKnown\<close>.\<close>

fun page_loop :: "'s listing_checker \<Rightarrow> listing list \<Rightarrow> paginate_result \<Rightarrow> 's \<Rightarrow> (paginate_result \<times> bool) \<times> 's" where
  "page_loop get [] result s = ((result, False), s)"
| "page_loop get (l # ls) result s =
     (let result = result\<lparr> pr_TotalSeen := pr_TotalSeen result + 1 \<rparr> in
      case get (l_ebay_id l) s of
        (Some existing, s) \<Rightarrow> ((result, True), s)
      | (None, s) \<Rightarrow> page_loop get ls (result\<lparr> pr_NewListings := pr_NewListings result @ [l] \<rparr>) s)"

fun pages_loop ::
  "(string \<Rightarrow> instant option) \<Rightarrow> ('e, 's) ebay_client \<Rightarrow> 's listing_checker \<Rightarrow> int \<Rightarrow> search_request \<Rightarrow>
   nat list \<Rightarrow> paginate_result \<Rightarrow> 's \<Rightarrow> ((nat \<times> 'e) + paginate_result) \<times> 's" where
  "pages_loop parse_time search get pageSize req [] result s =
     (Inr (result\<lparr> pr_StoppedAt := ''max_pages'' \<rparr>), s)"
| "pages_loop parse_time search get pageSize req (page # ps) result s =
     (case search (req\<lparr> sr_Offset := int page * pageSize \<rparr>) s of
        (Inl err, s) \<Rightarrow> (Inl (page, err), s)
      | (Inr resp, s) \<Rightarrow>
          (let result = result\<lparr> pr_PagesUsed := pr_PagesUsed result + 1 \<rparr> in
           if sp_Items resp = [] then (Inr (result\<lparr> pr_StoppedAt := ''no_more_results'' \<rparr>), s)
           else case page_loop get (ToListings parse_time (sp_Items resp)) result s of
             ((result, foundKnown), s) \<Rightarrow>
               if foundKnown then (Inr (result\<lparr> pr_StoppedAt := ''known_listing'' \<rparr>), s)
               else if \<not> sp_HasMore resp then (Inr (result\<lparr> pr_StoppedAt := ''no_more_results'' \<rparr>), s)
               else pages_loop parse_time search get pageSize req ps result s))"

definition Paginate ::
  "(string \<Rightarrow> instant option) \<Rightarrow> ('e, 's) ebay_client \<Rightarrow> 's listing_checker \<Rightarrow> paginator \<Rightarrow> search_request \<Rightarrow> bool \<Rightarrow>
   's \<Rightarrow> ((nat \<times> 'e) + paginate_result) \<times> 's" where
  "Paginate parse_time search get p req isFirstRun s =
     (let maxPages = (if isFirstRun \<and> pg_maxPages p > defaultFirstRunPages then defaultFirstRunPages else pg_maxPages p);
          req = req\<lparr> sr_Limit := pg_pageSize p \<rparr>;
          result = \<lparr> pr_NewListings = [], pr_TotalSeen = 0, pr_PagesUsed = 0, pr_StoppedAt = [] \<rparr>
      in pages_loop parse_time search get (pg_pageSize p) req [0..<nat maxPages] result s)"

section \<open>Tokens\<close>

definition refreshBuffer :: duration where "refreshBuffer = 60 * second"

record token_provider =
  tp_token :: string
  tp_expiry :: instant

text \<open>The token endpoint answers a form request with an error, or with a token and its lifetime in
  seconds; \<open>now\<close> is read before the request and \<open>now'\<close> after it. Durations wrap like \<open>int64\<close>.\<close>

datatype token_answer = TokenFailed string | TokenGranted string int

definition refreshLocked :: "instant \<Rightarrow> token_answer \<Rightarrow> token_provider \<Rightarrow> (string + string) \<times> token_provider" where
  "refreshLocked now' answer p = (case answer of
     TokenFailed err \<Rightarrow> (Inl err, p)
   | TokenGranted token expiresIn \<Rightarrow>
       (let p = p\<lparr> tp_token := token, tp_expiry := now' + wrap64 (expiresIn * second) \<rparr>
        in (Inr (tp_token p), p)))"

text \<open>The bool tells whether the endpoint was called.\<close>

definition Token :: "instant \<Rightarrow> instant \<Rightarrow> token_answer \<Rightarrow> token_provider \<Rightarrow> ((string + string) \<times> bool) \<times> token_provider" where
  "Token now now' answer p =
     (if tp_token p \<noteq> [] \<and> now < tp_expiry p - refreshBuffer then ((Inr (tp_token p), False), p)
      else case refreshLocked now' answer p of (r, p) \<Rightarrow> ((r, True), p))"

section \<open>The search call\<close>

record browse_client =
  bc_browseURL :: string
  bc_marketplace :: string
  bc_limited :: bool

definition defaultBrowseURL :: string where
  "defaultBrowseURL = ''https://api.ebay.com/buy/browse/v1/item_summary/search''"

definition defaultMarketplace :: string where "defaultMarketplace = ''EBAY_US''"

text \<open>\<open>bc_limited\<close> tells whether a rate limiter was injected.\<close>

definition NewBrowseClient :: browse_client where
  "NewBrowseClient = \<lparr> bc_browseURL = defaultBrowseURL, bc_marketplace = defaultMarketplace, bc_limited = False \<rparr>"

record browse_api_response =
  ba_ItemSummaries :: "item_summary list"
  ba_Total :: int
  ba_Offset :: int
  ba_Limit :: int
  ba_Next :: string

record get_request =
  gq_url :: string
  gq_headers :: "(string \<times> string) list"

type_synonym 's getter = "get_request \<Rightarrow> 's \<Rightarrow> http_result \<times> 's"
type_synonym 's token_source = "'s \<Rightarrow> (string + string) \<times> 's"

datatype search_error =
    RateLimit wait_error
  | AuthFailed string
  | RequestFailed string
  | BodyFailed
  | ApiStatus int string
  | ParseFailed

text \<open>\<open>url.Values.Set\<close> for the fields, then for the filters in the order of the map.\<close>

definition searchParams :: "search_request \<Rightarrow> url_values" where
  "searchParams req =
     (let params = mput ''q'' (sr_Query req) [];
          params = (if sr_CategoryID req \<noteq> [] then mput ''category_ids'' (sr_CategoryID req) params else params);
          limit = (if sr_Limit req \<le> 0 then 50 else sr_Limit req);
          params = mput ''limit'' (itoa limit) params;
          params = (if sr_Offset req > 0 then mput ''offset'' (itoa (sr_Offset req)) params else params);
          params = (if sr_Sort req \<noteq> [] then mput ''sort'' (sr_Sort req) params else params)
      in fold (\<lambda>(k, v). mput k v) (sr_Filters req) params)"

definition buildSearchURL :: "browse_client \<Rightarrow> search_request \<Rightarrow> string" where
  "buildSearchURL c req = bc_browseURL c @ ''?'' @ Encode (searchParams req)"

definition Search ::
  "browse_client \<Rightarrow> (string \<Rightarrow> browse_api_response option) \<Rightarrow> 's token_source \<Rightarrow> 's getter \<Rightarrow> instant \<Rightarrow> bool \<Rightarrow>
   search_request \<Rightarrow> limiter \<times> 's \<Rightarrow> (search_error + search_response) \<times> (limiter \<times> 's)" where
  "Search c unmarshal token net now bucket req st =
     (case st of (rl, s) \<Rightarrow>
      case (if bc_limited c then Wait now bucket rl else (None, rl)) of
        (Some e, rl) \<Rightarrow> (Inl (RateLimit e), (rl, s))
      | (None, rl) \<Rightarrow>
          (case token s of
             (Inl e, s) \<Rightarrow> (Inl (AuthFailed e), (rl, s))
           | (Inr tok, s) \<Rightarrow>
               (case net \<lparr> gq_url = buildSearchURL c req,
                     gq_headers = [(''Authorization'', ''Bearer '' @ tok),
                                   (''X-EBAY-C-MARKETPLACE-ID'', bc_marketplace c),
                                   (''Content-Type'', ''application/json'')] \<rparr> s of
                  (HttpFailed e, s) \<Rightarrow> (Inl (RequestFailed e), (rl, s))
                | (BodyUnreadable, s) \<Rightarrow> (Inl BodyFailed, (rl, s))
                | (HttpOK status body, s) \<Rightarrow>
                    (if status \<noteq> 200 then (Inl (ApiStatus status body), (rl, s))
                     else case unmarshal body of
                       None \<Rightarrow> (Inl ParseFailed, (rl, s))
                     | Some r \<Rightarrow> (Inr \<lparr> sp_Items = ba_ItemSummaries r, sp_Total = ba_Total r, sp_Offset = ba_Offset r,
                         sp_Limit = ba_Limit r, sp_HasMore = (ba_Next r \<noteq> []) \<rparr>, (rl, s))))))"

section \<open>The quota report\<close>

definition browseResourceName :: string where "browseResourceName = ''buy.browse''"

record quota_rate =
  qr_Count :: int
  qr_Limit :: int
  qr_Remaining :: int
  qr_Reset :: string
  qr_TimeWindow :: int

record resource =
  rs_Name :: string
  rs_Rates :: "quota_rate list"

record rate_limit_entry =
  re_APIContext :: string
  re_APIName :: string
  re_APIVersion :: string
  re_Resources :: "resource list"

record quota_state =
  qs_Count :: int
  qs_Limit :: int
  qs_Remaining :: int
  qs_ResetAt :: instant
  qs_TimeWindow :: duration

datatype quota_error = NoRates | BadResetTime string | ResourceNotFound

text \<open>The loop over the resources of one entry: None means nothing was found.\<close>

fun resources_loop :: "(string \<Rightarrow> instant option) \<Rightarrow> resource list \<Rightarrow> (quota_error + quota_state) option" where
  "resources_loop parse_time [] = None"
| "resources_loop parse_time (res # ress) =
     (if rs_Name res \<noteq> browseResourceName then resources_loop parse_time ress
      else Some (case rs_Rates res of
        [] \<Rightarrow> Inl NoRates
      | r # _ \<Rightarrow> (case parse_time (qr_Reset r) of
          None \<Rightarrow> Inl (BadResetTime (qr_Reset r))
        | Some resetAt \<Rightarrow> Inr \<lparr> qs_Count = qr_Count r, qs_Limit = qr_Limit r, qs_Remaining = qr_Remaining r,
            qs_ResetAt = resetAt, qs_TimeWindow = wrap64 (qr_TimeWindow r * second) \<rparr>)))"

fun extractBrowseQuota :: "(string \<Rightarrow> instant option) \<Rightarrow> rate_limit_entry list \<Rightarrow> quota_error + quota_state" where
  "extractBrowseQuota parse_time [] = Inl ResourceNotFound"
| "extractBrowseQuota parse_time (entry # es) = (case resources_loop parse_time (re_Resources entry) of
     Some r \<Rightarrow> r | None \<Rightarrow> extractBrowseQuota parse_time es)"

text \<open>\<open>GetBrowseQuota\<close>: a token, one GET, the decoder and the search for the resource. The URL, its query
  rewritten by \<open>url.Parse\<close>, is given.\<close>

datatype quota_call_error =
    QuotaAuth string
  | QuotaRequest string
  | QuotaBody
  | QuotaStatus int string
  | QuotaParse
  | QuotaContent quota_error

definition GetBrowseQuota ::
  "string \<Rightarrow> (string \<Rightarrow> instant option) \<Rightarrow> (string \<Rightarrow> rate_limit_entry list option) \<Rightarrow> 's token_source \<Rightarrow> 's getter \<Rightarrow>
   's \<Rightarrow> (quota_call_error + quota_state) \<times> 's" where
  "GetBrowseQuota u parse_time unmarshal token net s =
     (case token s of
        (Inl e, s) \<Rightarrow> (Inl (QuotaAuth e), s)
      | (Inr tok, s) \<Rightarrow>
          (case net \<lparr> gq_url = u, gq_headers = [(''Authorization'', ''Bearer '' @ tok)] \<rparr> s of
             (HttpFailed e, s) \<Rightarrow> (Inl (QuotaRequest e), s)
           | (BodyUnreadable, s) \<Rightarrow> (Inl QuotaBody, s)
           | (HttpOK status body, s) \<Rightarrow>
               (if status \<noteq> 200 then (Inl (QuotaStatus status body), s)
                else case unmarshal body of
                  None \<Rightarrow> (Inl QuotaParse, s)
                | Some entries \<Rightarrow> (case extractBrowseQuota parse_time entries of
                      Inl e \<Rightarrow> (Inl (QuotaContent e), s)
                    | Inr q \<Rightarrow> (Inr q, s)))))"

section \<open>Facts\<close>

subsection \<open>Pagination\<close>

text \<open>A search that always answers, by offset, and a checker that knows a fixed set of listings.\<close>

definition web_search :: "(int \<Rightarrow> search_response) \<Rightarrow> (string, unit) ebay_client" where
  "web_search web req s = (Inr (web (sr_Offset req)), s)"

definition known_checker :: "(string \<Rightarrow> listing option) \<Rightarrow> unit listing_checker" where
  "known_checker known i s = (known i, s)"

abbreviation unknown :: "(string \<Rightarrow> listing option) \<Rightarrow> listing \<Rightarrow> bool" where
  "unknown known l \<equiv> known (l_ebay_id l) = None"

definition seen_on :: "(string \<Rightarrow> instant option) \<Rightarrow> (int \<Rightarrow> search_response) \<Rightarrow> int \<Rightarrow> nat \<Rightarrow> listing list" where
  "seen_on pt web psize n = concat (map (\<lambda>i. ToListings pt (sp_Items (web (int i * psize)))) [0..<n])"

lemma seen_on_simps [simp]:
  "seen_on pt web psize 0 = []"
  "seen_on pt web psize (Suc n) = seen_on pt web psize n @ ToListings pt (sp_Items (web (int n * psize)))"
  by (simp_all add: seen_on_def)

lemma page_loop_known:
  "page_loop (known_checker known) ls result s =
     ((result\<lparr> pr_TotalSeen := pr_TotalSeen result + int (length (takeWhile (unknown known) ls))
                                + (if \<forall>l\<in>set ls. unknown known l then 0 else 1),
               pr_NewListings := pr_NewListings result @ takeWhile (unknown known) ls \<rparr>,
       \<not> (\<forall>l\<in>set ls. unknown known l)), s)"
proof (induction ls arbitrary: result)
  case Nil
  then show ?case by simp
next
  case (Cons l ls)
  show ?case
    using Cons.IH by (cases "known (l_ebay_id l)") (simp_all add: known_checker_def)
qed

text \<open>A page after which the loop goes on.\<close>

definition clean_page ::
  "(string \<Rightarrow> instant option) \<Rightarrow> (int \<Rightarrow> search_response) \<Rightarrow> (string \<Rightarrow> listing option) \<Rightarrow> int \<Rightarrow> nat \<Rightarrow> bool" where
  "clean_page pt web known psize i \<longleftrightarrow> sp_Items (web (int i * psize)) \<noteq> [] \<and> sp_HasMore (web (int i * psize))
     \<and> (\<forall>l\<in>set (ToListings pt (sp_Items (web (int i * psize)))). unknown known l)"

text \<open>What a run of the loop promises.\<close>

definition paginate_ok ::
  "(string \<Rightarrow> instant option) \<Rightarrow> (int \<Rightarrow> search_response) \<Rightarrow> (string \<Rightarrow> listing option) \<Rightarrow> int \<Rightarrow> nat \<Rightarrow>
   paginate_result \<Rightarrow> bool" where
  "paginate_ok pt web known psize limit r =
     (\<exists>n \<le> limit. pr_PagesUsed r = int n
       \<and> pr_NewListings r = takeWhile (unknown known) (seen_on pt web psize n)
       \<and> pr_TotalSeen r = int (length (pr_NewListings r)) + (if pr_StoppedAt r = ''known_listing'' then 1 else 0)
       \<and> (pr_StoppedAt r = ''known_listing'' \<longleftrightarrow> (\<exists>l\<in>set (seen_on pt web psize n). \<not> unknown known l))
       \<and> (\<forall>i. Suc i < n \<longrightarrow> clean_page pt web known psize i)
       \<and> (pr_StoppedAt r = ''max_pages'' \<longrightarrow> n = limit)
       \<and> (pr_StoppedAt r = ''no_more_results'' \<longrightarrow>
            0 < n \<and> (sp_Items (web (int (n - 1) * psize)) = [] \<or> \<not> sp_HasMore (web (int (n - 1) * psize))))
       \<and> pr_StoppedAt r \<in> {''known_listing'', ''max_pages'', ''no_more_results''})"

lemma takeWhile_all: "\<forall>x\<in>set xs. P x \<Longrightarrow> takeWhile P xs = xs"
  by (simp add: takeWhile_eq_all_conv)

lemma takeWhile_all_append:
  "\<forall>x\<in>set xs. P x \<Longrightarrow> takeWhile P (xs @ ys) = xs @ takeWhile P ys"
  by (induction xs) auto

lemma pages_loop_ok:
  assumes "k \<le> m"
    and "pr_PagesUsed result = int k" and "pr_NewListings result = seen_on pt web psize k"
    and "pr_TotalSeen result = int (length (seen_on pt web psize k))"
    and "\<forall>l\<in>set (seen_on pt web psize k). unknown known l"
    and "\<forall>i<k. clean_page pt web known psize i"
  shows "\<exists>r. pages_loop pt (web_search web) (known_checker known) psize req [k..<m] result () = (Inr r, ())
             \<and> paginate_ok pt web known psize m r"
  using assms
proof (induction "m - k" arbitrary: k result)
  case 0
  then have "k = m" by simp
  with 0 show ?case
    by (auto simp: paginate_ok_def takeWhile_all intro!: exI [of _ m])
next
  case (Suc d)
  define page where "page = ToListings pt (sp_Items (web (int k * psize)))"
  define result' where "result' = result\<lparr> pr_PagesUsed := pr_PagesUsed result + 1 \<rparr>"
  have k: "k < m" and upt: "[k..<m] = k # [Suc k..<m]"
    using Suc.hyps(2) by (auto simp: upt_conv_Cons)
  have before: "\<forall>i. Suc i < Suc k \<longrightarrow> clean_page pt web known psize i"
    using Suc.prems(6) by simp
  consider (empty) "sp_Items (web (int k * psize)) = []"
    | (known) "sp_Items (web (int k * psize)) \<noteq> []" "\<not> (\<forall>l\<in>set page. unknown known l)"
    | (last) "sp_Items (web (int k * psize)) \<noteq> []" "\<forall>l\<in>set page. unknown known l" "\<not> sp_HasMore (web (int k * psize))"
    | (go) "sp_Items (web (int k * psize)) \<noteq> []" "\<forall>l\<in>set page. unknown known l" "sp_HasMore (web (int k * psize))"
    by blast
  then show ?case
  proof cases
    case empty
    then show ?thesis
      using Suc.prems k before
      by (auto simp: upt web_search_def paginate_ok_def ToListings_def takeWhile_all intro!: exI [of _ "Suc k"])
  next
    case known
    then show ?thesis
      using Suc.prems k before
      by (auto simp: upt web_search_def paginate_ok_def page_loop_known page_def takeWhile_all_append intro!: exI [of _ "Suc k"])
  next
    case last
    then show ?thesis
      using Suc.prems k before
      by (auto simp: upt web_search_def paginate_ok_def page_loop_known page_def takeWhile_all_append
          takeWhile_all intro!: exI [of _ "Suc k"])
  next
    case go
    have clean: "clean_page pt web known psize k"
      using go by (simp add: clean_page_def page_def)
    have step: "pages_loop pt (web_search web) (known_checker known) psize req [k..<m] result ()
        = pages_loop pt (web_search web) (known_checker known) psize req [Suc k..<m]
            (result\<lparr> pr_PagesUsed := pr_PagesUsed result + 1,
               pr_TotalSeen := pr_TotalSeen result + int (length page), pr_NewListings := pr_NewListings result @ page \<rparr>) ()"
      using go by (simp add: upt web_search_def page_loop_known page_def takeWhile_all)
    show ?thesis
      unfolding step
      by (rule Suc.hyps(1)) (use Suc.hyps(2) Suc.prems k clean go in \<open>auto simp: page_def less_Suc_eq\<close>)
  qed
qed

text \<open>C10. Polling a watch is incremental and bounded. Against a marketplace that answers every search,
  and a store that knows a fixed set of listings, \<open>Paginate\<close> fetches at most its page limit (at most 5
  pages on a first run), from the first page on, and returns exactly the listings before the first known
  one, in the order of the pages. It counts each of them, and the known one if that is what stopped it. It
  reports that reason exactly when a listing it saw is known, the page limit only when it was used up, and
  the end of the results only when the last page was empty or announced no successor.\<close>

theorem paginate_incremental:
  "\<exists>r. Paginate pt (web_search web) (known_checker known) p req isFirstRun () = (Inr r, ())
     \<and> paginate_ok pt web known (pg_pageSize p)
         (nat (if isFirstRun then min (pg_maxPages p) defaultFirstRunPages else pg_maxPages p)) r"
proof -
  have *: "(if isFirstRun \<and> pg_maxPages p > defaultFirstRunPages then defaultFirstRunPages else pg_maxPages p)
      = (if isFirstRun then min (pg_maxPages p) defaultFirstRunPages else pg_maxPages p)"
    by auto
  show ?thesis
    unfolding Paginate_def Let_def * by (rule pages_loop_ok) auto
qed

subsection \<open>The search URL\<close>

lemma mget_fold_mput:
  "distinct (map fst fs) \<Longrightarrow>
   mget (fold (\<lambda>(k, v). mput k v) fs m) key = (case map_of fs key of Some v \<Rightarrow> Some v | None \<Rightarrow> mget m key)"
proof (induction fs arbitrary: m)
  case (Cons p fs)
  then show ?case
    by (cases p) (auto split: option.split dest: map_of_SomeD intro: rev_image_eqI)
qed simp

lemma distinct_fold_mput: "distinct (map fst m) \<Longrightarrow> distinct (map fst (fold (\<lambda>(k, v). mput k v) fs m))"
  by (induction fs arbitrary: m) (auto simp: distinct_update)

lemma distinct_searchParams: "distinct (map fst (searchParams req))"
  by (simp add: searchParams_def Let_def distinct_fold_mput distinct_update)

text \<open>What the marketplace reads in the query of a search.\<close>

definition expected_param :: "search_request \<Rightarrow> string \<Rightarrow> string option" where
  "expected_param req key =
     (case mget (sr_Filters req) key of
        Some v \<Rightarrow> Some v
      | None \<Rightarrow>
          if key = ''q'' then Some (sr_Query req)
          else if key = ''category_ids'' then (if sr_CategoryID req = [] then None else Some (sr_CategoryID req))
          else if key = ''limit'' then Some (itoa (if sr_Limit req \<le> 0 then 50 else sr_Limit req))
          else if key = ''offset'' then (if sr_Offset req > 0 then Some (itoa (sr_Offset req)) else None)
          else if key = ''sort'' then (if sr_Sort req = [] then None else Some (sr_Sort req))
          else None)"

lemma mget_searchParams:
  assumes "distinct (map fst (sr_Filters req))"
  shows "mget (searchParams req) key = expected_param req key"
  by (simp add: searchParams_def Let_def mget_fold_mput [OF assms] expected_param_def cong: option.case_cong)

lemma map_of_sort_key: "distinct (map fst v) \<Longrightarrow> map_of (sort_key fst v) = map_of v"
  by (intro map_of_inject_set [THEN iffD2]) (simp_all add: distinct_map)

text \<open>C21. The search URL says what the request says: whatever bytes the query, the category, the sort
  order and the filters contain, decoding the query part of the URL gives back exactly the parameters of
  the request, with filters taking precedence over fields, and the URL does not depend on the order in
  which Go iterates over the filters.\<close>

theorem search_url_roundtrip:
  assumes "distinct (map fst (sr_Filters req))" and "distinct (map fst filters)" and "map_eq filters (sr_Filters req)"
  shows "(\<exists>ps. ParseQuery (drop (length (bc_browseURL c) + 1) (buildSearchURL c req)) = Some ps
           \<and> (\<forall>key. map_of ps key = expected_param req key))
       \<and> buildSearchURL c (req\<lparr> sr_Filters := filters \<rparr>) = buildSearchURL c req"
proof
  show "\<exists>ps. ParseQuery (drop (length (bc_browseURL c) + 1) (buildSearchURL c req)) = Some ps
           \<and> (\<forall>key. map_of ps key = expected_param req key)"
    by (simp add: buildSearchURL_def ParseQuery_Encode map_of_sort_key distinct_searchParams
        mget_searchParams [OF assms(1)])
next
  let ?req = "req\<lparr> sr_Filters := filters \<rparr>"
  have "expected_param ?req key = expected_param req key" for key
    using map_eqD [OF assms(3), of key] by (simp add: expected_param_def cong: option.case_cong)
  then have "map_eq (searchParams ?req) (searchParams req)"
    using assms(2) by (intro map_eqI) (simp add: mget_searchParams assms(1))
  then have "sort_key fst (searchParams ?req) = sort_key fst (searchParams req)"
    by (rule sort_key_map_eq) (rule distinct_searchParams)+
  then show "buildSearchURL c ?req = buildSearchURL c req"
    by (simp add: buildSearchURL_def Encode_def)
qed

theorem search_url_roundtrip_witness:
  "\<exists>ps. ParseQuery (drop (length defaultBrowseURL + 1) (buildSearchURL NewBrowseClient
      \<lparr> sr_Query = ''a&b=c d%'', sr_CategoryID = [], sr_Limit = 0, sr_Offset = 200, sr_Sort = ''newlyListed'',
        sr_Filters = [(''filter'', ''x''), (''sort'', ''y'')] \<rparr>)) = Some ps
    \<and> map_of ps ''q'' = Some ''a&b=c d%'' \<and> map_of ps ''sort'' = Some ''y'' \<and> map_of ps ''offset'' = Some ''200''"
proof -
  have offset: "itoa 200 = ''200''" by code_simp
  show ?thesis
    using search_url_roundtrip [of "\<lparr> sr_Query = ''a&b=c d%'', sr_CategoryID = [], sr_Limit = 0, sr_Offset = 200,
        sr_Sort = ''newlyListed'', sr_Filters = [(''filter'', ''x''), (''sort'', ''y'')] \<rparr>"
        "[(''filter'', ''x''), (''sort'', ''y'')]" NewBrowseClient]
    by (auto simp: expected_param_def NewBrowseClient_def offset)
qed

subsection \<open>Who is called when\<close>

text \<open>A search fails closed and in order: once the quota is used up, or while the token bucket refuses,
  neither the token endpoint nor the marketplace is contacted; without a token the marketplace is not
  contacted; and a result is given only for status 200 and a body that decodes.\<close>

theorem Search_guarded:
  "case Search c unmarshal token net now bucket req (rl, s) of
     (Inl (RateLimit e), (rl', s')) \<Rightarrow> bc_limited c \<and> s' = s \<and> Wait now bucket rl = (Some e, rl')
   | (Inl (AuthFailed e), (rl', s')) \<Rightarrow> token s = (Inl e, s')
   | (Inr resp, (rl', s')) \<Rightarrow>
       (if bc_limited c then Wait now bucket rl = (None, rl') else rl' = rl) \<and>
       (\<exists>tok s1 body r. token s = (Inr tok, s1) \<and> unmarshal body = Some r \<and> sp_Items resp = ba_ItemSummaries r
          \<and> snd (net \<lparr> gq_url = buildSearchURL c req, gq_headers = [(''Authorization'', ''Bearer '' @ tok),
               (''X-EBAY-C-MARKETPLACE-ID'', bc_marketplace c), (''Content-Type'', ''application/json'')] \<rparr> s1) = s'
          \<and> fst (net \<lparr> gq_url = buildSearchURL c req, gq_headers = [(''Authorization'', ''Bearer '' @ tok),
               (''X-EBAY-C-MARKETPLACE-ID'', bc_marketplace c), (''Content-Type'', ''application/json'')] \<rparr> s1) = HttpOK 200 body)
   | _ \<Rightarrow> True"
  by (auto simp: Search_def split: prod.splits option.splits sum.splits http_result.splits if_splits search_error.splits)

end
