(* ===== verification/Notify.thy ===== *)
theory Notify
  imports Domain Numbers
begin

text \<open>
  Delivery of alerts: the notifier interface (\<open>internal/notify/notifier.go\<close>), the Discord webhook
  (\<open>discord.go\<close>) with its rate-limit state (\<open>ratelimit.go\<close>), and the notifier that discards
  (\<open>noop.go\<close>).

  Clock, sleeping and network are an environment: a record of functions on a state. Sleeping answers
  whether the context was cancelled first. Metrics and logs are left out.
\<close>

section \<open>Payloads\<close>

record summary_field =
  sf_Name :: string
  sf_Value :: string

record alert_payload =
  ap_WatchName :: string
  ap_ListingTitle :: string
  ap_EbayURL :: string
  ap_ImageURL :: string
  ap_Price :: string
  ap_UnitPrice :: string
  ap_Score :: int
  ap_Breakdown :: "score_breakdown option"
  ap_Baseline :: "price_baseline option"
  ap_Seller :: string
  ap_Condition :: string
  ap_ComponentType :: string
  ap_SummaryFields :: "summary_field list"

record embed_field =
  ef_Name :: string
  ef_Value :: string
  ef_Inline :: bool

record embed =
  em_Title :: string
  em_URL :: string
  em_Color :: int
  em_Description :: string
  em_Fields :: "embed_field list"
  em_Thumbnail :: "string option"

definition colorGreen :: int where "colorGreen = 0x2ECC71"
definition colorYellow :: int where "colorYellow = 0xF1C40F"
definition colorOrange :: int where "colorOrange = 0xE67E22"
definition maxEmbedsPerMessage :: nat where "maxEmbedsPerMessage = 10"
definition max429Attempts :: nat where "max429Attempts = 2"

definition scoreColor :: "int \<Rightarrow> int" where
  "scoreColor score = (if score \<ge> 90 then colorGreen else if score \<ge> 80 then colorYellow else colorOrange)"

definition inline_field :: "string \<Rightarrow> string \<Rightarrow> embed_field" where
  "inline_field n v = \<lparr> ef_Name = n, ef_Value = v, ef_Inline = True \<rparr>"

definition buildSummaryEmbed :: "alert_payload \<Rightarrow> embed" where
  "buildSummaryEmbed p = \<lparr> em_Title = ap_ListingTitle p, em_URL = ap_EbayURL p, em_Color = scoreColor (ap_Score p),
     em_Description = [], em_Fields = map (\<lambda>f. inline_field (sf_Name f) (sf_Value f)) (ap_SummaryFields p),
     em_Thumbnail = None \<rparr>"

definition buildEmbed :: "alert_payload \<Rightarrow> embed" where
  "buildEmbed p =
     (if ap_SummaryFields p \<noteq> [] then buildSummaryEmbed p
      else \<lparr> em_Title = ''Deal Alert: '' @ ap_ListingTitle p, em_URL = ap_EbayURL p, em_Color = scoreColor (ap_Score p),
             em_Description = [],
             em_Fields = [inline_field ''Score'' (itoa (ap_Score p) @ ''/100''), inline_field ''Price'' (ap_Price p),
               inline_field ''Unit Price'' (ap_UnitPrice p), inline_field ''Seller'' (ap_Seller p),
               inline_field ''Condition'' (ap_Condition p), inline_field ''Type'' (ap_ComponentType p)],
             em_Thumbnail = (if ap_ImageURL p \<noteq> [] then Some (ap_ImageURL p) else None) \<rparr>)"

section \<open>The environment\<close>

record webhook_response =
  wr_status :: int
  wr_header :: "string \<Rightarrow> string"
  wr_body :: "string option"

record 's discord_env =
  env_now :: "'s \<Rightarrow> instant \<times> 's"
  env_sleep :: "duration \<Rightarrow> 's \<Rightarrow> bool \<times> 's"
  env_post :: "string \<Rightarrow> embed list \<Rightarrow> 's \<Rightarrow> (string + webhook_response) \<times> 's"

section \<open>The rate-limit state\<close>

record bucket =
  bk_bucket :: string
  bk_remaining :: int
  bk_resetAt :: "instant option"

definition newRateLimitState :: bucket where
  "newRateLimitState = \<lparr> bk_bucket = [], bk_remaining = 1, bk_resetAt = None \<rparr>"

definition splitEpoch :: "f64 \<Rightarrow> int \<times> int" where
  "splitEpoch epoch =
     (let secs = f64_trunc epoch;
          nanos = f64_trunc (fmul (fsub epoch (f64_of_int secs)) (f64_of_int second))
      in (secs, nanos))"

definition update_bucket :: "instant \<Rightarrow> webhook_response \<Rightarrow> bucket \<Rightarrow> bucket" where
  "update_bucket now resp r =
     (let b = wr_header resp ''X-RateLimit-Bucket'';
          r = (if b \<noteq> [] then r\<lparr> bk_bucket := b \<rparr> else r);
          r = (case atoi (wr_header resp ''X-RateLimit-Remaining'') of
                 Some n \<Rightarrow> r\<lparr> bk_remaining := n \<rparr> | None \<Rightarrow> r)
      in case ParseFloat (wr_header resp ''X-RateLimit-Reset-After'') of
           Some secs \<Rightarrow> r\<lparr> bk_resetAt := Some (now + duration_of_seconds secs) \<rparr>
         | None \<Rightarrow> (case ParseFloat (wr_header resp ''X-RateLimit-Reset'') of
             Some epoch \<Rightarrow> (case splitEpoch epoch of (secs, nanos) \<Rightarrow> r\<lparr> bk_resetAt := Some (secs * second + nanos) \<rparr>)
           | None \<Rightarrow> r))"

definition sleepCtx :: "'s discord_env \<Rightarrow> duration \<Rightarrow> 's \<Rightarrow> bool \<times> 's" where
  "sleepCtx env d s = (if d \<le> 0 then (False, s) else env_sleep env d s)"

text \<open>True is the error of a cancelled context.\<close>

definition waitForBucket :: "'s discord_env \<Rightarrow> bucket \<Rightarrow> 's \<Rightarrow> bool \<times> 's" where
  "waitForBucket env r s =
     (case bk_resetAt r of
        None \<Rightarrow> (False, s)
      | Some t \<Rightarrow>
          if bk_remaining r > 0 then (False, s)
          else case env_now env s of (now, s) \<Rightarrow>
            let wait = t - now in if wait \<le> 0 then (False, s) else env_sleep env wait s)"

text \<open>The loop over the chunks stops at the end of the slice.\<close>

function chunk_loop :: "nat \<Rightarrow> 'a list \<Rightarrow> 'a list list" where
  "chunk_loop n xs = (if xs = [] \<or> n = 0 then [] else take n xs # chunk_loop n (drop n xs))"
  by pat_completeness auto
termination by (relation "measure (\<lambda>(n, xs). length xs)") auto

declare chunk_loop.simps [simp del]

definition chunkAlerts :: "'a list \<Rightarrow> nat \<Rightarrow> 'a list list" where
  "chunkAlerts alerts n = (if alerts = [] then [] else chunk_loop n alerts)"

section \<open>The webhook\<close>

datatype discord_error =
    SendFailed string
  | StatusUnreadable int
  | StatusReturned int string
  | Global429
  | RetriesExhausted
  | NoRetryAfter
  | RetryCancelled
  | Retrying duration
  | RateLimitedAfter nat
  | ChunkError nat nat discord_error
  | BucketCancelled nat nat
  | DelayCancelled nat nat

record discord =
  dn_webhookURL :: string
  dn_interChunkDelay :: duration

definition parseRetryAfter :: "webhook_response \<Rightarrow> duration" where
  "parseRetryAfter resp =
     (case ParseFloat (wr_header resp ''Retry-After'') of
        Some secs \<Rightarrow> duration_of_seconds secs
      | None \<Rightarrow> (case ParseFloat (wr_header resp ''X-RateLimit-Reset-After'') of
          Some secs \<Rightarrow> duration_of_seconds secs | None \<Rightarrow> 0))"

text \<open>The first component is \<open>retry\<close>.\<close>

definition handle429 :: "'s discord_env \<Rightarrow> webhook_response \<Rightarrow> nat \<Rightarrow> 's \<Rightarrow> (bool \<times> discord_error option) \<times> 's" where
  "handle429 env resp attempt s =
     (if wr_header resp ''X-RateLimit-Global'' = ''true'' then ((False, Some Global429), s)
      else if attempt \<ge> max429Attempts then ((False, Some RetriesExhausted), s)
      else let wait = parseRetryAfter resp in
        if wait \<le> 0 then ((False, Some NoRetryAfter), s)
        else case sleepCtx env wait s of
          (True, s) \<Rightarrow> ((False, Some RetryCancelled), s)
        | (False, s) \<Rightarrow> ((True, Some (Retrying wait)), s))"

definition postOnce ::
  "'s discord_env \<Rightarrow> discord \<Rightarrow> embed list \<Rightarrow> nat \<Rightarrow> bucket \<times> 's \<Rightarrow> (bool \<times> discord_error option) \<times> (bucket \<times> 's)" where
  "postOnce env d embeds attempt st =
     (case st of (r, s) \<Rightarrow>
      case env_post env (dn_webhookURL d) embeds s of
        (Inl e, s) \<Rightarrow> ((False, Some (SendFailed e)), (r, s))
      | (Inr resp, s) \<Rightarrow>
          (case env_now env s of (now, s) \<Rightarrow>
           let r = update_bucket now resp r in
           if wr_status resp = 429
           then (case handle429 env resp attempt s of (res, s) \<Rightarrow> (res, (r, s)))
           else if wr_status resp < 200 \<or> wr_status resp \<ge> 300
           then ((False, Some (case wr_body resp of
                    None \<Rightarrow> StatusUnreadable (wr_status resp)
                  | Some b \<Rightarrow> StatusReturned (wr_status resp) b)), (r, s))
           else ((False, None), (r, s))))"

fun post_loop ::
  "'s discord_env \<Rightarrow> discord \<Rightarrow> embed list \<Rightarrow> nat list \<Rightarrow> bucket \<times> 's \<Rightarrow> discord_error option \<times> (bucket \<times> 's)" where
  "post_loop env d embeds [] st = (Some (RateLimitedAfter max429Attempts), st)"
| "post_loop env d embeds (attempt # as) st =
     (case postOnce env d embeds attempt st of
        ((retry, None), st) \<Rightarrow> (None, st)
      | ((retry, Some e), st) \<Rightarrow> if \<not> retry then (Some e, st) else post_loop env d embeds as st)"

definition post :: "'s discord_env \<Rightarrow> discord \<Rightarrow> embed list \<Rightarrow> bucket \<times> 's \<Rightarrow> discord_error option \<times> (bucket \<times> 's)" where
  "post env d embeds st = post_loop env d embeds [1..<Suc max429Attempts] st"

definition SendAlert :: "'s discord_env \<Rightarrow> discord \<Rightarrow> alert_payload \<Rightarrow> bucket \<times> 's \<Rightarrow> discord_error option \<times> (bucket \<times> 's)" where
  "SendAlert env d alert st = post env d [buildEmbed alert] st"

text \<open>The loop over the chunks: index, number of chunks, the count sent so far.\<close>

fun send_chunks ::
  "'s discord_env \<Rightarrow> discord \<Rightarrow> nat \<Rightarrow> nat \<Rightarrow> alert_payload list list \<Rightarrow> int \<Rightarrow> bucket \<times> 's \<Rightarrow>
   (int \<times> discord_error option) \<times> (bucket \<times> 's)" where
  "send_chunks env d i n_chunks [] sent st = ((sent, None), st)"
| "send_chunks env d i n_chunks (chunk # chunks) sent st =
     (case st of (r, s) \<Rightarrow>
      case waitForBucket env r s of
        (True, s) \<Rightarrow> ((sent, Some (BucketCancelled (i + 1) n_chunks)), (r, s))
      | (False, s) \<Rightarrow>
          (case (if i > 0 \<and> dn_interChunkDelay d > 0 then sleepCtx env (dn_interChunkDelay d) s else (False, s)) of
             (True, s) \<Rightarrow> ((sent, Some (DelayCancelled (i + 1) n_chunks)), (r, s))
           | (False, s) \<Rightarrow>
               (case post env d (map buildEmbed chunk) (r, s) of
                  (Some e, st) \<Rightarrow> ((sent, Some (ChunkError (i + 1) n_chunks e)), st)
                | (None, st) \<Rightarrow> send_chunks env d (i + 1) n_chunks chunks (sent + int (length chunk)) st)))"

definition SendBatchAlert ::
  "'s discord_env \<Rightarrow> discord \<Rightarrow> alert_payload list \<Rightarrow> string \<Rightarrow> bucket \<times> 's \<Rightarrow> (int \<times> discord_error option) \<times> (bucket \<times> 's)" where
  "SendBatchAlert env d alerts watchName st =
     (let chunks = chunkAlerts alerts maxEmbedsPerMessage in send_chunks env d 0 (length chunks) chunks 0 st)"

section \<open>Discarding\<close>

definition NoOpSendAlert :: "alert_payload \<Rightarrow> 's \<Rightarrow> discord_error option \<times> 's" where
  "NoOpSendAlert alert s = (None, s)"

definition NoOpSendBatchAlert :: "alert_payload list \<Rightarrow> string \<Rightarrow> 's \<Rightarrow> (int \<times> discord_error option) \<times> 's" where
  "NoOpSendBatchAlert alerts watchName s = ((int (length alerts), None), s)"

section \<open>Chunks\<close>

lemma chunk_loop_concat: "0 < n \<Longrightarrow> concat (chunk_loop n xs) = xs"
  by (induction n xs rule: chunk_loop.induct) (subst chunk_loop.simps, simp)

lemma chunk_loop_sizes: "c \<in> set (chunk_loop n xs) \<Longrightarrow> c \<noteq> [] \<and> length c \<le> n"
  by (induction n xs rule: chunk_loop.induct) (subst (asm) (2) chunk_loop.simps, auto split: if_splits)

lemma chunk_loop_Nil [simp]: "chunk_loop n [] = []"
  by (simp add: chunk_loop.simps)

lemma length_chunk_loop: "0 < n \<Longrightarrow> length (chunk_loop n xs) = (length xs + n - 1) div n"
proof (induction n xs rule: chunk_loop.induct)
  case (1 n xs)
  show ?case
  proof (cases "xs = []")
    case False
    have IH: "length (chunk_loop n (drop n xs)) = (length xs - n + n - 1) div n"
      using 1 False by simp
    have "length (chunk_loop n xs) = Suc (length (chunk_loop n (drop n xs)))"
      using False 1 by (subst chunk_loop.simps) simp
    also have "\<dots> = Suc ((length xs - n + n - 1) div n)"
      using IH by simp
    also have "\<dots> = (length xs - n + n - 1 + n) div n"
      using 1 by (subst div_add_self2) simp_all
    also have "\<dots> = (length xs + n - 1) div n"
    proof (cases "n \<le> length xs")
      case True
      then show ?thesis using False 1 by simp
    next
      case small: False
      have a: "length xs - n + n - 1 + n = n - 1 + n" using small by simp
      have "(n - 1 + n) div n = 1" using 1 by (intro div_nat_eqI) auto
      moreover have "(length xs + n - 1) div n = 1"
      proof -
        have eq: "length xs + n - 1 = length xs - 1 + n" and small': "length xs - 1 < n"
          using False small by (cases xs; simp)+
        show ?thesis unfolding eq using small' by (subst div_add_self2) simp_all
      qed
      ultimately show ?thesis using a by simp
    qed
    finally show ?thesis .
  qed (use 1 in simp)
qed

lemma chunk_loop_full: "c \<in> set (butlast (chunk_loop n xs)) \<Longrightarrow> length c = n"
proof (induction n xs rule: chunk_loop.induct)
  case (1 n xs)
  have nonempty: "xs \<noteq> []" "n \<noteq> 0"
    using 1(2) by (auto simp: chunk_loop.simps [of n xs] split: if_splits)
  have eq: "chunk_loop n xs = take n xs # chunk_loop n (drop n xs)"
    using nonempty by (subst chunk_loop.simps) simp
  show ?case
  proof (cases "chunk_loop n (drop n xs) = []")
    case True
    then show ?thesis using 1(2) eq by simp
  next
    case False
    then have "drop n xs \<noteq> []" by auto
    then have "length (take n xs) = n" by simp
    then show ?thesis using 1(1) [of] 1(2) eq False nonempty by auto
  qed
qed

text \<open>Chunking for Discord: the chunks, put together, are the alerts in their order; each has between
  one and ten, all but the last exactly ten, and there are as many as the capacity the code reserves.\<close>

theorem chunks_partition:
  "concat (chunkAlerts alerts maxEmbedsPerMessage) = alerts
   \<and> list_all (\<lambda>c. 1 \<le> length c \<and> length c \<le> 10) (chunkAlerts alerts maxEmbedsPerMessage)
   \<and> list_all (\<lambda>c. length c = 10) (butlast (chunkAlerts alerts maxEmbedsPerMessage))
   \<and> length (chunkAlerts alerts maxEmbedsPerMessage) = (length alerts + 9) div 10"
  using chunk_loop_concat [of maxEmbedsPerMessage alerts] length_chunk_loop [of maxEmbedsPerMessage alerts]
  by (auto simp: chunkAlerts_def maxEmbedsPerMessage_def list_all_iff Suc_le_eq dest: chunk_loop_sizes chunk_loop_full)

section \<open>What is delivered\<close>

text \<open>An environment that records every request with the information whether Discord accepted it.\<close>

type_synonym post_log = "(embed list \<times> bool) list"

definition accepted :: "(string + webhook_response) \<Rightarrow> bool" where
  "accepted r = (case r of Inl _ \<Rightarrow> False | Inr resp \<Rightarrow> 200 \<le> wr_status resp \<and> wr_status resp < 300)"

definition logged :: "'s discord_env \<Rightarrow> ('s \<times> post_log) discord_env" where
  "logged env = \<lparr> env_now = (\<lambda>(s, lg). case env_now env s of (t, s) \<Rightarrow> (t, (s, lg))),
     env_sleep = (\<lambda>d (s, lg). case env_sleep env d s of (b, s) \<Rightarrow> (b, (s, lg))),
     env_post = (\<lambda>u embeds (s, lg). case env_post env u embeds s of
        (r, s) \<Rightarrow> (r, (s, lg @ [(embeds, accepted r)]))) \<rparr>"

definition deliveries :: "post_log \<Rightarrow> embed list" where
  "deliveries lg = concat (map fst (filter snd lg))"

lemma deliveries_append [simp]: "deliveries (l @ l') = deliveries l @ deliveries l'"
  by (simp add: deliveries_def)

lemma deliveries_simps [simp]:
  "deliveries [] = []" "deliveries ((es, b) # l) = (if b then es else []) @ deliveries l"
  by (simp_all add: deliveries_def)

lemma deliveries_refused [simp]: "deliveries (replicate k (es, False)) = []"
  by (induction k) simp_all

lemma logged_simps [simp]:
  "env_now (logged env) (s, lg) = (case env_now env s of (t, s) \<Rightarrow> (t, (s, lg)))"
  "env_sleep (logged env) dur (s, lg) = (case env_sleep env dur s of (b, s) \<Rightarrow> (b, (s, lg)))"
  "env_post (logged env) u es (s, lg) = (case env_post env u es s of (r, s) \<Rightarrow> (r, (s, lg @ [(es, accepted r)])))"
  by (simp_all add: logged_def)

lemma sleepCtx_log: "snd (snd (sleepCtx (logged env) dur (s, lg))) = lg"
  by (simp add: sleepCtx_def split: prod.split)

lemma waitForBucket_log: "snd (snd (waitForBucket (logged env) r (s, lg))) = lg"
  by (simp add: waitForBucket_def Let_def split: prod.split option.split)

lemma handle429_log:
  "handle429 (logged env) resp a (s, lg) = ((retry, e), (s', lg')) \<Longrightarrow>
   lg' = lg \<and> e \<noteq> None \<and> (retry \<longrightarrow> a < max429Attempts)"
  using sleepCtx_log [of env "parseRetryAfter resp" s lg]
  by (auto simp: handle429_def Let_def split: if_splits prod.splits bool.splits)

lemma postOnce_log:
  assumes "postOnce (logged env) d embeds a (r, (s, lg)) = ((retry, e), (r', (s', lg')))"
  shows "lg' = lg @ [(embeds, e = None)] \<and> (retry \<longrightarrow> a < max429Attempts)"
  using assms
  by (auto simp: postOnce_def accepted_def Let_def split: prod.splits sum.splits if_splits option.splits
      dest!: handle429_log)

lemma post_loop_log:
  assumes "post_loop (logged env) d embeds as (r, (s, lg)) = (e, (r', (s', lg')))"
  shows "\<exists>k. lg' = lg @ replicate k (embeds, False) @ (if e = None then [(embeds, True)] else [])
           \<and> k + (if e = None then 1 else 0) \<le> length as"
  using assms
proof (induction as arbitrary: r s lg)
  case (Cons a as)
  obtain retry e1 r1 s1 lg1 where one: "postOnce (logged env) d embeds a (r, (s, lg)) = ((retry, e1), (r1, (s1, lg1)))"
    by (metis prod.exhaust)
  note lg1 = postOnce_log [OF one]
  show ?case
  proof (cases "e1 = None \<or> \<not> retry")
    case True
    then show ?thesis using Cons.prems one lg1
      by (intro exI [of _ "if e1 = None then 0 else 1"]) (auto split: option.splits if_splits)
  next
    case False
    then have "post_loop (logged env) d embeds as (r1, (s1, lg1)) = (e, (r', (s', lg')))"
      using Cons.prems one by (auto split: option.splits)
    from Cons.IH [OF this] obtain k where
      "lg' = lg1 @ replicate k (embeds, False) @ (if e = None then [(embeds, True)] else [])"
      "k + (if e = None then 1 else 0) \<le> length as" by blast
    then show ?thesis using lg1 False by (intro exI [of _ "Suc k"]) auto
  qed
qed auto

lemma post_log:
  assumes "post (logged env) d embeds (r, (s, lg)) = (e, (r', (s', lg')))"
  shows "\<exists>new. lg' = lg @ new \<and> length new \<le> 2 \<and> list_all (\<lambda>(es, _). es = embeds) new
           \<and> deliveries new = (if e = None then embeds else [])"
proof -
  obtain k where "lg' = lg @ replicate k (embeds, False) @ (if e = None then [(embeds, True)] else [])"
    "k + (if e = None then 1 else 0) \<le> 2"
    using post_loop_log [OF assms [unfolded post_def]] by (auto simp: max429Attempts_def)
  then show ?thesis
    by (intro exI [of _ "replicate k (embeds, False) @ (if e = None then [(embeds, True)] else [])"])
      (auto simp: list_all_iff split: if_splits)
qed

text \<open>What a run over some chunks guarantees.\<close>

definition batch_ok :: "alert_payload list list \<Rightarrow> int \<Rightarrow> discord_error option \<Rightarrow> post_log \<Rightarrow> bool" where
  "batch_ok chunks sent err new \<longleftrightarrow>
     0 \<le> sent \<and> sent \<le> int (length (concat chunks)) \<and> (err = None \<longleftrightarrow> sent = int (length (concat chunks)))
     \<and> deliveries new = map buildEmbed (take (nat sent) (concat chunks))
     \<and> list_all (\<lambda>(es, _). \<exists>c\<in>set chunks. es = map buildEmbed c) new \<and> length new \<le> 2 * length chunks"

lemma send_chunks_log:
  assumes "send_chunks (logged env) d i n chunks sent (r, (s, lg)) = ((sent', err), (r', (s', lg')))"
    and "\<forall>c\<in>set chunks. c \<noteq> []"
  shows "\<exists>new. lg' = lg @ new \<and> batch_ok chunks (sent' - sent) err new"
  using assms
proof (induction chunks arbitrary: i sent r s lg)
  case Nil
  then show ?case by (auto simp: batch_ok_def)
next
  case (Cons c cs)
  have stop: "\<exists>new. lg' = lg @ new \<and> batch_ok (c # cs) (sent' - sent) err new"
    if "sent' = sent" "err \<noteq> None" "lg' = lg @ new" "deliveries new = []" "length new \<le> 2"
      "list_all (\<lambda>(es, _). es = map buildEmbed c) new" for new
  proof -
    have "int (length c) + int (length (concat cs)) \<noteq> 0" using Cons.prems(2) by (cases c) auto
    then show ?thesis
      using that Cons.prems(2) by (intro exI [of _ new]) (auto simp: batch_ok_def list_all_iff)
  qed
  obtain b s1 lg1 where w: "waitForBucket (logged env) r (s, lg) = (b, (s1, lg1))"
    by (metis prod.exhaust)
  have lg1: "lg1 = lg" using waitForBucket_log [of env r s lg] w by simp
  show ?case
  proof (cases b)
    case True
    then show ?thesis using Cons.prems(1) w lg1 by (intro stop [of "[]"]) auto
  next
    case False
    obtain b2 s2 lg2 where w2: "(if i > 0 \<and> dn_interChunkDelay d > 0 then sleepCtx (logged env) (dn_interChunkDelay d) (s1, lg1)
        else (False, (s1, lg1))) = (b2, (s2, lg2))"
      by (metis prod.exhaust)
    have lg2: "lg2 = lg" using sleepCtx_log [of env "dn_interChunkDelay d" s1 lg1] w2 lg1 by (auto split: if_splits)
    show ?thesis
    proof (cases b2)
      case True
      then show ?thesis using Cons.prems(1) w w2 lg2 False by (intro stop [of "[]"]) auto
    next
      case go: False
      obtain e r3 s3 lg3 where p: "post (logged env) d (map buildEmbed c) (r, (s2, lg2)) = (e, (r3, (s3, lg3)))"
        by (metis prod.exhaust)
      obtain new where new: "lg3 = lg @ new" "length new \<le> 2" "list_all (\<lambda>(es, _). es = map buildEmbed c) new"
        "deliveries new = (if e = None then map buildEmbed c else [])"
        using post_log [OF p] lg2 by auto
      show ?thesis
      proof (cases e)
        case (Some err1)
        then show ?thesis using Cons.prems(1) w w2 False go p new by (intro stop [of new]) auto
      next
        case None
        then have rec: "send_chunks (logged env) d (i + 1) n cs (sent + int (length c)) (r3, (s3, lg3)) = ((sent', err), (r', (s', lg')))"
          using Cons.prems(1) w w2 False go p by simp
        obtain new2 where new2: "lg' = lg3 @ new2" "batch_ok cs (sent' - (sent + int (length c))) err new2"
          using Cons.IH [OF rec] Cons.prems(2) by auto
        have "nat (sent' - sent) = length c + nat (sent' - (sent + int (length c)))"
        proof -
          have "sent + int (length c) \<le> sent'" using new2(2) by (simp add: batch_ok_def)
          then show ?thesis by arith
        qed
        then have "batch_ok (c # cs) (sent' - sent) err (new @ new2)"
          using new2(2) new None by (auto simp: batch_ok_def list_all_iff)
        then show ?thesis using new new2 by auto
      qed
    qed
  qed
qed

text \<open>C20. Batch delivery accounts for every alert: whatever Discord, the clock and the context do,
  \<open>SendBatchAlert\<close> returns a count between zero and the number of alerts, reports an error exactly when
  that count is short, and the embeds Discord accepted are, in order and once each, those of the alerts
  counted. No message carries more than ten embeds and no chunk is posted more than twice.\<close>

theorem batch_delivery:
  "case SendBatchAlert (logged env) d alerts w (r, (s, lg)) of
     ((sent, err), (r', (s', lg'))) \<Rightarrow>
       0 \<le> sent \<and> sent \<le> int (length alerts) \<and> (err = None \<longleftrightarrow> sent = int (length alerts))
       \<and> (\<exists>new. lg' = lg @ new \<and> deliveries new = map buildEmbed (take (nat sent) alerts)
            \<and> list_all (\<lambda>(es, _). length es \<le> 10) new \<and> length new \<le> 2 * ((length alerts + 9) div 10))"
proof -
  let ?chunks = "chunkAlerts alerts maxEmbedsPerMessage"
  have c: "concat ?chunks = alerts" "\<forall>c\<in>set ?chunks. c \<noteq> [] \<and> length c \<le> 10"
      "length ?chunks = (length alerts + 9) div 10"
    using chunk_loop_concat [of maxEmbedsPerMessage alerts] length_chunk_loop [of maxEmbedsPerMessage alerts]
    by (auto simp: chunkAlerts_def maxEmbedsPerMessage_def dest: chunk_loop_sizes)
  obtain sent err r' s' lg' where
    run: "SendBatchAlert (logged env) d alerts w (r, (s, lg)) = ((sent, err), (r', (s', lg')))"
    by (metis prod.exhaust)
  then obtain new where "lg' = lg @ new" "batch_ok ?chunks sent err new"
    using send_chunks_log [of env d 0 "length ?chunks" ?chunks 0 r s lg] c(2)
    by (auto simp: SendBatchAlert_def Let_def)
  then show ?thesis using c run
    by (force simp: batch_ok_def list_all_iff)
qed

section \<open>The interface\<close>

text \<open>What the engine relies on: a batch send counts between none and all, and a count that is short comes
  with an error.\<close>

locale notifier =
  fixes send :: "alert_payload \<Rightarrow> 's \<Rightarrow> discord_error option \<times> 's"
    and send_batch :: "alert_payload list \<Rightarrow> string \<Rightarrow> 's \<Rightarrow> (int \<times> discord_error option) \<times> 's"
  assumes batch_range: "send_batch ps w s = ((n, err), s') \<Longrightarrow> 0 \<le> n \<and> n \<le> int (length ps)"
    and batch_complete: "send_batch ps w s = ((n, err), s') \<Longrightarrow> err = None \<longleftrightarrow> n = int (length ps)"
begin

lemma batch_clamp:
  "send_batch ps w s = ((n, err), s') \<Longrightarrow>
   (let n = (if n < 0 then 0 else n) in if n > int (length ps) then int (length ps) else n) = n"
  using batch_range by (fastforce simp: Let_def)

end

lemma send_chunks_range:
  assumes "send_chunks env d i n chunks sent st = ((sent', err), st')" and "\<forall>c\<in>set chunks. c \<noteq> []"
  shows "sent \<le> sent' \<and> sent' \<le> sent + int (length (concat chunks)) \<and>
         (err = None \<longleftrightarrow> sent' = sent + int (length (concat chunks)))"
  using assms
proof (induction chunks arbitrary: i sent st)
  case (Cons c cs)
  have len: "int (length c) + int (length (concat cs)) \<noteq> 0" using Cons.prems(2) by (cases c) auto
  obtain r s where st: "st = (r, s)" by (cases st)
  obtain b s1 where w: "waitForBucket env r s = (b, s1)" by (metis prod.exhaust)
  obtain b2 s2 where w2: "(if i > 0 \<and> dn_interChunkDelay d > 0 then sleepCtx env (dn_interChunkDelay d) s1
        else (False, s1)) = (b2, s2)" by (metis prod.exhaust)
  obtain e st3 where p: "post env d (map buildEmbed c) (r, s2) = (e, st3)" by (metis prod.exhaust)
  show ?case
  proof (cases "b \<or> b2 \<or> e \<noteq> None")
    case True
    then have "sent' = sent \<and> err \<noteq> None"
      using Cons.prems(1) w w2 p by (auto simp: st split: bool.splits)
    then show ?thesis using len by auto
  next
    case False
    then have "send_chunks env d (i + 1) n cs (sent + int (length c)) st3 = ((sent', err), st')"
      using Cons.prems(1) w w2 p by (simp add: st)
    from Cons.IH [OF this] show ?thesis using Cons.prems(2) by (auto simp: algebra_simps)
  qed
qed auto

interpretation discord_notifier: notifier "SendAlert env d" "SendBatchAlert env d"
proof
  fix ps w st n err st'
  assume run: "SendBatchAlert env d ps w st = ((n, err), st')"
  have "\<forall>c\<in>set (chunkAlerts ps maxEmbedsPerMessage). c \<noteq> []" "concat (chunkAlerts ps maxEmbedsPerMessage) = ps"
    using chunk_loop_concat [of maxEmbedsPerMessage ps]
    by (auto simp: chunkAlerts_def maxEmbedsPerMessage_def dest: chunk_loop_sizes)
  then show "0 \<le> n \<and> n \<le> int (length ps)" "err = None \<longleftrightarrow> n = int (length ps)"
    using send_chunks_range [OF run [unfolded SendBatchAlert_def Let_def]] by auto
qed

interpretation noop_notifier: notifier NoOpSendAlert NoOpSendBatchAlert
  by unfold_locales (auto simp: NoOpSendBatchAlert_def)

end
