(* ===== verification/Db.thy ===== *)
theory Db
  imports Domain GoStrings "HOL-Library.Char_ord" "HOL-Library.List_Lexorder"
begin

text \<open>
  The database: the tables of the schema (\<open>internal/store/migrations\<close>) as lists of rows and the
  statements of \<open>internal/store/queries.go\<close> as functions on them, under the names they have there.

  What PostgreSQL itself contributes is a \<open>server\<close>: fresh UUIDs, the clock each statement reads, the
  outcome of the round trip of each statement, the values NUMERIC and JSONB columns give back, and the
  aggregates of a baseline. A statement is atomic. Its round trip succeeds, fails before the statement
  took effect, or fails after it, when the answer is lost. Rows that an ORDER BY leaves tied keep the
  order in which they were inserted. UUIDs are compared as their canonical text.
\<close>

section \<open>The server\<close>

datatype fault = NoFault | FaultBefore | FaultAfter

record server =
  sv_uuid :: "nat \<Rightarrow> string"
  sv_clock :: "nat \<Rightarrow> instant"
  sv_goclock :: "nat \<Rightarrow> instant"
  sv_fault :: "nat \<Rightarrow> fault"
  sv_numeric :: "nat \<Rightarrow> f64 \<Rightarrow> f64 option"
  sv_attrs :: "attrs \<Rightarrow> attrs option"
  sv_filters :: "watch_filters \<Rightarrow> watch_filters option"
  sv_percentile :: "rat \<Rightarrow> f64 list \<Rightarrow> f64"
  sv_avg :: "f64 list \<Rightarrow> f64"

datatype db_error =
    ConnLost | NoRows | CheckViolation | ForeignKey | NumericRange | JsonError | NegativeLimit | ScanMismatch nat nat

section \<open>Tables\<close>

record listing_row =
  lr_id :: string
  lr_ebay_item_id :: string
  lr_title :: string
  lr_item_url :: string
  lr_image_url :: string
  lr_price :: f64
  lr_currency :: string
  lr_shipping_cost :: "f64 option"
  lr_listing_type :: string
  lr_seller_name :: string
  lr_seller_feedback_score :: int
  lr_seller_feedback_pct :: f64
  lr_seller_top_rated :: bool
  lr_condition_raw :: string
  lr_condition_norm :: "string option"
  lr_component_type :: "string option"
  lr_quantity :: int
  lr_attributes :: attrs
  lr_extraction_confidence :: "f64 option"
  lr_product_key :: "string option"
  lr_score :: "int option"
  lr_score_breakdown :: string
  lr_active :: bool
  lr_listed_at :: "instant option"
  lr_auction_end_at :: "instant option"
  lr_sold_at :: "instant option"
  lr_sold_price :: "f64 option"
  lr_first_seen_at :: instant
  lr_updated_at :: instant

record queue_row =
  eq_id :: string
  eq_listing_id :: string
  eq_priority :: int
  eq_enqueued_at :: instant
  eq_claimed_at :: "instant option"
  eq_claimed_by :: "string option"
  eq_completed_at :: "instant option"
  eq_attempts :: int
  eq_error_text :: "string option"
  eq_trace_id :: "string option"

record lock_row =
  lk_job_name :: string
  lk_locked_at :: instant
  lk_holder :: string
  lk_expires_at :: instant

record db =
  db_server :: server
  db_stmts :: nat
  db_next :: nat
  db_listings :: "listing_row list"
  db_watches :: "watch list"
  db_baselines :: "price_baseline list"
  db_alerts :: "alert list"
  db_attempts :: "notification_attempt list"
  db_judge_scores :: "judge_score list"
  db_queue :: "queue_row list"
  db_job_runs :: "job_run list"
  db_locks :: "lock_row list"
  db_rate :: "rate_limiter_state option"

type_synonym 'a stmt = "db \<Rightarrow> (db_error + 'a) \<times> db"

definition now :: "db \<Rightarrow> instant" where "now db = sv_clock (db_server db) (db_stmts db)"
definition go_now :: "db \<Rightarrow> instant" where "go_now db = sv_goclock (db_server db) (db_stmts db)"
definition fresh :: "db \<Rightarrow> string" where "fresh db = sv_uuid (db_server db) (db_next db)"

text \<open>One round trip.\<close>

definition run :: "'a stmt \<Rightarrow> 'a stmt" where
  "run stmt db =
     (let n = db_stmts db in
      case sv_fault (db_server db) n of
        NoFault \<Rightarrow> (case stmt db of (r, db') \<Rightarrow> (r, db'\<lparr> db_stmts := n + 1 \<rparr>))
      | FaultBefore \<Rightarrow> (Inl ConnLost, db\<lparr> db_stmts := n + 1 \<rparr>)
      | FaultAfter \<Rightarrow> (Inl ConnLost, (snd (stmt db))\<lparr> db_stmts := n + 1 \<rparr>))"

text \<open>\<open>UPDATE \<dots> WHERE\<close>.\<close>

definition update_where :: "('a \<Rightarrow> bool) \<Rightarrow> ('a \<Rightarrow> 'a) \<Rightarrow> 'a list \<Rightarrow> 'a list" where
  "update_where P f xs = map (\<lambda>x. if P x then f x else x) xs"

text \<open>\<open>LIMIT\<close> refuses a negative bound.\<close>

definition limited :: "int \<Rightarrow> 'a list \<Rightarrow> db_error + 'a list" where
  "limited n xs = (if n < 0 then Inl NegativeLimit else Inr (take (nat n) xs))"

text \<open>\<open>NULLIF(s, '')\<close>.\<close>

definition nullif :: "string \<Rightarrow> string option" where
  "nullif s = (if s = [] then None else Some s)"

text \<open>\<open>LIKE\<close>: \<open>%\<close> stands for any text, \<open>_\<close> for one character, a backslash quotes.\<close>

function like_match :: "string \<Rightarrow> string \<Rightarrow> bool" where
  "like_match [] s = (s = [])"
| "like_match (p # ps) s =
     (if p = CHR ''%'' then like_match ps s \<or> (case s of [] \<Rightarrow> False | _ # t \<Rightarrow> like_match (p # ps) t)
      else if p = CHR 0x5C
        then (case ps of [] \<Rightarrow> False | q # ps' \<Rightarrow> (case s of [] \<Rightarrow> False | c # t \<Rightarrow> c = q \<and> like_match ps' t))
      else (case s of [] \<Rightarrow> False | c # t \<Rightarrow> (p = CHR ''_'' \<or> c = p) \<and> like_match ps t))"
  by pat_completeness auto
termination by (relation "measure (\<lambda>(p, s). length p + length s)") auto

section \<open>Reading listings\<close>

text \<open>The select list shared by the listing queries and what \<open>scanListing\<close> makes of a row.\<close>

definition listing_columns :: "string list" where
  "listing_columns = [''id'', ''ebay_item_id'', ''title'', ''item_url'', ''image_url'', ''price'', ''currency'',
     ''shipping_cost'', ''listing_type'', ''seller_name'', ''seller_feedback_score'', ''seller_feedback_pct'',
     ''seller_top_rated'', ''condition_raw'', ''condition_norm'', ''component_type'', ''quantity'', ''attributes'',
     ''extraction_confidence'', ''product_key'', ''score'', ''score_breakdown'', ''active'', ''listed_at'',
     ''sold_at'', ''sold_price'', ''first_seen_at'', ''updated_at'']"

definition scanListing :: "listing_row \<Rightarrow> listing" where
  "scanListing r = \<lparr> l_id = lr_id r, l_ebay_id = lr_ebay_item_id r, l_title = lr_title r, l_item_url = lr_item_url r,
     l_image_url = lr_image_url r, l_price = lr_price r, l_currency = lr_currency r,
     l_shipping_cost = lr_shipping_cost r, l_listing_type = lr_listing_type r, l_seller_name = lr_seller_name r,
     l_seller_feedback = lr_seller_feedback_score r, l_seller_feedback_pct = lr_seller_feedback_pct r,
     l_seller_top_rated = lr_seller_top_rated r,
     l_component_type = (case lr_component_type r of Some t \<Rightarrow> t | None \<Rightarrow> []),
     l_condition_raw = lr_condition_raw r,
     l_condition_norm = (case lr_condition_norm r of Some c \<Rightarrow> c | None \<Rightarrow> ''unknown''),
     l_quantity = lr_quantity r, l_attributes = lr_attributes r,
     l_extraction_confidence = (case lr_extraction_confidence r of Some x \<Rightarrow> x | None \<Rightarrow> Fin 0),
     l_product_key = (case lr_product_key r of Some k \<Rightarrow> k | None \<Rightarrow> []), l_score = lr_score r,
     l_score_breakdown = lr_score_breakdown r, l_active = lr_active r, l_listed_at = lr_listed_at r,
     l_sold_at = lr_sold_at r, l_sold_price = lr_sold_price r, l_auction_end_at = None,
     l_first_seen_at = lr_first_seen_at r, l_updated_at = lr_updated_at r \<rparr>"

definition scan_destinations :: nat where "scan_destinations = 28"

text \<open>\<open>Rows.Scan\<close> needs as many destinations as the select list has columns.\<close>

definition scanListingRows :: "string list \<Rightarrow> listing_row list \<Rightarrow> db_error + listing list" where
  "scanListingRows cols rows =
     (if rows \<noteq> [] \<and> length cols \<noteq> scan_destinations then Inl (ScanMismatch (length cols) scan_destinations)
      else Inr (map scanListing rows))"

section \<open>Listing statements\<close>

definition valid_listing_type :: "string \<Rightarrow> bool" where
  "valid_listing_type t \<longleftrightarrow> t \<in> {''auction'', ''buy_it_now'', ''best_offer''}"

definition valid_condition_norm :: "string \<Rightarrow> bool" where
  "valid_condition_norm c \<longleftrightarrow> c \<in> {''new'', ''like_new'', ''used_working'', ''for_parts'', ''unknown''}"

definition valid_component_type :: "string \<Rightarrow> bool" where
  "valid_component_type c \<longleftrightarrow>
     c \<in> {''ram'', ''drive'', ''server'', ''cpu'', ''nic'', ''gpu'', ''workstation'', ''desktop'', ''other''}"

definition numeric_opt :: "server \<Rightarrow> nat \<Rightarrow> f64 option \<Rightarrow> f64 option option" where
  "numeric_opt sv p x = (case x of None \<Rightarrow> Some None | Some v \<Rightarrow> map_option Some (sv_numeric sv p v))"

definition excluded_into :: "listing \<Rightarrow> f64 \<Rightarrow> f64 option \<Rightarrow> f64 \<Rightarrow> instant \<Rightarrow> listing_row \<Rightarrow> listing_row" where
  "excluded_into l price shipping pct t r =
     r\<lparr> lr_title := l_title l, lr_price := price, lr_currency := l_currency l, lr_shipping_cost := shipping,
        lr_listing_type := l_listing_type l, lr_seller_name := l_seller_name l,
        lr_seller_feedback_score := l_seller_feedback l, lr_seller_feedback_pct := pct,
        lr_seller_top_rated := l_seller_top_rated l, lr_condition_raw := l_condition_raw l,
        lr_condition_norm := Some (l_condition_norm l), lr_quantity := l_quantity l, lr_listed_at := l_listed_at l,
        lr_active := True, lr_updated_at := t \<rparr>"

definition inserted_row :: "listing \<Rightarrow> f64 \<Rightarrow> f64 option \<Rightarrow> f64 \<Rightarrow> instant \<Rightarrow> string \<Rightarrow> listing_row" where
  "inserted_row l price shipping pct t i =
     \<lparr> lr_id = i, lr_ebay_item_id = l_ebay_id l, lr_title = l_title l, lr_item_url = l_item_url l,
       lr_image_url = l_image_url l, lr_price = price, lr_currency = l_currency l, lr_shipping_cost = shipping,
       lr_listing_type = l_listing_type l, lr_seller_name = l_seller_name l,
       lr_seller_feedback_score = l_seller_feedback l, lr_seller_feedback_pct = pct,
       lr_seller_top_rated = l_seller_top_rated l, lr_condition_raw = l_condition_raw l,
       lr_condition_norm = Some (l_condition_norm l), lr_component_type = None, lr_quantity = l_quantity l,
       lr_attributes = [], lr_extraction_confidence = None, lr_product_key = None, lr_score = None,
       lr_score_breakdown = [], lr_active = True, lr_listed_at = l_listed_at l, lr_auction_end_at = None,
       lr_sold_at = None, lr_sold_price = None, lr_first_seen_at = t, lr_updated_at = t \<rparr>"

definition queryUpsertListing :: "listing \<Rightarrow> (string \<times> instant \<times> instant) stmt" where
  "queryUpsertListing l db =
     (let sv = db_server db; t = now db in
      case (sv_numeric sv 10 (l_price l), numeric_opt sv 10 (l_shipping_cost l), sv_numeric sv 5 (l_seller_feedback_pct l)) of
        (Some price, Some shipping, Some pct) \<Rightarrow>
          if \<not> valid_listing_type (l_listing_type l) \<or> \<not> valid_condition_norm (l_condition_norm l)
          then (Inl CheckViolation, db)
          else (case find (\<lambda>r. lr_ebay_item_id r = l_ebay_id l) (db_listings db) of
              Some r \<Rightarrow> (Inr (lr_id r, lr_first_seen_at r, t),
                db\<lparr> db_listings := update_where (\<lambda>r. lr_ebay_item_id r = l_ebay_id l)
                     (excluded_into l price shipping pct t) (db_listings db) \<rparr>)
            | None \<Rightarrow> (Inr (fresh db, t, t),
                db\<lparr> db_listings := db_listings db @ [inserted_row l price shipping pct t (fresh db)],
                    db_next := db_next db + 1 \<rparr>))
      | _ \<Rightarrow> (Inl NumericRange, db))"

definition single :: "('a \<Rightarrow> bool) \<Rightarrow> 'a list \<Rightarrow> db_error + 'a" where
  "single P rows = (case find P rows of Some r \<Rightarrow> Inr r | None \<Rightarrow> Inl NoRows)"

definition queryGetListingByEbayID :: "string \<Rightarrow> listing_row stmt" where
  "queryGetListingByEbayID eid db = (single (\<lambda>r. lr_ebay_item_id r = eid) (db_listings db), db)"

definition queryGetListingByID :: "string \<Rightarrow> listing_row stmt" where
  "queryGetListingByID i db = (single (\<lambda>r. lr_id r = i) (db_listings db), db)"

definition queryUpdateListingExtraction :: "string \<Rightarrow> string \<Rightarrow> attrs \<Rightarrow> f64 \<Rightarrow> string \<Rightarrow> unit stmt" where
  "queryUpdateListingExtraction i ct attrs confidence pk db =
     (case sv_numeric (db_server db) 3 confidence of
        None \<Rightarrow> (Inl NumericRange, db)
      | Some c \<Rightarrow>
          if (\<exists>r\<in>set (db_listings db). lr_id r = i) \<and> \<not> valid_component_type ct then (Inl CheckViolation, db)
          else (Inr (), db\<lparr> db_listings := update_where (\<lambda>r. lr_id r = i)
            (\<lambda>r. r\<lparr> lr_component_type := Some ct, lr_attributes := attrs, lr_extraction_confidence := Some c,
                    lr_product_key := Some pk, lr_updated_at := now db \<rparr>) (db_listings db) \<rparr>))"

definition queryUpdateScore :: "string \<Rightarrow> int \<Rightarrow> string \<Rightarrow> unit stmt" where
  "queryUpdateScore i score breakdown db =
     (Inr (), db\<lparr> db_listings := update_where (\<lambda>r. lr_id r = i)
        (\<lambda>r. r\<lparr> lr_score := Some score, lr_score_breakdown := breakdown, lr_updated_at := now db \<rparr>) (db_listings db) \<rparr>)"

definition newest_first :: "listing_row list \<Rightarrow> listing_row list" where
  "newest_first = sort_key (\<lambda>r. - lr_first_seen_at r)"

definition queryListUnextractedListings :: "int \<Rightarrow> listing_row list stmt" where
  "queryListUnextractedListings n db =
     (limited n (newest_first (filter (\<lambda>r. lr_active r \<and> lr_component_type r = None) (db_listings db))), db)"

definition queryListUnscoredListings :: "int \<Rightarrow> listing_row list stmt" where
  "queryListUnscoredListings n db =
     (limited n (newest_first
        (filter (\<lambda>r. lr_active r \<and> lr_component_type r \<noteq> None \<and> lr_score r = None) (db_listings db))), db)"

definition queryListListingsCursor :: "string \<Rightarrow> int \<Rightarrow> listing_row list stmt" where
  "queryListListingsCursor after n db =
     (limited n (sort_key lr_id (filter (\<lambda>r. lr_active r \<and> lr_id r > after) (db_listings db))), db)"

text \<open>\<open>product_key LIKE p\<close> and \<open>attributes->>'k' IS NULL\<close>.\<close>

definition key_like :: "string \<Rightarrow> listing_row \<Rightarrow> bool" where
  "key_like p r = (case lr_product_key r of Some k \<Rightarrow> like_match p k | None \<Rightarrow> False)"

definition attr_null :: "string \<Rightarrow> listing_row \<Rightarrow> bool" where
  "attr_null k r = (case mget (lr_attributes r) k of None \<Rightarrow> True | Some v \<Rightarrow> v = JNull)"

definition incomplete :: "listing_row \<Rightarrow> bool" where
  "incomplete r \<longleftrightarrow>
     (lr_component_type r = Some ''ram'' \<and> (key_like ''%:0'' r \<or> attr_null ''speed_mhz'' r))
     \<or> (lr_component_type r = Some ''drive'' \<and> key_like ''%:unknown%'' r)"

definition queryListIncompleteExtractions :: "int \<Rightarrow> listing_row list stmt" where
  "queryListIncompleteExtractions n db =
     (limited n (newest_first
        (filter (\<lambda>r. lr_active r \<and> lr_component_type r \<noteq> None \<and> incomplete r) (db_listings db))), db)"

definition queryListIncompleteExtractionsForType :: "string \<Rightarrow> int \<Rightarrow> listing_row list stmt" where
  "queryListIncompleteExtractionsForType ct n db =
     (limited n (newest_first
        (filter (\<lambda>r. lr_active r \<and> lr_component_type r = Some ct \<and> incomplete r) (db_listings db))), db)"

section \<open>Watch statements\<close>

definition queryCreateWatch :: "watch \<Rightarrow> watch_filters \<Rightarrow> (string \<times> instant \<times> instant) stmt" where
  "queryCreateWatch w filters db =
     (if \<not> valid_component_type (w_component_type w) then (Inl CheckViolation, db)
      else let t = now db; i = fresh db in
        (Inr (i, t, t), db\<lparr> db_watches := db_watches db @
            [\<lparr> w_id = i, w_name = w_name w, w_search_query = w_search_query w, w_category_id = w_category_id w,
               w_component_type = w_component_type w, w_filters = filters, w_score_threshold = w_score_threshold w,
               w_enabled = w_enabled w, w_last_polled_at = None, w_created_at = t, w_updated_at = t \<rparr>],
            db_next := db_next db + 1 \<rparr>))"

definition queryGetWatch :: "string \<Rightarrow> watch stmt" where
  "queryGetWatch i db = (single (\<lambda>w. w_id w = i) (db_watches db), db)"

definition queryListWatchesAll :: "watch list stmt" where
  "queryListWatchesAll db = (Inr (sort_key (\<lambda>w. - w_created_at w) (db_watches db)), db)"

definition queryListWatchesEnabled :: "watch list stmt" where
  "queryListWatchesEnabled db = (Inr (sort_key (\<lambda>w. - w_created_at w) (filter w_enabled (db_watches db))), db)"

definition queryUpdateWatch :: "watch \<Rightarrow> watch_filters \<Rightarrow> unit stmt" where
  "queryUpdateWatch w filters db =
     (if (\<exists>v\<in>set (db_watches db). w_id v = w_id w) \<and> \<not> valid_component_type (w_component_type w)
      then (Inl CheckViolation, db)
      else (Inr (), db\<lparr> db_watches := update_where (\<lambda>v. w_id v = w_id w)
        (\<lambda>v. v\<lparr> w_name := w_name w, w_search_query := w_search_query w, w_category_id := w_category_id w,
               w_component_type := w_component_type w, w_filters := filters,
               w_score_threshold := w_score_threshold w, w_enabled := w_enabled w, w_updated_at := now db \<rparr>)
        (db_watches db) \<rparr>))"

text \<open>Deleting rows of a table deletes the rows that reference them.\<close>

definition delete_alerts :: "(alert \<Rightarrow> bool) \<Rightarrow> db \<Rightarrow> db" where
  "delete_alerts P db =
     (let gone = (\<lambda>i. \<exists>a\<in>set (db_alerts db). P a \<and> a_id a = i) in
      db\<lparr> db_alerts := filter (\<lambda>a. \<not> P a) (db_alerts db),
          db_attempts := filter (\<lambda>n. \<not> gone (na_alert_id n)) (db_attempts db),
          db_judge_scores := filter (\<lambda>j. \<not> gone (js_alert_id j)) (db_judge_scores db) \<rparr>)"

definition queryDeleteWatch :: "string \<Rightarrow> unit stmt" where
  "queryDeleteWatch i db =
     (let db = delete_alerts (\<lambda>a. a_watch_id a = i \<and> (\<exists>w\<in>set (db_watches db). w_id w = i)) db
      in (Inr (), db\<lparr> db_watches := filter (\<lambda>w. w_id w \<noteq> i) (db_watches db) \<rparr>))"

definition querySetWatchEnabled :: "string \<Rightarrow> bool \<Rightarrow> unit stmt" where
  "querySetWatchEnabled i enabled db =
     (Inr (), db\<lparr> db_watches := update_where (\<lambda>w. w_id w = i)
        (\<lambda>w. w\<lparr> w_enabled := enabled, w_updated_at := now db \<rparr>) (db_watches db) \<rparr>)"

definition queryUpdateWatchLastPolled :: "string \<Rightarrow> instant \<Rightarrow> unit stmt" where
  "queryUpdateWatchLastPolled i t db =
     (Inr (), db\<lparr> db_watches := update_where (\<lambda>w. w_id w = i)
        (\<lambda>w. w\<lparr> w_last_polled_at := Some t, w_updated_at := now db \<rparr>) (db_watches db) \<rparr>)"

section \<open>Baseline statements\<close>

definition queryGetBaseline :: "string \<Rightarrow> price_baseline stmt" where
  "queryGetBaseline k db = (single (\<lambda>b. pb_product_key b = k) (db_baselines db), db)"

definition queryListBaselines :: "price_baseline list stmt" where
  "queryListBaselines db = (Inr (sort_key pb_product_key (db_baselines db)), db)"

text \<open>The function \<open>recompute_baseline\<close> of the schema: the active listings of the product that were touched
  within the window and are not for parts, by unit price; at least five of them.\<close>

definition row_unit_price :: "listing_row \<Rightarrow> f64" where
  "row_unit_price r =
     (let p = (case lr_sold_price r of Some s \<Rightarrow> s | None \<Rightarrow> lr_price r);
          t = fadd p (case lr_shipping_cost r of Some s \<Rightarrow> s | None \<Rightarrow> Fin 0)
      in if lr_quantity r > 1 then fdiv t (f64_of_int (lr_quantity r)) else t)"

definition in_baseline :: "string \<Rightarrow> int \<Rightarrow> instant \<Rightarrow> listing_row \<Rightarrow> bool" where
  "in_baseline k windowDays t r \<longleftrightarrow> lr_product_key r = Some k \<and> lr_active r
     \<and> lr_updated_at r \<ge> t - windowDays * 24 * hour
     \<and> (case lr_condition_norm r of None \<Rightarrow> False | Some c \<Rightarrow> c \<noteq> ''for_parts'')"

definition queryRecomputeBaseline :: "string \<Rightarrow> int \<Rightarrow> unit stmt" where
  "queryRecomputeBaseline k windowDays db =
     (let sv = db_server db; t = now db;
          prices = map row_unit_price (filter (in_baseline k windowDays t) (db_listings db));
          num = (\<lambda>x. case sv_numeric sv 10 x of Some v \<Rightarrow> v | None \<Rightarrow> NaN);
          stats = (\<lambda>b. b\<lparr> pb_sample_count := int (length prices), pb_p10 := num (sv_percentile sv (1/10) prices),
            pb_p25 := num (sv_percentile sv (1/4) prices), pb_p50 := num (sv_percentile sv (1/2) prices),
            pb_p75 := num (sv_percentile sv (3/4) prices), pb_p90 := num (sv_percentile sv (9/10) prices),
            pb_mean := num (sv_avg sv prices), pb_updated_at := t \<rparr>)
      in if length prices < 5 then (Inr (), db)
         else if \<exists>x\<in>set [sv_percentile sv (1/10) prices, sv_percentile sv (1/4) prices, sv_percentile sv (1/2) prices,
                   sv_percentile sv (3/4) prices, sv_percentile sv (9/10) prices, sv_avg sv prices].
                 sv_numeric sv 10 x = None
         then (Inl NumericRange, db)
         else if \<exists>b\<in>set (db_baselines db). pb_product_key b = k
         then (Inr (), db\<lparr> db_baselines := update_where (\<lambda>b. pb_product_key b = k) stats (db_baselines db) \<rparr>)
         else (Inr (), db\<lparr> db_baselines := db_baselines db @ [stats \<lparr> pb_id = fresh db, pb_product_key = k,
                pb_sample_count = 0, pb_p10 = Fin 0, pb_p25 = Fin 0, pb_p50 = Fin 0, pb_p75 = Fin 0, pb_p90 = Fin 0,
                pb_mean = Fin 0, pb_updated_at = t \<rparr>], db_next := db_next db + 1 \<rparr>))"

definition queryListDistinctProductKeys :: "string list stmt" where
  "queryListDistinctProductKeys db =
     (Inr (remdups (concat (map (\<lambda>r. case lr_product_key r of Some k \<Rightarrow> if k \<noteq> [] then [k] else [] | None \<Rightarrow> [])
        (filter lr_active (db_listings db))))), db)"

section \<open>Extraction queue statements\<close>

text \<open>The order in which jobs are claimed: higher priority first, then the older one.\<close>

datatype queue_key = QueueKey (key_priority: int) (key_enqueued: instant)

instantiation queue_key :: linorder
begin

definition less_eq_queue_key :: "queue_key \<Rightarrow> queue_key \<Rightarrow> bool" where
  "less_eq_queue_key a b \<longleftrightarrow> key_priority a > key_priority b
     \<or> key_priority a = key_priority b \<and> key_enqueued a \<le> key_enqueued b"

definition less_queue_key :: "queue_key \<Rightarrow> queue_key \<Rightarrow> bool" where
  "less_queue_key a b \<longleftrightarrow> key_priority a > key_priority b
     \<or> key_priority a = key_priority b \<and> key_enqueued a < key_enqueued b"

instance
  by standard (auto simp: less_eq_queue_key_def less_queue_key_def queue_key.expand)

end

definition queue_key :: "queue_row \<Rightarrow> queue_key" where
  "queue_key j = QueueKey (eq_priority j) (eq_enqueued_at j)"

definition unfinished :: "queue_row \<Rightarrow> bool" where "unfinished j \<longleftrightarrow> eq_completed_at j = None"

definition claimable :: "queue_row \<Rightarrow> bool" where
  "claimable j \<longleftrightarrow> eq_completed_at j = None \<and> eq_claimed_at j = None"

definition queryEnqueueExtraction :: "string \<Rightarrow> int \<Rightarrow> string \<Rightarrow> unit stmt" where
  "queryEnqueueExtraction lid priority trace db =
     (if \<exists>j\<in>set (db_queue db). eq_listing_id j = lid \<and> unfinished j then (Inr (), db)
      else if \<not> (\<exists>r\<in>set (db_listings db). lr_id r = lid) then (Inl ForeignKey, db)
      else (Inr (), db\<lparr> db_queue := db_queue db @ [\<lparr> eq_id = fresh db, eq_listing_id = lid, eq_priority = priority,
              eq_enqueued_at = now db, eq_claimed_at = None, eq_claimed_by = None, eq_completed_at = None,
              eq_attempts = 0, eq_error_text = None, eq_trace_id = nullif trace \<rparr>],
            db_next := db_next db + 1 \<rparr>))"

definition claimed :: "int \<Rightarrow> db \<Rightarrow> queue_row list" where
  "claimed n db = take (nat n) (sort_key queue_key (filter claimable (db_queue db)))"

definition claim :: "string \<Rightarrow> instant \<Rightarrow> queue_row \<Rightarrow> queue_row" where
  "claim worker t j = j\<lparr> eq_claimed_at := Some t, eq_claimed_by := Some worker, eq_attempts := eq_attempts j + 1 \<rparr>"

definition queryDequeueExtractions :: "string \<Rightarrow> int \<Rightarrow> queue_row list stmt" where
  "queryDequeueExtractions worker n db =
     (if n < 0 then (Inl NegativeLimit, db)
      else let jobs = claimed n db in
        (Inr (map (claim worker (now db)) jobs),
         db\<lparr> db_queue := update_where (\<lambda>j. eq_id j \<in> set (map eq_id jobs)) (claim worker (now db)) (db_queue db) \<rparr>))"

definition queryCompleteExtractionJob :: "string \<Rightarrow> string \<Rightarrow> unit stmt" where
  "queryCompleteExtractionJob i err db =
     (Inr (), db\<lparr> db_queue := update_where (\<lambda>j. eq_id j = i)
        (\<lambda>j. j\<lparr> eq_completed_at := Some (now db), eq_error_text := nullif err \<rparr>) (db_queue db) \<rparr>)"

definition queryCountPendingExtractionJobs :: "int stmt" where
  "queryCountPendingExtractionJobs db = (Inr (int (length (filter unfinished (db_queue db)))), db)"

section \<open>Scheduler statements\<close>

definition queryInsertJobRun :: "string \<Rightarrow> string stmt" where
  "queryInsertJobRun name db =
     (Inr (fresh db), db\<lparr> db_job_runs := db_job_runs db @ [\<lparr> jr_id = fresh db, jr_job_name = name, jr_started_at = now db,
        jr_completed_at = None, jr_status = ''running'', jr_error_text = [], jr_rows_affected = None \<rparr>],
        db_next := db_next db + 1 \<rparr>)"

definition queryCompleteJobRun :: "string \<Rightarrow> string \<Rightarrow> string \<Rightarrow> int \<Rightarrow> unit stmt" where
  "queryCompleteJobRun i status err n db =
     (Inr (), db\<lparr> db_job_runs := update_where (\<lambda>j. jr_id j = i)
        (\<lambda>j. j\<lparr> jr_completed_at := Some (now db), jr_status := status, jr_error_text := err,
               jr_rows_affected := Some n \<rparr>) (db_job_runs db) \<rparr>)"

definition queryListJobRuns :: "string \<Rightarrow> int \<Rightarrow> job_run list stmt" where
  "queryListJobRuns name n db =
     (limited n (sort_key (\<lambda>j. - jr_started_at j) (filter (\<lambda>j. jr_job_name j = name) (db_job_runs db))), db)"

text \<open>\<open>DISTINCT ON (job_name)\<close> keeps the first row of each name.\<close>

fun first_per_name :: "job_run list \<Rightarrow> job_run list" where
  "first_per_name [] = []"
| "first_per_name (j # js) = j # filter (\<lambda>k. jr_job_name k \<noteq> jr_job_name j) (first_per_name js)"

definition queryListLatestJobRuns :: "job_run list stmt" where
  "queryListLatestJobRuns db =
     (Inr (first_per_name (sort_key jr_job_name (sort_key (\<lambda>j. - jr_started_at j) (db_job_runs db)))), db)"

definition queryMarkStaleJobRunsCrashed :: "instant \<Rightarrow> int stmt" where
  "queryMarkStaleJobRunsCrashed cutoff db =
     (let stale = (\<lambda>j. jr_status j = ''running'' \<and> jr_started_at j < cutoff) in
      (Inr (int (length (filter stale (db_job_runs db)))),
       db\<lparr> db_job_runs := update_where stale
            (\<lambda>j. j\<lparr> jr_status := ''crashed'', jr_completed_at := Some (now db) \<rparr>) (db_job_runs db) \<rparr>))"

definition queryDeleteOldJobRuns :: "unit stmt" where
  "queryDeleteOldJobRuns db =
     (Inr (), db\<lparr> db_job_runs := filter (\<lambda>j. \<not> jr_started_at j < now db - 30 * 24 * hour) (db_job_runs db) \<rparr>)"

definition queryAcquireSchedulerLock :: "string \<Rightarrow> string \<Rightarrow> instant \<Rightarrow> string stmt" where
  "queryAcquireSchedulerLock name holder expires db =
     (case find (\<lambda>k. lk_job_name k = name) (db_locks db) of
        None \<Rightarrow> (Inr name, db\<lparr> db_locks := db_locks db @ [\<lparr> lk_job_name = name, lk_locked_at = now db,
                  lk_holder = holder, lk_expires_at = expires \<rparr>] \<rparr>)
      | Some k \<Rightarrow>
          if lk_expires_at k < now db
          then (Inr name, db\<lparr> db_locks := update_where (\<lambda>k. lk_job_name k = name)
                 (\<lambda>k. k\<lparr> lk_locked_at := now db, lk_holder := holder, lk_expires_at := expires \<rparr>) (db_locks db) \<rparr>)
          else (Inl NoRows, db))"

definition queryReleaseSchedulerLock :: "string \<Rightarrow> string \<Rightarrow> unit stmt" where
  "queryReleaseSchedulerLock name holder db =
     (Inr (), db\<lparr> db_locks := filter (\<lambda>k. \<not> (lk_job_name k = name \<and> lk_holder k = holder)) (db_locks db) \<rparr>)"

section \<open>Alert statements\<close>

definition queryCreateAlert :: "string \<Rightarrow> string \<Rightarrow> int \<Rightarrow> string \<Rightarrow> (string \<times> instant) stmt" where
  "queryCreateAlert wid lid score trace db =
     (if \<exists>a\<in>set (db_alerts db). a_watch_id a = wid \<and> a_listing_id a = lid \<and> \<not> a_notified a then (Inl NoRows, db)
      else if \<not> (\<exists>w\<in>set (db_watches db). w_id w = wid) \<or> \<not> (\<exists>r\<in>set (db_listings db). lr_id r = lid)
      then (Inl ForeignKey, db)
      else (Inr (fresh db, now db), db\<lparr> db_alerts := db_alerts db @ [\<lparr> a_id = fresh db, a_watch_id = wid,
              a_listing_id = lid, a_score = score, a_notified = False, a_notified_at = None, a_created_at = now db,
              a_dismissed_at = None, a_trace_id = nullif trace \<rparr>],
            db_next := db_next db + 1 \<rparr>))"

definition queryListPendingAlerts :: "alert list stmt" where
  "queryListPendingAlerts db =
     (Inr (sort_key (\<lambda>a. - a_created_at a) (filter (\<lambda>a. \<not> a_notified a) (db_alerts db))), db)"

definition queryListAlertsByWatch :: "string \<Rightarrow> int \<Rightarrow> alert list stmt" where
  "queryListAlertsByWatch wid n db =
     (limited n (sort_key (\<lambda>a. - a_created_at a) (filter (\<lambda>a. a_watch_id a = wid) (db_alerts db))), db)"

definition notify_at :: "instant \<Rightarrow> alert \<Rightarrow> alert" where
  "notify_at t a = a\<lparr> a_notified := True, a_notified_at := Some t \<rparr>"

definition queryMarkAlertNotified :: "string \<Rightarrow> unit stmt" where
  "queryMarkAlertNotified i db =
     (Inr (), db\<lparr> db_alerts := update_where (\<lambda>a. a_id a = i) (notify_at (now db)) (db_alerts db) \<rparr>)"

definition queryMarkAlertsNotified :: "string list \<Rightarrow> unit stmt" where
  "queryMarkAlertsNotified ids db =
     (Inr (), db\<lparr> db_alerts := update_where (\<lambda>a. a_id a \<in> set ids) (notify_at (now db)) (db_alerts db) \<rparr>)"

definition queryHasRecentAlert :: "string \<Rightarrow> string \<Rightarrow> instant \<Rightarrow> bool stmt" where
  "queryHasRecentAlert wid lid cutoff db =
     (Inr (\<exists>a\<in>set (db_alerts db). a_watch_id a = wid \<and> a_listing_id a = lid \<and> a_notified a
        \<and> (case a_notified_at a of None \<Rightarrow> False | Some t \<Rightarrow> t > cutoff)), db)"

definition queryInsertNotificationAttempt :: "string \<Rightarrow> bool \<Rightarrow> int \<Rightarrow> string \<Rightarrow> unit stmt" where
  "queryInsertNotificationAttempt aid ok status err db =
     (if \<not> (\<exists>a\<in>set (db_alerts db). a_id a = aid) then (Inl ForeignKey, db)
      else (Inr (), db\<lparr> db_attempts := db_attempts db @ [\<lparr> na_id = fresh db, na_alert_id = aid,
              na_attempted_at = now db, na_succeeded = ok, na_http_status = Some status, na_error_text = nullif err \<rparr>],
            db_next := db_next db + 1 \<rparr>))"

definition queryHasSuccessfulNotification :: "string \<Rightarrow> bool stmt" where
  "queryHasSuccessfulNotification aid db =
     (Inr (\<exists>n\<in>set (db_attempts db). na_alert_id n = aid \<and> na_succeeded n), db)"

text \<open>The ids and trace ids of the rows that changed.\<close>

definition changed_ids :: "alert list \<Rightarrow> (string \<times> string) list" where
  "changed_ids as = map (\<lambda>a. (a_id a, case a_trace_id a of Some t \<Rightarrow> t | None \<Rightarrow> [])) as"

definition queryDismissAlerts :: "string list \<Rightarrow> (string \<times> string) list stmt" where
  "queryDismissAlerts ids db =
     (let hit = (\<lambda>a. a_id a \<in> set ids \<and> a_dismissed_at a = None) in
      (Inr (changed_ids (filter hit (db_alerts db))),
       db\<lparr> db_alerts := update_where hit (\<lambda>a. a\<lparr> a_dismissed_at := Some (now db) \<rparr>) (db_alerts db) \<rparr>))"

definition queryRestoreAlerts :: "string list \<Rightarrow> (string \<times> string) list stmt" where
  "queryRestoreAlerts ids db =
     (let hit = (\<lambda>a. a_id a \<in> set ids \<and> a_dismissed_at a \<noteq> None) in
      (Inr (changed_ids (filter hit (db_alerts db))),
       db\<lparr> db_alerts := update_where hit (\<lambda>a. a\<lparr> a_dismissed_at := None \<rparr>) (db_alerts db) \<rparr>))"

definition queryNotificationAttemptsByAlert :: "string \<Rightarrow> notification_attempt list stmt" where
  "queryNotificationAttemptsByAlert aid db =
     (Inr (sort_key (\<lambda>n. - na_attempted_at n) (filter (\<lambda>n. na_alert_id n = aid) (db_attempts db))), db)"

section \<open>Judge statements\<close>

text \<open>The row an alert is judged on; the joins drop alerts whose listing or watch is gone.\<close>

definition judge_row :: "db \<Rightarrow> alert \<Rightarrow> judge_candidate option" where
  "judge_row db a =
     (case (find (\<lambda>r. lr_id r = a_listing_id a) (db_listings db), find (\<lambda>w. w_id w = a_watch_id a) (db_watches db)) of
        (Some l, Some w) \<Rightarrow>
          (let b = (case lr_product_key l of None \<Rightarrow> None
                    | Some k \<Rightarrow> find (\<lambda>b. pb_product_key b = k) (db_baselines db));
               p = (\<lambda>f. case b of Some b \<Rightarrow> f b | None \<Rightarrow> Fin 0)
           in Some \<lparr> jc_alert_id = a_id a, jc_watch_id = a_watch_id a, jc_watch_name = w_name w,
                jc_listing_id = a_listing_id a, jc_listing_title = lr_title l,
                jc_component_type = (case lr_component_type l of Some t \<Rightarrow> t | None \<Rightarrow> []),
                jc_condition = (case lr_condition_norm l of Some c \<Rightarrow> c | None \<Rightarrow> []), jc_price_usd = lr_price l,
                jc_baseline_p25 = p pb_p25, jc_baseline_p50 = p pb_p50, jc_baseline_p75 = p pb_p75,
                jc_sample_size = (case b of Some b \<Rightarrow> pb_sample_count b | None \<Rightarrow> 0), jc_score = a_score a,
                jc_threshold = w_score_threshold w, jc_trace_id = a_trace_id a, jc_created_at = a_created_at a \<rparr>)
      | _ \<Rightarrow> None)"

definition queryListAlertsForJudging :: "instant \<Rightarrow> int \<Rightarrow> judge_candidate list stmt" where
  "queryListAlertsForJudging since n db =
     (limited n (List.map_filter (judge_row db)
        (sort_key (\<lambda>a. - a_created_at a)
          (filter (\<lambda>a. a_created_at a \<ge> since \<and> \<not> (\<exists>j\<in>set (db_judge_scores db). js_alert_id j = a_id a))
            (db_alerts db)))), db)"

definition queryInsertJudgeScore :: "judge_score \<Rightarrow> unit stmt" where
  "queryInsertJudgeScore j db =
     (if \<not> (fle (Fin 0) (js_score j) \<and> fle (js_score j) (Fin 1)) then (Inl CheckViolation, db)
      else if \<exists>k\<in>set (db_judge_scores db). js_alert_id k = js_alert_id j then (Inr (), db)
      else if \<not> (\<exists>a\<in>set (db_alerts db). a_id a = js_alert_id j) then (Inl ForeignKey, db)
      else (Inr (), db\<lparr> db_judge_scores := db_judge_scores db @ [j\<lparr> js_judged_at := now db \<rparr>] \<rparr>))"

definition querySumJudgeCostSince :: "instant \<Rightarrow> f64 stmt" where
  "querySumJudgeCostSince since db =
     (Inr (foldl fadd (Fin 0) (map js_cost_usd (filter (\<lambda>j. js_judged_at j \<ge> since) (db_judge_scores db)))), db)"

definition queryGetJudgeScore :: "string \<Rightarrow> judge_score stmt" where
  "queryGetJudgeScore aid db = (single (\<lambda>j. js_alert_id j = aid) (db_judge_scores db), db)"

section \<open>State statements\<close>

definition count :: "('a \<Rightarrow> bool) \<Rightarrow> 'a list \<Rightarrow> int" where
  "count P xs = int (length (filter P xs))"

text \<open>The view \<open>system_state\<close> of migration 008.\<close>

definition queryGetSystemState :: "system_state stmt" where
  "queryGetSystemState db =
     (let active = filter lr_active (db_listings db);
          keyed = concat (map (\<lambda>r. case lr_product_key r of Some k \<Rightarrow> [k] | None \<Rightarrow> []) active)
      in (Inr \<lparr> ss_watches_total = int (length (db_watches db)), ss_watches_enabled = count w_enabled (db_watches db),
           ss_listings_total = int (length active),
           ss_listings_unextracted = count (\<lambda>r. lr_component_type r = None \<or> lr_component_type r = Some []) active,
           ss_listings_unscored = count (\<lambda>r. lr_score r = None) active,
           ss_alerts_pending = count (\<lambda>a. \<not> a_notified a) (db_alerts db),
           ss_baselines_total = int (length (db_baselines db)),
           ss_baselines_warm = count (\<lambda>b. pb_sample_count b \<ge> 10) (db_baselines db),
           ss_baselines_cold = count (\<lambda>b. pb_sample_count b < 10) (db_baselines db),
           ss_product_keys_no_baseline =
             int (length (remdups (filter (\<lambda>k. k \<notin> set (map pb_product_key (db_baselines db))) keyed))),
           ss_listings_incomplete_extraction = count (\<lambda>r.
             (lr_component_type r = Some ''ram'' \<and> (lr_product_key r = None \<or> key_like ''%:0'' r))
             \<or> (lr_component_type r = Some ''drive'' \<and> key_like ''%:unknown%'' r)) active,
           ss_extraction_queue_depth = count unfinished (db_queue db) \<rparr>, db))"

definition queryPersistRateLimiterState :: "int \<Rightarrow> int \<Rightarrow> instant \<Rightarrow> unit stmt" where
  "queryPersistRateLimiterState used dlimit reset db =
     (Inr (), db\<lparr> db_rate := Some \<lparr> rl_tokens_used = used, rl_daily_limit = dlimit, rl_reset_at = reset,
        rl_synced_at = now db \<rparr> \<rparr>)"

definition queryLoadRateLimiterState :: "rate_limiter_state stmt" where
  "queryLoadRateLimiterState db = (case db_rate db of Some r \<Rightarrow> Inr r | None \<Rightarrow> Inl NoRows, db)"

section \<open>The store's invariant\<close>

text \<open>Keys are unique, identifiers were handed out by the server, and the partial unique indexes hold.\<close>

definition ids_below :: "db \<Rightarrow> string set" where
  "ids_below db = sv_uuid (db_server db) ` {..<db_next db}"

definition distinct_on :: "('a \<Rightarrow> 'b) \<Rightarrow> 'a list \<Rightarrow> bool" where
  "distinct_on f xs \<longleftrightarrow> distinct (map f xs)"

definition db_inv :: "db \<Rightarrow> bool" where
  "db_inv db \<longleftrightarrow>
     distinct_on lr_id (db_listings db) \<and> lr_id ` set (db_listings db) \<subseteq> ids_below db
     \<and> distinct_on lr_ebay_item_id (db_listings db)
     \<and> distinct_on w_id (db_watches db) \<and> w_id ` set (db_watches db) \<subseteq> ids_below db
     \<and> distinct_on a_id (db_alerts db) \<and> a_id ` set (db_alerts db) \<subseteq> ids_below db
     \<and> distinct_on (\<lambda>a. (a_watch_id a, a_listing_id a)) (filter (\<lambda>a. \<not> a_notified a) (db_alerts db))
     \<and> a_watch_id ` set (db_alerts db) \<subseteq> w_id ` set (db_watches db)
     \<and> a_listing_id ` set (db_alerts db) \<subseteq> lr_id ` set (db_listings db)
     \<and> na_alert_id ` set (db_attempts db) \<subseteq> a_id ` set (db_alerts db)
     \<and> distinct_on js_alert_id (db_judge_scores db) \<and> js_alert_id ` set (db_judge_scores db) \<subseteq> a_id ` set (db_alerts db)
     \<and> distinct_on eq_id (db_queue db) \<and> eq_id ` set (db_queue db) \<subseteq> ids_below db
     \<and> distinct_on eq_listing_id (filter unfinished (db_queue db))
     \<and> distinct_on pb_product_key (db_baselines db)
     \<and> distinct_on jr_id (db_job_runs db) \<and> jr_id ` set (db_job_runs db) \<subseteq> ids_below db
     \<and> distinct_on lk_job_name (db_locks db)"

end
