(* ===== verification/Store.thy ===== *)
theory Store
  imports Db
begin

text \<open>
  The methods of \<open>PostgresStore\<close> (\<open>internal/store/postgres.go\<close>) over the statements of \<open>Db\<close>, and the
  builder of listing queries (\<open>query.go\<close>). A method is a state transformer on the database with the Go
  error on the left; the wrapping of error messages is left out. The trace id that Go takes from the
  context is an argument.
\<close>

section \<open>Plumbing\<close>

definition bind_db :: "'a stmt \<Rightarrow> ('a \<Rightarrow> 'b stmt) \<Rightarrow> 'b stmt" where
  "bind_db m k db = (case m db of (Inl e, db) \<Rightarrow> (Inl e, db) | (Inr x, db) \<Rightarrow> k x db)"

definition return_db :: "'a \<Rightarrow> 'a stmt" where "return_db x db = (Inr x, db)"

definition fail_db :: "db_error \<Rightarrow> 'a stmt" where "fail_db e db = (Inl e, db)"

definition lift_result :: "db_error + 'a \<Rightarrow> 'a stmt" where "lift_result r db = (r, db)"

section \<open>Listings\<close>

text \<open>The listing with the columns of RETURNING scanned into it.\<close>

definition UpsertListing :: "listing \<Rightarrow> listing stmt" where
  "UpsertListing l = bind_db (run (queryUpsertListing l))
     (\<lambda>(i, first_seen, updated). return_db (l\<lparr> l_id := i, l_first_seen_at := first_seen, l_updated_at := updated \<rparr>))"

definition GetListing :: "string \<Rightarrow> listing stmt" where
  "GetListing ebayID = bind_db (run (queryGetListingByEbayID ebayID)) (\<lambda>r. return_db (scanListing r))"

definition GetListingByID :: "string \<Rightarrow> listing stmt" where
  "GetListingByID i = bind_db (run (queryGetListingByID i)) (\<lambda>r. return_db (scanListing r))"

definition UpdateListingExtraction :: "string \<Rightarrow> string \<Rightarrow> attrs \<Rightarrow> f64 \<Rightarrow> string \<Rightarrow> unit stmt" where
  "UpdateListingExtraction i ct attrs confidence pk db =
     (case sv_attrs (db_server db) attrs of
        None \<Rightarrow> (Inl JsonError, db)
      | Some a \<Rightarrow> run (queryUpdateListingExtraction i ct a confidence pk) db)"

definition UpdateScore :: "string \<Rightarrow> int \<Rightarrow> string \<Rightarrow> unit stmt" where
  "UpdateScore i score breakdown = run (queryUpdateScore i score breakdown)"

definition queryListings :: "listing_row list stmt \<Rightarrow> listing list stmt" where
  "queryListings q = bind_db (run q) (\<lambda>rows. lift_result (scanListingRows listing_columns rows))"

definition ListUnextractedListings :: "int \<Rightarrow> listing list stmt" where
  "ListUnextractedListings n = queryListings (queryListUnextractedListings n)"

definition ListUnscoredListings :: "int \<Rightarrow> listing list stmt" where
  "ListUnscoredListings n = queryListings (queryListUnscoredListings n)"

text \<open>The empty cursor is replaced by the nil UUID.\<close>

definition ListListingsCursor :: "string \<Rightarrow> int \<Rightarrow> listing list stmt" where
  "ListListingsCursor afterID n =
     (let afterID = (if afterID = [] then ''00000000-0000-0000-0000-000000000000'' else afterID)
      in queryListings (queryListListingsCursor afterID n))"

definition ListIncompleteExtractions :: "string \<Rightarrow> int \<Rightarrow> listing list stmt" where
  "ListIncompleteExtractions ct n =
     (if ct = [] then queryListings (queryListIncompleteExtractions n)
      else queryListings (queryListIncompleteExtractionsForType ct n))"

section \<open>Listing queries\<close>

record listing_query =
  lq_ComponentType :: "string option"
  lq_MinScore :: "int option"
  lq_MaxScore :: "int option"
  lq_ProductKey :: "string option"
  lq_SellerMinFB :: "int option"
  lq_Conditions :: "string list"
  lq_Limit :: int
  lq_Offset :: int
  lq_OrderBy :: string

definition defaultLimit :: int where "defaultLimit = 50"
definition maxLimit :: int where "maxLimit = 500"
definition defaultOrderBy :: string where "defaultOrderBy = ''first_seen_at DESC''"

definition validOrderBy :: "(string \<times> string) list" where
  "validOrderBy = [(''score'', ''score DESC NULLS LAST''), (''price'', ''price ASC''),
     (''first_seen_at'', ''first_seen_at DESC'')]"

text \<open>The select list of listing queries.\<close>

definition baseListingsSelect :: "string list" where
  "baseListingsSelect = [''id'', ''ebay_item_id'', ''title'', ''item_url'', ''image_url'', ''price'', ''currency'',
     ''shipping_cost'', ''listing_type'', ''seller_name'', ''seller_feedback_score'', ''seller_feedback_pct'',
     ''seller_top_rated'', ''condition_raw'', ''condition_norm'', ''component_type'', ''quantity'', ''attributes'',
     ''extraction_confidence'', ''product_key'', ''score'', ''score_breakdown'', ''listed_at'', ''sold_at'',
     ''sold_price'', ''first_seen_at'', ''updated_at'']"

text \<open>The WHERE clause with its numbered placeholders and their arguments.\<close>

datatype sql_arg = ArgStr string | ArgInt int

datatype condition_text = Compare string string nat | InList string "nat list"

record sql_query =
  sq_where :: "condition_text list"
  sq_order :: string
  sq_limit :: int
  sq_offset :: int
  sq_args :: "sql_arg list"

definition add_condition :: "string \<Rightarrow> string \<Rightarrow> sql_arg option \<Rightarrow> condition_text list \<times> sql_arg list \<Rightarrow> condition_text list \<times> sql_arg list" where
  "add_condition col cmp arg acc = (case arg of
     None \<Rightarrow> acc
   | Some a \<Rightarrow> (fst acc @ [Compare col cmp (length (snd acc) + 1)], snd acc @ [a]))"

definition ToSQL :: "listing_query \<Rightarrow> sql_query" where
  "ToSQL q =
     (let acc = ([], []);
          acc = add_condition ''component_type'' ''='' (map_option ArgStr (lq_ComponentType q)) acc;
          acc = add_condition ''score'' ''>='' (map_option ArgInt (lq_MinScore q)) acc;
          acc = add_condition ''score'' ''<='' (map_option ArgInt (lq_MaxScore q)) acc;
          acc = add_condition ''product_key'' ''='' (map_option ArgStr (lq_ProductKey q)) acc;
          acc = add_condition ''seller_feedback_score'' ''>='' (map_option ArgInt (lq_SellerMinFB q)) acc;
          acc = (if lq_Conditions q = [] then acc
                 else (fst acc @ [InList ''condition_norm''
                         (map (\<lambda>i. length (snd acc) + 1 + i) [0..<length (lq_Conditions q)])],
                       snd acc @ map ArgStr (lq_Conditions q)));
          order = (if lq_OrderBy q \<noteq> [] then (case map_of validOrderBy (lq_OrderBy q) of Some c \<Rightarrow> c | None \<Rightarrow> defaultOrderBy)
                   else defaultOrderBy);
          lmt = (if lq_Limit q \<le> 0 then defaultLimit else lq_Limit q);
          lmt = (if lmt > maxLimit then maxLimit else lmt);
          offset = max (lq_Offset q) 0
      in \<lparr> sq_where = fst acc, sq_order = order, sq_limit = lmt, sq_offset = offset, sq_args = snd acc \<rparr>)"

text \<open>What such a query selects: a comparison with NULL is not true.\<close>

definition column_value :: "string \<Rightarrow> listing_row \<Rightarrow> sql_arg option" where
  "column_value col r =
     (if col = ''component_type'' then map_option ArgStr (lr_component_type r)
      else if col = ''score'' then map_option ArgInt (lr_score r)
      else if col = ''product_key'' then map_option ArgStr (lr_product_key r)
      else if col = ''seller_feedback_score'' then Some (ArgInt (lr_seller_feedback_score r))
      else if col = ''condition_norm'' then map_option ArgStr (lr_condition_norm r)
      else None)"

fun compare_args :: "string \<Rightarrow> sql_arg \<Rightarrow> sql_arg \<Rightarrow> bool" where
  "compare_args cmp (ArgInt a) (ArgInt b) = (if cmp = ''>='' then a \<ge> b else if cmp = ''<='' then a \<le> b else a = b)"
| "compare_args cmp a b = (a = b)"

fun holds :: "sql_arg list \<Rightarrow> listing_row \<Rightarrow> condition_text \<Rightarrow> bool" where
  "holds args r (Compare col cmp n) =
     (case column_value col r of None \<Rightarrow> False | Some v \<Rightarrow> compare_args cmp v (args ! (n - 1)))"
| "holds args r (InList col ns) =
     (case column_value col r of None \<Rightarrow> False | Some v \<Rightarrow> (\<exists>n\<in>set ns. v = args ! (n - 1)))"

definition selects :: "sql_query \<Rightarrow> listing_row \<Rightarrow> bool" where
  "selects s r = list_all (holds (sq_args s) r) (sq_where s)"

text \<open>\<open>ORDER BY\<close> of the three allowed expressions; prices are ordered as finite numbers.\<close>

definition price_key :: "f64 \<Rightarrow> rat" where
  "price_key x = (case x of Fin q \<Rightarrow> q | _ \<Rightarrow> 0)"

definition order_rows :: "string \<Rightarrow> listing_row list \<Rightarrow> listing_row list" where
  "order_rows order rows =
     (if order = ''score DESC NULLS LAST''
      then sort_key (\<lambda>r. case lr_score r of Some s \<Rightarrow> - s | None \<Rightarrow> 0) (filter (\<lambda>r. lr_score r \<noteq> None) rows)
        @ filter (\<lambda>r. lr_score r = None) rows
      else if order = ''price ASC'' then sort_key (\<lambda>r. price_key (lr_price r)) rows
      else newest_first rows)"

definition data_query :: "sql_query \<Rightarrow> listing_row list stmt" where
  "data_query s db = (Inr (take (nat (sq_limit s)) (drop (nat (sq_offset s))
     (order_rows (sq_order s) (filter (selects s) (db_listings db))))), db)"

definition count_query :: "sql_query \<Rightarrow> int stmt" where
  "count_query s db = (Inr (int (length (filter (selects s) (db_listings db)))), db)"

definition ListListings :: "listing_query \<Rightarrow> (listing list \<times> int) stmt" where
  "ListListings q =
     (let s = ToSQL q in
      bind_db (run (count_query s)) (\<lambda>n.
      bind_db (run (data_query s)) (\<lambda>rows.
      bind_db (lift_result (scanListingRows baseListingsSelect rows)) (\<lambda>ls. return_db (ls, n)))))"

section \<open>Watches\<close>

definition CreateWatch :: "watch \<Rightarrow> watch stmt" where
  "CreateWatch w db =
     (case sv_filters (db_server db) (w_filters w) of
        None \<Rightarrow> (Inl JsonError, db)
      | Some f \<Rightarrow> bind_db (run (queryCreateWatch w f))
          (\<lambda>(i, c, u). return_db (w\<lparr> w_id := i, w_created_at := c, w_updated_at := u \<rparr>)) db)"

definition GetWatch :: "string \<Rightarrow> watch stmt" where "GetWatch i = run (queryGetWatch i)"

definition ListWatches :: "bool \<Rightarrow> watch list stmt" where
  "ListWatches enabledOnly = run (if enabledOnly then queryListWatchesEnabled else queryListWatchesAll)"

definition UpdateWatch :: "watch \<Rightarrow> unit stmt" where
  "UpdateWatch w db =
     (case sv_filters (db_server db) (w_filters w) of
        None \<Rightarrow> (Inl JsonError, db) | Some f \<Rightarrow> run (queryUpdateWatch w f) db)"

definition DeleteWatch :: "string \<Rightarrow> unit stmt" where "DeleteWatch i = run (queryDeleteWatch i)"

definition SetWatchEnabled :: "string \<Rightarrow> bool \<Rightarrow> unit stmt" where
  "SetWatchEnabled i enabled = run (querySetWatchEnabled i enabled)"

definition UpdateWatchLastPolled :: "string \<Rightarrow> instant \<Rightarrow> unit stmt" where
  "UpdateWatchLastPolled i t = run (queryUpdateWatchLastPolled i t)"

section \<open>Baselines\<close>

definition GetBaseline :: "string \<Rightarrow> price_baseline stmt" where "GetBaseline k = run (queryGetBaseline k)"

definition ListBaselines :: "price_baseline list stmt" where "ListBaselines = run queryListBaselines"

definition RecomputeBaseline :: "string \<Rightarrow> int \<Rightarrow> unit stmt" where
  "RecomputeBaseline k windowDays = run (queryRecomputeBaseline k windowDays)"

fun recompute_loop :: "int \<Rightarrow> string list \<Rightarrow> unit stmt" where
  "recompute_loop windowDays [] db = (Inr (), db)"
| "recompute_loop windowDays (k # ks) db =
     (case RecomputeBaseline k windowDays db of
        (Inl e, db) \<Rightarrow> (Inl e, db) | (Inr _, db) \<Rightarrow> recompute_loop windowDays ks db)"

definition RecomputeAllBaselines :: "int \<Rightarrow> unit stmt" where
  "RecomputeAllBaselines windowDays = bind_db (run queryListDistinctProductKeys) (recompute_loop windowDays)"

section \<open>Alerts\<close>

text \<open>A duplicate inserts no row: \<open>NoRows\<close> is a success that leaves the argument as it is.\<close>

definition CreateAlert :: "alert \<Rightarrow> alert stmt" where
  "CreateAlert a db =
     (let traceID = (case a_trace_id a of Some t \<Rightarrow> t | None \<Rightarrow> []) in
      case run (queryCreateAlert (a_watch_id a) (a_listing_id a) (a_score a) traceID) db of
        (Inr (i, created), db) \<Rightarrow> (Inr (a\<lparr> a_id := i, a_created_at := created \<rparr>), db)
      | (Inl e, db) \<Rightarrow> (if e = NoRows then (Inr a, db) else (Inl e, db)))"

definition ListPendingAlerts :: "alert list stmt" where "ListPendingAlerts = run queryListPendingAlerts"

definition ListAlertsByWatch :: "string \<Rightarrow> int \<Rightarrow> alert list stmt" where
  "ListAlertsByWatch wid n = run (queryListAlertsByWatch wid n)"

definition MarkAlertNotified :: "string \<Rightarrow> unit stmt" where "MarkAlertNotified i = run (queryMarkAlertNotified i)"

definition MarkAlertsNotified :: "string list \<Rightarrow> unit stmt" where
  "MarkAlertsNotified ids = run (queryMarkAlertsNotified ids)"

definition HasRecentAlert :: "string \<Rightarrow> string \<Rightarrow> duration \<Rightarrow> bool stmt" where
  "HasRecentAlert wid lid cooldown db = (let cutoff = go_now db - cooldown in run (queryHasRecentAlert wid lid cutoff) db)"

definition InsertNotificationAttempt :: "string \<Rightarrow> bool \<Rightarrow> int \<Rightarrow> string \<Rightarrow> unit stmt" where
  "InsertNotificationAttempt aid ok status err = run (queryInsertNotificationAttempt aid ok status err)"

definition HasSuccessfulNotification :: "string \<Rightarrow> bool stmt" where
  "HasSuccessfulNotification aid = run (queryHasSuccessfulNotification aid)"

section \<open>Alert review\<close>

datatype review_status = StatusUnset | StatusActive | StatusDismissed | StatusNotified | StatusUndismissed | StatusAll | StatusOther

record alert_review_query =
  rq_Search :: string
  rq_ComponentType :: string
  rq_WatchID :: string
  rq_MinScore :: int
  rq_Status :: review_status
  rq_Sort :: string
  rq_Page :: int
  rq_PerPage :: int

record alert_review_result =
  rr_Items :: "alert_with_listing list"
  rr_Total :: int
  rr_Page :: int
  rr_PerPage :: int

definition alertReviewDefaults :: "alert_review_query \<Rightarrow> alert_review_query" where
  "alertReviewDefaults q =
     (let q = (if rq_Status q = StatusUnset then q\<lparr> rq_Status := StatusActive \<rparr> else q);
          q = (if rq_Sort q = [] then q\<lparr> rq_Sort := ''score'' \<rparr> else q);
          q = (if rq_Page q < 1 then q\<lparr> rq_Page := 1 \<rparr> else q);
          q = (if rq_PerPage q < 1 then q\<lparr> rq_PerPage := 25 \<rparr> else q)
      in if rq_PerPage q > 100 then q\<lparr> rq_PerPage := 100 \<rparr> else q)"

text \<open>The WHERE clause on a row of the join of alerts, listings and watches; ILIKE compares in lower case.\<close>

definition buildAlertReviewWhere :: "alert_review_query \<Rightarrow> alert \<times> listing_row \<times> watch \<Rightarrow> bool" where
  "buildAlertReviewWhere q row =
     (case row of (a, l, w) \<Rightarrow>
        (case rq_Status q of
           StatusActive \<Rightarrow> \<not> a_notified a
         | StatusDismissed \<Rightarrow> a_dismissed_at a \<noteq> None
         | StatusNotified \<Rightarrow> a_notified a
         | StatusUndismissed \<Rightarrow> a_dismissed_at a = None
         | _ \<Rightarrow> True)
        \<and> (rq_MinScore q > 0 \<longrightarrow> a_score a \<ge> rq_MinScore q)
        \<and> (rq_ComponentType q \<noteq> [] \<longrightarrow> lr_component_type l = Some (rq_ComponentType q))
        \<and> (rq_WatchID q \<noteq> [] \<longrightarrow> a_watch_id a = rq_WatchID q)
        \<and> (rq_Search q \<noteq> [] \<longrightarrow> like_match (to_lower (''%'' @ rq_Search q @ ''%'')) (to_lower (lr_title l))))"

text \<open>The sort orders as successive stable sorts, the last key first; \<open>id DESC\<close> makes them total.\<close>

definition descending :: "('a \<Rightarrow> 'k::linorder) \<Rightarrow> 'a list \<Rightarrow> 'a list" where
  "descending k xs = rev (sort_key k (rev xs))"

definition alertReviewOrderBy :: "string \<Rightarrow> (alert \<times> listing_row \<times> watch) list \<Rightarrow> (alert \<times> listing_row \<times> watch) list" where
  "alertReviewOrderBy srt rows =
     (let rows = descending (\<lambda>(a, l, w). a_id a) rows in
      if srt = ''created'' then descending (\<lambda>(a, l, w). a_created_at a) rows
      else if srt = ''watch'' then sort_key (\<lambda>(a, l, w). w_name w) (descending (\<lambda>(a, l, w). a_score a) rows)
      else descending (\<lambda>(a, l, w). a_score a) (descending (\<lambda>(a, l, w). a_created_at a) rows))"

definition alert_join :: "db \<Rightarrow> (alert \<times> listing_row \<times> watch) list" where
  "alert_join db = List.map_filter (\<lambda>a.
     case (find (\<lambda>r. lr_id r = a_listing_id a) (db_listings db), find (\<lambda>w. w_id w = a_watch_id a) (db_watches db)) of
       (Some l, Some w) \<Rightarrow> Some (a, l, w) | _ \<Rightarrow> None) (db_alerts db)"

definition scanAlertWithListing :: "alert \<times> listing_row \<times> watch \<Rightarrow> alert_with_listing" where
  "scanAlertWithListing row = (case row of (a, l, w) \<Rightarrow>
     \<lparr> al_alert = a, al_listing = scanListing l, al_watch_name = w_name w \<rparr>)"

definition ListAlertsForReview :: "alert_review_query \<Rightarrow> alert_review_result stmt" where
  "ListAlertsForReview q =
     (let q = alertReviewDefaults q;
          matching = (\<lambda>db. filter (buildAlertReviewWhere q) (alert_join db))
      in bind_db (run (\<lambda>db. (Inr (int (length (matching db))), db))) (\<lambda>n.
         bind_db (run (\<lambda>db. (Inr (take (nat (rq_PerPage q)) (drop (nat ((rq_Page q - 1) * rq_PerPage q))
           (alertReviewOrderBy (rq_Sort q) (matching db)))), db))) (\<lambda>rows.
         return_db \<lparr> rr_Items = map scanAlertWithListing rows, rr_Total = n, rr_Page = rq_Page q,
           rr_PerPage = rq_PerPage q \<rparr>)))"

definition listNotificationAttempts :: "string \<Rightarrow> notification_attempt list stmt" where
  "listNotificationAttempts aid = run (queryNotificationAttemptsByAlert aid)"

definition GetAlertDetail :: "string \<Rightarrow> alert_detail stmt" where
  "GetAlertDetail i =
     bind_db (run (\<lambda>db. (single (\<lambda>(a, l, w). a_id a = i) (alert_join db), db))) (\<lambda>(a, l, w).
     bind_db (GetWatch (a_watch_id a)) (\<lambda>watch.
     bind_db (listNotificationAttempts i) (\<lambda>history.
     return_db \<lparr> ad_alert = a, ad_listing = scanListing l, ad_watch = watch, ad_notification_history = history \<rparr>)))"

definition DismissAlerts :: "string list \<Rightarrow> (int \<times> string list) stmt" where
  "DismissAlerts ids =
     (if ids = [] then return_db (0, [])
      else bind_db (run (queryDismissAlerts ids))
        (\<lambda>rows. return_db (int (length rows), filter (\<lambda>t. t \<noteq> []) (map snd rows))))"

definition RestoreAlerts :: "string list \<Rightarrow> (int \<times> string list) stmt" where
  "RestoreAlerts ids =
     (if ids = [] then return_db (0, [])
      else bind_db (run (queryRestoreAlerts ids))
        (\<lambda>rows. return_db (int (length rows), filter (\<lambda>t. t \<noteq> []) (map snd rows))))"

section \<open>Judge verdicts\<close>

record judge_candidates_query =
  jq_Lookback :: duration
  jq_Limit :: int

definition ListAlertsForJudging :: "judge_candidates_query \<Rightarrow> judge_candidate list stmt" where
  "ListAlertsForJudging q db =
     (let lookback = (if jq_Lookback q \<le> 0 then 6 * hour else jq_Lookback q);
          lmt = (if jq_Limit q \<le> 0 then 50 else jq_Limit q);
          since = go_now db - lookback
      in run (queryListAlertsForJudging since lmt) db)"

definition InsertJudgeScore :: "judge_score \<Rightarrow> unit stmt" where
  "InsertJudgeScore j = run (queryInsertJudgeScore j)"

definition SumJudgeCostSince :: "instant \<Rightarrow> f64 stmt" where
  "SumJudgeCostSince since = run (querySumJudgeCostSince since)"

text \<open>No verdict yet is a result, not an error.\<close>

definition GetJudgeScore :: "string \<Rightarrow> judge_score option stmt" where
  "GetJudgeScore aid db = (case run (queryGetJudgeScore aid) db of
     (Inr j, db) \<Rightarrow> (Inr (Some j), db)
   | (Inl e, db) \<Rightarrow> (if e = NoRows then (Inr None, db) else (Inl e, db)))"

section \<open>State\<close>

definition GetSystemState :: "system_state stmt" where "GetSystemState = run queryGetSystemState"

definition PersistRateLimiterState :: "int \<Rightarrow> int \<Rightarrow> instant \<Rightarrow> unit stmt" where
  "PersistRateLimiterState used dlimit reset = run (queryPersistRateLimiterState used dlimit reset)"

definition LoadRateLimiterState :: "rate_limiter_state stmt" where
  "LoadRateLimiterState = run queryLoadRateLimiterState"

section \<open>Jobs and locks\<close>

definition InsertJobRun :: "string \<Rightarrow> string stmt" where "InsertJobRun name = run (queryInsertJobRun name)"

definition CompleteJobRun :: "string \<Rightarrow> string \<Rightarrow> string \<Rightarrow> int \<Rightarrow> unit stmt" where
  "CompleteJobRun i status err n = run (queryCompleteJobRun i status err n)"

definition ListJobRuns :: "string \<Rightarrow> int \<Rightarrow> job_run list stmt" where
  "ListJobRuns name n = run (queryListJobRuns name n)"

definition ListLatestJobRuns :: "job_run list stmt" where "ListLatestJobRuns = run queryListLatestJobRuns"

text \<open>An error of the second statement keeps the count of the first.\<close>

definition RecoverStaleJobRuns :: "duration \<Rightarrow> db \<Rightarrow> (int \<times> db_error option) \<times> db" where
  "RecoverStaleJobRuns olderThan db =
     (let cutoff = go_now db - olderThan in
      case run (queryMarkStaleJobRunsCrashed cutoff) db of
        (Inl e, db) \<Rightarrow> ((0, Some e), db)
      | (Inr affected, db) \<Rightarrow>
          (case run queryDeleteOldJobRuns db of
             (Inl e, db) \<Rightarrow> ((affected, Some e), db) | (Inr _, db) \<Rightarrow> ((affected, None), db)))"

definition AcquireSchedulerLock :: "string \<Rightarrow> string \<Rightarrow> duration \<Rightarrow> bool stmt" where
  "AcquireSchedulerLock name holder ttl db =
     (let expiresAt = go_now db + ttl in
      case run (queryAcquireSchedulerLock name holder expiresAt) db of
        (Inr _, db) \<Rightarrow> (Inr True, db)
      | (Inl e, db) \<Rightarrow> (if e = NoRows then (Inr False, db) else (Inl e, db)))"

definition ReleaseSchedulerLock :: "string \<Rightarrow> string \<Rightarrow> unit stmt" where
  "ReleaseSchedulerLock name holder = run (queryReleaseSchedulerLock name holder)"

section \<open>The extraction queue\<close>

definition EnqueueExtraction :: "string \<Rightarrow> string \<Rightarrow> int \<Rightarrow> unit stmt" where
  "EnqueueExtraction traceID lid priority = run (queryEnqueueExtraction lid priority traceID)"

definition scan_job :: "queue_row \<Rightarrow> extraction_job" where
  "scan_job j = \<lparr> ej_id = eq_id j, ej_listing_id = eq_listing_id j, ej_priority = eq_priority j,
     ej_enqueued_at = eq_enqueued_at j, ej_attempts = eq_attempts j, ej_trace_id = eq_trace_id j \<rparr>"

definition DequeueExtractions :: "string \<Rightarrow> int \<Rightarrow> extraction_job list stmt" where
  "DequeueExtractions worker n = bind_db (run (queryDequeueExtractions worker n)) (\<lambda>jobs. return_db (map scan_job jobs))"

definition CompleteExtractionJob :: "string \<Rightarrow> string \<Rightarrow> unit stmt" where
  "CompleteExtractionJob i err = run (queryCompleteExtractionJob i err)"

definition CountPendingExtractionJobs :: "int stmt" where
  "CountPendingExtractionJobs = run queryCountPendingExtractionJobs"

end
