(* ===== verification/StoreInv.thy ===== *)
theory StoreInv
  imports Store
begin

text \<open>
  What the store promises: every statement and every method keeps the invariant of the tables, whatever
  the round trips do; the extraction queue, the scheduler locks, alerts and listing queries behave as
  their contracts say.
\<close>

named_theorems keeps_intros \<open>operations that keep the store's invariant\<close>

section \<open>Updates in place\<close>

lemma map_update_where:
  "(\<And>x. k (f x) = k x) \<Longrightarrow> map k (update_where P f xs) = map k xs"
  by (simp add: update_where_def)

lemma image_update_where:
  "(\<And>x. k (f x) = k x) \<Longrightarrow> k ` set (update_where P f xs) = k ` set xs"
  by (metis (no_types) list.set_map map_update_where)

lemma distinct_update_where:
  "(\<And>x. k (f x) = k x) \<Longrightarrow> distinct_on k (update_where P f xs) = distinct_on k xs"
  by (simp add: distinct_on_def map_update_where)

lemma distinct_filter_update_where:
  assumes "\<And>x. k (f x) = k x" and "\<And>x. Q (f x) \<Longrightarrow> Q x" and "distinct_on k (filter Q xs)"
  shows "distinct_on k (filter Q (update_where P f xs))"
  using assms(3)
proof (induction xs)
  case (Cons x xs)
  have "k ` set (filter Q (update_where P f xs)) \<subseteq> k ` set (filter Q xs)"
    using assms(1,2) by (force simp: update_where_def)
  then show ?case using Cons assms(1,2)
    by (auto simp: update_where_def distinct_on_def split: if_splits)
qed (simp add: update_where_def distinct_on_def)

lemma distinct_on_filter: "distinct_on k xs \<Longrightarrow> distinct_on k (filter Q xs)"
  by (simp add: distinct_on_def distinct_map_filter)

lemma distinct_on_append1: "distinct_on k (xs @ [x]) \<longleftrightarrow> distinct_on k xs \<and> k x \<notin> k ` set xs"
  by (auto simp: distinct_on_def)

lemma update_where_Nil [simp]: "update_where P f [] = []"
  by (simp add: update_where_def)

section \<open>Keeping the invariant\<close>

definition good :: "db \<Rightarrow> bool" where
  "good db \<longleftrightarrow> db_inv db \<and> inj (sv_uuid (db_server db))"

definition keeps :: "'a stmt \<Rightarrow> bool" where
  "keeps m \<longleftrightarrow> (\<forall>db. good db \<longrightarrow> good (snd (m db)))"

lemma keepsI: "(\<And>db. good db \<Longrightarrow> good (snd (m db))) \<Longrightarrow> keeps m"
  by (simp add: keeps_def)

lemma good_stmts [simp]: "good (db\<lparr> db_stmts := n \<rparr>) = good db"
  by (simp add: good_def db_inv_def ids_below_def)

lemma keeps_run [keeps_intros]: "keeps m \<Longrightarrow> keeps (run m)"
  by (auto simp: keeps_def run_def Let_def split: fault.split prod.split)

lemma keeps_bind [keeps_intros]:
  assumes "keeps m" and "\<And>x. keeps (k x)"
  shows "keeps (bind_db m k)"
proof (rule keepsI)
  fix db assume "good db"
  obtain r db' where m: "m db = (r, db')" by (cases "m db")
  have "good db'" using assms(1) \<open>good db\<close> m by (fastforce simp: keeps_def)
  then show "good (snd (bind_db m k db))"
    using m assms(2) by (cases r) (auto simp: bind_db_def keeps_def)
qed

lemma keeps_simple [keeps_intros]:
  "keeps (return_db x)" "keeps (fail_db e)" "keeps (lift_result r)"
  by (simp_all add: keeps_def return_db_def fail_db_def lift_result_def)

text \<open>A statement that only reads.\<close>

lemma keeps_read: "(\<And>db. snd (m db) = db) \<Longrightarrow> keeps m"
  by (simp add: keeps_def)

lemma fresh_new: "good db \<Longrightarrow> fresh db \<notin> ids_below db"
  by (auto simp: good_def ids_below_def fresh_def dest: injD)

lemma ids_below_Suc: "ids_below (db\<lparr> db_next := db_next db + 1 \<rparr>) = insert (fresh db) (ids_below db)"
  by (simp add: ids_below_def fresh_def lessThan_Suc)

lemma ids_below_simps [simp]:
  "ids_below (db\<lparr> db_listings := x1 \<rparr>) = ids_below db" "ids_below (db\<lparr> db_watches := x2 \<rparr>) = ids_below db"
  "ids_below (db\<lparr> db_alerts := x3 \<rparr>) = ids_below db" "ids_below (db\<lparr> db_queue := x4 \<rparr>) = ids_below db"
  "ids_below (db\<lparr> db_job_runs := x5 \<rparr>) = ids_below db" "ids_below (db\<lparr> db_baselines := x6 \<rparr>) = ids_below db"
  "ids_below (db\<lparr> db_attempts := x7 \<rparr>) = ids_below db" "ids_below (db\<lparr> db_judge_scores := x8 \<rparr>) = ids_below db"
  "ids_below (db\<lparr> db_locks := x9 \<rparr>) = ids_below db" "ids_below (db\<lparr> db_rate := x10 \<rparr>) = ids_below db"
  by (simp_all add: ids_below_def)

lemma ids_below_next [simp]:
  "ids_below (db\<lparr> db_next := Suc (db_next db) \<rparr>) = insert (fresh db) (ids_below db)"
  "ids_below (db\<lparr> db_listings := x1, db_next := Suc (db_next db) \<rparr>) = insert (fresh db) (ids_below db)"
  "ids_below (db\<lparr> db_watches := x2, db_next := Suc (db_next db) \<rparr>) = insert (fresh db) (ids_below db)"
  "ids_below (db\<lparr> db_alerts := x3, db_next := Suc (db_next db) \<rparr>) = insert (fresh db) (ids_below db)"
  "ids_below (db\<lparr> db_queue := x4, db_next := Suc (db_next db) \<rparr>) = insert (fresh db) (ids_below db)"
  "ids_below (db\<lparr> db_job_runs := x5, db_next := Suc (db_next db) \<rparr>) = insert (fresh db) (ids_below db)"
  "ids_below (db\<lparr> db_baselines := x6, db_next := Suc (db_next db) \<rparr>) = insert (fresh db) (ids_below db)"
  "ids_below (db\<lparr> db_attempts := x7, db_next := Suc (db_next db) \<rparr>) = insert (fresh db) (ids_below db)"
  by (simp_all add: ids_below_def fresh_def lessThan_Suc)

lemmas row_updates = distinct_update_where image_update_where

lemma find_None_notin: "find (\<lambda>r. k r = v) xs = None \<Longrightarrow> v \<notin> k ` set xs"
  by (auto simp: find_None_iff)

lemma keeps_queryUpsertListing [keeps_intros]: "keeps (queryUpsertListing l)"
proof (rule keepsI)
  fix db assume g: "good db"
  note new = fresh_new [OF g]
  have inserted: "lr_id (inserted_row l p s c t i) = i" "lr_ebay_item_id (inserted_row l p s c t i) = l_ebay_id l"
    for p s c t i by (simp_all add: inserted_row_def)
  have updated: "lr_id (excluded_into l p s c t r) = lr_id r" "lr_ebay_item_id (excluded_into l p s c t r) = lr_ebay_item_id r"
    for p s c t r by (simp_all add: excluded_into_def)
  show "good (snd (queryUpsertListing l db))"
    using g new
    by (auto simp: queryUpsertListing_def Let_def good_def db_inv_def row_updates updated inserted distinct_on_append1
        dest!: find_None_notin split: option.split)
qed

text \<open>Statements that change columns other than keys.\<close>

lemma keeps_listing_updates [keeps_intros]:
  "keeps (queryUpdateListingExtraction i ct attrs c pk)" "keeps (queryUpdateScore i sc br)"
  by (rule keepsI, auto simp: queryUpdateListingExtraction_def queryUpdateScore_def good_def db_inv_def row_updates
      split: option.split)+

lemma keeps_watch_updates [keeps_intros]:
  "keeps (queryUpdateWatch w f)" "keeps (querySetWatchEnabled i b)" "keeps (queryUpdateWatchLastPolled i t)"
  by (rule keepsI, auto simp: queryUpdateWatch_def querySetWatchEnabled_def queryUpdateWatchLastPolled_def
      good_def db_inv_def row_updates)+

lemma keeps_queryCreateWatch [keeps_intros]: "keeps (queryCreateWatch w f)"
proof (rule keepsI)
  fix db assume g: "good db"
  then show "good (snd (queryCreateWatch w f db))" using fresh_new [OF g]
    by (auto simp: queryCreateWatch_def Let_def good_def db_inv_def distinct_on_append1)
qed

lemma delete_alerts_simps [simp]:
  "db_alerts (delete_alerts P db) = filter (\<lambda>a. \<not> P a) (db_alerts db)"
  "db_listings (delete_alerts P db) = db_listings db" "db_watches (delete_alerts P db) = db_watches db"
  "db_baselines (delete_alerts P db) = db_baselines db" "db_queue (delete_alerts P db) = db_queue db"
  "db_job_runs (delete_alerts P db) = db_job_runs db" "db_locks (delete_alerts P db) = db_locks db"
  "db_server (delete_alerts P db) = db_server db" "ids_below (delete_alerts P db) = ids_below db"
  by (simp_all add: delete_alerts_def Let_def ids_below_def)

lemma image_filter_subset: "f ` set xs \<subseteq> S \<Longrightarrow> f ` set (filter P xs) \<subseteq> S"
  by auto

lemma good_set_watches:
  assumes "good d" and "distinct_on w_id ws" and "w_id ` set ws \<subseteq> ids_below d"
    and "a_watch_id ` set (db_alerts d) \<subseteq> w_id ` set ws"
  shows "good (d\<lparr> db_watches := ws \<rparr>)"
  using assms by (simp add: good_def db_inv_def)

lemma good_delete_alerts:
  assumes g: "good db" shows "good (delete_alerts P db)"
proof -
  let ?d = "delete_alerts P db"
  have pending: "distinct_on (\<lambda>a. (a_watch_id a, a_listing_id a)) (filter (\<lambda>a. \<not> a_notified a) (db_alerts ?d))"
  proof -
    have "distinct_on (\<lambda>a. (a_watch_id a, a_listing_id a)) (filter (\<lambda>a. \<not> a_notified a) (db_alerts db))"
      using g by (simp add: good_def db_inv_def)
    from distinct_on_filter [OF this, of "\<lambda>a. \<not> P a"] show ?thesis
      by (simp add: conj_commute)
  qed
  have kept: "i \<in> a_id ` set (db_alerts ?d)" if "i \<in> a_id ` set (db_alerts db)"
      "\<not> (\<exists>a\<in>set (db_alerts db). P a \<and> a_id a = i)" for i
    using that by auto
  have "na_alert_id ` set (db_attempts db) \<subseteq> a_id ` set (db_alerts db)"
    "js_alert_id ` set (db_judge_scores db) \<subseteq> a_id ` set (db_alerts db)"
    using g by (simp_all add: good_def db_inv_def)
  then have "na_alert_id ` set (db_attempts ?d) \<subseteq> a_id ` set (db_alerts ?d)"
    "js_alert_id ` set (db_judge_scores ?d) \<subseteq> a_id ` set (db_alerts ?d)"
    by (intro image_subsetI kept; force simp: delete_alerts_def Let_def)+
  moreover have "distinct_on js_alert_id (db_judge_scores ?d)"
    using g by (simp add: good_def db_inv_def delete_alerts_def Let_def distinct_on_filter)
  moreover have "distinct_on a_id (db_alerts ?d)" "a_id ` set (db_alerts ?d) \<subseteq> ids_below db"
    "a_watch_id ` set (db_alerts ?d) \<subseteq> w_id ` set (db_watches db)"
    "a_listing_id ` set (db_alerts ?d) \<subseteq> lr_id ` set (db_listings db)"
    using g unfolding good_def db_inv_def delete_alerts_simps(1)
    by (simp_all only: distinct_on_filter image_filter_subset)
  ultimately show ?thesis
    using g pending unfolding good_def db_inv_def delete_alerts_simps(2-)
    by (simp only: simp_thms)
qed

lemma keeps_queryDeleteWatch [keeps_intros]: "keeps (queryDeleteWatch i)"
proof (rule keepsI)
  fix db assume g: "good db"
  let ?P = "\<lambda>a. a_watch_id a = i \<and> (\<exists>w\<in>set (db_watches db). w_id w = i)"
  let ?d = "delete_alerts ?P db"
  have refs: "a_watch_id ` set (db_alerts db) \<subseteq> w_id ` set (db_watches db)"
    using g by (simp add: good_def db_inv_def)
  have fk: "a_watch_id ` set (db_alerts ?d) \<subseteq> w_id ` set (filter (\<lambda>w. w_id w \<noteq> i) (db_watches db))"
  proof (rule image_subsetI)
    fix a assume a: "a \<in> set (db_alerts ?d)"
    then have "a \<in> set (db_alerts db)" by simp
    then obtain w where w: "w \<in> set (db_watches db)" "a_watch_id a = w_id w" using refs by blast
    then have "w_id w \<noteq> i" using a by auto
    then show "a_watch_id a \<in> w_id ` set (filter (\<lambda>w. w_id w \<noteq> i) (db_watches db))"
      using w by simp
  qed
  have d: "good ?d" by (rule good_delete_alerts [OF g])
  have sub: "w_id ` set (filter (\<lambda>w. w_id w \<noteq> i) (db_watches db)) \<subseteq> ids_below db"
    using g by (intro image_filter_subset) (simp add: good_def db_inv_def)
  have "good (?d\<lparr> db_watches := filter (\<lambda>w. w_id w \<noteq> i) (db_watches db) \<rparr>)"
  proof (rule good_set_watches [OF d _ _ fk])
    show "distinct_on w_id (filter (\<lambda>w. w_id w \<noteq> i) (db_watches db))"
      using g by (intro distinct_on_filter) (simp add: good_def db_inv_def)
  qed (use sub in \<open>simp only: delete_alerts_simps\<close>)
  then show "good (snd (queryDeleteWatch i db))"
    by (simp add: queryDeleteWatch_def Let_def)
qed

lemma keeps_queryRecomputeBaseline [keeps_intros]: "keeps (queryRecomputeBaseline k days)"
proof (rule keepsI)
  fix db assume g: "good db"
  then show "good (snd (queryRecomputeBaseline k days db))"
    by (auto simp: queryRecomputeBaseline_def Let_def good_def db_inv_def row_updates distinct_on_append1)
qed

lemma keeps_queryEnqueueExtraction [keeps_intros]: "keeps (queryEnqueueExtraction lid p tr)"
proof (rule keepsI)
  fix db assume g: "good db"
  then show "good (snd (queryEnqueueExtraction lid p tr db))" using fresh_new [OF g]
    by (auto simp: queryEnqueueExtraction_def good_def db_inv_def distinct_on_append1 unfinished_def)
qed

lemma keeps_queue_updates [keeps_intros]:
  "keeps (queryDequeueExtractions w n)" "keeps (queryCompleteExtractionJob i e)"
  by (rule keepsI, auto simp: queryDequeueExtractions_def queryCompleteExtractionJob_def Let_def good_def db_inv_def
      row_updates claim_def unfinished_def intro!: distinct_filter_update_where)+

lemma keeps_queryInsertJobRun [keeps_intros]: "keeps (queryInsertJobRun name)"
proof (rule keepsI)
  fix db assume g: "good db"
  then show "good (snd (queryInsertJobRun name db))" using fresh_new [OF g]
    by (auto simp: queryInsertJobRun_def good_def db_inv_def distinct_on_append1)
qed

lemma keeps_job_updates [keeps_intros]:
  "keeps (queryCompleteJobRun i st e n)" "keeps (queryMarkStaleJobRunsCrashed cutoff)" "keeps queryDeleteOldJobRuns"
  by (rule keepsI, auto simp: queryCompleteJobRun_def queryMarkStaleJobRunsCrashed_def queryDeleteOldJobRuns_def Let_def
      good_def db_inv_def row_updates distinct_on_filter)+

lemma keeps_locks [keeps_intros]:
  "keeps (queryAcquireSchedulerLock name h e)" "keeps (queryReleaseSchedulerLock name h)"
  by (rule keepsI, auto simp: queryAcquireSchedulerLock_def queryReleaseSchedulerLock_def good_def db_inv_def
      row_updates distinct_on_append1 distinct_on_filter dest!: find_None_notin split: option.split)+

lemma keeps_queryCreateAlert [keeps_intros]: "keeps (queryCreateAlert w l s tr)"
proof (rule keepsI)
  fix db assume g: "good db"
  then show "good (snd (queryCreateAlert w l s tr db))" using fresh_new [OF g]
    by (auto simp: queryCreateAlert_def good_def db_inv_def distinct_on_append1)
qed

lemma notify_at_simps [simp]:
  "a_id (notify_at t a) = a_id a" "a_watch_id (notify_at t a) = a_watch_id a" "a_listing_id (notify_at t a) = a_listing_id a"
  "a_notified (notify_at t a)"
  by (simp_all add: notify_at_def)

lemma keeps_alert_updates [keeps_intros]:
  "keeps (queryMarkAlertNotified i)" "keeps (queryMarkAlertsNotified ids)"
  "keeps (queryDismissAlerts ids)" "keeps (queryRestoreAlerts ids)"
  by (rule keepsI, auto simp: queryMarkAlertNotified_def queryMarkAlertsNotified_def queryDismissAlerts_def
      queryRestoreAlerts_def Let_def good_def db_inv_def row_updates intro!: distinct_filter_update_where)+

lemma keeps_queryInsertNotificationAttempt [keeps_intros]: "keeps (queryInsertNotificationAttempt i ok st e)"
  by (rule keepsI) (auto simp: queryInsertNotificationAttempt_def good_def db_inv_def)

lemma keeps_queryInsertJudgeScore [keeps_intros]: "keeps (queryInsertJudgeScore j)"
  by (rule keepsI) (auto simp: queryInsertJudgeScore_def good_def db_inv_def distinct_on_append1 intro: rev_image_eqI)

lemma keeps_queryPersistRateLimiterState [keeps_intros]: "keeps (queryPersistRateLimiterState u d r)"
  by (rule keepsI) (auto simp: queryPersistRateLimiterState_def good_def db_inv_def)

lemma keeps_reads [keeps_intros]:
  "keeps (queryGetListingByEbayID e)" "keeps (queryGetListingByID e)" "keeps (queryListUnextractedListings n)"
  "keeps (queryListUnscoredListings n)" "keeps (queryListListingsCursor a n)" "keeps (queryListIncompleteExtractions n)"
  "keeps (queryListIncompleteExtractionsForType ct n)" "keeps (queryGetWatch i)" "keeps queryListWatchesAll"
  "keeps queryListWatchesEnabled" "keeps (queryGetBaseline k)" "keeps queryListBaselines"
  "keeps queryListDistinctProductKeys" "keeps queryCountPendingExtractionJobs" "keeps (queryListJobRuns k n)"
  "keeps queryListLatestJobRuns" "keeps queryListPendingAlerts" "keeps (queryListAlertsByWatch w n)"
  "keeps (queryHasRecentAlert w l c)" "keeps (queryHasSuccessfulNotification a)" "keeps (queryNotificationAttemptsByAlert a)"
  "keeps (queryListAlertsForJudging s n)" "keeps (querySumJudgeCostSince s)" "keeps (queryGetJudgeScore a)"
  "keeps queryGetSystemState" "keeps queryLoadRateLimiterState" "keeps (data_query sq)" "keeps (count_query sq)"
  by (rule keeps_read, simp add: queryGetListingByEbayID_def queryGetListingByID_def queryListUnextractedListings_def
      queryListUnscoredListings_def queryListListingsCursor_def queryListIncompleteExtractions_def
      queryListIncompleteExtractionsForType_def queryGetWatch_def queryListWatchesAll_def queryListWatchesEnabled_def
      queryGetBaseline_def queryListBaselines_def queryListDistinctProductKeys_def queryCountPendingExtractionJobs_def
      queryListJobRuns_def queryListLatestJobRuns_def queryListPendingAlerts_def queryListAlertsByWatch_def
      queryHasRecentAlert_def queryHasSuccessfulNotification_def queryNotificationAttemptsByAlert_def
      queryListAlertsForJudging_def querySumJudgeCostSince_def queryGetJudgeScore_def queryGetSystemState_def
      queryLoadRateLimiterState_def data_query_def count_query_def Let_def)+

section \<open>The methods\<close>

lemma keeps_case:
  assumes "keeps m" and "\<And>r db. good db \<Longrightarrow> good (snd (k r db))" and "\<And>db. f db = (case m db of (r, db) \<Rightarrow> k r db)"
  shows "keeps f"
proof (rule keepsI)
  fix db assume "good db"
  then have "good (snd (m db))" using assms(1) by (simp add: keeps_def)
  then show "good (snd (f db))" using assms(2) by (cases "m db") (simp add: assms(3))
qed

lemma keeps_fun: "(\<And>db. keeps (f db)) \<Longrightarrow> keeps (\<lambda>db. f db db)"
  by (simp add: keeps_def)

lemma keeps_listings [keeps_intros]:
  "keeps (UpsertListing l)" "keeps (GetListing e)" "keeps (GetListingByID i)" "keeps (UpdateScore i sc b)"
  "keeps (ListUnextractedListings n)" "keeps (ListUnscoredListings n)" "keeps (ListListingsCursor a n)"
  "keeps (ListIncompleteExtractions ct n)" "keeps (ListListings q)"
  unfolding UpsertListing_def GetListing_def GetListingByID_def UpdateScore_def ListUnextractedListings_def
    ListUnscoredListings_def ListListingsCursor_def ListIncompleteExtractions_def ListListings_def queryListings_def Let_def
  by (auto intro!: keeps_intros split: prod.split)

lemma keeps_UpdateListingExtraction [keeps_intros]: "keeps (UpdateListingExtraction i ct attrs c pk)"
  using keeps_run [OF keeps_listing_updates(1)]
  by (auto simp: keeps_def UpdateListingExtraction_def split: option.split)

lemma keeps_watches [keeps_intros]:
  "keeps (GetWatch i)" "keeps (ListWatches b)" "keeps (DeleteWatch i)" "keeps (SetWatchEnabled i b)"
  "keeps (UpdateWatchLastPolled i t)"
  unfolding GetWatch_def ListWatches_def DeleteWatch_def SetWatchEnabled_def UpdateWatchLastPolled_def
  by (auto intro!: keeps_intros)

lemma keeps_watch_writes [keeps_intros]: "keeps (CreateWatch w)" "keeps (UpdateWatch w)"
proof -
  have "keeps (bind_db (run (queryCreateWatch w f))
      (\<lambda>(i, c, u). return_db (w\<lparr> w_id := i, w_created_at := c, w_updated_at := u \<rparr>)))" for f
    by (auto intro!: keeps_intros split: prod.split)
  then show "keeps (CreateWatch w)" by (auto simp: keeps_def CreateWatch_def split: option.split)
  have "keeps (run (queryUpdateWatch w f))" for f by (intro keeps_intros)
  then show "keeps (UpdateWatch w)" by (auto simp: keeps_def UpdateWatch_def split: option.split)
qed

lemma keeps_recompute_loop: "keeps (recompute_loop days ks)"
proof (rule keepsI)
  have r: "keeps (RecomputeBaseline k days)" for k
    unfolding RecomputeBaseline_def by (intro keeps_intros)
  fix db assume "good db"
  then show "good (snd (recompute_loop days ks db))"
  proof (induction ks arbitrary: db)
    case (Cons k ks)
    then have "good (snd (RecomputeBaseline k days db))" using r by (simp add: keeps_def)
    then show ?case using Cons.IH by (auto split: prod.split sum.split)
  qed simp
qed

lemma keeps_baselines [keeps_intros]:
  "keeps (GetBaseline k)" "keeps ListBaselines" "keeps (RecomputeBaseline k d)" "keeps (RecomputeAllBaselines d)"
  unfolding GetBaseline_def ListBaselines_def RecomputeBaseline_def RecomputeAllBaselines_def
  by (auto intro!: keeps_intros keeps_recompute_loop)

lemma keeps_alerts [keeps_intros]:
  "keeps ListPendingAlerts" "keeps (ListAlertsByWatch w n)" "keeps (MarkAlertNotified i)" "keeps (MarkAlertsNotified ids)"
  "keeps (InsertNotificationAttempt a ok st e)" "keeps (HasSuccessfulNotification a)"
  "keeps (DismissAlerts ids)" "keeps (RestoreAlerts ids)"
  unfolding ListPendingAlerts_def ListAlertsByWatch_def MarkAlertNotified_def MarkAlertsNotified_def
    InsertNotificationAttempt_def HasSuccessfulNotification_def DismissAlerts_def RestoreAlerts_def
  by (auto intro!: keeps_intros)

lemma keeps_HasRecentAlert [keeps_intros]: "keeps (HasRecentAlert w l c)"
  unfolding HasRecentAlert_def Let_def by (rule keeps_fun) (intro keeps_intros)

lemma keeps_CreateAlert [keeps_intros]: "keeps (CreateAlert a)"
  by (rule keeps_case [where m = "run (queryCreateAlert (a_watch_id a) (a_listing_id a) (a_score a)
          (case a_trace_id a of Some t \<Rightarrow> t | None \<Rightarrow> []))"
        and k = "\<lambda>r db. case r of Inr p \<Rightarrow> (Inr (case p of (i, c) \<Rightarrow> a\<lparr> a_id := i, a_created_at := c \<rparr>), db)
        | Inl e \<Rightarrow> (if e = NoRows then (Inr a, db) else (Inl e, db))"])
    (auto simp: CreateAlert_def Let_def intro: keeps_intros split: sum.split prod.split)

lemma keeps_judge [keeps_intros]: "keeps (InsertJudgeScore j)" "keeps (SumJudgeCostSince t)"
  unfolding InsertJudgeScore_def SumJudgeCostSince_def by (intro keeps_intros)+

lemma keeps_GetJudgeScore [keeps_intros]: "keeps (GetJudgeScore a)"
  by (rule keeps_case [OF keeps_run [OF keeps_reads(24)], where k = "\<lambda>r db. case r of Inr j \<Rightarrow> (Inr (Some j), db)
        | Inl e \<Rightarrow> (if e = NoRows then (Inr None, db) else (Inl e, db))"])
    (auto simp: GetJudgeScore_def split: sum.split prod.split)

lemma keeps_ListAlertsForJudging [keeps_intros]: "keeps (ListAlertsForJudging q)"
  unfolding ListAlertsForJudging_def Let_def by (rule keeps_fun) (intro keeps_intros)

lemma keeps_state [keeps_intros]:
  "keeps GetSystemState" "keeps (PersistRateLimiterState u d r)" "keeps LoadRateLimiterState"
  unfolding GetSystemState_def PersistRateLimiterState_def LoadRateLimiterState_def by (intro keeps_intros)+

lemma keeps_jobs [keeps_intros]:
  "keeps (InsertJobRun k)" "keeps (CompleteJobRun i st e n)" "keeps (ListJobRuns k n)" "keeps ListLatestJobRuns"
  "keeps (ReleaseSchedulerLock k h)"
  unfolding InsertJobRun_def CompleteJobRun_def ListJobRuns_def ListLatestJobRuns_def ReleaseSchedulerLock_def
  by (intro keeps_intros)+

lemma keeps_AcquireSchedulerLock [keeps_intros]: "keeps (AcquireSchedulerLock k h ttl)"
proof (rule keepsI)
  fix db assume "good db"
  then have "good (snd (run (queryAcquireSchedulerLock k h (go_now db + ttl)) db))"
    using keeps_run [OF keeps_locks(1)] by (simp add: keeps_def)
  then show "good (snd (AcquireSchedulerLock k h ttl db))"
    by (auto simp: AcquireSchedulerLock_def Let_def split: prod.split sum.split)
qed

lemma good_RecoverStaleJobRuns: "good db \<Longrightarrow> good (snd (RecoverStaleJobRuns d db))"
proof -
  assume "good db"
  then have 1: "good (snd (run (queryMarkStaleJobRunsCrashed (go_now db - d)) db))"
    using keeps_run [OF keeps_job_updates(2)] by (simp add: keeps_def)
  have 2: "good db' \<Longrightarrow> good (snd (run queryDeleteOldJobRuns db'))" for db'
    using keeps_run [OF keeps_job_updates(3)] by (simp add: keeps_def)
  show ?thesis
  proof (cases "run (queryMarkStaleJobRunsCrashed (go_now db - d)) db")
    case (Pair r db')
    then have "good (snd (run queryDeleteOldJobRuns db'))" "good db'" using 1 2 by simp_all
    then show ?thesis using Pair
      by (cases r; cases "run queryDeleteOldJobRuns db'"; cases "fst (run queryDeleteOldJobRuns db')")
        (simp_all add: RecoverStaleJobRuns_def)
  qed
qed

lemma keeps_queue [keeps_intros]:
  "keeps (EnqueueExtraction tr l p)" "keeps (DequeueExtractions w n)" "keeps (CompleteExtractionJob i e)"
  "keeps CountPendingExtractionJobs"
  unfolding EnqueueExtraction_def DequeueExtractions_def CompleteExtractionJob_def CountPendingExtractionJobs_def
  by (intro keeps_intros)+

lemma keepsD: "keeps m \<Longrightarrow> good db \<Longrightarrow> good (snd (m db))"
  by (simp add: keeps_def)

section \<open>Every history of the store\<close>

definition empty_db :: "server \<Rightarrow> db" where
  "empty_db sv = \<lparr> db_server = sv, db_stmts = 0, db_next = 0, db_listings = [], db_watches = [], db_baselines = [],
     db_alerts = [], db_attempts = [], db_judge_scores = [], db_queue = [], db_job_runs = [], db_locks = [],
     db_rate = None \<rparr>"

text \<open>One call of a method that writes, with any arguments; reading methods only spend a round trip.\<close>

inductive basic_step :: "db \<Rightarrow> db \<Rightarrow> bool" where
  s_upsert: "basic_step db (snd (UpsertListing l db))"
| s_extraction: "basic_step db (snd (UpdateListingExtraction i ct attrs c pk db))"
| s_score: "basic_step db (snd (UpdateScore i sc b db))"
| s_create_watch: "basic_step db (snd (CreateWatch w db))"
| s_update_watch: "basic_step db (snd (UpdateWatch w db))"
| s_delete_watch: "basic_step db (snd (DeleteWatch i db))"
| s_enable_watch: "basic_step db (snd (SetWatchEnabled i on db))"
| s_polled: "basic_step db (snd (UpdateWatchLastPolled i t db))"
| s_baseline: "basic_step db (snd (RecomputeBaseline k d db))"
| s_baselines: "basic_step db (snd (RecomputeAllBaselines d db))"
| s_alert: "basic_step db (snd (CreateAlert a db))"
| s_notified: "basic_step db (snd (MarkAlertNotified i db))"
| s_all_notified: "basic_step db (snd (MarkAlertsNotified ids db))"
| s_attempt: "basic_step db (snd (InsertNotificationAttempt i ok st e db))"
| s_dismiss: "basic_step db (snd (DismissAlerts ids db))"
| s_restore: "basic_step db (snd (RestoreAlerts ids db))"
| s_judge: "basic_step db (snd (InsertJudgeScore j db))"
| s_rate: "basic_step db (snd (PersistRateLimiterState u dl r db))"
| s_job: "basic_step db (snd (InsertJobRun k db))"
| s_job_done: "basic_step db (snd (CompleteJobRun i st e n db))"
| s_recover: "basic_step db (snd (RecoverStaleJobRuns d db))"
| s_lock: "basic_step db (snd (AcquireSchedulerLock k h ttl db))"
| s_enqueue: "basic_step db (snd (EnqueueExtraction tr l p db))"
| s_dequeue: "basic_step db (snd (DequeueExtractions w n db))"
| s_read: "db_stmts db \<le> n \<Longrightarrow> basic_step db (db\<lparr> db_stmts := n \<rparr>)"

inductive store_step :: "db \<Rightarrow> db \<Rightarrow> bool" where
  s_basic: "basic_step db db' \<Longrightarrow> store_step db db'"
| s_unlock: "store_step db (snd (ReleaseSchedulerLock k h db))"
| s_complete: "store_step db (snd (CompleteExtractionJob i e db))"

lemma good_basic: "basic_step db db' \<Longrightarrow> good db \<Longrightarrow> good db'"
  by (induction rule: basic_step.induct) (auto intro!: keepsD keeps_intros good_RecoverStaleJobRuns)

lemma good_step: "store_step db db' \<Longrightarrow> good db \<Longrightarrow> good db'"
  by (induction rule: store_step.induct) (auto intro: good_basic keepsD keeps_intros)

lemma good_empty: "inj (sv_uuid sv) \<Longrightarrow> good (empty_db sv)"
  by (simp add: good_def db_inv_def empty_db_def distinct_on_def)

lemma good_history: "store_step\<^sup>*\<^sup>* db db' \<Longrightarrow> good db \<Longrightarrow> good db'"
  by (induction rule: rtranclp_induct) (auto intro: good_step)


text \<open>A server for examples: numbered ids, a clock of one tick per statement, no faults.\<close>

definition plain_server :: server where
  "plain_server = \<lparr> sv_uuid = (\<lambda>n. itoa (int n)), sv_clock = int, sv_goclock = int, sv_fault = (\<lambda>n. NoFault),
     sv_numeric = (\<lambda>p x. Some x), sv_attrs = Some, sv_filters = Some, sv_percentile = (\<lambda>q xs. Fin 0),
     sv_avg = (\<lambda>xs. Fin 0) \<rparr>"

lemma plain_uuid_inj: "inj (sv_uuid plain_server)"
  by (auto simp: plain_server_def inj_def dest: itoa_inj)


end
