(* ===== verification/StoreLaws.thy ===== *)
theory StoreLaws
  imports StoreInv
begin

text \<open>
  What the store promises its clients beyond well-formed tables: the outcomes of a round trip, who gets a
  job of the extraction queue and in which order, when a scheduler lock excludes others, and what a listing
  query selects. The query laws need no history; the queue and lock laws speak of every interleaving of calls.
\<close>

section \<open>Round trips\<close>

definition fault_free :: "server \<Rightarrow> bool" where "fault_free sv \<longleftrightarrow> (\<forall>n. sv_fault sv n = NoFault)"

text \<open>The outcomes of a round trip.\<close>

lemma run_cases:
  assumes "run m db = (r, db')"
  obtains (answered) n where "r = fst (m db)" "db' = (snd (m db))\<lparr> db_stmts := n \<rparr>"
  | (refused) n where "r = Inl ConnLost" "db' = db\<lparr> db_stmts := n \<rparr>" "\<not> fault_free (db_server db)"
  | (lost) n where "r = Inl ConnLost" "db' = (snd (m db))\<lparr> db_stmts := n \<rparr>" "\<not> fault_free (db_server db)"
  using assms by (auto simp: run_def Let_def fault_free_def split: fault.splits prod.splits) (metis fault.distinct)+

lemma run_fault_free:
  "fault_free (db_server db) \<Longrightarrow> run m db = (fst (m db), (snd (m db))\<lparr> db_stmts := db_stmts db + 1 \<rparr>)"
  by (simp add: run_def fault_free_def Let_def split: prod.split)

lemma run_Inr:
  assumes "run m db = (Inr x, db')"
  shows "fst (m db) = Inr x \<and> db' = (snd (m db))\<lparr> db_stmts := db_stmts db + 1 \<rparr>"
  using assms by (auto simp: run_def Let_def split: fault.splits prod.splits)

lemma run_stmts: "db_stmts (snd (run m db)) = db_stmts db + 1"
  by (simp add: run_def Let_def split: fault.split prod.split)

lemma plain_fault_free: "fault_free plain_server"
  by (simp add: fault_free_def plain_server_def)

section \<open>Parts of the database\<close>

text \<open>A part of the database that round trips by themselves leave alone. Reading methods leave it alone,
  and writing methods do when their statement does.\<close>

locale db_part =
  fixes part :: "db \<Rightarrow> 'p"
  assumes stmts: "part (db\<lparr> db_stmts := n \<rparr>) = part db"
begin

lemma run: "part (snd (m db)) = part db \<Longrightarrow> part (snd (run m db)) = part db"
  by (auto simp: run_def Let_def stmts split: fault.split prod.split)

lemma read: "snd (m db) = db \<Longrightarrow> part (snd (run m db)) = part db"
  by (rule run) simp

lemma bind: "part (snd (m db)) = part db \<Longrightarrow> (\<And>x db. part (snd (k x db)) = part db) \<Longrightarrow> part (snd (bind_db m k db)) = part db"
  by (cases "m db") (auto simp: bind_db_def split: sum.split)

lemma answers: "part (snd (return_db x db)) = part db" "part (snd (lift_result r db)) = part db"
  by (simp_all add: return_db_def lift_result_def)

lemma listing_reads:
  "part (snd (GetListingByID i db)) = part db" "part (snd (GetListing i db)) = part db"
  "part (snd (ListListingsCursor i n db)) = part db" "part (snd (ListUnscoredListings n db)) = part db"
  "part (snd (ListIncompleteExtractions ct n db)) = part db"
  unfolding GetListingByID_def GetListing_def ListListingsCursor_def ListUnscoredListings_def ListIncompleteExtractions_def
    queryListings_def Let_def
  by (auto intro!: bind read answers simp: queryGetListingByID_def queryGetListingByEbayID_def queryListListingsCursor_def
      queryListUnscoredListings_def queryListIncompleteExtractions_def queryListIncompleteExtractionsForType_def)

lemma other_reads:
  "part (snd (GetBaseline k db)) = part db" "part (snd (ListWatches b db)) = part db"
  "part (snd (HasRecentAlert w l c db)) = part db" "part (snd (GetSystemState db)) = part db"
  unfolding GetBaseline_def ListWatches_def HasRecentAlert_def GetSystemState_def Let_def
  by (auto intro!: read simp: queryGetBaseline_def queryListWatchesEnabled_def queryListWatchesAll_def
      queryHasRecentAlert_def queryGetSystemState_def Let_def)

lemma create_alert:
  assumes "\<And>w l s t db. part (snd (queryCreateAlert w l s t db)) = part db"
  shows "part (snd (CreateAlert a db)) = part db"
  using run [where db = db and m = "queryCreateAlert (a_watch_id a) (a_listing_id a) (a_score a)
      (case a_trace_id a of Some t \<Rightarrow> t | None \<Rightarrow> [])", OF assms]
  by (auto simp: CreateAlert_def Let_def split: prod.splits sum.splits)

lemmas reads = listing_reads other_reads

end

section \<open>Relations that every history respects\<close>

text \<open>The database after a statement whose round trip was spent.\<close>

definition committed :: "'a stmt \<Rightarrow> db \<Rightarrow> db" where
  "committed m db = (snd (m db))\<lparr> db_stmts := db_stmts db + 1 \<rparr>"

text \<open>A relation between an earlier and a later database that all writing statements respect, except
  perhaps releasing a lock and completing an extraction job. Every step of a history respects it too.\<close>

locale history_relation =
  fixes R :: "db \<Rightarrow> db \<Rightarrow> bool"
  assumes trans: "R a b \<Longrightarrow> R b c \<Longrightarrow> R a c"
    and stmts: "db_stmts db \<le> n \<Longrightarrow> R db (db\<lparr> db_stmts := n \<rparr>)"
    and upsert: "R db (committed (queryUpsertListing l) db)"
    and extraction: "R db (committed (queryUpdateListingExtraction i ct attrs conf pk) db)"
    and score: "R db (committed (queryUpdateScore i sc br) db)"
    and create_watch: "R db (committed (queryCreateWatch w f) db)"
    and update_watch: "R db (committed (queryUpdateWatch w f) db)"
    and delete_watch: "R db (committed (queryDeleteWatch i) db)"
    and enable_watch: "R db (committed (querySetWatchEnabled i on) db)"
    and polled: "R db (committed (queryUpdateWatchLastPolled i t) db)"
    and baseline: "R db (committed (queryRecomputeBaseline k d) db)"
    and alert: "R db (committed (queryCreateAlert wi li sc tr) db)"
    and notified: "R db (committed (queryMarkAlertNotified i) db)"
    and all_notified: "R db (committed (queryMarkAlertsNotified ids) db)"
    and attempt: "R db (committed (queryInsertNotificationAttempt i ok st er) db)"
    and dismiss: "R db (committed (queryDismissAlerts ids) db)"
    and restore: "R db (committed (queryRestoreAlerts ids) db)"
    and judge: "R db (committed (queryInsertJudgeScore j) db)"
    and rate: "R db (committed (queryPersistRateLimiterState u dl rs) db)"
    and job: "R db (committed (queryInsertJobRun nm) db)"
    and job_done: "R db (committed (queryCompleteJobRun i status er m) db)"
    and stale: "R db (committed (queryMarkStaleJobRunsCrashed t) db)"
    and old_runs: "R db (committed queryDeleteOldJobRuns db)"
    and lock: "R db (committed (queryAcquireSchedulerLock nm h e) db)"
    and enqueue: "R db (committed (queryEnqueueExtraction li p tr) db)"
    and dequeue: "R db (committed (queryDequeueExtractions wk lim') db)"
begin

lemma refl: "R db db"
  using stmts [of db "db_stmts db"] by simp

lemma spent: "R db (db\<lparr> db_stmts := Suc (db_stmts db) \<rparr>)"
  by (rule stmts) simp

lemma run: "R db (committed m db) \<Longrightarrow> R db (snd (run m db))"
  by (auto simp: run_def committed_def Let_def spent split: fault.split prod.split)

lemma run_any: "snd (m db) = db \<Longrightarrow> R db (snd (run m db))"
  by (rule run) (simp add: committed_def spent)

lemma bind: "R db (snd (m db)) \<Longrightarrow> (\<And>x db. R db (snd (k x db))) \<Longrightarrow> R db (snd (bind_db m k db))"
  using trans by (fastforce simp: bind_db_def split: prod.split sum.split)

lemma return: "R db (snd (return_db x db))"
  by (simp add: return_db_def refl)

lemma then_run: "R db (snd (m db)) \<Longrightarrow> R db (snd (bind_db m (\<lambda>x. return_db (g x)) db))"
  by (rule bind) (auto intro: return)

lemma recompute: "R db (snd (recompute_loop d ks db))"
proof (induction ks arbitrary: db)
  case (Cons k ks)
  have "R db (snd (RecomputeBaseline k d db))" unfolding RecomputeBaseline_def by (intro run baseline)
  then show ?case using Cons.IH trans by (fastforce split: prod.split sum.split)
qed (simp add: refl)

lemma recover: "R db (snd (RecoverStaleJobRuns d db))"
proof -
  obtain r db1 where 1: "run (queryMarkStaleJobRunsCrashed (go_now db - d)) db = (r, db1)" by fastforce
  obtain r2 db2 where 2: "run queryDeleteOldJobRuns db1 = (r2, db2)" by fastforce
  have "R db db1" "R db1 db2" using run [OF stale, of db "go_now db - d"] 1 run [OF old_runs, of db1] 2 by simp_all
  then show ?thesis using 1 2 trans
    by (cases r; cases r2) (auto simp: RecoverStaleJobRuns_def)
qed

lemma acquire: "R db (snd (AcquireSchedulerLock nm h ttl db))"
  using run [OF lock, of db nm h "go_now db + ttl"]
  by (auto simp: AcquireSchedulerLock_def Let_def split: prod.split sum.split)

lemma create_alert: "R db (snd (CreateAlert a db))"
  using run [OF alert, of db "a_watch_id a" "a_listing_id a" "a_score a" "case a_trace_id a of Some t \<Rightarrow> t | None \<Rightarrow> []"]
  by (auto simp: CreateAlert_def Let_def split: prod.splits sum.splits)

lemma all_baselines: "R db (snd (RecomputeAllBaselines d db))"
  unfolding RecomputeAllBaselines_def
  by (rule bind) (auto intro: run_any recompute simp: queryListDistinctProductKeys_def)

lemma with_filters: "R db (snd (CreateWatch w db))" "R db (snd (UpdateWatch w db))"
  by (auto simp: CreateWatch_def UpdateWatch_def refl split: option.split
      intro!: bind run create_watch update_watch return)

lemmas commits = run [OF score] run [OF delete_watch] run [OF enable_watch] run [OF polled] run [OF baseline]
  run [OF notified] run [OF all_notified] run [OF attempt] run [OF judge] run [OF rate] run [OF job] run [OF job_done]
  run [OF enqueue]

lemma with_rows: "R db (snd (UpsertListing l db))" "R db (snd (UpdateListingExtraction i ct attrs conf pk db))"
  "R db (snd (DismissAlerts ids db))" "R db (snd (RestoreAlerts ids db))" "R db (snd (DequeueExtractions wk n db))"
  by (auto simp: UpsertListing_def UpdateListingExtraction_def DismissAlerts_def RestoreAlerts_def DequeueExtractions_def
      refl intro!: bind run return upsert extraction dismiss restore dequeue split: option.split)

lemma basic: "basic_step db db' \<Longrightarrow> R db db'"
  by (cases rule: basic_step.cases)
    (auto intro: commits with_rows with_filters all_baselines create_alert acquire recover stmts
      simp: UpdateScore_def DeleteWatch_def SetWatchEnabled_def UpdateWatchLastPolled_def RecomputeBaseline_def
        MarkAlertNotified_def MarkAlertsNotified_def InsertNotificationAttempt_def InsertJudgeScore_def
        PersistRateLimiterState_def InsertJobRun_def CompleteJobRun_def EnqueueExtraction_def)

end

section \<open>The extraction queue\<close>

text \<open>The ids of the jobs that can still be handed out.\<close>

definition open_ids :: "db \<Rightarrow> string set" where "open_ids db = eq_id ` {j \<in> set (db_queue db). claimable j}"

text \<open>A job that was claimed or finished never becomes claimable again; new jobs have new ids.\<close>

definition never_reopens :: "db \<Rightarrow> db \<Rightarrow> bool" where
  "never_reopens db db' \<longleftrightarrow> (good db \<longrightarrow> good db'
     \<and> open_ids db' \<inter> ids_below db \<subseteq> open_ids db \<and> ids_below db \<subseteq> ids_below db')"

lemmas writes_keep = keeps_queryUpsertListing keeps_listing_updates keeps_queryCreateWatch keeps_watch_updates
  keeps_queryDeleteWatch keeps_queryCreateAlert keeps_alert_updates keeps_queryInsertNotificationAttempt
  keeps_queryInsertJudgeScore keeps_queryPersistRateLimiterState keeps_locks

lemma open_ids_simps [simp]:
  "open_ids (db\<lparr> db_stmts := n \<rparr>) = open_ids db"
  "ids_below (db\<lparr> db_stmts := n \<rparr>) = ids_below db"
  by (simp_all add: open_ids_def ids_below_def)

lemma never_reopensI:
  assumes "keeps m" and "good db \<Longrightarrow> open_ids (snd (m db)) \<inter> ids_below db \<subseteq> open_ids db"
    and "ids_below db \<subseteq> ids_below (snd (m db))"
  shows "never_reopens db (committed m db)"
  using assms by (simp add: never_reopens_def committed_def keepsD)

lemma untouched_queue:
  assumes "keeps m" and "db_queue (snd (m db)) = db_queue db" and "ids_below db \<subseteq> ids_below (snd (m db))"
  shows "never_reopens db (committed m db)"
  using assms by (intro never_reopensI) (auto simp: open_ids_def)

lemmas write_defs = queryUpsertListing_def queryUpdateListingExtraction_def queryUpdateScore_def queryCreateWatch_def
  queryUpdateWatch_def queryDeleteWatch_def querySetWatchEnabled_def queryUpdateWatchLastPolled_def
  queryRecomputeBaseline_def queryCreateAlert_def queryMarkAlertNotified_def queryMarkAlertsNotified_def
  queryInsertNotificationAttempt_def queryDismissAlerts_def queryRestoreAlerts_def queryInsertJudgeScore_def
  queryPersistRateLimiterState_def queryInsertJobRun_def queryCompleteJobRun_def queryMarkStaleJobRunsCrashed_def
  queryDeleteOldJobRuns_def queryAcquireSchedulerLock_def Let_def

lemma reopen_enqueue: "good db \<Longrightarrow> open_ids (snd (queryEnqueueExtraction li p tr db)) \<inter> ids_below db \<subseteq> open_ids db"
  using fresh_new [of db] by (auto simp: queryEnqueueExtraction_def open_ids_def)

lemma claim_simps [simp]: "eq_id (claim w t j) = eq_id j" "\<not> claimable (claim w t j)" "unfinished (claim w t j) = unfinished j"
  "eq_listing_id (claim w t j) = eq_listing_id j" "queue_key (claim w t j) = queue_key j"
  by (simp_all add: claim_def claimable_def unfinished_def queue_key_def)

lemma open_after_dequeue:
  "open_ids (snd (queryDequeueExtractions w n db)) \<subseteq> open_ids db - (if n < 0 then {} else eq_id ` set (claimed n db))"
  by (auto simp: queryDequeueExtractions_def Let_def open_ids_def update_where_def split: if_splits)

interpretation queue: history_relation never_reopens
proof unfold_locales
  show "never_reopens a b \<Longrightarrow> never_reopens b c \<Longrightarrow> never_reopens a c" for a b c
    by (auto simp: never_reopens_def)
  show "db_stmts db \<le> n \<Longrightarrow> never_reopens db (db\<lparr> db_stmts := n \<rparr>)" for db n
    by (auto simp: never_reopens_def)
  show "never_reopens db (committed (queryEnqueueExtraction li p tr) db)" for db li p tr
    by (intro never_reopensI keeps_queryEnqueueExtraction reopen_enqueue) (auto simp: queryEnqueueExtraction_def)
  show "never_reopens db (committed (queryDequeueExtractions w n) db)" for db w n
    using open_after_dequeue [of w n db]
    by (intro never_reopensI keeps_queue_updates) (auto simp: queryDequeueExtractions_def Let_def split: if_splits)
qed (rule untouched_queue; (intro keeps_intros)?; auto simp: write_defs split: option.split)+

lemma queue_unlock: "never_reopens db (snd (ReleaseSchedulerLock nm h db))"
  unfolding ReleaseSchedulerLock_def
  by (intro queue.run untouched_queue keeps_locks) (auto simp: queryReleaseSchedulerLock_def)

lemma queue_complete: "never_reopens db (snd (CompleteExtractionJob i e db))"
  unfolding CompleteExtractionJob_def
  by (intro queue.run never_reopensI keeps_queue_updates)
    (auto simp: queryCompleteExtractionJob_def open_ids_def update_where_def claimable_def image_iff)

lemma queue_step: "store_step db db' \<Longrightarrow> never_reopens db db'"
  by (cases rule: store_step.cases) (auto intro: queue.basic queue_unlock queue_complete)

text \<open>The histories of the store, with the ids of the jobs that workers received.\<close>

inductive claims :: "db \<Rightarrow> string list \<Rightarrow> db \<Rightarrow> bool" where
  claims_start: "claims db [] db"
| claims_step: "claims db tr db1 \<Longrightarrow> store_step db1 db2 \<Longrightarrow> claims db tr db2"
| claims_dequeue: "claims db tr db1 \<Longrightarrow> DequeueExtractions w n db1 = (Inr jobs, db2) \<Longrightarrow>
    claims db (tr @ map ej_id jobs) db2"

lemma dequeue_answer:
  assumes "DequeueExtractions w n db = (Inr jobs, db')"
  shows "0 \<le> n \<and> map ej_id jobs = map eq_id (claimed n db)
    \<and> open_ids db' \<subseteq> open_ids db - set (map ej_id jobs)
    \<and> jobs = map (scan_job \<circ> claim w (now db)) (claimed n db)"
proof -
  obtain rows where rows: "run (queryDequeueExtractions w n) db = (Inr rows, db')" and jobs: "jobs = map scan_job rows"
    using assms by (auto simp: DequeueExtractions_def bind_db_def return_db_def split: prod.splits sum.splits)
  note r = run_Inr [OF rows]
  have n: "0 \<le> n" and c: "rows = map (claim w (now db)) (claimed n db)"
    using r by (auto simp: queryDequeueExtractions_def Let_def split: if_splits)
  have ids: "map ej_id jobs = map eq_id (claimed n db)"
    by (simp add: jobs c scan_job_def comp_def)
  have "open_ids db' \<subseteq> open_ids db - set (map ej_id jobs)"
    using r n open_after_dequeue [of w n db] unfolding ids by simp
  moreover have "jobs = map (scan_job \<circ> claim w (now db)) (claimed n db)"
    by (simp add: jobs c)
  ultimately show ?thesis using n ids by simp
qed

lemma claimed_open: "set (map eq_id (claimed n db)) \<subseteq> open_ids db"
  by (auto simp: claimed_def open_ids_def dest: in_set_takeD)

lemma claimed_distinct:
  assumes "good db" shows "distinct (map eq_id (claimed n db))"
proof -
  have "distinct_on eq_id (db_queue db)" using assms by (simp add: good_def db_inv_def)
  then have "distinct (map eq_id (sort_key queue_key (filter claimable (db_queue db))))"
    by (simp add: distinct_on_def distinct_map inj_on_def)
  from distinct_take [OF this, of "nat n"] show ?thesis by (simp add: claimed_def take_map)
qed

lemma open_below: "good db \<Longrightarrow> open_ids db \<subseteq> ids_below db"
  by (auto simp: good_def db_inv_def open_ids_def)

lemma claims_invariant:
  assumes "claims db tr db'" and "good db"
  shows "good db' \<and> distinct tr \<and> set tr \<inter> open_ids db' = {} \<and> set tr \<subseteq> ids_below db'"
  using assms
proof (induction rule: claims.induct)
  case (claims_step db tr db1 db2)
  then have "never_reopens db1 db2" "good db1" "distinct tr" "set tr \<inter> open_ids db1 = {}" "set tr \<subseteq> ids_below db1"
    using queue_step by auto
  then show ?case by (auto simp: never_reopens_def)
next
  case (claims_dequeue db tr db1 w n jobs db2)
  then have i: "good db1" "distinct tr" "set tr \<inter> open_ids db1 = {}" "set tr \<subseteq> ids_below db1"
    by auto
  have "never_reopens db1 db2"
    using claims_dequeue.hyps(2) queue.with_rows(5) [where db = db1 and wk = w and n = n] by simp
  moreover obtain ids where ids: "ids = map ej_id jobs" by blast
  moreover have "set ids \<subseteq> open_ids db1" "distinct ids" "open_ids db2 \<subseteq> open_ids db1 - set ids"
    using dequeue_answer [OF claims_dequeue.hyps(2)] claimed_open [of n db1] claimed_distinct [OF i(1), of n]
    unfolding ids by (metis, metis, blast)
  moreover note open_below [OF i(1)]
  ultimately show ?case using i unfolding ids [symmetric]
    by (auto simp: never_reopens_def)
qed simp

lemma in_sorted_take_or_drop:
  "x \<in> set xs \<Longrightarrow> x \<in> set (take n (sort_key k xs)) \<or> x \<in> set (drop n (sort_key k xs))"
  by (metis UnE append_take_drop_id set_append set_sort)


definition demo_job :: queue_row where
  "demo_job = \<lparr> eq_id = itoa 1, eq_listing_id = itoa 0, eq_priority = 1, eq_enqueued_at = 0, eq_claimed_at = None,
     eq_claimed_by = None, eq_completed_at = None, eq_attempts = 0, eq_error_text = None, eq_trace_id = None \<rparr>"

definition queue_db :: db where
  "queue_db = (empty_db plain_server)\<lparr> db_next := 2, db_queue := [demo_job] \<rparr>"

lemma good_queue_db: "good queue_db"
proof -
  have "itoa 1 \<in> sv_uuid plain_server ` {..<2}"
    by (rule image_eqI [where x = 1]) (simp_all add: plain_server_def)
  then show ?thesis
    by (simp add: good_def db_inv_def queue_db_def empty_db_def distinct_on_def demo_job_def plain_uuid_inj ids_below_def)
qed

lemma queue_db_served: "DequeueExtractions ''worker-0'' 1 queue_db
    = (Inr [scan_job (claim ''worker-0'' (now queue_db) demo_job)], snd (DequeueExtractions ''worker-0'' 1 queue_db))"
  by (simp add: queue_db_def empty_db_def plain_server_def DequeueExtractions_def bind_db_def return_db_def run_def
      queryDequeueExtractions_def claimed_def demo_job_def claimable_def now_def)


text \<open>A job whose worker died after claiming it.\<close>

definition abandoned :: "queue_row \<Rightarrow> db \<Rightarrow> bool" where
  "abandoned j db \<longleftrightarrow> good db \<and> j \<in> set (db_queue db) \<and> \<not> claimable j \<and> unfinished j"

definition stays_abandoned :: "queue_row \<Rightarrow> db \<Rightarrow> db \<Rightarrow> bool" where
  "stays_abandoned j db db' \<longleftrightarrow> (abandoned j db \<longrightarrow> abandoned j db')"

lemma stays_abandonedI:
  assumes "keeps m" and "abandoned j db \<Longrightarrow> j \<in> set (db_queue (snd (m db)))"
  shows "stays_abandoned j db (committed m db)"
  using assms by (simp add: stays_abandoned_def abandoned_def committed_def keepsD)

lemma same_queue_row:
  "good db \<Longrightarrow> j \<in> set (db_queue db) \<Longrightarrow> k \<in> set (db_queue db) \<Longrightarrow> eq_id j = eq_id k \<Longrightarrow> j = k"
  by (auto simp: good_def db_inv_def distinct_on_def distinct_map dest: inj_onD)

lemma claimed_rows: "k \<in> set (claimed n db) \<Longrightarrow> k \<in> set (db_queue db) \<and> claimable k"
  by (auto simp: claimed_def dest: in_set_takeD)

lemma abandoned_not_claimed: "abandoned j db \<Longrightarrow> eq_id j \<notin> set (map eq_id (claimed n db))"
proof
  assume a: "abandoned j db" and "eq_id j \<in> set (map eq_id (claimed n db))"
  then obtain k where k: "k \<in> set (claimed n db)" "eq_id j = eq_id k" by auto
  have "j = k" using a k claimed_rows [OF k(1)] by (intro same_queue_row [of db]) (auto simp: abandoned_def)
  then show False using a claimed_rows [OF k(1)] by (simp add: abandoned_def)
qed

lemma update_where_other: "x \<in> set xs \<Longrightarrow> \<not> P x \<Longrightarrow> x \<in> set (update_where P f xs)"
  by (force simp: update_where_def)

interpretation abandonment: history_relation "stays_abandoned j"
proof unfold_locales
  show "stays_abandoned j a b \<Longrightarrow> stays_abandoned j b c \<Longrightarrow> stays_abandoned j a c" for a b c
    by (auto simp: stays_abandoned_def)
  show "db_stmts db \<le> n \<Longrightarrow> stays_abandoned j db (db\<lparr> db_stmts := n \<rparr>)" for db n
    by (auto simp: stays_abandoned_def abandoned_def)
  show "stays_abandoned j db (committed (queryEnqueueExtraction li p tr) db)" for db li p tr
    by (intro stays_abandonedI keeps_queryEnqueueExtraction) (auto simp: queryEnqueueExtraction_def abandoned_def)
  show "stays_abandoned j db (committed (queryDequeueExtractions w n) db)" for db w n
  proof (rule stays_abandonedI [OF keeps_queue_updates(1)])
    assume a: "abandoned j db"
    from abandoned_not_claimed [OF this, of n] show "j \<in> set (db_queue (snd (queryDequeueExtractions w n db)))"
      using a by (auto simp: queryDequeueExtractions_def Let_def abandoned_def intro: update_where_other)
  qed
qed (rule stays_abandonedI; (intro keeps_intros)?; auto simp: write_defs abandoned_def split: option.split)+

lemma completing_another:
  assumes "i \<noteq> eq_id j" and "abandoned j db" shows "abandoned j (snd (CompleteExtractionJob i e db))"
proof -
  have "stays_abandoned j db (committed (queryCompleteExtractionJob i e) db)"
    using assms(1) by (intro stays_abandonedI keeps_queue_updates)
      (simp add: queryCompleteExtractionJob_def abandoned_def update_where_other)
  from abandonment.run [OF this] show ?thesis
    using assms(2) by (simp add: stays_abandoned_def CompleteExtractionJob_def)
qed

lemma releasing_lock: "abandoned j db \<Longrightarrow> abandoned j (snd (ReleaseSchedulerLock nm h db))"
proof -
  have "stays_abandoned j db (committed (queryReleaseSchedulerLock nm h) db)"
    by (intro stays_abandonedI keeps_locks) (auto simp: queryReleaseSchedulerLock_def abandoned_def)
  from abandonment.run [OF this] show "abandoned j db \<Longrightarrow> ?thesis"
    by (simp add: stays_abandoned_def ReleaseSchedulerLock_def)
qed

text \<open>C39. An abandoned job is stuck. A job whose worker died after claiming it is handed out to nobody
  again, stays as it is whatever is called short of completing it, and blocks its listing: enqueuing the
  listing changes nothing.\<close>

theorem abandoned_job_stuck:
  assumes "abandoned j db"
  shows "(store_step db db' \<longrightarrow> abandoned j db' \<or> (\<exists>e. db' = snd (CompleteExtractionJob (eq_id j) e db)))
    \<and> (DequeueExtractions w n db = (Inr jobs, db2) \<longrightarrow> eq_id j \<notin> ej_id ` set jobs)
    \<and> db_queue (snd (EnqueueExtraction tr (eq_listing_id j) p db)) = db_queue db"
proof (intro conjI impI)
  show "abandoned j db' \<or> (\<exists>e. db' = snd (CompleteExtractionJob (eq_id j) e db))" if step: "store_step db db'"
    using step
  proof cases
    case s_basic then show ?thesis using abandonment.basic [of db db' j] assms by (simp add: stays_abandoned_def)
  next
    case (s_unlock nm h) then show ?thesis using releasing_lock [OF assms] by blast
  next
    case (s_complete i e)
    show ?thesis
    proof (cases "i = eq_id j")
      case True then show ?thesis using s_complete by blast
    next
      case False then show ?thesis using s_complete completing_another [OF False assms] by simp
    qed
  qed
  show "eq_id j \<notin> ej_id ` set jobs" if "DequeueExtractions w n db = (Inr jobs, db2)"
    using dequeue_answer [OF that] abandoned_not_claimed [OF assms, of n] by (metis list.set_map)
  have "\<exists>k\<in>set (db_queue db). eq_listing_id k = eq_listing_id j \<and> unfinished k"
    using assms by (auto simp: abandoned_def)
  then show "db_queue (snd (EnqueueExtraction tr (eq_listing_id j) p db)) = db_queue db"
    by (simp add: EnqueueExtraction_def queryEnqueueExtraction_def run_def Let_def split: fault.split)
qed

lemma demo_abandoned: "abandoned (demo_job\<lparr> eq_claimed_at := Some 0 \<rparr>) (queue_db\<lparr> db_queue := [demo_job\<lparr> eq_claimed_at := Some 0 \<rparr>] \<rparr>)"
  using good_queue_db
  by (simp add: abandoned_def good_def db_inv_def queue_db_def empty_db_def distinct_on_def demo_job_def ids_below_def
      claimable_def unfinished_def)

theorem abandoned_job_stuck_witness:
  "db_queue (snd (EnqueueExtraction [] (itoa 0) 1 (queue_db\<lparr> db_queue := [demo_job\<lparr> eq_claimed_at := Some 0 \<rparr>] \<rparr>)))
     = [demo_job\<lparr> eq_claimed_at := Some 0 \<rparr>]"
  using abandoned_job_stuck [OF demo_abandoned, of undefined undefined undefined undefined undefined "[]" 1]
  by (simp add: demo_job_def queue_db_def)

section \<open>Scheduler locks\<close>

definition held :: "string \<Rightarrow> string \<Rightarrow> instant \<Rightarrow> db \<Rightarrow> bool" where
  "held nm h e db \<longleftrightarrow> (case find (\<lambda>k. lk_job_name k = nm) (db_locks db) of
     Some k \<Rightarrow> lk_holder k = h \<and> lk_expires_at k = e | None \<Rightarrow> False)"

text \<open>A lock is kept at least until it expires, if the server's clock does not run backwards.\<close>

definition stays_held :: "string \<Rightarrow> string \<Rightarrow> instant \<Rightarrow> db \<Rightarrow> db \<Rightarrow> bool" where
  "stays_held nm h e db db' \<longleftrightarrow> (mono (sv_clock (db_server db)) \<longrightarrow>
     db_server db' = db_server db \<and> db_stmts db \<le> db_stmts db' \<and> (held nm h e db \<and> now db' \<le> e \<longrightarrow> held nm h e db'))"

lemma stays_heldI:
  assumes "db_server (snd (m db)) = db_server db"
    and "held nm h e db \<Longrightarrow> now db \<le> e \<Longrightarrow> held nm h e (snd (m db))"
  shows "stays_held nm h e db (committed m db)"
proof -
  have "now db \<le> now (committed m db)" if "mono (sv_clock (db_server db))"
    using monoD [OF that, of "db_stmts db" "Suc (db_stmts db)"] assms(1) by (simp add: now_def committed_def)
  then show ?thesis using assms by (fastforce simp: stays_held_def committed_def held_def)
qed

lemma find_update_other:
  "nm' \<noteq> nm \<Longrightarrow> (\<And>k. lk_job_name (f k) = lk_job_name k) \<Longrightarrow>
   find (\<lambda>k. lk_job_name k = nm) (update_where (\<lambda>k. lk_job_name k = nm') f ks) = find (\<lambda>k. lk_job_name k = nm) ks"
  by (induction ks) (auto simp: update_where_def)

lemma find_append_other: "\<not> P x \<Longrightarrow> find P (xs @ [x]) = find P xs"
  by (induction xs) auto

lemma held_acquire: "held nm h e db \<Longrightarrow> now db \<le> e \<Longrightarrow> held nm h e (snd (queryAcquireSchedulerLock nm' h' e' db))"
  by (cases "nm' = nm")
    (auto simp: held_def queryAcquireSchedulerLock_def find_update_other find_append_other split: option.splits)

lemma find_filter_other:
  "(\<And>k. k \<in> set ks \<Longrightarrow> lk_job_name k = nm \<Longrightarrow> find (\<lambda>k. lk_job_name k = nm) ks = Some k \<Longrightarrow> P k) \<Longrightarrow>
   find (\<lambda>k. lk_job_name k = nm) ks = Some r \<Longrightarrow> find (\<lambda>k. lk_job_name k = nm) (filter P ks) = Some r"
  by (induction ks) (auto split: if_splits)

lemma held_release:
  assumes "held nm h e db" and "\<not> (nm' = nm \<and> h' = h)"
  shows "held nm h e (snd (queryReleaseSchedulerLock nm' h' db))"
proof -
  obtain k where k: "find (\<lambda>k. lk_job_name k = nm) (db_locks db) = Some k" "lk_holder k = h" "lk_expires_at k = e"
    using assms(1) by (auto simp: held_def split: option.splits)
  have "find (\<lambda>k. lk_job_name k = nm) (filter (\<lambda>k. \<not> (lk_job_name k = nm' \<and> lk_holder k = h')) (db_locks db)) = Some k"
    by (rule find_filter_other [OF _ k(1)]) (use assms(2) k in auto)
  then show ?thesis using k by (simp add: held_def queryReleaseSchedulerLock_def)
qed

lemma untouched_locks:
  "db_server (snd (m db)) = db_server db \<Longrightarrow> db_locks (snd (m db)) = db_locks db \<Longrightarrow> stays_held nm h e db (committed m db)"
  by (rule stays_heldI) (simp_all add: held_def)

interpretation locks: history_relation "stays_held nm h e"
proof unfold_locales
  show "stays_held nm h e a b \<Longrightarrow> stays_held nm h e b c \<Longrightarrow> stays_held nm h e a c" for a b c
    by (auto simp: stays_held_def now_def) (meson dual_order.trans monoD)
  show "db_stmts db \<le> n \<Longrightarrow> stays_held nm h e db (db\<lparr> db_stmts := n \<rparr>)" for db n
    by (auto simp: stays_held_def held_def)
  show "stays_held nm h e db (committed (queryAcquireSchedulerLock nm' h' e') db)" for db nm' h' e'
    by (intro stays_heldI held_acquire) (auto simp: queryAcquireSchedulerLock_def split: option.split)
  show "stays_held nm h e db (committed (queryEnqueueExtraction li p tr) db)" for db li p tr
    by (intro stays_heldI) (auto simp: queryEnqueueExtraction_def held_def)
  show "stays_held nm h e db (committed (queryDequeueExtractions w n) db)" for db w n
    by (intro stays_heldI) (auto simp: queryDequeueExtractions_def Let_def held_def)
qed (rule untouched_locks; auto simp: write_defs delete_alerts_def split: option.split)+

text \<open>What everybody else can do while the holder of a lock keeps it.\<close>

inductive other_step :: "string \<Rightarrow> string \<Rightarrow> db \<Rightarrow> db \<Rightarrow> bool" for nm h where
  other_basic: "basic_step db db' \<Longrightarrow> other_step nm h db db'"
| other_unlock: "\<not> (nm' = nm \<and> h' = h) \<Longrightarrow> other_step nm h db (snd (ReleaseSchedulerLock nm' h' db))"
| other_complete: "other_step nm h db (snd (CompleteExtractionJob i e db))"

lemma lock_step:
  assumes "other_step nm h db db'" shows "stays_held nm h e db db'"
  using assms
proof (cases rule: other_step.cases)
  case (other_unlock nm' h')
  have "stays_held nm h e db (committed (queryReleaseSchedulerLock nm' h') db)"
    using held_release other_unlock(2) by (intro stays_heldI) (auto simp: queryReleaseSchedulerLock_def)
  then show ?thesis using other_unlock(1) locks.run by (simp add: ReleaseSchedulerLock_def)
next
  case (other_complete i e')
  have "stays_held nm h e db (committed (queryCompleteExtractionJob i e') db)"
    by (intro untouched_locks) (simp_all add: queryCompleteExtractionJob_def)
  then show ?thesis using other_complete locks.run by (simp add: CompleteExtractionJob_def)
qed (rule locks.basic)

lemma lock_history: "(other_step nm h)\<^sup>*\<^sup>* db db' \<Longrightarrow> stays_held nm h e db db'"
proof (induction rule: rtranclp_induct)
  case (step db1 db2)
  then show ?case using locks.trans lock_step by blast
qed (rule locks.refl)

lemma acquired_held:
  assumes "AcquireSchedulerLock nm h ttl db = (Inr True, db1)"
  shows "held nm h (go_now db + ttl) db1 \<and> db_server db1 = db_server db"
proof -
  obtain x where run: "run (queryAcquireSchedulerLock nm h (go_now db + ttl)) db = (Inr x, db1)"
    using assms by (auto simp: AcquireSchedulerLock_def Let_def split: prod.splits sum.splits if_splits)
  have found: "find (\<lambda>k. lk_job_name k = nm) (update_where (\<lambda>k. lk_job_name k = nm) f ks) = map_option f (find (\<lambda>k. lk_job_name k = nm) ks)"
    if "\<And>k. lk_job_name (f k) = lk_job_name k" for f ks
    using that by (induction ks) (auto simp: update_where_def)
  have appended: "find P ks = None \<Longrightarrow> P x \<Longrightarrow> find P (ks @ [x]) = Some x" for P :: "lock_row \<Rightarrow> bool" and ks x
    by (induction ks) (auto split: if_splits)
  show ?thesis using run_Inr [OF run]
    by (auto simp: queryAcquireSchedulerLock_def held_def found appended split: option.splits if_splits)
qed

text \<open>C5. A scheduler lock excludes. Once a lock is acquired, nobody acquires it again, neither another
  instance nor the same one, as long as its holder does not release it and the clock of the database has
  not passed the expiry; whatever else happens in between, failures included.\<close>

theorem lock_exclusive:
  assumes "mono (sv_clock (db_server db))" and "AcquireSchedulerLock nm h ttl db = (Inr True, db1)"
    and "(other_step nm h)\<^sup>*\<^sup>* db1 db2" and "now db2 \<le> go_now db + ttl"
  shows "fst (AcquireSchedulerLock nm h' ttl' db2) \<noteq> Inr True"
proof -
  have "held nm h (go_now db + ttl) db2"
    using lock_history [OF assms(3), of "go_now db + ttl"] acquired_held [OF assms(2)] assms(1,4)
    by (simp add: stays_held_def)
  then have refused: "fst (queryAcquireSchedulerLock nm h' e db2) = Inl NoRows" for e
    using assms(4) by (auto simp: held_def queryAcquireSchedulerLock_def split: option.splits)
  show ?thesis
  proof (cases "run (queryAcquireSchedulerLock nm h' (go_now db2 + ttl')) db2")
    case (Pair r db3)
    moreover from this have "r = Inl NoRows \<or> r = Inl ConnLost" by (rule run_cases) (auto simp: refused)
    ultimately show ?thesis by (auto simp: AcquireSchedulerLock_def Let_def)
  qed
qed

lemma demo_lock: "AcquireSchedulerLock ''ingestion'' ''host'' 100 (empty_db plain_server)
    = (Inr True, snd (AcquireSchedulerLock ''ingestion'' ''host'' 100 (empty_db plain_server)))"
  by (simp add: AcquireSchedulerLock_def run_def queryAcquireSchedulerLock_def empty_db_def plain_server_def)

theorem lock_exclusive_witness:
  "fst (AcquireSchedulerLock ''ingestion'' ''other'' 100 (snd (AcquireSchedulerLock ''ingestion'' ''host'' 100
     (empty_db plain_server)))) \<noteq> Inr True"
proof (rule lock_exclusive [OF _ demo_lock rtranclp.rtrancl_refl])
  show "mono (sv_clock (db_server (empty_db plain_server)))"
    by (simp add: empty_db_def plain_server_def mono_def)
  show "now (snd (AcquireSchedulerLock ''ingestion'' ''host'' 100 (empty_db plain_server))) \<le> go_now (empty_db plain_server) + 100"
    by (simp add: AcquireSchedulerLock_def run_def queryAcquireSchedulerLock_def empty_db_def plain_server_def now_def go_now_def)
qed

end
