(* ===== verification/QueryLaws.thy ===== *)
theory QueryLaws
  imports StoreLaws
begin

text \<open>
  What a listing query selects, and what \<open>ListListings\<close> makes of it: the WHERE clause built by \<open>ToSQL\<close> with
  its numbered placeholders means the conjunction of the filters that are set, but the select list is one
  column short of what the rows are scanned into, so every query with a result fails.
\<close>

section \<open>The meaning of a query\<close>

text \<open>The filters that are set, read off the row.\<close>

definition row_matches :: "listing_query \<Rightarrow> listing_row \<Rightarrow> bool" where
  "row_matches q r \<longleftrightarrow>
     (case lq_ComponentType q of None \<Rightarrow> True | Some t \<Rightarrow> lr_component_type r = Some t)
     \<and> (case lq_MinScore q of None \<Rightarrow> True | Some m \<Rightarrow> (case lr_score r of None \<Rightarrow> False | Some s \<Rightarrow> m \<le> s))
     \<and> (case lq_MaxScore q of None \<Rightarrow> True | Some m \<Rightarrow> (case lr_score r of None \<Rightarrow> False | Some s \<Rightarrow> s \<le> m))
     \<and> (case lq_ProductKey q of None \<Rightarrow> True | Some k \<Rightarrow> lr_product_key r = Some k)
     \<and> (case lq_SellerMinFB q of None \<Rightarrow> True | Some m \<Rightarrow> m \<le> lr_seller_feedback_score r)
     \<and> (if lq_Conditions q = [] then True else (case lr_condition_norm r of None \<Rightarrow> False | Some c \<Rightarrow> c \<in> set (lq_Conditions q)))"

text \<open>The placeholders of the conditions so far refer to the arguments so far, which later arguments leave alone.\<close>

fun placeholders :: "condition_text \<Rightarrow> nat list" where
  "placeholders (Compare c op n) = [n]"
| "placeholders (InList c ns) = ns"

definition refers_below :: "nat \<Rightarrow> condition_text \<Rightarrow> bool" where
  "refers_below k c \<longleftrightarrow> (\<forall>n\<in>set (placeholders c). 1 \<le> n \<and> n \<le> k)"

lemma holds_more_args: "refers_below (length args) c \<Longrightarrow> holds (args @ more_args) r c = holds args r c"
proof (cases c)
  case (InList col ns)
  assume below: "refers_below (length args) c"
  have "(args @ more_args) ! (n - 1) = args ! (n - 1)" if "n \<in> set ns" for n
    using below InList that by (fastforce simp: refers_below_def nth_append)
  then show ?thesis by (simp add: InList split: option.split)
qed (auto simp: refers_below_def nth_append split: option.split)

lemma all_hold_more_args:
  "list_all (refers_below (length args)) cs \<Longrightarrow> list_all (holds (args @ more_args) r) cs = list_all (holds args r) cs"
  by (induction cs) (auto simp: holds_more_args)

lemma refers_below_mono: "list_all (refers_below k) cs \<Longrightarrow> k \<le> l \<Longrightarrow> list_all (refers_below l) cs"
  by (simp add: list_all_iff refers_below_def) (meson le_trans)

definition means :: "listing_row \<Rightarrow> condition_text list \<times> sql_arg list \<Rightarrow> bool \<Rightarrow> bool" where
  "means r acc b \<longleftrightarrow> list_all (refers_below (length (snd acc))) (fst acc) \<and> list_all (holds (snd acc) r) (fst acc) = b"

lemma means_add:
  assumes "means r acc b"
  shows "means r (add_condition col cmp arg acc)
    (b \<and> (case arg of None \<Rightarrow> True | Some a \<Rightarrow> (case column_value col r of None \<Rightarrow> False | Some v \<Rightarrow> compare_args cmp v a)))"
proof (cases arg)
  case (Some a)
  have "list_all (refers_below (length (snd acc) + 1)) (fst acc)"
    using assms by (auto simp: means_def intro: refers_below_mono)
  then show ?thesis
    using assms Some all_hold_more_args [of "snd acc" "fst acc" "[a]" r]
    by (auto simp: means_def add_condition_def refers_below_def split: option.split)
qed (use assms in \<open>simp add: add_condition_def\<close>)

lemma means_in_list:
  assumes "means r acc b"
  shows "means r (fst acc @ [InList col (map (\<lambda>i. length (snd acc) + 1 + i) [0..<length cs])], snd acc @ map ArgStr cs)
    (b \<and> (case column_value col r of None \<Rightarrow> False | Some v \<Rightarrow> v \<in> ArgStr ` set cs))"
proof -
  let ?ns = "map (\<lambda>i. length (snd acc) + 1 + i) [0..<length cs]"
  have "list_all (refers_below (length (snd acc) + length cs)) (fst acc)"
    using assms by (auto simp: means_def intro: refers_below_mono)
  moreover have "refers_below (length (snd acc) + length cs) (InList col ?ns)"
    by (auto simp: refers_below_def)
  moreover have "(\<exists>n\<in>set ?ns. v = (snd acc @ map ArgStr cs) ! (n - 1)) = (v \<in> ArgStr ` set cs)" for v
    by (auto simp: nth_append set_conv_nth image_iff)
  then have "holds (snd acc @ map ArgStr cs) r (InList col ?ns)
      = (case column_value col r of None \<Rightarrow> False | Some v \<Rightarrow> v \<in> ArgStr ` set cs)"
    by (simp only: holds.simps)
  ultimately show ?thesis
    using assms all_hold_more_args [of "snd acc" "fst acc" "map ArgStr cs" r]
    unfolding means_def by (simp only: fst_conv snd_conv list_all_append list.pred_inject length_append length_map simp_thms)
qed

lemma means_eq: "means r acc b \<Longrightarrow> b = c \<Longrightarrow> means r acc c"
  by simp

lemma selects_iff: "selects (ToSQL q) r \<longleftrightarrow> row_matches q r"
proof -
  let ?a0 = "([], []) :: condition_text list \<times> sql_arg list"
  define a1 where "a1 = add_condition ''component_type'' ''='' (map_option ArgStr (lq_ComponentType q)) ?a0"
  define a2 where "a2 = add_condition ''score'' ''>='' (map_option ArgInt (lq_MinScore q)) a1"
  define a3 where "a3 = add_condition ''score'' ''<='' (map_option ArgInt (lq_MaxScore q)) a2"
  define a4 where "a4 = add_condition ''product_key'' ''='' (map_option ArgStr (lq_ProductKey q)) a3"
  define a5 where "a5 = add_condition ''seller_feedback_score'' ''>='' (map_option ArgInt (lq_SellerMinFB q)) a4"
  define a6 where "a6 = (if lq_Conditions q = [] then a5
      else (fst a5 @ [InList ''condition_norm'' (map (\<lambda>i. length (snd a5) + 1 + i) [0..<length (lq_Conditions q)])],
            snd a5 @ map ArgStr (lq_Conditions q)))"
  let ?score = "\<lambda>P. case lr_score r of None \<Rightarrow> False | Some s \<Rightarrow> P s"
  have m0: "means r ?a0 True" by (simp add: means_def)
  have m1: "means r a1 (case lq_ComponentType q of None \<Rightarrow> True | Some t \<Rightarrow> lr_component_type r = Some t)"
    unfolding a1_def by (rule means_eq [OF means_add [OF m0]]) (auto simp: column_value_def split: option.split)
  have m2: "means r a2 ((case lq_ComponentType q of None \<Rightarrow> True | Some t \<Rightarrow> lr_component_type r = Some t)
      \<and> (case lq_MinScore q of None \<Rightarrow> True | Some m \<Rightarrow> ?score (\<lambda>s. m \<le> s)))" (is "means r a2 ?b2")
    unfolding a2_def by (rule means_eq [OF means_add [OF m1]]) (auto simp: column_value_def split: option.split)
  have m3: "means r a3 (?b2 \<and> (case lq_MaxScore q of None \<Rightarrow> True | Some m \<Rightarrow> ?score (\<lambda>s. s \<le> m)))" (is "means r a3 ?b3")
    unfolding a3_def by (rule means_eq [OF means_add [OF m2]], rule arg_cong2 [where f = "(\<and>)", OF HOL.refl])
      (auto simp: column_value_def split: option.split)
  have m4: "means r a4 (?b3 \<and> (case lq_ProductKey q of None \<Rightarrow> True | Some k \<Rightarrow> lr_product_key r = Some k))" (is "means r a4 ?b4")
    unfolding a4_def by (rule means_eq [OF means_add [OF m3]], rule arg_cong2 [where f = "(\<and>)", OF HOL.refl])
      (auto simp: column_value_def split: option.split)
  have m5: "means r a5 (?b4 \<and> (case lq_SellerMinFB q of None \<Rightarrow> True | Some m \<Rightarrow> m \<le> lr_seller_feedback_score r))" (is "means r a5 ?b5")
    unfolding a5_def by (rule means_eq [OF means_add [OF m4]], rule arg_cong2 [where f = "(\<and>)", OF HOL.refl])
      (auto simp: column_value_def split: option.split)
  have "means r a6 (?b5 \<and> (if lq_Conditions q = [] then True
      else (case lr_condition_norm r of None \<Rightarrow> False | Some c \<Rightarrow> c \<in> set (lq_Conditions q))))"
  proof (cases "lq_Conditions q = []")
    case False
    show ?thesis unfolding a6_def if_not_P [OF False]
      by (rule means_eq [OF means_in_list [OF m5]], rule arg_cong2 [where f = "(\<and>)", OF HOL.refl])
        (auto simp: column_value_def split: option.split)
  qed (use m5 in \<open>simp add: a6_def\<close>)
  then have "means r a6 (row_matches q r)"
    by (rule means_eq) (simp only: row_matches_def conj_assoc)
  moreover have "sq_where (ToSQL q) = fst a6" "sq_args (ToSQL q) = snd a6"
    by (simp_all add: ToSQL_def Let_def a1_def a2_def a3_def a4_def a5_def a6_def)
  ultimately show ?thesis
    by (simp add: selects_def means_def)
qed

lemma ToSQL_paging: "1 \<le> sq_limit (ToSQL q)" "sq_limit (ToSQL q) \<le> 500" "sq_offset (ToSQL q) = max (lq_Offset q) 0"
  by (simp_all add: ToSQL_def Let_def defaultLimit_def maxLimit_def)

text \<open>C40. The SQL means the filter. The WHERE clause that \<open>ToSQL\<close> builds, with its numbered placeholders and
  positional arguments, holds of exactly the rows that satisfy every filter that is set; the order is one
  of the three allowed expressions whatever the caller asked for, the limit between 1 and 500, the offset
  not negative.\<close>

theorem listing_query_meaning:
  "(selects (ToSQL q) r \<longleftrightarrow> row_matches q r) \<and> sq_order (ToSQL q) \<in> snd ` set validOrderBy
    \<and> 1 \<le> sq_limit (ToSQL q) \<and> sq_limit (ToSQL q) \<le> 500 \<and> 0 \<le> sq_offset (ToSQL q)"
proof -
  have "sq_order (ToSQL q) \<in> snd ` set validOrderBy"
    by (simp add: ToSQL_def Let_def validOrderBy_def defaultOrderBy_def)
  then show ?thesis by (simp add: selects_iff ToSQL_paging)
qed

section \<open>Listing queries fail\<close>

lemma length_order_rows: "length (order_rows order rows) = length rows"
  using sum_length_filter_compl [of "\<lambda>r. lr_score r = None" rows]
  by (auto simp: order_rows_def newest_first_def)

text \<open>Listing queries fail. The select list of the query builder has 27 columns and \<open>scanListingRow\<close> 28
  destinations: whenever a row matches within the offset, \<open>ListListings\<close> ends with a scan error, even when
  no round trip fails.\<close>

theorem listing_query_fails:
  assumes "fault_free (db_server db)"
    and "max (lq_Offset q) 0 < int (length (filter (row_matches q) (db_listings db)))"
  shows "fst (ListListings q db) = Inl (ScanMismatch 27 28)"
proof -
  let ?s = "ToSQL q" and ?rows = "order_rows (sq_order (ToSQL q)) (filter (selects (ToSQL q)) (db_listings db))"
  have "length ?rows = length (filter (row_matches q) (db_listings db))"
    by (simp add: length_order_rows selects_iff [abs_def])
  then have "take (nat (sq_limit ?s)) (drop (nat (sq_offset ?s)) ?rows) \<noteq> []"
    using assms(2) ToSQL_paging(1) [of q] by (simp add: ToSQL_paging(3) not_le nat_less_iff)
  then show ?thesis
    using assms(1)
    by (simp add: ListListings_def Let_def bind_db_def run_fault_free count_query_def data_query_def lift_result_def
        scanListingRows_def scan_destinations_def baseListingsSelect_def)
qed

definition any_query :: listing_query where
  "any_query = \<lparr> lq_ComponentType = None, lq_MinScore = None, lq_MaxScore = None, lq_ProductKey = None,
     lq_SellerMinFB = None, lq_Conditions = [], lq_Limit = 0, lq_Offset = 0, lq_OrderBy = [] \<rparr>"

definition some_row :: listing_row where
  "some_row = inserted_row \<lparr> l_id = [], l_ebay_id = ''e1'', l_title = ''DDR4'', l_item_url = ''u'', l_image_url = [],
     l_price = Fin 10, l_currency = ''USD'', l_shipping_cost = None, l_listing_type = ''auction'', l_seller_name = ''s'',
     l_seller_feedback = 5, l_seller_feedback_pct = Fin 99, l_seller_top_rated = False, l_component_type = [],
     l_condition_raw = [], l_condition_norm = ''new'', l_quantity = 1, l_attributes = [], l_extraction_confidence = Fin 0,
     l_product_key = [], l_score = None, l_score_breakdown = [], l_active = True, l_listed_at = None, l_sold_at = None,
     l_sold_price = None, l_auction_end_at = None, l_first_seen_at = 0, l_updated_at = 0 \<rparr>
     (Fin 10) None (Fin 99) 0 (itoa 0)"

theorem listing_query_fails_witness:
  "fst (ListListings any_query ((empty_db plain_server)\<lparr> db_listings := [some_row] \<rparr>)) = Inl (ScanMismatch 27 28)"
  by (rule listing_query_fails) (simp_all add: empty_db_def plain_fault_free any_query_def row_matches_def)

end
