(* ===== verification/Rescore.thy ===== *)
theory Rescore
  imports StoreLaws Scorer
begin

text \<open>
  Scoring stored listings: \<open>internal/engine/score.go\<close>. \<open>ScoreListing\<close> reads the baseline of a listing's product,
  computes the composite score and writes it back; \<open>RescoreAll\<close> walks over the active listings with a
  cursor. A batch may panic only in the engine's variant of the loop, so a batch returns an option, None
  being the panic. The decimal rendering of a float inside the breakdown's JSON is a parameter; nothing
  reads it back.
\<close>

section \<open>One listing\<close>

datatype score_error = BaselineFailed db_error | MarshalFailed | UpdateFailed db_error

definition buildListingData :: "instant \<Rightarrow> listing \<Rightarrow> listing_data" where
  "buildListingData t l =
     (let isAuction = (l_listing_type l = ListingAuction) in
      \<lparr> d_UnitPrice = UnitPrice l, d_SellerFeedback = l_seller_feedback l, d_SellerFeedbackPct = l_seller_feedback_pct l,
        d_SellerTopRated = l_seller_top_rated l, d_Condition = l_condition_norm l, d_Quantity = l_quantity l,
        d_HasImages = (l_image_url l \<noteq> []), d_HasItemSpecifics = (length (l_attributes l) > 0), d_DescriptionLen = 0,
        d_IsAuction = isAuction,
        d_AuctionEndingSoon = (isAuction \<and> (case l_auction_end_at l of None \<Rightarrow> False | Some e \<Rightarrow> e - t < 4 * hour)),
        d_IsNewListing = (t - l_first_seen_at l < 24 * hour) \<rparr>)"

definition scorer_baseline :: "price_baseline \<Rightarrow> baseline" where
  "scorer_baseline b = \<lparr> b_P10 = pb_p10 b, b_P25 = pb_p25 b, b_P50 = pb_p50 b, b_P75 = pb_p75 b, b_P90 = pb_p90 b,
     b_SampleCount = pb_sample_count b \<rparr>"

text \<open>\<open>json.Marshal\<close> refuses NaN and the infinities.\<close>

definition json_float :: "(rat \<Rightarrow> string) \<Rightarrow> f64 \<Rightarrow> string option" where
  "json_float fmt x = (case x of Fin q \<Rightarrow> Some (fmt q) | _ \<Rightarrow> None)"

definition breakdown_json :: "(rat \<Rightarrow> string) \<Rightarrow> breakdown \<Rightarrow> string option" where
  "breakdown_json fmt b =
     (case (json_float fmt (bd_Price b), json_float fmt (bd_Seller b), json_float fmt (bd_Condition b),
            json_float fmt (bd_Quantity b), json_float fmt (bd_Quality b), json_float fmt (bd_Time b)) of
        (Some p, Some s, Some c, Some q, Some u, Some t) \<Rightarrow>
          Some (''{\"price\":'' @ p @ '',\"seller\":'' @ s @ '',\"condition\":'' @ c @ '',\"quantity\":'' @ q
            @ '',\"quality\":'' @ u @ '',\"time\":'' @ t @ '',\"total\":'' @ itoa (bd_Total b) @ ''}'')
      | _ \<Rightarrow> None)"

text \<open>Score a listing against a baseline and write the score back; the error beside the listing, whose score
  is set on success.\<close>

definition persist_score :: "(rat \<Rightarrow> string) \<Rightarrow> listing \<Rightarrow> baseline option \<Rightarrow> db \<Rightarrow> (score_error option \<times> listing) \<times> db" where
  "persist_score fmt l base db =
     (let b = Score (buildListingData (go_now db) l) base DefaultWeights in
      case breakdown_json fmt b of
        None \<Rightarrow> ((Some MarshalFailed, l), db)
      | Some json \<Rightarrow> (case UpdateScore (l_id l) (bd_Total b) json db of
          (Inl e, db) \<Rightarrow> ((Some (UpdateFailed e), l), db)
        | (Inr _, db) \<Rightarrow> ((None, l\<lparr> l_score := Some (bd_Total b) \<rparr>), db)))"

text \<open>A listing without a product key is left alone; a missing baseline is no error.\<close>

definition ScoreListing :: "(rat \<Rightarrow> string) \<Rightarrow> listing \<Rightarrow> db \<Rightarrow> (score_error option \<times> listing) \<times> db" where
  "ScoreListing fmt l db =
     (if l_product_key l = [] then ((None, l), db)
      else case GetBaseline (l_product_key l) db of
        (Inl e, db) \<Rightarrow> if e = NoRows then persist_score fmt l None db else ((Some (BaselineFailed e), l), db)
      | (Inr b, db) \<Rightarrow> persist_score fmt l (Some (scorer_baseline b)) db)"

section \<open>Many listings\<close>

datatype rescore_error = ListFailed db_error | ScoringFailed string score_error

fun scoreAll :: "(rat \<Rightarrow> string) \<Rightarrow> listing list \<Rightarrow> db \<Rightarrow> (int \<times> rescore_error list) \<times> db" where
  "scoreAll fmt [] db = ((0, []), db)"
| "scoreAll fmt (l # ls) db =
     (case ScoreListing fmt l db of
        ((Some e, _), db) \<Rightarrow>
          (case scoreAll fmt ls db of ((n, es), db) \<Rightarrow> ((n, ScoringFailed (l_id l) e # es), db))
      | ((None, _), db) \<Rightarrow> (case scoreAll fmt ls db of ((n, es), db) \<Rightarrow> ((n + 1, es), db)))"

definition RescoreListings :: "(rat \<Rightarrow> string) \<Rightarrow> int \<Rightarrow> db \<Rightarrow> (int \<times> rescore_error list) \<times> db" where
  "RescoreListings fmt lmt db =
     (case ListUnscoredListings lmt db of
        (Inl e, db) \<Rightarrow> ((0, [ListFailed e]), db) | (Inr ls, db) \<Rightarrow> scoreAll fmt ls db)"

definition RescoreByProductKey :: "(rat \<Rightarrow> string) \<Rightarrow> string \<Rightarrow> db \<Rightarrow> (int \<times> rescore_error list) \<times> db" where
  "RescoreByProductKey fmt productKey db =
     (case ListListings \<lparr> lq_ComponentType = None, lq_MinScore = None, lq_MaxScore = None,
             lq_ProductKey = Some productKey, lq_SellerMinFB = None, lq_Conditions = [], lq_Limit = 500,
             lq_Offset = 0, lq_OrderBy = [] \<rparr> db of
        (Inl e, db) \<Rightarrow> ((0, [ListFailed e]), db) | (Inr (ls, _), db) \<Rightarrow> scoreAll fmt ls db)"

text \<open>The loop over the cursor, as long as batches come; a failing query drops the errors so far.\<close>

type_synonym batch_body = "listing list \<Rightarrow> db \<Rightarrow> (int \<times> rescore_error list) option \<times> db"

partial_function (option) cursor_loop ::
  "batch_body \<Rightarrow> string \<Rightarrow> int \<Rightarrow> rescore_error list \<Rightarrow> db \<Rightarrow> ((int \<times> rescore_error list) option \<times> db) option" where
  "cursor_loop body cursor n errs db =
     (case ListListingsCursor cursor 200 db of
        (Inl e, db) \<Rightarrow> Some (Some (n, [ListFailed e]), db)
      | (Inr batch, db) \<Rightarrow>
          if batch = [] then Some (Some (n, errs), db)
          else (case body batch db of
            (None, db) \<Rightarrow> Some (None, db)
          | (Some (scored, es), db) \<Rightarrow> cursor_loop body (l_id (last batch)) (n + scored) (errs @ es) db))"

declare cursor_loop.simps [code]

definition RescoreAll :: "(rat \<Rightarrow> string) \<Rightarrow> db \<Rightarrow> ((int \<times> rescore_error list) option \<times> db) option" where
  "RescoreAll fmt db = cursor_loop (\<lambda>ls db. case scoreAll fmt ls db of (r, db) \<Rightarrow> (Some r, db)) [] 0 [] db"

section \<open>What scoring looks at\<close>

text \<open>A listing without what scoring writes.\<close>

definition core :: "listing \<Rightarrow> listing" where
  "core l = l\<lparr> l_score := None, l_score_breakdown := [], l_updated_at := 0 \<rparr>"

definition scoring_view :: "db \<Rightarrow> listing list \<times> price_baseline list \<times> server" where
  "scoring_view db = (map (core \<circ> scanListing) (db_listings db), db_baselines db, db_server db)"

definition active_ids :: "db \<Rightarrow> string list" where
  "active_ids db = sort (map lr_id (filter lr_active (db_listings db)))"

text \<open>The row of a listing carries the score of the current baseline, at some time.\<close>

definition scored :: "db \<Rightarrow> string \<Rightarrow> bool" where
  "scored db i \<longleftrightarrow> (\<forall>r\<in>set (db_listings db). lr_id r = i \<and> l_product_key (scanListing r) \<noteq> [] \<longrightarrow>
     (\<exists>n. lr_score r = Some (bd_Total (Score (buildListingData (sv_goclock (db_server db) n) (scanListing r))
        (map_option scorer_baseline (find (\<lambda>b. pb_product_key b = l_product_key (scanListing r)) (db_baselines db)))
        DefaultWeights))))"

lemma scoring_view_stmts [simp]: "scoring_view (db\<lparr> db_stmts := n \<rparr>) = scoring_view db"
  by (simp add: scoring_view_def)

lemma scored_stmts [simp]: "scored (db\<lparr> db_stmts := n \<rparr>) = scored db"
  by (simp add: scored_def fun_eq_iff)

interpretation view: db_part scoring_view
  by unfold_locales simp

lemma view_score [simp]: "scoring_view (snd (queryUpdateScore i s b db)) = scoring_view db"
  by (simp add: queryUpdateScore_def scoring_view_def update_where_def core_def scanListing_def)

section \<open>What scoring a listing does\<close>

lemma core_simps [simp]: "l_id (core l) = l_id l" "l_product_key (core l) = l_product_key l" "l_active (core l) = l_active l"
  "buildListingData t (core l) = buildListingData t l"
  by (simp_all add: core_def buildListingData_def UnitPrice_def Let_def)

text \<open>The score that the baseline gives a listing at an instant.\<close>

definition score_at :: "db \<Rightarrow> instant \<Rightarrow> listing \<Rightarrow> int" where
  "score_at db t l = bd_Total (Score (buildListingData t l)
     (map_option scorer_baseline (find (\<lambda>b. pb_product_key b = l_product_key l) (db_baselines db))) DefaultWeights)"

lemma score_at_stmts [simp]: "score_at (db\<lparr> db_stmts := n \<rparr>) = score_at db"
  by (simp add: score_at_def fun_eq_iff)

lemma GetBaseline_cases:
  assumes "GetBaseline k db = (r, db')"
  obtains n where "db' = db\<lparr> db_stmts := n \<rparr>"
    and "r = Inl ConnLost \<or> r = (case find (\<lambda>b. pb_product_key b = k) (db_baselines db) of Some b \<Rightarrow> Inr b | None \<Rightarrow> Inl NoRows)"
  using assms unfolding GetBaseline_def by (rule run_cases) (auto simp: queryGetBaseline_def single_def)

text \<open>The outcomes of scoring.\<close>

lemma persist_cases:
  assumes "persist_score fmt l base db = ((e, l'), db')"
  obtains (failed) "e \<noteq> None" "l' = l" "db' = db"
  | (written) n js r where
      "UpdateScore (l_id l) (bd_Total (Score (buildListingData (go_now db) l) base DefaultWeights)) js db = (r, db')"
      "e = None \<longleftrightarrow> r = Inr ()"
      "l' = (if r = Inr () then l\<lparr> l_score := Some (bd_Total (Score (buildListingData (go_now db) l) base DefaultWeights)) \<rparr> else l)"
  using assms by (auto simp: persist_score_def Let_def split: option.splits prod.splits sum.splits)

lemma ScoreListing_cases:
  assumes "ScoreListing fmt l db = ((e, l'), db')"
  obtains (unkeyed) "l_product_key l = []" "e = None" "l' = l" "db' = db"
  | (failed) n where "e \<noteq> None" "l' = l" "db' = db\<lparr> db_stmts := n \<rparr>"
  | (written) n js r sc where "sc = score_at db (sv_goclock (db_server db) n) l"
      "UpdateScore (l_id l) sc js (db\<lparr> db_stmts := n \<rparr>) = (r, db')" "e = None \<longleftrightarrow> r = Inr ()"
      "l' = (if r = Inr () then l\<lparr> l_score := Some sc \<rparr> else l)"
proof (cases "l_product_key l = []")
  case keyed: False
  obtain r db1 where g: "GetBaseline (l_product_key l) db = (r, db1)" by fastforce
  from g show ?thesis
  proof (rule GetBaseline_cases)
    fix n assume n: "db1 = db\<lparr> db_stmts := n \<rparr>"
      and r: "r = Inl ConnLost \<or> r = (case find (\<lambda>b. pb_product_key b = l_product_key l) (db_baselines db) of Some b \<Rightarrow> Inr b | None \<Rightarrow> Inl NoRows)"
    let ?base = "map_option scorer_baseline (find (\<lambda>b. pb_product_key b = l_product_key l) (db_baselines db))"
    have "persist_score fmt l ?base db1 = ((e, l'), db') \<or> (e \<noteq> None \<and> l' = l \<and> db' = db1)"
      using assms keyed r by (auto simp: ScoreListing_def g split: option.splits if_splits)
    then show ?thesis
    proof (elim disjE)
      assume "persist_score fmt l ?base db1 = ((e, l'), db')"
      then show ?thesis
        by (rule persist_cases) (use n in \<open>auto simp: score_at_def go_now_def intro: failed written\<close>)
    qed (use n failed in blast)
  qed
next
  case True
  then have "e = None" "l' = l" "db' = db" using assms by (simp_all add: ScoreListing_def)
  with True show ?thesis by (rule unkeyed)
qed

lemma view_UpdateScore: "scoring_view (snd (UpdateScore i s b db)) = scoring_view db"
  unfolding UpdateScore_def by (rule view.run) simp

lemma view_ScoreListing: "scoring_view (snd (ScoreListing fmt l db)) = scoring_view db"
proof -
  obtain e l' db' where s: "ScoreListing fmt l db = ((e, l'), db')" by (metis prod.exhaust)
  from s show ?thesis
  proof (cases rule: ScoreListing_cases)
    case (written n js r sc)
    then show ?thesis using view_UpdateScore [of "l_id l" sc js "db\<lparr> db_stmts := n \<rparr>"] by (simp add: s)
  qed (simp_all add: s)
qed

lemma good_ScoreListing: "good db \<Longrightarrow> good (snd (ScoreListing fmt l db))"
proof -
  assume g: "good db"
  obtain e l' db' where s: "ScoreListing fmt l db = ((e, l'), db')" by (metis prod.exhaust)
  from s show ?thesis
  proof (cases rule: ScoreListing_cases)
    case (written n js r sc)
    have "good (db\<lparr> db_stmts := n \<rparr>)" using g by simp
    from keepsD [OF keeps_listings(4) [of "l_id l" sc js] this] written(2) show ?thesis by (simp add: s)
  qed (use g in \<open>simp_all add: s\<close>)
qed

lemma scored_iff: "scored db i \<longleftrightarrow> (\<forall>r\<in>set (db_listings db). lr_id r = i \<and> l_product_key (scanListing r) \<noteq> [] \<longrightarrow>
     (\<exists>n. lr_score r = Some (score_at db (sv_goclock (db_server db) n) (scanListing r))))"
  by (simp add: scored_def score_at_def)

lemma score_at_core: "core l = core l' \<Longrightarrow> score_at db t l = score_at db t l'"
  unfolding score_at_def by (metis core_simps(2,4))

lemma viewed:
  assumes "good db" and "core l \<in> set (fst (scoring_view db))" and "r \<in> set (db_listings db)" and "lr_id r = l_id l"
  shows "core (scanListing r) = core l"
proof -
  obtain r' where r': "r' \<in> set (db_listings db)" "core l = core (scanListing r')"
    using assms(2) by (auto simp: scoring_view_def)
  have "l_id (core l) = lr_id r'" unfolding r'(2) by (simp add: scanListing_def)
  then have "lr_id r' = lr_id r" using assms(4) by simp
  moreover have "inj_on lr_id (set (db_listings db))"
    using assms(1) by (simp add: good_def db_inv_def distinct_on_def distinct_map)
  ultimately have "r' = r" using r'(1) assms(3) by (blast dest: inj_onD)
  then show ?thesis using r'(2) by simp
qed

lemma update_scored:
  assumes "good db" and "core l \<in> set (fst (scoring_view db))" and "scored db i \<or> i = l_id l"
    and sc: "sc = score_at db (sv_goclock (db_server db) n) l"
  shows "scored (snd (queryUpdateScore (l_id l) sc js db)) i"
proof -
  let ?db = "snd (queryUpdateScore (l_id l) sc js db)"
  let ?f = "\<lambda>r. if lr_id r = l_id l then r\<lparr> lr_score := Some sc, lr_score_breakdown := js, lr_updated_at := now db \<rparr> else r"
  have db: "db_listings ?db = map ?f (db_listings db)" "db_baselines ?db = db_baselines db" "db_server ?db = db_server db"
    by (simp_all add: queryUpdateScore_def update_where_def)
  have same: "core (scanListing (?f r)) = core (scanListing r)" "lr_id (?f r) = lr_id r" for r
    by (simp_all add: core_def scanListing_def)
  have at: "score_at ?db t (scanListing (?f r)) = score_at db t (scanListing r)" for t r
    using score_at_core [OF same(1)] by (simp add: score_at_def db)
  show ?thesis unfolding scored_iff
  proof (intro ballI impI)
    fix r' assume "r' \<in> set (db_listings ?db)" and r': "lr_id r' = i \<and> l_product_key (scanListing r') \<noteq> []"
    then obtain r where r: "r \<in> set (db_listings db)" "r' = ?f r" by (auto simp: db)
    show "\<exists>n. lr_score r' = Some (score_at ?db (sv_goclock (db_server ?db) n) (scanListing r'))"
    proof (cases "lr_id r = l_id l")
      case True
      then have "score_at db t (scanListing r) = score_at db t l" for t
        using viewed [OF assms(1,2) r(1)] by (intro score_at_core) simp
      then have "score_at ?db t (scanListing r') = score_at db t l" for t using at [of t r] r(2) by simp
      moreover have "lr_score r' = Some sc" using True r(2) by simp
      ultimately show ?thesis using db(3) sc by (intro exI [of _ n]) simp
    next
      case False
      then have "i \<noteq> l_id l" using r r' by simp
      then have "scored db i" using assms(3) by simp
      then show ?thesis using r r' at [of _ r] False by (auto simp: scored_iff db)
    qed
  qed
qed

lemma scored_view:
  "db_listings db' = db_listings db \<Longrightarrow> db_baselines db' = db_baselines db \<Longrightarrow> db_server db' = db_server db \<Longrightarrow>
   scored db' = scored db"
  by (simp add: scored_def fun_eq_iff)

lemma unkeyed_scored:
  assumes "good db" and "core l \<in> set (fst (scoring_view db))" and "l_product_key l = []"
  shows "scored db (l_id l)"
  unfolding scored_def using viewed [OF assms(1,2)] assms(3) by (metis core_simps(2))

lemma score_effect:
  assumes "ScoreListing fmt l db = ((e, l'), db')" and g: "good db" and v: "core l \<in> set (fst (scoring_view db))"
  shows "(scored db i \<longrightarrow> scored db' i) \<and> (e = None \<longrightarrow> scored db' (l_id l))"
  using assms(1)
proof (cases rule: ScoreListing_cases)
  case unkeyed
  then show ?thesis using unkeyed_scored [OF g v] by simp
next
  case (written n js r sc)
  let ?db = "db\<lparr> db_stmts := n \<rparr>"
  have upd: "scored db i \<or> i = l_id l \<Longrightarrow> scored (snd (queryUpdateScore (l_id l) sc js ?db)) i" for i
    using update_scored [of ?db l i sc n js] g v written(1) by simp
  from written(2) show ?thesis unfolding UpdateScore_def
    by (rule run_cases) (use upd written(3) in auto)
qed auto

section \<open>Walking over the active listings\<close>

text \<open>The cursor starts at the nil UUID.\<close>

definition nil_uuid :: string where "nil_uuid = ''00000000-0000-0000-0000-000000000000''"
definition effective :: "string \<Rightarrow> string" where "effective c = (if c = [] then nil_uuid else c)"
definition ahead :: "string \<Rightarrow> db \<Rightarrow> string list" where "ahead c db = filter (\<lambda>i. i > effective c) (active_ids db)"

lemma map_insort_key: "map k (insort_key k x xs) = insort (k x) (map k xs)"
  by (induction xs) auto

lemma map_sort_key: "map k (sort_key k xs) = sort (map k xs)"
  by (induction xs) (simp_all add: map_insort_key)

lemma active_ids_view: "scoring_view db' = scoring_view db \<Longrightarrow> active_ids db' = active_ids db"
proof -
  have "active_ids db = sort (map l_id (filter l_active (fst (scoring_view db))))" for db
    by (simp add: active_ids_def scoring_view_def filter_map comp_def) (simp add: scanListing_def)
  then show "scoring_view db' = scoring_view db \<Longrightarrow> ?thesis" by simp
qed

lemma cursor_cases:
  assumes "ListListingsCursor c 200 db = (r, db')"
  obtains n where "db' = db\<lparr> db_stmts := n \<rparr>"
    and "r = Inl ConnLost \<or> (\<exists>batch. r = Inr batch \<and> map l_id batch = take 200 (ahead c db)
           \<and> core ` set batch \<subseteq> set (fst (scoring_view db)))"
proof -
  let ?rows = "take 200 (sort_key lr_id (filter (\<lambda>r. lr_active r \<and> lr_id r > effective c) (db_listings db)))"
  have "map lr_id ?rows = take 200 (ahead c db)"
    by (simp add: ahead_def active_ids_def map_sort_key filter_sort filter_map comp_def conj_commute flip: take_map)
  moreover have "set ?rows \<subseteq> set (db_listings db)" by (auto dest: in_set_takeD)
  ultimately have rows: "map l_id (map scanListing ?rows) = take 200 (ahead c db)"
    "core ` set (map scanListing ?rows) \<subseteq> set (fst (scoring_view db))"
    by (auto simp: comp_def scoring_view_def) (simp add: scanListing_def)
  have q: "queryListListingsCursor (effective c) 200 db = (Inr ?rows, db)"
    by (simp add: queryListListingsCursor_def limited_def)
  obtain r1 db1 where run: "run (queryListListingsCursor (effective c) 200) db = (r1, db1)" by fastforce
  have "ListListingsCursor c 200 db = (case r1 of Inl e \<Rightarrow> Inl e | Inr rows \<Rightarrow> Inr (map scanListing rows), db1)"
    using run by (auto simp: ListListingsCursor_def effective_def nil_uuid_def Let_def queryListings_def bind_db_def
        lift_result_def scanListingRows_def listing_columns_def scan_destinations_def split: sum.split)
  then have r: "r = (case r1 of Inl e \<Rightarrow> Inl e | Inr rows \<Rightarrow> Inr (map scanListing rows))" "db' = db1"
    using assms by simp_all
  from run show ?thesis
    by (rule run_cases) (use that r q rows in auto)
qed

lemma next_ahead:
  assumes "c' \<in> set (ahead c db)"
  shows "ahead c' db = filter (\<lambda>i. i > c') (ahead c db)" "length (ahead c' db) < length (ahead c db)"
proof -
  have c': "c' > effective c" using assms by (simp add: ahead_def)
  then have "c' \<noteq> []" by auto
  then have "effective c' = c'" by (simp add: effective_def)
  then show eq: "ahead c' db = filter (\<lambda>i. i > c') (ahead c db)"
    using c' by (auto simp: ahead_def intro!: filter_cong dest: less_trans)
  show "length (ahead c' db) < length (ahead c db)"
    unfolding eq by (rule length_filter_less [OF assms]) simp
qed

lemma above_last_taken:
  fixes xs :: "'a::linorder list"
  assumes "sorted xs" "distinct xs" "xs \<noteq> []" "0 < n"
  shows "filter (\<lambda>i. i > last (take n xs)) xs = drop n xs"
proof -
  let ?l = "last (take n xs)"
  have s: "sorted (take n xs @ drop n xs)" and d: "distinct (take n xs @ drop n xs)" using assms by simp_all
  have ne: "take n xs \<noteq> []" using assms by simp
  have "\<forall>x\<in>set (take n xs). x \<le> ?l"
  proof
    fix x assume "x \<in> set (take n xs)"
    moreover have "sorted (butlast (take n xs) @ [?l])" using s ne by (simp add: sorted_append)
    ultimately show "x \<le> ?l" using ne
      by (metis Un_iff append_butlast_last_id list.set_intros(1) order_refl set_append sorted_append set_ConsD empty_iff list.set(1))
  qed
  moreover have "\<forall>x\<in>set (drop n xs). x > ?l"
  proof
    fix x assume "x \<in> set (drop n xs)"
    moreover have "?l \<in> set (take n xs)" using ne by (rule last_in_set)
    ultimately show "x > ?l" using s d unfolding sorted_append distinct_append by (metis disjoint_iff order_le_less)
  qed
  ultimately have "filter (\<lambda>i. i > ?l) (take n xs @ drop n xs) = drop n xs"
    by (auto simp: filter_empty_conv filter_id_conv simp del: append_take_drop_id)
  then show ?thesis by simp
qed

lemma active_distinct: "good db \<Longrightarrow> distinct (active_ids db)"
  by (auto simp: active_ids_def good_def db_inv_def distinct_on_def distinct_map_filter)

lemma ahead_props: "sorted (ahead c db)" "good db \<Longrightarrow> distinct (ahead c db)"
  using active_distinct [of db] by (simp_all add: ahead_def active_ids_def sorted_filter [where f = "\<lambda>x. x", simplified])

text \<open>A way to treat a batch: it writes nothing but scores, and what it reports without errors is scored.\<close>

locale rescoring =
  fixes body :: batch_body
  assumes keeps: "body b db = (r, db') \<Longrightarrow> scoring_view db' = scoring_view db \<and> (good db \<longrightarrow> good db')"
    and marks: "body b db = (Some (n, es), db') \<Longrightarrow> good db \<Longrightarrow> core ` set b \<subseteq> set (fst (scoring_view db)) \<Longrightarrow>
      (\<forall>i. scored db i \<longrightarrow> scored db' i) \<and> (es = [] \<longrightarrow> n = int (length b) \<and> (\<forall>l\<in>set b. scored db' (l_id l)))"
begin

definition complete :: "string \<Rightarrow> int \<Rightarrow> rescore_error list \<Rightarrow> db \<Rightarrow> (int \<times> rescore_error list) option \<times> db \<Rightarrow> bool" where
  "complete c n errs db res \<longleftrightarrow> ((\<forall>b db. fst (body b db) \<noteq> None) \<longrightarrow> fst res \<noteq> None)
     \<and> scoring_view (snd res) = scoring_view db \<and> (good db \<longrightarrow> good (snd res) \<and>
     (\<forall>m. fst res = Some (m, []) \<longrightarrow> errs = [] \<and> m = n + int (length (ahead c db))
       \<and> (\<forall>i\<in>set (ahead c db). scored (snd res) i) \<and> (\<forall>i. scored db i \<longrightarrow> scored (snd res) i)))"

lemma ends: "\<exists>res. cursor_loop body c n errs db = Some res \<and> complete c n errs db res"
proof (induction "length (ahead c db)" arbitrary: c n errs db rule: less_induct)
  case less
  obtain r db1 where cur: "ListListingsCursor c 200 db = (r, db1)" by fastforce
  then obtain k where k: "db1 = db\<lparr> db_stmts := k \<rparr>"
    and r: "r = Inl ConnLost \<or> (\<exists>batch. r = Inr batch \<and> map l_id batch = take 200 (ahead c db)
           \<and> core ` set batch \<subseteq> set (fst (scoring_view db)))"
    by (rule cursor_cases)
  have ahead1: "ahead c' db1 = ahead c' db" for c' by (simp add: k ahead_def active_ids_def)
  show ?case
  proof (cases r)
    case (Inl e)
    then show ?thesis using cur k by (simp add: cursor_loop.simps complete_def)
  next
    case (Inr batch)
    then have ids: "map l_id batch = take 200 (ahead c db)" and seen: "core ` set batch \<subseteq> set (fst (scoring_view db1))"
      using r by (auto simp: k)
    show ?thesis
    proof (cases "batch = []")
      case True
      then have "ahead c db = []" using ids by simp
      then show ?thesis using cur Inr True k by (simp add: cursor_loop.simps complete_def)
    next
      case False
      obtain o1 db2 where body: "body batch db1 = (o1, db2)" by fastforce
      note kept = keeps [OF body]
      show ?thesis
      proof (cases o1)
        case None
        then have "\<not> (\<forall>b db. fst (body b db) \<noteq> None)" using body by (metis fst_conv)
        then show ?thesis using None cur Inr False k body kept by (simp add: cursor_loop.simps complete_def)
      next
        case (Some p)
        then obtain m es where o1: "o1 = Some (m, es)" by fastforce
        define c' where "c' = l_id (last batch)"
        have "last (map l_id batch) = c'" using False by (simp add: c'_def last_map)
        then have c': "c' = last (take 200 (ahead c db))" unfolding ids by simp
        have ne: "ahead c db \<noteq> []" using ids False by auto
        then have mem: "c' \<in> set (ahead c db)"
          unfolding c' by (metis in_set_takeD last_in_set take_eq_Nil zero_neq_numeral)
        have view2: "scoring_view db2 = scoring_view db" using kept by (simp add: k)
        then have ahead2: "ahead x db2 = ahead x db" for x using active_ids_view [OF view2] by (simp add: ahead_def)
        have "length (ahead c' db2) < length (ahead c db)" using next_ahead(2) [OF mem] by (simp add: ahead2)
        from less [OF this, of "n + m" "errs @ es"] obtain res where
          res: "cursor_loop body c' (n + m) (errs @ es) db2 = Some res" "complete c' (n + m) (errs @ es) db2 res"
          by blast
        have loop: "cursor_loop body c n errs db = Some res"
          using cur Inr False body o1 res(1) by (subst cursor_loop.simps) (simp add: c'_def)
        have "complete c n errs db res"
          unfolding complete_def
        proof (intro conjI impI allI)
          show "\<forall>b db. fst (body b db) \<noteq> None \<Longrightarrow> fst res \<noteq> None" using res(2) by (simp add: complete_def)
          show "scoring_view (snd res) = scoring_view db" using res(2) view2 by (simp add: complete_def)
          assume g: "good db"
          then have g2: "good db2" using kept by (simp add: k)
          then show "good (snd res)" using res(2) by (simp add: complete_def)
          fix t assume "fst res = Some (t, [])"
          with res(2) g2 have fin: "errs = []" "es = []" "t = n + m + int (length (ahead c' db))"
            "\<forall>i\<in>set (ahead c' db). scored (snd res) i" "\<forall>i. scored db2 i \<longrightarrow> scored (snd res) i"
            by (auto simp: complete_def ahead2)
          have "good db1" using g by (simp add: k)
          from marks [OF body [unfolded o1] this seen] fin(2)
          have batch: "\<forall>i. scored db i \<longrightarrow> scored db2 i" "m = int (length batch)" "\<forall>i\<in>set (map l_id batch). scored db2 i"
            by (auto simp: k)
          have drop: "ahead c' db = drop 200 (ahead c db)"
            using above_last_taken [OF ahead_props(1) ahead_props(2) [OF g] ne, of 200] next_ahead(1) [OF mem] by (simp add: c')
          have "length batch = length (take 200 (ahead c db))" using ids by (metis length_map)
          then show "t = n + int (length (ahead c db))" using fin(3) batch(2) by (simp add: drop)
          show "errs = []" by (rule fin(1))
          show "\<forall>i\<in>set (ahead c db). scored (snd res) i"
            using batch(3) fin(4,5) unfolding ids drop by (metis Un_iff append_take_drop_id set_append)
          show "\<And>i. scored db i \<Longrightarrow> scored (snd res) i" using batch(1) fin(5) by blast
        qed
        then show ?thesis using loop by blast
      qed
    qed
  qed
qed

end

section \<open>Rescoring everything\<close>

lemma scoreAll_laws:
  assumes "scoreAll fmt ls db = ((n, es), db')"
  shows "scoring_view db' = scoring_view db \<and> (good db \<longrightarrow> good db' \<and>
    (core ` set ls \<subseteq> set (fst (scoring_view db)) \<longrightarrow>
       (\<forall>i. scored db i \<longrightarrow> scored db' i) \<and> (es = [] \<longrightarrow> n = int (length ls) \<and> (\<forall>l\<in>set ls. scored db' (l_id l)))))"
  using assms
proof (induction ls arbitrary: db n es)
  case (Cons l ls)
  obtain e l' db1 where one: "ScoreListing fmt l db = ((e, l'), db1)" by (metis prod.exhaust)
  obtain n1 es1 where all: "scoreAll fmt ls db1 = ((n1, es1), db')"
    using Cons.prems one by (auto split: option.splits prod.splits)
  have res: "n = n1 + (if e = None then 1 else 0) \<and> (es = [] \<longleftrightarrow> e = None \<and> es1 = [])"
    using Cons.prems one all by (auto split: option.splits)
  have v: "scoring_view db1 = scoring_view db" using view_ScoreListing [of fmt l db] by (simp add: one)
  have g: "good db1" if "good db" using good_ScoreListing [OF that, of fmt l] by (simp add: one)
  note effect = score_effect [OF one]
  show ?case using Cons.IH [OF all] v g res effect by (auto simp: image_subset_iff) 
qed simp

interpretation store_rescoring: rescoring "\<lambda>ls db. case scoreAll fmt ls db of (r, db) \<Rightarrow> (Some r, db)"
proof unfold_locales
  fix b db r db' assume body: "(case scoreAll fmt b db of (r, db) \<Rightarrow> (Some r, db)) = (r, db')"
  obtain n es db1 where s: "scoreAll fmt b db = ((n, es), db1)" by (metis prod.exhaust)
  show "scoring_view db' = scoring_view db \<and> (good db \<longrightarrow> good db')"
    using scoreAll_laws [OF s] body s by auto
next
  fix b db n es db'
  assume "(case scoreAll fmt b db of (r, db) \<Rightarrow> (Some r, db)) = (Some (n, es), db')"
    and "good db" "core ` set b \<subseteq> set (fst (scoring_view db))"
  then show "(\<forall>i. scored db i \<longrightarrow> scored db' i) \<and> (es = [] \<longrightarrow> n = int (length b) \<and> (\<forall>l\<in>set b. scored db' (l_id l)))"
    using scoreAll_laws [of fmt b db n es db'] by (auto split: prod.splits)
qed

lemma length_active_ids: "length (active_ids db) = length (filter lr_active (db_listings db))"
  by (simp add: active_ids_def)

lemma ahead_all: "\<forall>r\<in>set (db_listings db). nil_uuid < lr_id r \<Longrightarrow> ahead [] db = active_ids db"
  by (auto simp: ahead_def effective_def active_ids_def filter_id_conv)

lemma active_scored:
  assumes "scoring_view db' = scoring_view db" and "\<forall>i\<in>set (ahead [] db). scored db' i"
    and "\<forall>r\<in>set (db_listings db). nil_uuid < lr_id r"
  shows "\<forall>r\<in>set (db_listings db'). lr_active r \<and> l_product_key (scanListing r) \<noteq> [] \<longrightarrow>
     (\<exists>k. lr_score r = Some (score_at db' (sv_goclock (db_server db') k) (scanListing r)))"
proof (intro ballI impI)
  fix r assume r: "r \<in> set (db_listings db')" "lr_active r \<and> l_product_key (scanListing r) \<noteq> []"
  then have "lr_id r \<in> set (active_ids db')" by (auto simp: active_ids_def)
  then have "lr_id r \<in> set (ahead [] db)" using active_ids_view [OF assms(1)] ahead_all [OF assms(3)] by simp
  then show "\<exists>k. lr_score r = Some (score_at db' (sv_goclock (db_server db') k) (scanListing r))"
    using assms(2) r by (auto simp: scored_iff)
qed

text \<open>Rescoring ends. The cursor strictly advances through the ids of the active listings, so the loop
  of \<open>RescoreAll\<close> returns, whatever the server does and whatever the tables hold.\<close>

theorem RescoreAll_ends: "\<exists>n errs db'. RescoreAll fmt db = Some (Some (n, errs), db')"
proof -
  obtain res where res: "RescoreAll fmt db = Some res" "store_rescoring.complete fmt [] 0 [] db res"
    using store_rescoring.ends [of fmt "[]" 0 "[]" db] by (auto simp: RescoreAll_def)
  have "fst res \<noteq> None"
    using res(2) by (auto simp: store_rescoring.complete_def split: prod.splits)
  then show ?thesis using res(1) by (cases res) auto
qed

text \<open>Rescoring is complete. A run of \<open>RescoreAll\<close> that reports no error has counted every active listing
  once and has left every active listing that has a product key with the score its baseline gives it.\<close>

theorem RescoreAll_complete:
  assumes "good db" and "\<forall>r\<in>set (db_listings db). nil_uuid < lr_id r"
    and "RescoreAll fmt db = Some (Some (n, []), db')"
  shows "n = int (length (filter lr_active (db_listings db)))
    \<and> (\<forall>r\<in>set (db_listings db'). lr_active r \<and> l_product_key (scanListing r) \<noteq> [] \<longrightarrow>
         (\<exists>k. lr_score r = Some (score_at db' (sv_goclock (db_server db') k) (scanListing r))))"
proof -
  have c: "store_rescoring.complete fmt [] 0 [] db (Some (n, []), db')"
    using store_rescoring.ends [of fmt "[]" 0 "[]" db] assms(3) by (simp add: RescoreAll_def)
  then have "n = int (length (ahead [] db))" and walked: "\<forall>i\<in>set (ahead [] db). scored db' i"
    and view: "scoring_view db' = scoring_view db"
    using assms(1) by (simp_all add: store_rescoring.complete_def)
  moreover note active_scored [OF view walked assms(2)]
  ultimately show ?thesis using ahead_all [OF assms(2)] by (simp add: length_active_ids)
qed

definition demo_row :: listing_row where
  "demo_row = (inserted_row \<lparr> l_id = [], l_ebay_id = ''e1'', l_title = ''DDR4'', l_item_url = ''u'', l_image_url = [],
     l_price = Fin 10, l_currency = ''USD'', l_shipping_cost = None, l_listing_type = ''auction'', l_seller_name = ''s'',
     l_seller_feedback = 5, l_seller_feedback_pct = Fin 99, l_seller_top_rated = False, l_component_type = [],
     l_condition_raw = [], l_condition_norm = ''new'', l_quantity = 1, l_attributes = [], l_extraction_confidence = Fin 0,
     l_product_key = [], l_score = None, l_score_breakdown = [], l_active = True, l_listed_at = None, l_sold_at = None,
     l_sold_price = None, l_auction_end_at = None, l_first_seen_at = 0, l_updated_at = 0 \<rparr>
     (Fin 10) None (Fin 99) 0 (itoa 1))\<lparr> lr_component_type := Some ''ram'', lr_product_key := Some ''k'' \<rparr>"

definition shop :: db where "shop = (empty_db plain_server)\<lparr> db_next := 2, db_listings := [demo_row] \<rparr>"

lemma good_shop: "good shop"
proof -
  have "itoa 1 \<in> sv_uuid plain_server ` {..<2}"
    by (rule image_eqI [where x = 1]) (simp_all add: plain_server_def)
  then show ?thesis
    by (simp add: good_def db_inv_def shop_def empty_db_def distinct_on_def demo_row_def inserted_row_def plain_uuid_inj ids_below_def)
qed

lemma shop_ids: "\<forall>r\<in>set (db_listings shop). nil_uuid < lr_id r"
  by code_simp

lemma shop_rescored: "map_option fst (RescoreAll (\<lambda>q. ''0'') shop) = Some (Some (1, []))"
  by code_simp

theorem RescoreAll_complete_witness:
  "\<exists>db'. RescoreAll (\<lambda>q. ''0'') shop = Some (Some (1, []), db')
    \<and> (\<forall>r\<in>set (db_listings db'). lr_active r \<and> l_product_key (scanListing r) \<noteq> [] \<longrightarrow>
         (\<exists>k. lr_score r = Some (score_at db' (sv_goclock (db_server db') k) (scanListing r))))"
proof -
  obtain db' where "RescoreAll (\<lambda>q. ''0'') shop = Some (Some (1, []), db')"
    using shop_rescored by auto
  with RescoreAll_complete [OF good_shop shop_ids this] show ?thesis by blast
qed

end
