(* ===== verification/Alerting.thy ===== *)
theory Alerting
  imports StoreInv Notify
begin

text \<open>
  Sending pending alerts (\<open>internal/engine/alert.go\<close>). The engine sees the store and the notifier
  through their interfaces: the methods it calls are a record of functions on the state of the world, and
  what it relies on is the locale \<open>alert_world\<close>. The interpretation at the end gives the world of the
  PostgreSQL store and the Discord webhook.

  The order in which Go visits the groups of alerts is an argument. Metrics and logs are left out.
\<close>

section \<open>The world\<close>

record 'w alert_ops =
  op_pending :: "'w \<Rightarrow> (db_error + alert list) \<times> 'w"
  op_watch :: "string \<Rightarrow> 'w \<Rightarrow> (db_error + watch) \<times> 'w"
  op_listing :: "string \<Rightarrow> 'w \<Rightarrow> (db_error + listing) \<times> 'w"
  op_has_success :: "string \<Rightarrow> 'w \<Rightarrow> (db_error + bool) \<times> 'w"
  op_attempt :: "string \<Rightarrow> bool \<Rightarrow> string \<Rightarrow> 'w \<Rightarrow> (db_error + unit) \<times> 'w"
  op_mark :: "string \<Rightarrow> 'w \<Rightarrow> (db_error + unit) \<times> 'w"
  op_mark_all :: "string list \<Rightarrow> 'w \<Rightarrow> (db_error + unit) \<times> 'w"
  op_send :: "alert_payload \<Rightarrow> 'w \<Rightarrow> discord_error option \<times> 'w"
  op_send_batch :: "alert_payload list \<Rightarrow> string \<Rightarrow> 'w \<Rightarrow> (int \<times> discord_error option) \<times> 'w"
  op_error_text :: "discord_error \<Rightarrow> string"

datatype alert_error =
    ListingPending db_error
  | CheckingStatus db_error
  | GettingListing string db_error
  | SendingAlert discord_error
  | SendingBatch discord_error
  | SendingSummary discord_error
  | Marking db_error

record alert_config =
  ac_SummaryOnly :: bool
  ac_AlertsURLBase :: string

definition batchThreshold :: nat where "batchThreshold = 5"

section \<open>Payloads\<close>

text \<open>\<open>%.2f\<close>.\<close>

definition fixed2 :: "f64 \<Rightarrow> string" where
  "fixed2 x = (case x of
     Fin q \<Rightarrow> (let n = rne (\<bar>q\<bar> * 100); c = nat (n mod 100) in
       (if q < 0 then ''-'' else []) @ itoa (n div 100) @ ''.'' @ (if c < 10 then ''0'' else []) @ itoa (int c))
   | PInf \<Rightarrow> ''+Inf'' | NInf \<Rightarrow> ''-Inf'' | NaN \<Rightarrow> ''NaN'')"

definition zero_payload :: alert_payload where
  "zero_payload = \<lparr> ap_WatchName = [], ap_ListingTitle = [], ap_EbayURL = [], ap_ImageURL = [], ap_Price = [],
     ap_UnitPrice = [], ap_Score = 0, ap_Breakdown = None, ap_Baseline = None, ap_Seller = [], ap_Condition = [],
     ap_ComponentType = [], ap_SummaryFields = [] \<rparr>"

definition buildAlertPayload :: "watch \<Rightarrow> listing \<Rightarrow> int \<Rightarrow> alert_payload" where
  "buildAlertPayload w l score = zero_payload\<lparr> ap_WatchName := w_name w, ap_ListingTitle := l_title l,
     ap_EbayURL := l_item_url l, ap_ImageURL := l_image_url l, ap_Price := ''$'' @ fixed2 (l_price l),
     ap_UnitPrice := ''$'' @ fixed2 (UnitPrice l), ap_Score := score,
     ap_Seller := l_seller_name l @ '' ('' @ itoa (l_seller_feedback l) @ '')'',
     ap_Condition := l_condition_norm l, ap_ComponentType := l_component_type l \<rparr>"

text \<open>The loop over the pending alerts: the top score and the counts per component type.\<close>

fun summary_loop :: "(string, listing) gomap \<Rightarrow> alert list \<Rightarrow> int \<times> (string, int) gomap \<Rightarrow> int \<times> (string, int) gomap" where
  "summary_loop listings [] acc = acc"
| "summary_loop listings (a # as) acc =
     (case acc of (top_score, counts) \<Rightarrow>
      let top_score = (if a_score a > top_score then a_score a else top_score);
          counts = (case mget listings (a_id a) of
             Some l \<Rightarrow> mput (l_component_type l) ((case mget counts (l_component_type l) of Some n \<Rightarrow> n | None \<Rightarrow> 0) + 1) counts
           | None \<Rightarrow> counts)
      in summary_loop listings as (top_score, counts))"

definition BuildSummaryPayload :: "alert list \<Rightarrow> (string, listing) gomap \<Rightarrow> string \<Rightarrow> alert_payload" where
  "BuildSummaryPayload pending listings alertsURLBase =
     (case summary_loop listings pending (0, []) of (top_score, counts) \<Rightarrow>
      let keys = sort (map fst counts) in
      zero_payload\<lparr> ap_WatchName := ''Summary'',
        ap_ListingTitle := itoa (int (length pending)) @ '' new alerts (top score '' @ itoa top_score @ '')'',
        ap_EbayURL := (if alertsURLBase \<noteq> [] then alertsURLBase @ ''/alerts'' else []),
        ap_Score := top_score,
        ap_SummaryFields := map (\<lambda>k. \<lparr> sf_Name = k,
          sf_Value = itoa (case mget counts k of Some n \<Rightarrow> n | None \<Rightarrow> 0) \<rparr>) keys \<rparr>)"

section \<open>Sending\<close>

definition recordAttempt :: "'w alert_ops \<Rightarrow> string \<Rightarrow> bool \<Rightarrow> string \<Rightarrow> 'w \<Rightarrow> 'w" where
  "recordAttempt ops i ok err w = snd (op_attempt ops i ok err w)"

definition err_text :: "'w alert_ops \<Rightarrow> discord_error option \<Rightarrow> string" where
  "err_text ops e = (case e of None \<Rightarrow> [] | Some e \<Rightarrow> op_error_text ops e)"

definition sendSingle :: "'w alert_ops \<Rightarrow> watch \<Rightarrow> alert \<Rightarrow> 'w \<Rightarrow> alert_error option \<times> 'w" where
  "sendSingle ops watch a w =
     (case op_has_success ops (a_id a) w of
        (Inl e, w) \<Rightarrow> (Some (CheckingStatus e), w)
      | (Inr already, w) \<Rightarrow>
          if already then (None, w)
          else (case op_listing ops (a_listing_id a) w of
              (Inl e, w) \<Rightarrow> (Some (GettingListing (a_listing_id a) e), w)
            | (Inr l, w) \<Rightarrow>
                (case op_send ops (buildAlertPayload watch l (a_score a)) w of (sendErr, w) \<Rightarrow>
                 let w = recordAttempt ops (a_id a) (sendErr = None) (err_text ops sendErr) w in
                 case sendErr of
                   Some e \<Rightarrow> (Some (SendingAlert e), w)
                 | None \<Rightarrow> (case op_mark ops (a_id a) w of
                     (Inl e, w) \<Rightarrow> (Some (Marking e), w) | (Inr _, w) \<Rightarrow> (None, w)))))"

text \<open>The first loop of \<open>sendBatch\<close>: the alerts still to be sent, with their payloads.\<close>

fun batch_gather :: "'w alert_ops \<Rightarrow> watch \<Rightarrow> alert list \<Rightarrow> 'w \<Rightarrow> (alert_payload \<times> alert) list \<times> 'w" where
  "batch_gather ops watch [] w = ([], w)"
| "batch_gather ops watch (a # as) w =
     (case op_has_success ops (a_id a) w of
        (Inl e, w) \<Rightarrow> batch_gather ops watch as w
      | (Inr already, w) \<Rightarrow>
          if already then batch_gather ops watch as w
          else (case op_listing ops (a_listing_id a) w of
              (Inl e, w) \<Rightarrow> batch_gather ops watch as w
            | (Inr l, w) \<Rightarrow> (case batch_gather ops watch as w of
                (ps, w) \<Rightarrow> ((buildAlertPayload watch l (a_score a), a) # ps, w))))"

fun attempt_all :: "'w alert_ops \<Rightarrow> alert list \<Rightarrow> bool \<Rightarrow> string \<Rightarrow> 'w \<Rightarrow> 'w" where
  "attempt_all ops [] ok err w = w"
| "attempt_all ops (a # as) ok err w = attempt_all ops as ok err (recordAttempt ops (a_id a) ok err w)"

definition sendBatch :: "'w alert_ops \<Rightarrow> watch \<Rightarrow> alert list \<Rightarrow> 'w \<Rightarrow> alert_error option \<times> 'w" where
  "sendBatch ops watch alerts w =
     (case batch_gather ops watch alerts w of (ps, w) \<Rightarrow>
      let payloads = map fst ps; toSend = map snd ps in
      if payloads = [] then (None, w)
      else case op_send_batch ops payloads (w_name watch) w of ((sentCount, sendErr), w) \<Rightarrow>
        let sentCount = (if sentCount < 0 then 0 else sentCount);
            sentCount = (if sentCount > int (length toSend) then int (length toSend) else sentCount);
            delivered = take (nat sentCount) toSend;
            w = attempt_all ops delivered True [] w;
            w = attempt_all ops (drop (nat sentCount) toSend) False (err_text ops sendErr) w;
            w = (if delivered \<noteq> [] then snd (op_mark_all ops (map a_id delivered) w) else w)
        in (case sendErr of Some e \<Rightarrow> (Some (SendingBatch e), w) | None \<Rightarrow> (None, w)))"

fun send_singles :: "'w alert_ops \<Rightarrow> watch \<Rightarrow> alert list \<Rightarrow> 'w \<Rightarrow> alert_error option \<times> 'w" where
  "send_singles ops watch [] w = (None, w)"
| "send_singles ops watch (a # as) w =
     (case sendSingle ops watch a w of (Some e, w) \<Rightarrow> (Some e, w) | (None, w) \<Rightarrow> send_singles ops watch as w)"

definition sendAlerts :: "'w alert_ops \<Rightarrow> watch \<Rightarrow> alert list \<Rightarrow> 'w \<Rightarrow> alert_error option \<times> 'w" where
  "sendAlerts ops watch alerts w =
     (if length alerts \<ge> batchThreshold then sendBatch ops watch alerts w else send_singles ops watch alerts w)"

section \<open>Processing\<close>

fun groupByWatch :: "alert list \<Rightarrow> (string, alert list) gomap \<Rightarrow> (string, alert list) gomap" where
  "groupByWatch [] grouped = grouped"
| "groupByWatch (a # as) grouped =
     groupByWatch as (mput (a_watch_id a) ((case mget grouped (a_watch_id a) of Some l \<Rightarrow> l | None \<Rightarrow> []) @ [a]) grouped)"

fun process_groups :: "'w alert_ops \<Rightarrow> (string \<times> alert list) list \<Rightarrow> 'w \<Rightarrow> 'w" where
  "process_groups ops [] w = w"
| "process_groups ops ((watchID, alerts) # gs) w =
     (case op_watch ops watchID w of
        (Inl e, w) \<Rightarrow> process_groups ops gs w
      | (Inr watch, w) \<Rightarrow> process_groups ops gs (snd (sendAlerts ops watch alerts w)))"

fun summary_listings :: "'w alert_ops \<Rightarrow> alert list \<Rightarrow> (string, listing) gomap \<Rightarrow> 'w \<Rightarrow> (string, listing) gomap \<times> 'w" where
  "summary_listings ops [] m w = (m, w)"
| "summary_listings ops (a # as) m w =
     (case op_listing ops (a_listing_id a) w of
        (Inl e, w) \<Rightarrow> summary_listings ops as m w
      | (Inr l, w) \<Rightarrow> summary_listings ops as (mput (a_id a) l m) w)"

definition processSummary :: "'w alert_ops \<Rightarrow> alert list \<Rightarrow> string \<Rightarrow> 'w \<Rightarrow> alert_error option \<times> 'w" where
  "processSummary ops pending alertsURLBase w =
     (case summary_listings ops pending [] w of (listings, w) \<Rightarrow>
      case op_send ops (BuildSummaryPayload pending listings alertsURLBase) w of (sendErr, w) \<Rightarrow>
        let w = attempt_all ops pending (sendErr = None) (err_text ops sendErr) w in
        (case sendErr of
           Some e \<Rightarrow> (Some (SendingSummary e), w)
         | None \<Rightarrow> (None, snd (op_mark_all ops (map a_id pending) w))))"

definition ProcessAlerts ::
  "'w alert_ops \<Rightarrow> ((string \<times> alert list) list \<Rightarrow> (string \<times> alert list) list) \<Rightarrow> alert_config \<Rightarrow> 'w \<Rightarrow> alert_error option \<times> 'w" where
  "ProcessAlerts ops visit cfg w =
     (case op_pending ops w of
        (Inl e, w) \<Rightarrow> (Some (ListingPending e), w)
      | (Inr pending, w) \<Rightarrow>
          if pending = [] then (None, w)
          else if ac_SummaryOnly cfg then processSummary ops pending (ac_AlertsURLBase cfg) w
          else (None, process_groups ops (visit (groupByWatch pending [])) w))"

end
