(* ===== verification/AlertLaws.thy ===== *)
theory AlertLaws
  imports Alerting
begin

text \<open>
  What sending alerts guarantees: the contract between the engine, the store and the notifier as a locale,
  the accounting of alerts proved once against it, and the interpretation on PostgreSQL and Discord.
\<close>

definition ids_of :: "('a \<times> 'b) list \<Rightarrow> 'a set" where "ids_of ds = fst ` set ds"

lemma ids_of_simps [simp]:
  "ids_of [] = {}" "ids_of (d # ds) = insert (fst d) (ids_of ds)" "ids_of (ds @ ds') = ids_of ds \<union> ids_of ds'"
  by (auto simp: ids_of_def)

definition gathered :: "(alert_payload \<times> alert) list \<Rightarrow> string set" where "gathered ps = a_id ` snd ` set ps"

lemma gathered_simps [simp]: "gathered [] = {}" "gathered (p # ps) = insert (a_id (snd p)) (gathered ps)"
  by (simp_all add: gathered_def)

lemma gathered_take: "gathered (take n ps) \<subseteq> gathered ps"
  by (auto simp: gathered_def dest: in_set_takeD)

lemma gathered_map:
  "a_id ` set (map snd ps) = gathered ps" "set (map a_id (map snd ps)) = gathered ps"
  "ids_of (map (\<lambda>(p, a). (a_id a, f p)) ps) = gathered ps"
  by (force simp: gathered_def ids_of_def)+

section \<open>The contract\<close>

text \<open>
  \<open>seen\<close> is what the recipient has accepted so far, \<open>ok\<close> the alerts with a recorded success and
  \<open>unsent\<close> the alerts not yet marked as notified. A call of the store that reports an error may or may not
  have taken effect.
\<close>

locale alert_world =
  fixes ops :: "'w alert_ops" and inv :: "'w \<Rightarrow> bool"
    and seen :: "'w \<Rightarrow> 'e list" and ok :: "'w \<Rightarrow> string set" and unsent :: "'w \<Rightarrow> string set"
    and render :: "alert_payload \<Rightarrow> 'e" and reliable :: bool
  assumes pending_law: "inv w \<Longrightarrow> op_pending ops w = (r, w') \<Longrightarrow>
      inv w' \<and> seen w' = seen w \<and> ok w' = ok w \<and> unsent w' = unsent w
      \<and> (\<forall>as. r = Inr as \<longrightarrow> a_id ` set as = unsent w)"
    and watch_law: "inv w \<Longrightarrow> op_watch ops i w = (rw, w') \<Longrightarrow>
      inv w' \<and> seen w' = seen w \<and> ok w' = ok w \<and> unsent w' = unsent w"
    and listing_law: "inv w \<Longrightarrow> op_listing ops i w = (rl, w') \<Longrightarrow>
      inv w' \<and> seen w' = seen w \<and> ok w' = ok w \<and> unsent w' = unsent w"
    and has_success_law: "inv w \<Longrightarrow> op_has_success ops i w = (rb, w') \<Longrightarrow>
      inv w' \<and> seen w' = seen w \<and> ok w' = ok w \<and> unsent w' = unsent w \<and> (\<forall>b. rb = Inr b \<longrightarrow> b = (i \<in> ok w))"
    and attempt_law: "inv w \<Longrightarrow> op_attempt ops i b err w = (ru, w') \<Longrightarrow>
      inv w' \<and> seen w' = seen w \<and> unsent w' = unsent w \<and> ok w \<subseteq> ok w' \<and> ok w' \<subseteq> ok w \<union> (if b then {i} else {})"
    and mark_law: "inv w \<Longrightarrow> op_mark ops i w = (ru, w') \<Longrightarrow>
      inv w' \<and> seen w' = seen w \<and> ok w' = ok w \<and> unsent w' \<subseteq> unsent w \<and> unsent w \<subseteq> unsent w' \<union> {i}
      \<and> (ru = Inr () \<longrightarrow> i \<notin> unsent w')"
    and mark_all_law: "inv w \<Longrightarrow> op_mark_all ops ids w = (ru, w') \<Longrightarrow>
      inv w' \<and> seen w' = seen w \<and> ok w' = ok w \<and> unsent w' \<subseteq> unsent w \<and> unsent w \<subseteq> unsent w' \<union> set ids
      \<and> (ru = Inr () \<longrightarrow> set ids \<inter> unsent w' = {})"
    and send_law: "inv w \<Longrightarrow> op_send ops p w = (e, w') \<Longrightarrow>
      inv w' \<and> ok w' = ok w \<and> unsent w' = unsent w \<and> seen w' = seen w @ (if e = None then [render p] else [])"
    and send_batch_law: "inv w \<Longrightarrow> op_send_batch ops ps nm w = ((n, e), w') \<Longrightarrow>
      inv w' \<and> ok w' = ok w \<and> unsent w' = unsent w \<and> seen w' = seen w @ map render (take (nat n) ps)
      \<and> 0 \<le> n \<and> n \<le> int (length ps) \<and> (e = None \<longleftrightarrow> n = int (length ps))"
    and reliable_law: "reliable \<Longrightarrow> inv w \<Longrightarrow>
      fst (op_mark ops i w) = Inr () \<and> fst (op_mark_all ops ids w) = Inr ()"
begin

text \<open>
  From one state to another, exactly the alerts of \<open>ds\<close> were delivered, none of which had a recorded
  success before; only delivered alerts were marked or given a recorded success. When the store is
  reliable, every delivered alert was marked.
\<close>

definition accounted :: "'w \<Rightarrow> 'w \<Rightarrow> (string \<times> 'e) list \<Rightarrow> bool" where
  "accounted w w' ds \<longleftrightarrow> inv w' \<and> seen w' = seen w @ map snd ds
     \<and> ids_of ds \<inter> ok w = {} \<and> ok w \<subseteq> ok w' \<and> ok w' \<subseteq> ok w \<union> ids_of ds
     \<and> unsent w' \<subseteq> unsent w \<and> unsent w \<subseteq> unsent w' \<union> ids_of ds
     \<and> (reliable \<longrightarrow> ids_of ds \<inter> unsent w' = {})"

lemma accounted_refl: "inv w \<Longrightarrow> accounted w w []"
  by (simp add: accounted_def)

lemma accounted_trans: "accounted w w1 ds \<Longrightarrow> accounted w1 w2 ds' \<Longrightarrow> accounted w w2 (ds @ ds')"
  by (auto simp: accounted_def)

lemma accounted_quiet:
  "accounted w w1 [] \<Longrightarrow> accounted w1 w2 ds \<Longrightarrow> accounted w w2 ds"
  using accounted_trans [of w w1 "[]" w2 ds] by simp

lemma inv_recordAttempt:
  assumes "inv w"
  shows "inv (recordAttempt ops i b err w)" "seen (recordAttempt ops i b err w) = seen w"
    "unsent (recordAttempt ops i b err w) = unsent w" "ok w \<subseteq> ok (recordAttempt ops i b err w)"
    "ok (recordAttempt ops i b err w) \<subseteq> ok w \<union> (if b then {i} else {})"
  using attempt_law [OF assms, of i b err "fst (op_attempt ops i b err w)" "snd (op_attempt ops i b err w)"]
  by (simp_all add: recordAttempt_def)

lemma attempt_all_view:
  assumes "inv w"
  shows "inv (attempt_all ops as b err w) \<and> seen (attempt_all ops as b err w) = seen w
    \<and> unsent (attempt_all ops as b err w) = unsent w \<and> ok w \<subseteq> ok (attempt_all ops as b err w)
    \<and> ok (attempt_all ops as b err w) \<subseteq> ok w \<union> (if b then a_id ` set as else {})"
  using assms
proof (induction as arbitrary: w)
  case (Cons a as)
  note r = inv_recordAttempt [OF Cons.prems, of "a_id a" b err]
  show ?case using Cons.IH [OF r(1)] r by (auto split: if_splits)
qed simp

text \<open>One alert: delivered, or refused, or already done.\<close>

lemma sendSingle_accounted:
  assumes "inv w" and "sendSingle ops watch a w = (e, w')"
  shows "\<exists>ds. accounted w w' ds \<and> ids_of ds \<subseteq> {a_id a}"
proof -
  obtain rb w1 where s: "op_has_success ops (a_id a) w = (rb, w1)" by fastforce
  note L1 = has_success_law [OF assms(1) s]
  have q: "accounted w w1 []" using L1 by (simp add: accounted_def)
  show ?thesis
  proof (cases "rb = Inr False")
    case False
    then show ?thesis using assms(2) s q
      by (intro exI [of _ "[]"]) (auto simp: sendSingle_def split: sum.splits)
  next
    case True
    then have new: "a_id a \<notin> ok w" using L1 by auto
    obtain rl w2 where l: "op_listing ops (a_listing_id a) w1 = (rl, w2)" by fastforce
    note L2 = listing_law [OF conjunct1 [OF L1] l]
    show ?thesis
    proof (cases rl)
      case (Inl err)
      then show ?thesis using assms(2) s l True L1 L2
        by (intro exI [of _ "[]"]) (auto simp: sendSingle_def accounted_def)
    next
      case (Inr lst)
      let ?p = "buildAlertPayload watch lst (a_score a)"
      obtain se w3 where snd: "op_send ops ?p w2 = (se, w3)" by fastforce
      note L3 = send_law [OF conjunct1 [OF L2] snd]
      let ?w4 = "recordAttempt ops (a_id a) (se = None) (err_text ops se) w3"
      note L4 = inv_recordAttempt [OF conjunct1 [OF L3], of "a_id a" "se = None" "err_text ops se"]
      show ?thesis
      proof (cases se)
        case (Some err)
        then show ?thesis using assms(2) s l snd True Inr L1 L2 L3 L4
          by (intro exI [of _ "[]"]) (auto simp: sendSingle_def Let_def accounted_def)
      next
        case None
        obtain ru w5 where m: "op_mark ops (a_id a) ?w4 = (ru, w5)" by fastforce
        note L5 = mark_law [OF L4(1) m]
        have "w' = w5" "reliable \<longrightarrow> ru = Inr ()"
          using assms(2) s l snd m True Inr None reliable_law [OF _ L4(1), of "a_id a"]
          by (auto simp: sendSingle_def Let_def split: sum.splits)
        then show ?thesis using new None L1 L2 L3 L4 L5
          by (intro exI [of _ "[(a_id a, render ?p)]"]) (auto simp: accounted_def)
      qed
    qed
  qed
qed

lemma send_singles_accounted:
  "inv w \<Longrightarrow> send_singles ops watch as w = (e, w') \<Longrightarrow> \<exists>ds. accounted w w' ds \<and> ids_of ds \<subseteq> a_id ` set as"
proof (induction as arbitrary: w)
  case Nil
  then show ?case using accounted_refl by (intro exI [of _ "[]"]) auto
next
  case (Cons a as)
  obtain e1 w1 where s: "sendSingle ops watch a w = (e1, w1)" by fastforce
  obtain ds where ds: "accounted w w1 ds" "ids_of ds \<subseteq> {a_id a}"
    using sendSingle_accounted [OF Cons.prems(1) s] by blast
  show ?case
  proof (cases e1)
    case (Some err)
    then show ?thesis using Cons.prems(2) s ds by (intro exI [of _ ds]) auto
  next
    case None
    then have "send_singles ops watch as w1 = (e, w')" using Cons.prems(2) s by simp
    moreover have "inv w1" using ds by (simp add: accounted_def)
    ultimately obtain ds' where "accounted w1 w' ds'" "ids_of ds' \<subseteq> a_id ` set as"
      using Cons.IH by blast
    then show ?thesis using ds accounted_trans [of w w1 ds w' ds'] by (intro exI [of _ "ds @ ds'"]) auto
  qed
qed

lemma batch_gather_accounted:
  "inv w \<Longrightarrow> batch_gather ops watch as w = (ps, w') \<Longrightarrow>
   accounted w w' [] \<and> ok w' = ok w \<and> gathered ps \<subseteq> a_id ` set as - ok w"
proof (induction as arbitrary: w w' ps)
  case Nil
  then show ?case by (auto simp: accounted_def)
next
  case (Cons a as)
  obtain rb w1 where s: "op_has_success ops (a_id a) w = (rb, w1)" by fastforce
  note L1 = has_success_law [OF Cons.prems(1) s]
  have q: "accounted w w1 []" "ok w1 = ok w" "inv w1" using L1 by (simp_all add: accounted_def)
  show ?case
  proof (cases "rb = Inr False")
    case False
    then have "batch_gather ops watch as w1 = (ps, w')"
      using Cons.prems(2) s by (auto split: sum.splits)
    from Cons.IH [OF q(3) this] show ?thesis using q accounted_quiet by auto
  next
    case True
    then have new: "a_id a \<notin> ok w" using L1 by auto
    obtain rl w2 where l: "op_listing ops (a_listing_id a) w1 = (rl, w2)" by fastforce
    note L2 = listing_law [OF q(3) l]
    have q2: "accounted w w2 []" "ok w2 = ok w" "inv w2" using L1 L2 by (simp_all add: accounted_def)
    obtain ps' w3 where g: "batch_gather ops watch as w2 = (ps', w3)" by fastforce
    note IH = Cons.IH [OF q2(3) g]
    show ?thesis using Cons.prems(2) s l g True IH q2 new accounted_quiet [OF q2(1)]
      by (cases rl) auto
  qed
qed

text \<open>A batch: a prefix of what was gathered is delivered, recorded and marked.\<close>

lemma sendBatch_accounted:
  assumes "inv w" and "sendBatch ops watch as w = (e, w')"
  shows "\<exists>ds. accounted w w' ds \<and> ids_of ds \<subseteq> a_id ` set as"
proof -
  obtain ps w1 where g: "batch_gather ops watch as w = (ps, w1)" by fastforce
  note L1 = batch_gather_accounted [OF assms(1) g]
  have inv1: "inv w1" using L1 by (simp add: accounted_def)
  show ?thesis
  proof (cases "ps = []")
    case True
    then show ?thesis using assms(2) g L1 by (intro exI [of _ "[]"]) (auto simp: sendBatch_def)
  next
    case False
    obtain n se w2 where b: "op_send_batch ops (map fst ps) (w_name watch) w1 = ((n, se), w2)"
      by (metis prod.exhaust)
    note L2 = send_batch_law [OF inv1 b]
    let ?done = "take (nat n) ps"
    have range: "0 \<le> n" "n \<le> int (length ps)" using L2 by simp_all
    define w3 where "w3 = attempt_all ops (map snd ?done) True [] w2"
    note L3 = attempt_all_view [OF conjunct1 [OF L2], of "map snd ?done" True "[]", folded w3_def]
    define w4 where "w4 = attempt_all ops (drop (nat n) (map snd ps)) False (err_text ops se) w3"
    note L4 = attempt_all_view [OF conjunct1 [OF L3], of "drop (nat n) (map snd ps)" False "err_text ops se", folded w4_def]
    define w5 where "w5 = (if map snd ?done \<noteq> [] then snd (op_mark_all ops (map a_id (map snd ?done)) w4) else w4)"
    have L5: "inv w5 \<and> seen w5 = seen w4 \<and> ok w5 = ok w4 \<and> unsent w5 \<subseteq> unsent w4
        \<and> unsent w4 \<subseteq> unsent w5 \<union> gathered ?done \<and> (reliable \<longrightarrow> gathered ?done \<inter> unsent w5 = {})"
      using mark_all_law [OF conjunct1 [OF L4], of "map a_id (map snd ?done)"
          "fst (op_mark_all ops (map a_id (map snd ?done)) w4)" "snd (op_mark_all ops (map a_id (map snd ?done)) w4)"] L4
        reliable_law [OF _ conjunct1 [OF L4], of _ "map a_id (map snd ?done)"]
      by (simp add: w5_def gathered_map del: set_map map_map) 
    have "w' = w5"
      using assms(2) g b False range
      by (auto simp: sendBatch_def Let_def w3_def w4_def w5_def take_map split: option.splits)
    moreover have "gathered ?done \<subseteq> a_id ` set as - ok w"
      using L1 gathered_take [of "nat n" ps] by blast
    moreover have "map snd (map (\<lambda>(p, a). (a_id a, render p)) ?done) = map render (take (nat n) (map fst ps))"
      by (simp add: take_map comp_def case_prod_unfold)
    ultimately have "accounted w w' (map (\<lambda>(p, a). (a_id a, render p)) ?done)"
      using L1 L2 L3 L4 L5 unfolding accounted_def gathered_map by auto
    then show ?thesis using \<open>gathered ?done \<subseteq> a_id ` set as - ok w\<close>
      by (intro exI) (auto simp: gathered_map)
  qed
qed

lemma sendAlerts_accounted:
  "inv w \<Longrightarrow> sendAlerts ops watch as w = (e, w') \<Longrightarrow> \<exists>ds. accounted w w' ds \<and> ids_of ds \<subseteq> a_id ` set as"
  using sendBatch_accounted send_singles_accounted by (auto simp: sendAlerts_def split: if_splits)

lemma process_groups_accounted:
  "inv w \<Longrightarrow> \<exists>ds. accounted w (process_groups ops gs w) ds"
proof (induction gs arbitrary: w)
  case Nil
  then show ?case using accounted_refl by auto
next
  case (Cons g gs)
  obtain wid as where [simp]: "g = (wid, as)" by (cases g)
  obtain rw w1 where s: "op_watch ops wid w = (rw, w1)" by fastforce
  note L1 = watch_law [OF Cons.prems s]
  have q: "accounted w w1 []" "inv w1" using L1 by (simp_all add: accounted_def)
  show ?case
  proof (cases rw)
    case (Inl e)
    then show ?thesis using s Cons.IH [OF q(2)] accounted_quiet [OF q(1)] by auto
  next
    case (Inr watch)
    obtain e w2 where a: "sendAlerts ops watch as w1 = (e, w2)" by fastforce
    obtain ds where ds: "accounted w1 w2 ds" using sendAlerts_accounted [OF q(2) a] by blast
    then have "inv w2" by (simp add: accounted_def)
    from Cons.IH [OF this] obtain ds' where "accounted w2 (process_groups ops gs w2) ds'" by blast
    then show ?thesis using s a Inr accounted_trans [OF accounted_quiet [OF q(1) ds]] by auto
  qed
qed

lemma ProcessAlerts_accounted:
  assumes "inv w" and "\<not> ac_SummaryOnly cfg"
  shows "\<exists>ds. accounted w (snd (ProcessAlerts ops visit cfg w)) ds"
proof -
  obtain r w1 where p: "op_pending ops w = (r, w1)" by fastforce
  note L1 = pending_law [OF assms(1) p]
  have q: "accounted w w1 []" "inv w1" using L1 by (simp_all add: accounted_def)
  show ?thesis
  proof (cases "\<exists>as. r = Inr as \<and> as \<noteq> []")
    case True
    then obtain as where "r = Inr as" "as \<noteq> []" by blast
    moreover obtain ds where "accounted w1 (process_groups ops (visit (groupByWatch as [])) w1) ds"
      using process_groups_accounted [OF q(2)] by blast
    ultimately show ?thesis
      using p assms(2) accounted_quiet [OF q(1)] by (auto simp: ProcessAlerts_def)
  next
    case False
    then have "snd (ProcessAlerts ops visit cfg w) = w1" using p by (cases r) (auto simp: ProcessAlerts_def)
    then show ?thesis using q by auto
  qed
qed

text \<open>In summary mode alerts are marked only when the one message was accepted.\<close>

lemma summary_listings_view:
  "inv w \<Longrightarrow> inv (snd (summary_listings ops as m w)) \<and> seen (snd (summary_listings ops as m w)) = seen w
   \<and> ok (snd (summary_listings ops as m w)) = ok w \<and> unsent (snd (summary_listings ops as m w)) = unsent w"
proof (induction as arbitrary: m w)
  case (Cons a as)
  obtain rl w1 where l: "op_listing ops (a_listing_id a) w = (rl, w1)" by fastforce
  note L = listing_law [OF Cons.prems l]
  show ?case using l L Cons.IH [OF conjunct1 [OF L]] by (cases rl) auto
qed simp

lemma ProcessAlerts_summary:
  assumes "inv w" and "ac_SummaryOnly cfg" and "ProcessAlerts ops visit cfg w = (e, w')"
  shows "inv w' \<and> (\<exists>p. seen w' = seen w @ [render p] \<or> seen w' = seen w \<and> unsent w' = unsent w \<and> ok w' = ok w)"
proof -
  obtain r w1 where p: "op_pending ops w = (r, w1)" by fastforce
  note L1 = pending_law [OF assms(1) p]
  have inv1: "inv w1" using L1 by simp
  show ?thesis
  proof (cases "\<exists>as. r = Inr as \<and> as \<noteq> []")
    case False
    then show ?thesis using assms p L1 by (cases r) (auto simp: ProcessAlerts_def)
  next
    case True
    then obtain as where as: "r = Inr as" "as \<noteq> []" by blast
    obtain m w2 where s: "summary_listings ops as [] w1 = (m, w2)" by fastforce
    note L2 = summary_listings_view [OF inv1, of as "[]", unfolded s snd_conv]
    let ?p = "BuildSummaryPayload as m (ac_AlertsURLBase cfg)"
    obtain se w3 where b: "op_send ops ?p w2 = (se, w3)" by fastforce
    note L3 = send_law [OF conjunct1 [OF L2] b]
    let ?w4 = "attempt_all ops as (se = None) (err_text ops se) w3"
    note L4 = attempt_all_view [OF conjunct1 [OF L3], of as "se = None" "err_text ops se"]
    note L5 = mark_all_law [OF conjunct1 [OF L4], of "map a_id as" "fst (op_mark_all ops (map a_id as) ?w4)"
        "snd (op_mark_all ops (map a_id as) ?w4)"]
    have "w' = (if se = None then snd (op_mark_all ops (map a_id as) ?w4) else ?w4)"
      using assms p s b as by (auto simp: ProcessAlerts_def processSummary_def Let_def split: option.splits)
    then show ?thesis using L1 L2 L3 L4 L5
      by (cases se) (auto intro!: exI [of _ ?p])
  qed
qed

text \<open>An alert with a recorded success stays out of every later delivery, and unmarked if it was.\<close>

lemma recorded_stays:
  assumes "inv w" and "\<not> ac_SummaryOnly cfg" and "i \<in> ok w" and "i \<in> unsent w"
  shows "i \<in> ok (snd (ProcessAlerts ops visit cfg w)) \<and> i \<in> unsent (snd (ProcessAlerts ops visit cfg w))"
proof -
  obtain ds where "accounted w (snd (ProcessAlerts ops visit cfg w)) ds"
    using ProcessAlerts_accounted [OF assms(1,2)] by blast
  then show ?thesis using assms(3,4) by (auto simp: accounted_def)
qed

end

end
