(* ===== verification/AlertWorld.thy ===== *)
theory AlertWorld
  imports AlertLaws StoreLaws
begin

text \<open>
  The world the program runs in: the PostgreSQL store beside the Discord webhook, as an interpretation of
  the contract of \<open>AlertLaws\<close>, and what follows for the alerts of the program.
\<close>

section \<open>The store's part\<close>

type_synonym 's world = "db \<times> (bucket \<times> ('s \<times> post_log))"

definition on_db :: "'a stmt \<Rightarrow> 's world \<Rightarrow> (db_error + 'a) \<times> 's world" where
  "on_db m w = (case w of (db, n) \<Rightarrow> case m db of (r, db) \<Rightarrow> (r, (db, n)))"

definition world_ops :: "'s discord_env \<Rightarrow> discord \<Rightarrow> (discord_error \<Rightarrow> string) \<Rightarrow> 's world alert_ops" where
  "world_ops env d render = \<lparr>
     op_pending = on_db ListPendingAlerts,
     op_watch = (\<lambda>i. on_db (GetWatch i)),
     op_listing = (\<lambda>i. on_db (GetListingByID i)),
     op_has_success = (\<lambda>i. on_db (HasSuccessfulNotification i)),
     op_attempt = (\<lambda>i ok err. on_db (InsertNotificationAttempt i ok 0 err)),
     op_mark = (\<lambda>i. on_db (MarkAlertNotified i)),
     op_mark_all = (\<lambda>ids. on_db (MarkAlertsNotified ids)),
     op_send = (\<lambda>p (db, n). case SendAlert (logged env) d p n of (e, n) \<Rightarrow> (e, (db, n))),
     op_send_batch = (\<lambda>ps nm (db, n). case SendBatchAlert (logged env) d ps nm n of (r, n) \<Rightarrow> (r, (db, n))),
     op_error_text = render \<rparr>"

definition world_inv :: "server \<Rightarrow> 's world \<Rightarrow> bool" where
  "world_inv sv w \<longleftrightarrow> good (fst w) \<and> db_server (fst w) = sv"

definition world_seen :: "'s world \<Rightarrow> embed list" where "world_seen w = deliveries (snd (snd (snd w)))"

definition recorded :: "db \<Rightarrow> string set" where
  "recorded db = na_alert_id ` {n \<in> set (db_attempts db). na_succeeded n}"

definition pending_ids :: "db \<Rightarrow> string set" where
  "pending_ids db = a_id ` {a \<in> set (db_alerts db). \<not> a_notified a}"

lemma views_stmts [simp]:
  "recorded (db\<lparr> db_stmts := n \<rparr>) = recorded db" "pending_ids (db\<lparr> db_stmts := n \<rparr>) = pending_ids db"
  by (simp_all add: recorded_def pending_ids_def)

lemma run_read:
  assumes "run m db = (r, db')" and "snd (m db) = db" and "good db"
  shows "good db' \<and> db_server db' = db_server db \<and> recorded db' = recorded db \<and> pending_ids db' = pending_ids db
    \<and> (r = fst (m db) \<or> r = Inl ConnLost)"
  using assms(1) by (rule run_cases) (use assms(2,3) in auto)

lemma run_write:
  assumes "run m db = (r, db')" and "keeps m" and "good db" and "db_server (snd (m db)) = db_server db"
  shows "good db' \<and> db_server db' = db_server db \<and>
    (recorded db' = recorded (snd (m db)) \<and> pending_ids db' = pending_ids (snd (m db)) \<and> (r = fst (m db) \<or> r = Inl ConnLost)
     \<or> recorded db' = recorded db \<and> pending_ids db' = pending_ids db \<and> r = Inl ConnLost)
    \<and> (fault_free (db_server db) \<longrightarrow> r = fst (m db))"
  using assms(1) by (rule run_cases) (use assms(2-4) keepsD in auto)

lemma attempt_views:
  "recorded (snd (queryInsertNotificationAttempt i b st e db)) \<subseteq> recorded db \<union> (if b then {i} else {})"
  "recorded db \<subseteq> recorded (snd (queryInsertNotificationAttempt i b st e db))"
  "pending_ids (snd (queryInsertNotificationAttempt i b st e db)) = pending_ids db"
  "db_server (snd (queryInsertNotificationAttempt i b st e db)) = db_server db"
  by (auto simp: queryInsertNotificationAttempt_def recorded_def pending_ids_def)

lemma mark_views:
  "recorded (snd (queryMarkAlertsNotified ids db)) = recorded db"
  "pending_ids (snd (queryMarkAlertsNotified ids db)) = pending_ids db - set ids"
  "db_server (snd (queryMarkAlertsNotified ids db)) = db_server db"
  "fst (queryMarkAlertsNotified ids db) = Inr ()"
  by (auto simp: queryMarkAlertsNotified_def recorded_def pending_ids_def update_where_def image_iff split: if_splits)

lemma mark_one: "queryMarkAlertNotified i = queryMarkAlertsNotified [i]"
  by (simp add: fun_eq_iff queryMarkAlertNotified_def queryMarkAlertsNotified_def)

lemma has_success_recorded: "fst (queryHasSuccessfulNotification i db) = Inr (i \<in> recorded db)"
  by (auto simp: queryHasSuccessfulNotification_def recorded_def)

lemma pending_listed: "fst (queryListPendingAlerts db) = Inr as \<Longrightarrow> a_id ` set as = pending_ids db"
  by (auto simp: queryListPendingAlerts_def pending_ids_def)

section \<open>The webhook's part\<close>

lemma send_delivers:
  "SendAlert (logged env) d p (r, (s, lg)) = (e, (r', (s', lg'))) \<Longrightarrow>
   deliveries lg' = deliveries lg @ (if e = None then [buildEmbed p] else [])"
  using post_log [of env d "[buildEmbed p]" r s lg e r' s' lg'] by (auto simp: SendAlert_def)

lemma send_batch_delivers:
  assumes "SendBatchAlert (logged env) d ps nm (r, (s, lg)) = ((n, e), (r', (s', lg')))"
  shows "deliveries lg' = deliveries lg @ map buildEmbed (take (nat n) ps)
    \<and> 0 \<le> n \<and> n \<le> int (length ps) \<and> (e = None \<longleftrightarrow> n = int (length ps))"
proof -
  let ?chunks = "chunkAlerts ps maxEmbedsPerMessage"
  have c: "concat ?chunks = ps" "\<forall>c\<in>set ?chunks. c \<noteq> []"
    using chunk_loop_concat [of maxEmbedsPerMessage ps]
    by (auto simp: chunkAlerts_def maxEmbedsPerMessage_def dest: chunk_loop_sizes)
  obtain new where "lg' = lg @ new" "batch_ok ?chunks n e new"
    using send_chunks_log [of env d 0 "length ?chunks" ?chunks 0 r s lg n e r' s' lg'] c(2) assms
    by (auto simp: SendBatchAlert_def Let_def)
  then show ?thesis using c by (auto simp: batch_ok_def)
qed

section \<open>The contract holds\<close>

lemmas world_defs = world_ops_def on_db_def world_inv_def world_seen_def

lemma read_law:
  assumes "world_inv sv w" and "on_db (run m) w = (r, w')" and "\<And>db. snd (m db) = db"
  shows "world_inv sv w' \<and> world_seen w' = world_seen w \<and> recorded (fst w') = recorded (fst w)
    \<and> pending_ids (fst w') = pending_ids (fst w) \<and> (r = fst (m (fst w)) \<or> r = Inl ConnLost)"
proof -
  obtain db n where w: "w = (db, n)" by (cases w)
  obtain r1 db1 where m: "run m db = (r1, db1)" by fastforce
  have "good db" using assms(1) by (simp add: w world_inv_def)
  from run_read [OF m assms(3) this] show ?thesis
    using assms(1,2) m by (auto simp: w on_db_def world_inv_def world_seen_def)
qed

lemma write_law:
  assumes "world_inv sv w" and "on_db (run m) w = (r, w')" and "keeps m"
    and "\<And>db. db_server (snd (m db)) = db_server db"
  shows "world_inv sv w' \<and> world_seen w' = world_seen w
    \<and> (recorded (fst w') = recorded (snd (m (fst w))) \<and> pending_ids (fst w') = pending_ids (snd (m (fst w)))
         \<and> (r = fst (m (fst w)) \<or> r = Inl ConnLost)
       \<or> recorded (fst w') = recorded (fst w) \<and> pending_ids (fst w') = pending_ids (fst w) \<and> r = Inl ConnLost)
    \<and> (fault_free sv \<longrightarrow> r = fst (m (fst w)))"
proof -
  obtain db n where w: "w = (db, n)" by (cases w)
  obtain r1 db1 where m: "run m db = (r1, db1)" by fastforce
  have "good db" using assms(1) by (simp add: w world_inv_def)
  from run_write [OF m assms(3) this assms(4)] show ?thesis
    using assms(1,2) m by (auto simp: w on_db_def world_inv_def world_seen_def)
qed

lemma listing_read:
  assumes "world_inv sv w" and "on_db (GetListingByID i) w = (r, w')"
  shows "world_inv sv w' \<and> world_seen w' = world_seen w \<and> recorded (fst w') = recorded (fst w)
    \<and> pending_ids (fst w') = pending_ids (fst w)"
proof -
  obtain r1 w1 where m: "on_db (run (queryGetListingByID i)) w = (r1, w1)" by (metis prod.exhaust)
  have "w1 = w'" using assms(2) m
    by (auto simp: on_db_def GetListingByID_def bind_db_def return_db_def split: prod.splits sum.splits)
  then show ?thesis
    using read_law [OF assms(1) m] by (simp add: queryGetListingByID_def)
qed

interpretation pg: alert_world "world_ops (env :: 's discord_env) d render" "world_inv sv" world_seen "\<lambda>w. recorded (fst w)"
  "\<lambda>w. pending_ids (fst w)" buildEmbed "fault_free sv"
proof
  fix w w' :: "'s world" and i err nm :: string and b :: bool and ids :: "string list"
  show "op_pending (world_ops env d render) w = (r, w') \<Longrightarrow> world_inv sv w' \<and> world_seen w' = world_seen w
      \<and> recorded (fst w') = recorded (fst w) \<and> pending_ids (fst w') = pending_ids (fst w)
      \<and> (\<forall>as. r = Inr as \<longrightarrow> a_id ` set as = pending_ids (fst w))" if "world_inv sv w" for r
    using read_law [OF that, of queryListPendingAlerts r w'] pending_listed [of "fst w"]
    by (auto simp: world_ops_def ListPendingAlerts_def queryListPendingAlerts_def)
  show "op_watch (world_ops env d render) i w = (rw, w') \<Longrightarrow> world_inv sv w' \<and> world_seen w' = world_seen w
      \<and> recorded (fst w') = recorded (fst w) \<and> pending_ids (fst w') = pending_ids (fst w)" if "world_inv sv w" for rw
    using read_law [OF that, of "queryGetWatch i" rw w'] by (simp add: world_ops_def GetWatch_def queryGetWatch_def)
  show "op_listing (world_ops env d render) i w = (rl, w') \<Longrightarrow> world_inv sv w' \<and> world_seen w' = world_seen w
      \<and> recorded (fst w') = recorded (fst w) \<and> pending_ids (fst w') = pending_ids (fst w)" if "world_inv sv w" for rl
    using listing_read [OF that] by (simp add: world_ops_def)
  show "op_has_success (world_ops env d render) i w = (rb, w') \<Longrightarrow> world_inv sv w' \<and> world_seen w' = world_seen w
      \<and> recorded (fst w') = recorded (fst w) \<and> pending_ids (fst w') = pending_ids (fst w)
      \<and> (\<forall>b. rb = Inr b \<longrightarrow> b = (i \<in> recorded (fst w)))" if "world_inv sv w" for rb
    using read_law [OF that, of "queryHasSuccessfulNotification i" rb w'] has_success_recorded [of i "fst w"]
    by (auto simp: world_ops_def HasSuccessfulNotification_def queryHasSuccessfulNotification_def)
  show "op_attempt (world_ops env d render) i b err w = (ru, w') \<Longrightarrow> world_inv sv w' \<and> world_seen w' = world_seen w
      \<and> pending_ids (fst w') = pending_ids (fst w) \<and> recorded (fst w) \<subseteq> recorded (fst w')
      \<and> recorded (fst w') \<subseteq> recorded (fst w) \<union> (if b then {i} else {})" if "world_inv sv w" for ru
    using write_law [OF that, of "queryInsertNotificationAttempt i b 0 err" ru w'] attempt_views [where i = i and b = b and st = 0 and e = err and db = "fst w"]
      keeps_queryInsertNotificationAttempt attempt_views(4)
    by (auto simp: world_ops_def InsertNotificationAttempt_def split: if_splits)
  show "op_mark (world_ops env d render) i w = (ru, w') \<Longrightarrow> world_inv sv w' \<and> world_seen w' = world_seen w
      \<and> recorded (fst w') = recorded (fst w) \<and> pending_ids (fst w') \<subseteq> pending_ids (fst w)
      \<and> pending_ids (fst w) \<subseteq> pending_ids (fst w') \<union> {i} \<and> (ru = Inr () \<longrightarrow> i \<notin> pending_ids (fst w'))"
    if "world_inv sv w" for ru
    using write_law [OF that, of "queryMarkAlertsNotified [i]" ru w'] mark_views [of "[i]" "fst w"] mark_views(3)
      keeps_alert_updates(2) by (auto simp: world_ops_def MarkAlertNotified_def mark_one)
  show "op_mark_all (world_ops env d render) ids w = (ru, w') \<Longrightarrow> world_inv sv w' \<and> world_seen w' = world_seen w
      \<and> recorded (fst w') = recorded (fst w) \<and> pending_ids (fst w') \<subseteq> pending_ids (fst w)
      \<and> pending_ids (fst w) \<subseteq> pending_ids (fst w') \<union> set ids \<and> (ru = Inr () \<longrightarrow> set ids \<inter> pending_ids (fst w') = {})"
    if "world_inv sv w" for ru
    using write_law [OF that, of "queryMarkAlertsNotified ids" ru w'] mark_views [of ids "fst w"] mark_views(3)
      keeps_alert_updates(2) by (auto simp: world_ops_def MarkAlertsNotified_def)
  show "op_send (world_ops env d render) p w = (e, w') \<Longrightarrow> world_inv sv w' \<and> recorded (fst w') = recorded (fst w)
      \<and> pending_ids (fst w') = pending_ids (fst w)
      \<and> world_seen w' = world_seen w @ (if e = None then [buildEmbed p] else [])" if "world_inv sv w" for p e
    using that send_delivers [of env d p] by (auto simp: world_defs split: prod.splits)
  show "world_inv sv w' \<and> recorded (fst w') = recorded (fst w)
      \<and> pending_ids (fst w') = pending_ids (fst w) \<and> world_seen w' = world_seen w @ map buildEmbed (take (nat n) ps)
      \<and> 0 \<le> n \<and> n \<le> int (length ps) \<and> (e = None \<longleftrightarrow> n = int (length ps))"
    if "world_inv sv w" and batch: "op_send_batch (world_ops env d render) ps nm w = ((n, e), w')" for ps n e
  proof -
    obtain db bk s lg where w: "w = (db, (bk, (s, lg)))" by (metis prod.exhaust)
    obtain db' bk' s' lg' where w': "w' = (db', (bk', (s', lg')))" by (metis prod.exhaust)
    have "SendBatchAlert (logged env) d ps nm (bk, (s, lg)) = ((n, e), (bk', (s', lg')))" "db' = db"
      using batch by (auto simp: world_ops_def w w' split: prod.splits)
    then show ?thesis using that send_batch_delivers [of env d ps nm bk s lg n e]
      by (auto simp: world_inv_def world_seen_def w w')
  qed
  show "fst (op_mark (world_ops env d render) i w) = Inr () \<and> fst (op_mark_all (world_ops env d render) ids w) = Inr ()"
    if "fault_free sv" "world_inv sv w"
    using write_law [OF that(2), of "queryMarkAlertsNotified [i]" "fst (op_mark (world_ops env d render) i w)"
          "snd (op_mark (world_ops env d render) i w)"] mark_views(4) [of "[i]"]
      write_law [OF that(2), of "queryMarkAlertsNotified ids" "fst (op_mark_all (world_ops env d render) ids w)"
          "snd (op_mark_all (world_ops env d render) ids w)"] mark_views(4) [of ids] mark_views(3) keeps_alert_updates(2) that(1)
    by (simp add: world_ops_def MarkAlertNotified_def MarkAlertsNotified_def mark_one)
qed

section \<open>Alerts of the program\<close>


definition demo_listing :: listing_row where
  "demo_listing = inserted_row \<lparr> l_id = [], l_ebay_id = ''e1'', l_title = ''DDR4'', l_item_url = ''u'', l_image_url = [],
     l_price = Fin 10, l_currency = ''USD'', l_shipping_cost = None, l_listing_type = ''auction'', l_seller_name = ''s'',
     l_seller_feedback = 5, l_seller_feedback_pct = Fin 99, l_seller_top_rated = False, l_component_type = [],
     l_condition_raw = [], l_condition_norm = ''new'', l_quantity = 1, l_attributes = [], l_extraction_confidence = Fin 0,
     l_product_key = [], l_score = None, l_score_breakdown = [], l_active = True, l_listed_at = None, l_sold_at = None,
     l_sold_price = None, l_auction_end_at = None, l_first_seen_at = 0, l_updated_at = 0 \<rparr>
     (Fin 10) None (Fin 99) 0 (itoa 0)"

definition demo_filters :: watch_filters where
  "demo_filters = \<lparr> wf_price_max = None, wf_price_min = None, wf_seller_min_feedback = None,
     wf_seller_min_feedback_pct = None, wf_seller_top_rated_only = False, wf_conditions = [], wf_attribute_filters = [] \<rparr>"

definition demo_watch :: watch where
  "demo_watch = \<lparr> w_id = itoa 1, w_name = ''ram'', w_search_query = ''q'', w_category_id = [],
     w_component_type = ''ram'', w_filters = demo_filters, w_score_threshold = 80, w_enabled = True,
     w_last_polled_at = None, w_created_at = 0, w_updated_at = 0 \<rparr>"

definition demo_alert :: alert where
  "demo_alert = \<lparr> a_id = itoa 2, a_watch_id = itoa 1, a_listing_id = itoa 0, a_score = 90, a_notified = False,
     a_notified_at = None, a_created_at = 0, a_dismissed_at = None, a_trace_id = None \<rparr>"

definition demo_db :: "server \<Rightarrow> db" where
  "demo_db sv = (empty_db sv)\<lparr> db_next := 4, db_listings := [demo_listing], db_watches := [demo_watch],
     db_alerts := [demo_alert] \<rparr>"

definition demo_attempt :: notification_attempt where
  "demo_attempt = \<lparr> na_id = itoa 3, na_alert_id = itoa 2, na_attempted_at = 0, na_succeeded = True,
     na_http_status = Some 0, na_error_text = None \<rparr>"

lemma demo_ids: "itoa 0 \<in> sv_uuid plain_server ` {..<4}" "itoa 1 \<in> sv_uuid plain_server ` {..<4}"
  "itoa 2 \<in> sv_uuid plain_server ` {..<4}"
  by (rule image_eqI [where x = 0] image_eqI [where x = 1] image_eqI [where x = 2]; simp add: plain_server_def)+

lemma good_demo: "good (demo_db plain_server)" "good ((demo_db plain_server)\<lparr> db_attempts := [demo_attempt] \<rparr>)"
  using demo_ids by (auto simp: good_def db_inv_def demo_db_def empty_db_def distinct_on_def plain_uuid_inj ids_below_def
      demo_listing_def inserted_row_def demo_watch_def demo_alert_def demo_attempt_def)

text \<open>An environment for examples: Discord accepts everything.\<close>

definition calm_env :: "unit discord_env" where
  "calm_env = \<lparr> env_now = (\<lambda>s. (0, s)), env_sleep = (\<lambda>d s. (False, s)),
     env_post = (\<lambda>u es s. (Inr \<lparr> wr_status = 204, wr_header = (\<lambda>h. []), wr_body = Some [] \<rparr>, s)) \<rparr>"

definition demo_discord :: discord where "demo_discord = \<lparr> dn_webhookURL = ''w'', dn_interChunkDelay = 0 \<rparr>"

abbreviation default_mode :: alert_config where
  "default_mode \<equiv> \<lparr> ac_SummaryOnly = False, ac_AlertsURLBase = [] \<rparr>"


lemma default_mode_full: "\<not> ac_SummaryOnly default_mode"
  by simp

lemma demo_recorded: "a_id demo_alert \<in> recorded ((demo_db sv)\<lparr> db_attempts := [demo_attempt] \<rparr>)"
  unfolding recorded_def by (rule image_eqI [where x = demo_attempt]) (simp_all add: demo_attempt_def demo_alert_def)

lemma demo_stuck: "demo_alert \<in> set (db_alerts ((demo_db sv)\<lparr> db_attempts := [demo_attempt] \<rparr>))" "\<not> a_notified demo_alert"
  by (simp_all add: demo_db_def demo_alert_def)

text \<open>An alert can get stuck. When the success of a delivery was recorded but marking the alert failed,
  every later run outside summary mode skips the alert and leaves it pending, and as long as it is pending
  the watch cannot raise another alert for that listing.\<close>

theorem delivered_unmarked_stuck:
  assumes "good db" and "\<not> ac_SummaryOnly cfg"
    and "a \<in> set (db_alerts db)" and "\<not> a_notified a" and "a_id a \<in> recorded db"
  shows "a_id a \<in> pending_ids (fst (snd (ProcessAlerts (world_ops env d render) visit cfg (db, n))))
    \<and> a_id a \<in> recorded (fst (snd (ProcessAlerts (world_ops env d render) visit cfg (db, n))))
    \<and> queryCreateAlert (a_watch_id a) (a_listing_id a) score trace db = (Inl NoRows, db)"
proof -
  have "world_inv (db_server db) (db, n)" using assms(1) by (simp add: world_inv_def)
  moreover have "a_id a \<in> pending_ids db" using assms(3,4) by (auto simp: pending_ids_def)
  ultimately show ?thesis
    using pg.recorded_stays [of "db_server db" "(db, n)" cfg "a_id a" env d render visit] assms
    by (auto simp: queryCreateAlert_def)
qed

theorem delivered_unmarked_stuck_witness:
  "a_id demo_alert \<in> pending_ids (fst (snd (ProcessAlerts (world_ops calm_env demo_discord (\<lambda>e. [])) id default_mode
      ((demo_db plain_server)\<lparr> db_attempts := [demo_attempt] \<rparr>, (newRateLimitState, ((), []))))))"
  by (rule conjunct1 [OF delivered_unmarked_stuck [OF good_demo(2) default_mode_full demo_stuck demo_recorded]])

text \<open>Such a state is reached when the connection is lost while the alert is being marked.\<close>

definition lost_mark :: server where
  "lost_mark = plain_server\<lparr> sv_fault := (\<lambda>n. if n = 5 then FaultBefore else NoFault) \<rparr>"

lemma stuck_reached:
  "let db = fst (snd (ProcessAlerts (world_ops calm_env demo_discord (\<lambda>e. [])) id default_mode
      (demo_db lost_mark, (newRateLimitState, ((), [])))))
   in map a_notified (db_alerts db) = [False] \<and> map na_succeeded (db_attempts db) = [True]"
  by code_simp

end
