(* ===== verification/Config.thy ===== *)
theory Config
  imports GoStrings Langfuse
begin

text \<open>
  The configuration (\<open>internal/config/config.go\<close>): its structs, the substitution of environment variables
  (Go's \<open>os.ExpandEnv\<close>), the defaults, the validation, and loading. Reading the file and decoding YAML are
  parameters. The fields that are absent from the file have Go's zero values after decoding, so a default
  also replaces a zero that the file spells out.
\<close>

section \<open>The structs\<close>

record server_config =
  scf_Host :: string
  scf_Port :: int
  scf_ReadTimeout :: duration
  scf_WriteTimeout :: duration

record database_config =
  dbc_Host :: string
  dbc_Port :: int
  dbc_Name :: string
  dbc_User :: string
  dbc_Password :: string
  dbc_SSLMode :: string
  dbc_PoolSize :: int

record rate_limit_config =
  rlc_PerSecond :: f64
  rlc_Burst :: int
  rlc_DailyLimit :: int

record ebay_config =
  ec_AppID :: string
  ec_CertID :: string
  ec_TokenURL :: string
  ec_BrowseURL :: string
  ec_AnalyticsURL :: string
  ec_Marketplace :: string
  ec_MaxCallsPerCycle :: int
  ec_RateLimit :: rate_limit_config

record ollama_config =
  oc_Endpoint :: string
  oc_Model :: string

record anthropic_config =
  anc_Model :: string

record openai_compat_config =
  occ_Endpoint :: string
  occ_Model :: string

record llm_config =
  lc_Backend :: string
  lc_Ollama :: ollama_config
  lc_Anthropic :: anthropic_config
  lc_OpenAICompat :: openai_compat_config
  lc_UseGrammar :: bool
  lc_Concurrency :: int
  lc_Timeout :: duration

record scoring_weights =
  sw_Price :: f64
  sw_Seller :: f64
  sw_Condition :: f64
  sw_Quantity :: f64
  sw_Quality :: f64
  sw_Time :: f64

record scoring_config =
  sgc_Weights :: scoring_weights
  sgc_MinBaselineSamples :: int
  sgc_BaselineWindowDays :: int

record schedule_config =
  shc_IngestionInterval :: duration
  shc_BaselineInterval :: duration
  shc_StaggerOffset :: duration
  shc_ReExtractionInterval :: duration

record alerts_config =
  alc_ReAlertsCooldown :: duration

record discord_config =
  dcf_Enabled :: bool
  dcf_WebhookURL :: string
  dcf_InterChunkDelay :: duration
  dcf_SummaryOnly :: bool

record webhook_config =
  whc_Enabled :: bool
  whc_URL :: string
  whc_Headers :: "(string, string) gomap"

record notifications_config =
  nc_Discord :: discord_config
  nc_Webhook :: webhook_config

record web_config =
  wc_Enabled :: bool
  wc_AlertsURLBase :: string

record logging_config =
  lgc_Level :: string
  lgc_Format :: string

record otel_config =
  otc_Enabled :: bool
  otc_Endpoint :: string
  otc_ServiceName :: string
  otc_Insecure :: bool
  otc_Timeout :: duration

record langfuse_config =
  lfc_Enabled :: bool
  lfc_Endpoint :: string
  lfc_PublicKey :: string
  lfc_SecretKey :: string
  lfc_BufferSize :: int
  lfc_Timeout :: duration
  lfc_ModelCosts :: "(string, model_cost) gomap"

record judge_config =
  jc_Enabled :: bool
  jc_Backend :: string
  jc_Model :: string
  jc_Interval :: duration
  jc_Lookback :: duration
  jc_BatchSize :: int
  jc_DailyBudgetUSD :: f64

record observability_config =
  obc_Otel :: otel_config
  obc_Langfuse :: langfuse_config
  obc_Judge :: judge_config

record config =
  cfg_Server :: server_config
  cfg_Database :: database_config
  cfg_Ebay :: ebay_config
  cfg_LLM :: llm_config
  cfg_Scoring :: scoring_config
  cfg_Schedule :: schedule_config
  cfg_Alerts :: alerts_config
  cfg_Notifications :: notifications_config
  cfg_Web :: web_config
  cfg_Logging :: logging_config
  cfg_Observability :: observability_config

section \<open>Environment variables\<close>

definition isShellSpecialVar :: "char \<Rightarrow> bool" where
  "isShellSpecialVar c \<longleftrightarrow> c \<in> set ''*#$@!?-0123456789''"

text \<open>The name after a dollar sign with the number of characters it takes; the argument is not empty.\<close>

definition getShellName :: "string \<Rightarrow> string \<times> nat" where
  "getShellName s =
     (if s \<noteq> [] \<and> hd s = CHR ''{'' then
        (if length s > 2 \<and> isShellSpecialVar (s ! 1) \<and> s ! 2 = CHR ''}'' then ([s ! 1], 3)
         else let name = takeWhile (\<lambda>c. c \<noteq> CHR ''}'') (tl s) in
           if length name = length (tl s) then ([], 1)
           else if name = [] then ([], 2) else (name, length name + 2))
      else if s \<noteq> [] \<and> isShellSpecialVar (hd s) then ([hd s], 1)
      else (takeWhile is_word s, length (takeWhile is_word s)))"

function ExpandEnv :: "(string \<Rightarrow> string) \<Rightarrow> string \<Rightarrow> string" where
  "ExpandEnv env [] = []"
| "ExpandEnv env (c # s) =
     (if c = CHR ''$'' \<and> s \<noteq> [] then
        (case getShellName s of (name, w) \<Rightarrow>
           (if name = [] then (if w > 0 then [] else [c]) else env name) @ ExpandEnv env (drop w s))
      else c # ExpandEnv env s)"
  by pat_completeness auto

termination
  by (relation "measure (\<lambda>(env, s). length s)") auto

section \<open>Defaults\<close>

definition applyRateLimitDefaults :: "rate_limit_config \<Rightarrow> rate_limit_config" where
  "applyRateLimitDefaults r =
     (let r = (if feq (rlc_PerSecond r) (Fin 0) then r\<lparr> rlc_PerSecond := Fin 5 \<rparr> else r);
          r = (if rlc_Burst r = 0 then r\<lparr> rlc_Burst := 10 \<rparr> else r)
      in if rlc_DailyLimit r = 0 then r\<lparr> rlc_DailyLimit := 5000 \<rparr> else r)"

definition applyEbayDefaults :: "ebay_config \<Rightarrow> ebay_config" where
  "applyEbayDefaults e =
     (let e = (if ec_TokenURL e = [] then e\<lparr> ec_TokenURL := ''https://api.ebay.com/identity/v1/oauth2/token'' \<rparr> else e);
          e = (if ec_BrowseURL e = [] then e\<lparr> ec_BrowseURL := ''https://api.ebay.com/buy/browse/v1/item_summary/search'' \<rparr> else e);
          e = (if ec_AnalyticsURL e = []
               then e\<lparr> ec_AnalyticsURL := ''https://api.ebay.com/developer/analytics/v1_beta/rate_limit/'' \<rparr> else e)
      in e\<lparr> ec_RateLimit := applyRateLimitDefaults (ec_RateLimit e) \<rparr>)"

definition applyServerDefaults :: "server_config \<Rightarrow> server_config" where
  "applyServerDefaults s =
     (let s = (if scf_Host s = [] then s\<lparr> scf_Host := ''0.0.0.0'' \<rparr> else s);
          s = (if scf_Port s = 0 then s\<lparr> scf_Port := 8080 \<rparr> else s);
          s = (if scf_ReadTimeout s = 0 then s\<lparr> scf_ReadTimeout := 30 * second \<rparr> else s)
      in if scf_WriteTimeout s = 0 then s\<lparr> scf_WriteTimeout := 30 * second \<rparr> else s)"

definition applyDatabaseDefaults :: "database_config \<Rightarrow> database_config" where
  "applyDatabaseDefaults d =
     (let d = (if dbc_Port d = 0 then d\<lparr> dbc_Port := 5432 \<rparr> else d);
          d = (if dbc_SSLMode d = [] then d\<lparr> dbc_SSLMode := ''disable'' \<rparr> else d)
      in if dbc_PoolSize d = 0 then d\<lparr> dbc_PoolSize := 10 \<rparr> else d)"

definition applyLLMDefaults :: "llm_config \<Rightarrow> llm_config" where
  "applyLLMDefaults l =
     (let l = (if lc_Backend l = [] then l\<lparr> lc_Backend := ''ollama'' \<rparr> else l);
          l = (if lc_Concurrency l = 0 then l\<lparr> lc_Concurrency := 4 \<rparr> else l)
      in if lc_Timeout l = 0 then l\<lparr> lc_Timeout := 30 * second \<rparr> else l)"

definition applyScoringDefaults :: "scoring_config \<Rightarrow> scoring_config" where
  "applyScoringDefaults s =
     (let s = (if sgc_MinBaselineSamples s = 0 then s\<lparr> sgc_MinBaselineSamples := 10 \<rparr> else s)
      in if sgc_BaselineWindowDays s = 0 then s\<lparr> sgc_BaselineWindowDays := 90 \<rparr> else s)"

definition applyScheduleDefaults :: "schedule_config \<Rightarrow> schedule_config" where
  "applyScheduleDefaults s =
     (let s = (if shc_IngestionInterval s = 0 then s\<lparr> shc_IngestionInterval := 15 * minute \<rparr> else s);
          s = (if shc_BaselineInterval s = 0 then s\<lparr> shc_BaselineInterval := 6 * hour \<rparr> else s)
      in if shc_StaggerOffset s = 0 then s\<lparr> shc_StaggerOffset := 30 * second \<rparr> else s)"

definition applyAlertsDefaults :: "alerts_config \<Rightarrow> alerts_config" where
  "applyAlertsDefaults a = (if alc_ReAlertsCooldown a = 0 then a\<lparr> alc_ReAlertsCooldown := 24 * hour \<rparr> else a)"

definition applyLoggingDefaults :: "logging_config \<Rightarrow> logging_config" where
  "applyLoggingDefaults l =
     (let l = (if lgc_Level l = [] then l\<lparr> lgc_Level := ''info'' \<rparr> else l)
      in if lgc_Format l = [] then l\<lparr> lgc_Format := ''text'' \<rparr> else l)"

definition applyOtelDefaults :: "otel_config \<Rightarrow> otel_config" where
  "applyOtelDefaults ot =
     (let ot = (if otc_ServiceName ot = [] then ot\<lparr> otc_ServiceName := ''server-price-tracker'' \<rparr> else ot)
      in if otc_Timeout ot = 0 then ot\<lparr> otc_Timeout := 10 * second \<rparr> else ot)"

definition applyLangfuseDefaults :: "langfuse_config \<Rightarrow> langfuse_config" where
  "applyLangfuseDefaults l =
     (let l = (if lfc_BufferSize l = 0 then l\<lparr> lfc_BufferSize := 1000 \<rparr> else l)
      in if lfc_Timeout l = 0 then l\<lparr> lfc_Timeout := 10 * second \<rparr> else l)"

definition applyJudgeDefaults :: "judge_config \<Rightarrow> judge_config" where
  "applyJudgeDefaults j =
     (let j = (if jc_Interval j = 0 then j\<lparr> jc_Interval := 15 * minute \<rparr> else j);
          j = (if jc_Lookback j = 0 then j\<lparr> jc_Lookback := 6 * hour \<rparr> else j);
          j = (if jc_BatchSize j = 0 then j\<lparr> jc_BatchSize := 50 \<rparr> else j)
      in if feq (jc_DailyBudgetUSD j) (Fin 0) then j\<lparr> jc_DailyBudgetUSD := Fin 10 \<rparr> else j)"

definition applyObservabilityDefaults :: "observability_config \<Rightarrow> observability_config" where
  "applyObservabilityDefaults ob =
     ob\<lparr> obc_Otel := applyOtelDefaults (obc_Otel ob), obc_Langfuse := applyLangfuseDefaults (obc_Langfuse ob),
        obc_Judge := applyJudgeDefaults (obc_Judge ob) \<rparr>"

definition applyDefaults :: "config \<Rightarrow> config" where
  "applyDefaults cfg =
     cfg\<lparr> cfg_Server := applyServerDefaults (cfg_Server cfg), cfg_Database := applyDatabaseDefaults (cfg_Database cfg),
       cfg_Ebay := applyEbayDefaults (cfg_Ebay cfg), cfg_LLM := applyLLMDefaults (cfg_LLM cfg),
       cfg_Scoring := applyScoringDefaults (cfg_Scoring cfg), cfg_Schedule := applyScheduleDefaults (cfg_Schedule cfg),
       cfg_Alerts := applyAlertsDefaults (cfg_Alerts cfg), cfg_Logging := applyLoggingDefaults (cfg_Logging cfg),
       cfg_Observability := applyObservabilityDefaults (cfg_Observability cfg) \<rparr>"

section \<open>Validation and loading\<close>

datatype config_error = HostRequired | NameRequired | UserRequired | OllamaEndpointRequired
  | AnthropicModelRequired | CompatEndpointRequired | BackendUnknown string

text \<open>The errors that are joined; none is success.\<close>

definition config_validate :: "config \<Rightarrow> config_error list" where
  "config_validate cfg =
     (if dbc_Host (cfg_Database cfg) = [] then [HostRequired] else [])
     @ (if dbc_Name (cfg_Database cfg) = [] then [NameRequired] else [])
     @ (if dbc_User (cfg_Database cfg) = [] then [UserRequired] else [])
     @ (let backend = lc_Backend (cfg_LLM cfg) in
        if backend = ''ollama'' then (if oc_Endpoint (lc_Ollama (cfg_LLM cfg)) = [] then [OllamaEndpointRequired] else [])
        else if backend = ''anthropic'' then (if anc_Model (lc_Anthropic (cfg_LLM cfg)) = [] then [AnthropicModelRequired] else [])
        else if backend = ''openai_compat''
        then (if occ_Endpoint (lc_OpenAICompat (cfg_LLM cfg)) = [] then [CompatEndpointRequired] else [])
        else [BackendUnknown backend])"

datatype load_error = ReadingFile | ParsingYAML | Validating "config_error list"

definition config_load :: "(string \<Rightarrow> string option) \<Rightarrow> (string \<Rightarrow> string) \<Rightarrow> (string \<Rightarrow> config option) \<Rightarrow> string \<Rightarrow> load_error + config" where
  "config_load read_file env yaml path =
     (case read_file path of
        None \<Rightarrow> Inl ReadingFile
      | Some data \<Rightarrow>
          (case yaml (ExpandEnv env data) of
             None \<Rightarrow> Inl ParsingYAML
           | Some cfg \<Rightarrow>
               (let cfg = applyDefaults cfg; errs = config_validate cfg
                in if errs \<noteq> [] then Inl (Validating errs) else Inr cfg)))"

definition DSN :: "database_config \<Rightarrow> string" where
  "DSN d = ''host='' @ dbc_Host d @ '' port='' @ itoa (dbc_Port d) @ '' dbname='' @ dbc_Name d @ '' user='' @ dbc_User d
     @ '' password='' @ dbc_Password d @ '' sslmode='' @ dbc_SSLMode d"

section \<open>What loading guarantees\<close>

text \<open>What the program relies on: the required fields, and no zero where a default exists.\<close>

definition usable :: "config \<Rightarrow> bool" where
  "usable cfg \<longleftrightarrow> dbc_Host (cfg_Database cfg) \<noteq> [] \<and> dbc_Name (cfg_Database cfg) \<noteq> [] \<and> dbc_User (cfg_Database cfg) \<noteq> []
     \<and> (lc_Backend (cfg_LLM cfg) = ''ollama'' \<and> oc_Endpoint (lc_Ollama (cfg_LLM cfg)) \<noteq> []
        \<or> lc_Backend (cfg_LLM cfg) = ''anthropic'' \<and> anc_Model (lc_Anthropic (cfg_LLM cfg)) \<noteq> []
        \<or> lc_Backend (cfg_LLM cfg) = ''openai_compat'' \<and> occ_Endpoint (lc_OpenAICompat (cfg_LLM cfg)) \<noteq> [])"

definition defaulted :: "config \<Rightarrow> bool" where
  "defaulted cfg \<longleftrightarrow>
     scf_Host (cfg_Server cfg) \<noteq> [] \<and> scf_Port (cfg_Server cfg) \<noteq> 0 \<and> scf_ReadTimeout (cfg_Server cfg) \<noteq> 0
     \<and> scf_WriteTimeout (cfg_Server cfg) \<noteq> 0 \<and> dbc_Port (cfg_Database cfg) \<noteq> 0 \<and> dbc_SSLMode (cfg_Database cfg) \<noteq> []
     \<and> dbc_PoolSize (cfg_Database cfg) \<noteq> 0 \<and> ec_TokenURL (cfg_Ebay cfg) \<noteq> [] \<and> ec_BrowseURL (cfg_Ebay cfg) \<noteq> []
     \<and> ec_AnalyticsURL (cfg_Ebay cfg) \<noteq> [] \<and> \<not> feq (rlc_PerSecond (ec_RateLimit (cfg_Ebay cfg))) (Fin 0)
     \<and> rlc_Burst (ec_RateLimit (cfg_Ebay cfg)) \<noteq> 0 \<and> rlc_DailyLimit (ec_RateLimit (cfg_Ebay cfg)) \<noteq> 0
     \<and> lc_Backend (cfg_LLM cfg) \<noteq> [] \<and> lc_Concurrency (cfg_LLM cfg) \<noteq> 0 \<and> lc_Timeout (cfg_LLM cfg) \<noteq> 0
     \<and> sgc_MinBaselineSamples (cfg_Scoring cfg) \<noteq> 0 \<and> sgc_BaselineWindowDays (cfg_Scoring cfg) \<noteq> 0
     \<and> shc_IngestionInterval (cfg_Schedule cfg) \<noteq> 0 \<and> shc_BaselineInterval (cfg_Schedule cfg) \<noteq> 0
     \<and> shc_StaggerOffset (cfg_Schedule cfg) \<noteq> 0 \<and> alc_ReAlertsCooldown (cfg_Alerts cfg) \<noteq> 0
     \<and> lgc_Level (cfg_Logging cfg) \<noteq> [] \<and> lgc_Format (cfg_Logging cfg) \<noteq> []
     \<and> otc_ServiceName (obc_Otel (cfg_Observability cfg)) \<noteq> [] \<and> otc_Timeout (obc_Otel (cfg_Observability cfg)) \<noteq> 0
     \<and> lfc_BufferSize (obc_Langfuse (cfg_Observability cfg)) \<noteq> 0 \<and> lfc_Timeout (obc_Langfuse (cfg_Observability cfg)) \<noteq> 0
     \<and> jc_Interval (obc_Judge (cfg_Observability cfg)) \<noteq> 0 \<and> jc_Lookback (obc_Judge (cfg_Observability cfg)) \<noteq> 0
     \<and> jc_BatchSize (obc_Judge (cfg_Observability cfg)) \<noteq> 0
     \<and> \<not> feq (jc_DailyBudgetUSD (obc_Judge (cfg_Observability cfg))) (Fin 0)"

named_theorems default_defs \<open>the functions that fill in defaults\<close>

declare applyRateLimitDefaults_def [default_defs] applyEbayDefaults_def [default_defs] applyServerDefaults_def [default_defs]
  applyDatabaseDefaults_def [default_defs] applyLLMDefaults_def [default_defs] applyScoringDefaults_def [default_defs]
  applyScheduleDefaults_def [default_defs] applyAlertsDefaults_def [default_defs] applyLoggingDefaults_def [default_defs]
  applyOtelDefaults_def [default_defs] applyLangfuseDefaults_def [default_defs] applyJudgeDefaults_def [default_defs]
  applyObservabilityDefaults_def [default_defs]

lemma defaults_filled: "defaulted (applyDefaults cfg)"
  unfolding defaulted_def by (intro conjI) (simp_all add: applyDefaults_def default_defs Let_def)

lemma default_kept:
  "scf_Host s \<noteq> [] \<Longrightarrow> scf_Port s \<noteq> 0 \<Longrightarrow> scf_ReadTimeout s \<noteq> 0 \<Longrightarrow> scf_WriteTimeout s \<noteq> 0 \<Longrightarrow> applyServerDefaults s = s"
  "dbc_Port d \<noteq> 0 \<Longrightarrow> dbc_SSLMode d \<noteq> [] \<Longrightarrow> dbc_PoolSize d \<noteq> 0 \<Longrightarrow> applyDatabaseDefaults d = d"
  "\<not> feq (rlc_PerSecond r) (Fin 0) \<Longrightarrow> rlc_Burst r \<noteq> 0 \<Longrightarrow> rlc_DailyLimit r \<noteq> 0 \<Longrightarrow> applyRateLimitDefaults r = r"
  "ec_TokenURL e \<noteq> [] \<Longrightarrow> ec_BrowseURL e \<noteq> [] \<Longrightarrow> ec_AnalyticsURL e \<noteq> [] \<Longrightarrow>
     \<not> feq (rlc_PerSecond (ec_RateLimit e)) (Fin 0) \<Longrightarrow> rlc_Burst (ec_RateLimit e) \<noteq> 0 \<Longrightarrow>
     rlc_DailyLimit (ec_RateLimit e) \<noteq> 0 \<Longrightarrow> applyEbayDefaults e = e"
  "lc_Backend l \<noteq> [] \<Longrightarrow> lc_Concurrency l \<noteq> 0 \<Longrightarrow> lc_Timeout l \<noteq> 0 \<Longrightarrow> applyLLMDefaults l = l"
  "sgc_MinBaselineSamples g \<noteq> 0 \<Longrightarrow> sgc_BaselineWindowDays g \<noteq> 0 \<Longrightarrow> applyScoringDefaults g = g"
  "shc_IngestionInterval h \<noteq> 0 \<Longrightarrow> shc_BaselineInterval h \<noteq> 0 \<Longrightarrow> shc_StaggerOffset h \<noteq> 0 \<Longrightarrow> applyScheduleDefaults h = h"
  "alc_ReAlertsCooldown a \<noteq> 0 \<Longrightarrow> applyAlertsDefaults a = a"
  "lgc_Level lg \<noteq> [] \<Longrightarrow> lgc_Format lg \<noteq> [] \<Longrightarrow> applyLoggingDefaults lg = lg"
  "otc_ServiceName ot \<noteq> [] \<Longrightarrow> otc_Timeout ot \<noteq> 0 \<Longrightarrow> applyOtelDefaults ot = ot"
  "lfc_BufferSize lf \<noteq> 0 \<Longrightarrow> lfc_Timeout lf \<noteq> 0 \<Longrightarrow> applyLangfuseDefaults lf = lf"
  "jc_Interval j \<noteq> 0 \<Longrightarrow> jc_Lookback j \<noteq> 0 \<Longrightarrow> jc_BatchSize j \<noteq> 0 \<Longrightarrow> \<not> feq (jc_DailyBudgetUSD j) (Fin 0) \<Longrightarrow> applyJudgeDefaults j = j"
  by (simp_all add: default_defs Let_def)

lemma defaults_kept: "defaulted cfg \<Longrightarrow> applyDefaults cfg = cfg"
  unfolding defaulted_def applyDefaults_def applyObservabilityDefaults_def by (simp add: default_kept)

lemma validate_usable: "config_validate cfg = [] \<longleftrightarrow> usable cfg"
  unfolding config_validate_def usable_def Let_def by auto


section \<open>Substitution\<close>

lemma expand_plain: "CHR ''$'' \<notin> set s \<Longrightarrow> ExpandEnv env s = s"
  by (induction s) auto

text \<open>A reference of the form dollar brace name brace, with an ordinary name.\<close>

lemma takeWhile_brace:
  assumes "CHR ''}'' \<notin> set v"
  shows "takeWhile (\<lambda>c. c \<noteq> CHR ''}'') (v @ CHR ''}'' # s) = v"
  using assms by (induction v) auto

lemma expand_reference:
  assumes "v \<noteq> []" and "list_all is_word v" and "\<not> isShellSpecialVar (hd v)"
  shows "ExpandEnv env (''${'' @ v @ ''}'' @ s) = env v @ ExpandEnv env s"
proof -
  have brace: "CHR ''}'' \<notin> set v" using assms(2) by (auto simp: list_all_iff is_word_def is_digit_def is_upper_def is_lower_def Let_def)
  have "getShellName (CHR ''{'' # v @ CHR ''}'' # s) = (v, length v + 2)"
    using assms(1,3) takeWhile_brace [OF brace, of s] by (cases v) (auto simp: getShellName_def Let_def)
  then show ?thesis using assms(1) by simp
qed

text \<open>Substitution. Text without a dollar sign is left alone, a reference in braces to an ordinary name is
  replaced by the variable, and nothing that is substituted is scanned again: the text before, the value
  and the expansion of the text after are concatenated.\<close>

theorem ExpandEnv_reference:
  assumes "CHR ''$'' \<notin> set before" and "v \<noteq> []" and "list_all is_word v" and "\<not> isShellSpecialVar (hd v)"
  shows "ExpandEnv env (before @ ''${'' @ v @ ''}'' @ after) = before @ env v @ ExpandEnv env after"
  using assms(1)
proof (induction before)
  case Nil
  then show ?case using expand_reference [OF assms(2-4)] by simp
next
  case (Cons c before)
  then show ?case by auto
qed

theorem ExpandEnv_reference_witness:
  "ExpandEnv (\<lambda>v. ''a$b'') (''key: '' @ ''${'' @ ''API_KEY'' @ ''}'' @ ''!'') = ''key: a$b!''"
proof -
  have "list_all is_word ''API_KEY'' \<and> \<not> isShellSpecialVar (hd ''API_KEY'') \<and> CHR ''$'' \<notin> set ''key: ''" by code_simp
  then show ?thesis using ExpandEnv_reference [of "''key: ''" "''API_KEY''" "\<lambda>v. ''a$b''" "''!''"] by simp
qed

end
