(* ===== verification/Engine.thy ===== *)
theory Engine
  imports Rescore Alerting Ebay Extractor ProductKey Config
begin

text \<open>
  The engine (\<open>internal/engine/engine.go\<close>): the extraction worker with its jobs, alert evaluation,
  rescoring with alerts, ingestion, re-extraction and baseline refresh, over the store and over what lies
  outside the repository. The world is the database beside a state \<open>'s\<close> of everything else (the model
  behind the extractor, eBay, the limiter, Discord, the clock of timers), on which the engine's record of
  collaborators acts. A result None is a panic, which unwinds to the goroutine's start and leaves the
  database as it is. Logs, metrics and spans are left out; \<open>eg_done\<close> is \<open>ctx.Err() != nil\<close>.
\<close>

section \<open>The engine\<close>

datatype job_error = GetFailed db_error | ExtractFailed xerr | ExtractionUpdateFailed db_error

type_synonym 's eworld = "db \<times> 's"

record 's engine =
  eg_search :: "(search_error, 's) ebay_client"
  eg_parse_time :: "string \<Rightarrow> instant option"
  eg_extract :: "string \<Rightarrow> 's \<Rightarrow> (component_type \<times> (xerr + attrs)) \<times> 's"
  eg_notifier :: "'s eworld alert_ops"
  eg_visit :: "(string \<times> alert list) list \<Rightarrow> (string \<times> alert list) list"
  eg_done :: "'s \<Rightarrow> bool"
  eg_sleep :: "'s \<Rightarrow> 's"
  eg_stagger :: "'s \<Rightarrow> bool \<times> 's"
  eg_fmt :: "rat \<Rightarrow> string"
  eg_error_text :: "job_error \<Rightarrow> string"
  eg_trace :: "string option"
  eg_paginator :: "paginator option"
  eg_analyticsClient :: "('s \<Rightarrow> (quota_call_error + quota_state) \<times> 's) option"
  eg_rateLimiter :: "(int \<Rightarrow> int \<Rightarrow> instant \<Rightarrow> 's \<Rightarrow> 's) option"
  eg_maxCallsPerCycle :: int
  eg_baselineWindowDays :: int
  eg_staggerOffset :: duration
  eg_alertsConfig :: alerts_config
  eg_alertProcessing :: alert_config
  eg_workerCount :: int

definition defaultMaxCallsPerCycle :: int where "defaultMaxCallsPerCycle = 50"
definition defaultWorkerCount :: int where "defaultWorkerCount = 1"

type_synonym 's engine_option = "'s engine \<Rightarrow> 's engine"

text \<open>The constructor sets the defaults of the fields that are not collaborators, then applies its options in order.\<close>

definition NewEngine :: "'s engine \<Rightarrow> 's engine_option list \<Rightarrow> 's engine" where
  "NewEngine deps opts = fold (\<lambda>opt. opt) opts
     (deps\<lparr> eg_paginator := None, eg_analyticsClient := None, eg_rateLimiter := None,
        eg_maxCallsPerCycle := defaultMaxCallsPerCycle, eg_baselineWindowDays := 90, eg_staggerOffset := 30 * second,
        eg_alertsConfig := \<lparr> alc_ReAlertsCooldown = 0 \<rparr>, eg_alertProcessing := \<lparr> ac_SummaryOnly = False, ac_AlertsURLBase = [] \<rparr>,
        eg_workerCount := 0 \<rparr>)"

definition WithBaselineWindowDays :: "int \<Rightarrow> 's engine_option" where
  "WithBaselineWindowDays days e = e\<lparr> eg_baselineWindowDays := days \<rparr>"

definition WithStaggerOffset :: "duration \<Rightarrow> 's engine_option" where
  "WithStaggerOffset d e = e\<lparr> eg_staggerOffset := d \<rparr>"

definition WithPaginator :: "paginator \<Rightarrow> 's engine_option" where
  "WithPaginator p e = e\<lparr> eg_paginator := Some p \<rparr>"

definition WithMaxCallsPerCycle :: "int \<Rightarrow> 's engine_option" where
  "WithMaxCallsPerCycle n e = e\<lparr> eg_maxCallsPerCycle := n \<rparr>"

definition WithAnalyticsClient :: "('s \<Rightarrow> (quota_call_error + quota_state) \<times> 's) \<Rightarrow> 's engine_option" where
  "WithAnalyticsClient ac e = e\<lparr> eg_analyticsClient := Some ac \<rparr>"

definition WithRateLimiter :: "(int \<Rightarrow> int \<Rightarrow> instant \<Rightarrow> 's \<Rightarrow> 's) \<Rightarrow> 's engine_option" where
  "WithRateLimiter rl e = e\<lparr> eg_rateLimiter := Some rl \<rparr>"

definition WithAlertsConfig :: "alerts_config \<Rightarrow> 's engine_option" where
  "WithAlertsConfig cfg e = e\<lparr> eg_alertsConfig := cfg \<rparr>"

definition WithAlertProcessing :: "alert_config \<Rightarrow> 's engine_option" where
  "WithAlertProcessing cfg e = e\<lparr> eg_alertProcessing := cfg \<rparr>"

definition WithWorkerCount :: "int \<Rightarrow> 's engine_option" where
  "WithWorkerCount n e = e\<lparr> eg_workerCount := n \<rparr>"

definition trace_text :: "'s engine \<Rightarrow> string" where
  "trace_text eng = (case eg_trace eng of Some t \<Rightarrow> t | None \<Rightarrow> [])"

section \<open>Alert evaluation\<close>

definition new_alert :: "'s engine \<Rightarrow> watch \<Rightarrow> listing \<Rightarrow> int \<Rightarrow> alert" where
  "new_alert eng w l score = \<lparr> a_id = [], a_watch_id = w_id w, a_listing_id = l_id l, a_score = score,
     a_notified = False, a_notified_at = None, a_created_at = 0, a_dismissed_at = None, a_trace_id = eg_trace eng \<rparr>"

definition evaluateAlert :: "'s engine \<Rightarrow> watch \<Rightarrow> listing \<Rightarrow> db \<Rightarrow> unit option \<times> db" where
  "evaluateAlert eng w l db =
     (case l_score l of
        None \<Rightarrow> (Some (), db)
      | Some score \<Rightarrow>
          if score < w_score_threshold w then (Some (), db)
          else case filters_match (w_filters w) l of
            None \<Rightarrow> (None, db)
          | Some False \<Rightarrow> (Some (), db)
          | Some True \<Rightarrow>
              (case (if alc_ReAlertsCooldown (eg_alertsConfig eng) > 0 then HasRecentAlert (w_id w) (l_id l) (alc_ReAlertsCooldown (eg_alertsConfig eng)) db
                     else (Inr False, db)) of
                 (Inl e, db) \<Rightarrow> (Some (), db)
               | (Inr recent, db) \<Rightarrow>
                   if recent then (Some (), db) else (Some (), snd (CreateAlert (new_alert eng w l score) db))))"

fun evaluate_watches :: "'s engine \<Rightarrow> watch list \<Rightarrow> listing \<Rightarrow> db \<Rightarrow> unit option \<times> db" where
  "evaluate_watches eng [] l db = (Some (), db)"
| "evaluate_watches eng (w # ws) l db =
     (if w_component_type w \<noteq> l_component_type l then evaluate_watches eng ws l db
      else case evaluateAlert eng w l db of
        (None, db) \<Rightarrow> (None, db) | (Some _, db) \<Rightarrow> evaluate_watches eng ws l db)"

definition evaluateAlertsForListing :: "'s engine \<Rightarrow> listing \<Rightarrow> db \<Rightarrow> unit option \<times> db" where
  "evaluateAlertsForListing eng l db =
     (if l_score l = None then (Some (), db)
      else case ListWatches True db of
        (Inl e, db) \<Rightarrow> (Some (), db) | (Inr ws, db) \<Rightarrow> evaluate_watches eng ws l db)"

section \<open>Rescoring with alerts\<close>

fun score_and_alert :: "'s engine \<Rightarrow> listing list \<Rightarrow> db \<Rightarrow> (int \<times> rescore_error list) option \<times> db" where
  "score_and_alert eng [] db = (Some (0, []), db)"
| "score_and_alert eng (l # ls) db =
     (case ScoreListing (eg_fmt eng) l db of
        ((Some e, _), db) \<Rightarrow>
          (case score_and_alert eng ls db of
             (None, db) \<Rightarrow> (None, db) | (Some (n, es), db) \<Rightarrow> (Some (n, ScoringFailed (l_id l) e # es), db))
      | ((None, l), db) \<Rightarrow>
          (case evaluateAlertsForListing eng l db of
             (None, db) \<Rightarrow> (None, db)
           | (Some _, db) \<Rightarrow>
               (case score_and_alert eng ls db of
                  (None, db) \<Rightarrow> (None, db) | (Some (n, es), db) \<Rightarrow> (Some (n + 1, es), db))))"

definition EngineRescoreAll :: "'s engine \<Rightarrow> db \<Rightarrow> ((int \<times> rescore_error list) option \<times> db) option" where
  "EngineRescoreAll eng db = cursor_loop (score_and_alert eng) [] 0 [] db"

datatype refresh_error = RecomputeFailed db_error | RescoreFailed "rescore_error list"

definition RunBaselineRefresh :: "'s engine \<Rightarrow> db \<Rightarrow> (refresh_error option option \<times> db) option" where
  "RunBaselineRefresh eng db =
     (case RecomputeAllBaselines (eg_baselineWindowDays eng) db of
        (Inl e, db) \<Rightarrow> Some (Some (Some (RecomputeFailed e)), db)
      | (Inr _, db) \<Rightarrow>
          (case EngineRescoreAll eng db of
             None \<Rightarrow> None
           | Some (None, db) \<Rightarrow> Some (None, db)
           | Some (Some (n, es), db) \<Rightarrow> Some (Some (if es = [] then None else Some (RescoreFailed es)), db)))"

section \<open>Extraction workers\<close>

definition completeJob :: "string \<Rightarrow> string \<Rightarrow> db \<Rightarrow> db" where
  "completeJob jobID errText db = snd (CompleteExtractionJob jobID errText db)"

definition processExtractionJob :: "'s engine \<Rightarrow> extraction_job \<Rightarrow> 's eworld \<Rightarrow> unit option \<times> 's eworld" where
  "processExtractionJob eng job world =
     (case world of (db, s) \<Rightarrow>
      case GetListingByID (ej_listing_id job) db of
        (Inl e, db) \<Rightarrow> (Some (), (completeJob (ej_id job) (eg_error_text eng (GetFailed e)) db, s))
      | (Inr l, db) \<Rightarrow>
          (case eg_extract eng (l_title l) s of
             ((ct, Inl e), s) \<Rightarrow>
               if e = NilMapPanic then (None, (db, s))
               else (Some (), (completeJob (ej_id job) (eg_error_text eng (ExtractFailed e)) db, s))
           | ((ct, Inr attrs), s) \<Rightarrow>
               (let productKey = ProductKey ct attrs in
                case UpdateListingExtraction (l_id l) ct attrs (fl (9 / 10)) productKey db of
                  (Inl e, db) \<Rightarrow> (Some (), (completeJob (ej_id job) (eg_error_text eng (ExtractionUpdateFailed e)) db, s))
                | (Inr _, db) \<Rightarrow>
                    (let l = l\<lparr> l_product_key := productKey, l_component_type := ct \<rparr> in
                     case ScoreListing (eg_fmt eng) l db of
                       ((Some e, _), db) \<Rightarrow> (Some (), (completeJob (ej_id job) [] db, s))
                     | ((None, l), db) \<Rightarrow>
                         (case evaluateAlertsForListing eng l db of
                            (None, db) \<Rightarrow> (None, (db, s))
                          | (Some _, db) \<Rightarrow> (Some (), (completeJob (ej_id job) [] db, s)))))))"

text \<open>The loop of a worker, for a number of rounds.\<close>

fun runExtractionWorker :: "'s engine \<Rightarrow> string \<Rightarrow> nat \<Rightarrow> 's eworld \<Rightarrow> unit option \<times> 's eworld" where
  "runExtractionWorker eng workerID 0 world = (Some (), world)"
| "runExtractionWorker eng workerID (Suc rounds) (db, s) =
     (if eg_done eng s then (Some (), (db, s))
      else case DequeueExtractions workerID 1 db of
        (Inl e, db) \<Rightarrow> runExtractionWorker eng workerID rounds (db, eg_sleep eng s)
      | (Inr [], db) \<Rightarrow> runExtractionWorker eng workerID rounds (db, eg_sleep eng s)
      | (Inr (job # _), db) \<Rightarrow>
          (case processExtractionJob eng job (db, s) of
             (None, world) \<Rightarrow> (None, world)
           | (Some _, world) \<Rightarrow> runExtractionWorker eng workerID rounds world))"

definition StartExtractionWorkers :: "'s engine \<Rightarrow> string list" where
  "StartExtractionWorkers eng =
     (let count = (if eg_workerCount eng \<le> 0 then defaultWorkerCount else eg_workerCount eng)
      in map (\<lambda>i. ''worker-'' @ itoa (int i)) [0..<nat count])"

section \<open>Ingestion\<close>

definition processListing :: "'s engine \<Rightarrow> watch \<Rightarrow> listing \<Rightarrow> db \<Rightarrow> unit option \<times> db" where
  "processListing eng w l db =
     (case UpsertListing l db of
        (Inl e, db) \<Rightarrow> (Some (), db)
      | (Inr l, db) \<Rightarrow> evaluateAlert eng w l (snd (EnqueueExtraction (trace_text eng) (l_id l) 0 db)))"

fun process_listings :: "'s engine \<Rightarrow> watch \<Rightarrow> listing list \<Rightarrow> db \<Rightarrow> unit option \<times> db" where
  "process_listings eng w [] db = (Some (), db)"
| "process_listings eng w (l # ls) db =
     (case processListing eng w l db of
        (None, db) \<Rightarrow> (None, db) | (Some _, db) \<Rightarrow> process_listings eng w ls db)"

text \<open>The store as the paginator's checker: any error means that the listing is new.\<close>

definition store_checker :: "'s eworld listing_checker" where
  "store_checker ebayID world =
     (case world of (db, s) \<Rightarrow> case GetListing ebayID db of
        (Inl e, db) \<Rightarrow> (None, (db, s)) | (Inr l, db) \<Rightarrow> (Some l, (db, s)))"

definition world_search :: "'s engine \<Rightarrow> (search_error, 's eworld) ebay_client" where
  "world_search eng req world = (case world of (db, s) \<Rightarrow> case eg_search eng req s of (r, s) \<Rightarrow> (r, (db, s)))"

definition watch_request :: "watch \<Rightarrow> search_request" where
  "watch_request w = \<lparr> sr_Query = w_search_query w, sr_CategoryID = w_category_id w, sr_Limit = 0, sr_Offset = 0,
     sr_Sort = [], sr_Filters = [] \<rparr>"

text \<open>The listings found with the pages used.\<close>

definition find_listings :: "'s engine \<Rightarrow> watch \<Rightarrow> 's eworld \<Rightarrow> (search_error + listing list \<times> int) \<times> 's eworld" where
  "find_listings eng w world =
     (case eg_paginator eng of
        Some p \<Rightarrow> (case Paginate (eg_parse_time eng) (world_search eng) store_checker p (watch_request w) False world of
            (Inl (page, e), world) \<Rightarrow> (Inl e, world)
          | (Inr result, world) \<Rightarrow> (Inr (pr_NewListings result, pr_PagesUsed result), world))
      | None \<Rightarrow> (case world_search eng (watch_request w) world of
            (Inl e, world) \<Rightarrow> (Inl e, world)
          | (Inr resp, world) \<Rightarrow> (Inr (ToListings (eg_parse_time eng) (sp_Items resp), 1), world)))"

text \<open>The pages used beside the error; a failed search counts for no page.\<close>

definition processWatch :: "'s engine \<Rightarrow> watch \<Rightarrow> 's eworld \<Rightarrow> (int \<times> search_error option) option \<times> 's eworld" where
  "processWatch eng w world =
     (case find_listings eng w world of
        (Inl e, world) \<Rightarrow> (Some (0, Some e), world)
      | (Inr (listings, pagesUsed), (db, s)) \<Rightarrow>
          (case process_listings eng w listings db of
             (None, db) \<Rightarrow> (None, (db, s)) | (Some _, db) \<Rightarrow> (Some (pagesUsed, None), (db, s))))"

definition is_daily_limit :: "search_error \<Rightarrow> bool" where
  "is_daily_limit e = (case e of RateLimit (DailyLimitReached _ _) \<Rightarrow> True | _ \<Rightarrow> False)"

datatype loop_end = LoopDone | LoopCancelled

fun ingest_loop :: "'s engine \<Rightarrow> watch list \<Rightarrow> int \<Rightarrow> 's eworld \<Rightarrow> loop_end option \<times> 's eworld" where
  "ingest_loop eng [] totalPages world = (Some LoopDone, world)"
| "ingest_loop eng (w # ws) totalPages world =
     (if eg_done eng (snd world) then (Some LoopCancelled, world)
      else if totalPages \<ge> eg_maxCallsPerCycle eng then (Some LoopDone, world)
      else case processWatch eng w world of
        (None, world) \<Rightarrow> (None, world)
      | (Some (pagesUsed, err), (db, s)) \<Rightarrow>
          (let totalPages = totalPages + pagesUsed;
               db = snd (UpdateWatchLastPolled (w_id w) (go_now db) db)
           in case err of
                Some e \<Rightarrow> if is_daily_limit e then (Some LoopDone, (db, s)) else ingest_loop eng ws totalPages (db, s)
              | None \<Rightarrow>
                  if ws \<noteq> [] \<and> eg_staggerOffset eng > 0
                  then (case eg_stagger eng s of
                      (True, s) \<Rightarrow> (Some LoopCancelled, (db, s))
                    | (False, s) \<Rightarrow> ingest_loop eng ws totalPages (db, s))
                  else ingest_loop eng ws totalPages (db, s)))"

definition SyncQuota :: "'s engine \<Rightarrow> 's eworld \<Rightarrow> 's eworld" where
  "SyncQuota eng world =
     (case eg_analyticsClient eng of
        None \<Rightarrow> world
      | Some getQuota \<Rightarrow>
          (case world of (db, s) \<Rightarrow> case getQuota s of
             (Inl e, s) \<Rightarrow> (db, s)
           | (Inr q, s) \<Rightarrow>
               (let s = (case eg_rateLimiter eng of
                       None \<Rightarrow> s | Some sync \<Rightarrow> sync (qs_Count q) (qs_Limit q) (qs_ResetAt q) s)
                in (snd (PersistRateLimiterState (qs_Count q) (qs_Limit q) (qs_ResetAt q) db), s))))"

text \<open>The gauges that are set beside the database; none when the query fails.\<close>

definition SyncStateMetrics :: "db \<Rightarrow> (string \<times> int) list \<times> db" where
  "SyncStateMetrics db =
     (case GetSystemState db of
        (Inl e, db) \<Rightarrow> ([], db)
      | (Inr s, db) \<Rightarrow>
          ([(''WatchesTotal'', ss_watches_total s), (''WatchesEnabled'', ss_watches_enabled s),
            (''ListingsTotal'', ss_listings_total s), (''ListingsUnextracted'', ss_listings_unextracted s),
            (''ListingsUnscored'', ss_listings_unscored s), (''AlertsPending'', ss_alerts_pending s),
            (''BaselinesTotal'', ss_baselines_total s), (''BaselinesWarm'', ss_baselines_warm s),
            (''BaselinesCold'', ss_baselines_cold s), (''ProductKeysNoBaseline'', ss_product_keys_no_baseline s),
            (''ListingsIncompleteExtraction'', ss_listings_incomplete_extraction s),
            (''ExtractionQueueDepth'', ss_extraction_queue_depth s)], db))"

datatype ingest_error = ListingWatches db_error | ContextDone

text \<open>None beside the world is a panic, \<open>Some None\<close> the nil error.\<close>

definition RunIngestion :: "'s engine \<Rightarrow> 's eworld \<Rightarrow> ingest_error option option \<times> 's eworld" where
  "RunIngestion eng world =
     (case world of (db, s) \<Rightarrow> case ListWatches True db of
        (Inl e, db) \<Rightarrow> (Some (Some (ListingWatches e)), (db, s))
      | (Inr watches, db) \<Rightarrow>
          (case ingest_loop eng watches 0 (db, s) of
             (None, world) \<Rightarrow> (None, world)
           | (Some LoopCancelled, world) \<Rightarrow> (Some (Some ContextDone), world)
           | (Some LoopDone, world) \<Rightarrow>
               (let world = snd (ProcessAlerts (eg_notifier eng) (eg_visit eng) (eg_alertProcessing eng) world);
                    world = SyncQuota eng world
                in (Some None, (snd (SyncStateMetrics (fst world)), snd world)))))"

section \<open>Re-extraction\<close>

datatype reextract_error = ListingIncomplete db_error | ReextractCancelled

fun enqueue_all :: "'s engine \<Rightarrow> listing list \<Rightarrow> int \<Rightarrow> 's eworld \<Rightarrow> (int \<times> reextract_error option) \<times> 's eworld" where
  "enqueue_all eng [] enqueued world = ((enqueued, None), world)"
| "enqueue_all eng (l # ls) enqueued (db, s) =
     (if eg_done eng s then ((enqueued, Some ReextractCancelled), (db, s))
      else case EnqueueExtraction (trace_text eng) (l_id l) 1 db of
        (Inl e, db) \<Rightarrow> enqueue_all eng ls enqueued (db, s)
      | (Inr _, db) \<Rightarrow> enqueue_all eng ls (enqueued + 1) (db, s))"

definition RunReExtraction :: "'s engine \<Rightarrow> string \<Rightarrow> int \<Rightarrow> 's eworld \<Rightarrow> (int \<times> reextract_error option) \<times> 's eworld" where
  "RunReExtraction eng componentType lmt world =
     (case world of (db, s) \<Rightarrow>
      let lmt = (if lmt \<le> 0 then 100 else lmt) in
      case ListIncompleteExtractions componentType lmt db of
        (Inl e, db) \<Rightarrow> ((0, Some (ListingIncomplete e)), (db, s))
      | (Inr listings, db) \<Rightarrow>
          if listings = [] then ((0, None), (db, s)) else enqueue_all eng listings 0 (db, s))"

end
