(* ===== verification/EngineLaws.thy ===== *)
theory EngineLaws
  imports Engine AlertWorld
begin

text \<open>
  What the engine does to the store: when an alert is created, that rescoring with alerts walks over every
  active listing, that a worker completes every job it claims and drains the queue, and that ingestion
  itself never raises an alert.
\<close>

section \<open>Alert evaluation\<close>

context db_part
begin

lemma evaluate:
  assumes "\<And>w l s t db. part (snd (queryCreateAlert w l s t db)) = part db"
  shows "part (snd (evaluateAlert eng w l db)) = part db"
proof -
  obtain r db1 where 1: "HasRecentAlert (w_id w) (l_id l) (alc_ReAlertsCooldown (eg_alertsConfig eng)) db = (r, db1)" by fastforce
  have "part db1 = part db" using other_reads(3) [of "w_id w" "l_id l" "alc_ReAlertsCooldown (eg_alertsConfig eng)" db] by (simp add: 1)
  moreover note create_alert [OF assms]
  ultimately show ?thesis
    by (auto simp: evaluateAlert_def 1 split: option.split bool.split sum.split)
qed

lemma evaluate_all:
  assumes "\<And>w l s t db. part (snd (queryCreateAlert w l s t db)) = part db"
  shows "part (snd (evaluate_watches eng ws l db)) = part db" and "part (snd (evaluateAlertsForListing eng l db)) = part db"
proof -
  show all: "part (snd (evaluate_watches eng ws l db)) = part db" for ws db
  proof (induction ws arbitrary: db)
    case (Cons w ws)
    obtain r db1 where 1: "evaluateAlert eng w l db = (r, db1)" by fastforce
    have "part db1 = part db" using evaluate [OF assms, of eng w l db] by (simp add: 1)
    then show ?case using Cons.IH by (auto simp: 1 split: option.split)
  qed simp
  obtain r db1 where 1: "ListWatches True db = (r, db1)" by fastforce
  have "part db1 = part db" using other_reads(2) [of True db] by (simp add: 1)
  then show "part (snd (evaluateAlertsForListing eng l db)) = part db"
    using all by (auto simp: evaluateAlertsForListing_def 1 split: sum.split)
qed

end

lemma good_evaluateAlert: "good db \<Longrightarrow> good (snd (evaluateAlert eng w l db))"
proof -
  assume g: "good db"
  obtain r db1 where 1: "HasRecentAlert (w_id w) (l_id l) (alc_ReAlertsCooldown (eg_alertsConfig eng)) db = (r, db1)" by fastforce
  have "good db1" using keepsD [OF keeps_HasRecentAlert g, of "w_id w" "l_id l" "alc_ReAlertsCooldown (eg_alertsConfig eng)"] by (simp add: 1)
  then show ?thesis using g keepsD [OF keeps_CreateAlert]
    by (auto simp: evaluateAlert_def 1 split: option.split bool.split sum.split)
qed

lemma good_evaluate_watches: "good db \<Longrightarrow> good (snd (evaluate_watches eng ws l db))"
proof (induction ws arbitrary: db)
  case (Cons w ws)
  obtain r db1 where 1: "evaluateAlert eng w l db = (r, db1)" by fastforce
  have "good db1" using good_evaluateAlert [OF Cons.prems, of eng w l] by (simp add: 1)
  then show ?case using Cons by (auto simp: 1 split: option.split)
qed simp

lemma good_evaluateAlertsForListing: "good db \<Longrightarrow> good (snd (evaluateAlertsForListing eng l db))"
proof -
  assume g: "good db"
  obtain r db1 where 1: "ListWatches True db = (r, db1)" by fastforce
  have "good db1" using keepsD [OF keeps_watches(2) g, of True] by (simp add: 1)
  then show ?thesis using g good_evaluate_watches by (auto simp: evaluateAlertsForListing_def 1 split: sum.split)
qed

text \<open>When an alert is due: the score reaches the threshold, the filters accept the listing, nothing was
  notified within the cooldown, and no alert for the pair is pending.\<close>

definition notified_since :: "instant \<Rightarrow> string \<Rightarrow> string \<Rightarrow> db \<Rightarrow> bool" where
  "notified_since cutoff wi li db \<longleftrightarrow> (\<exists>a\<in>set (db_alerts db). a_watch_id a = wi \<and> a_listing_id a = li \<and> a_notified a
     \<and> (case a_notified_at a of None \<Rightarrow> False | Some t \<Rightarrow> cutoff < t))"

definition pending_for :: "string \<Rightarrow> string \<Rightarrow> db \<Rightarrow> bool" where
  "pending_for wi li db \<longleftrightarrow> (\<exists>a\<in>set (db_alerts db). a_watch_id a = wi \<and> a_listing_id a = li \<and> \<not> a_notified a)"

definition alert_due :: "'s engine \<Rightarrow> watch \<Rightarrow> listing \<Rightarrow> db \<Rightarrow> bool" where
  "alert_due eng w l db \<longleftrightarrow> (case l_score l of None \<Rightarrow> False | Some s \<Rightarrow> w_score_threshold w \<le> s)
     \<and> filters_match (w_filters w) l = Some True
     \<and> (if alc_ReAlertsCooldown (eg_alertsConfig eng) > 0 then \<not> notified_since (go_now db - alc_ReAlertsCooldown (eg_alertsConfig eng)) (w_id w) (l_id l) db else True)
     \<and> \<not> pending_for (w_id w) (l_id l) db"

lemma HasRecentAlert_fault_free:
  "fault_free (db_server db) \<Longrightarrow> HasRecentAlert wi li c db
     = (Inr (notified_since (go_now db - c) wi li db), db\<lparr> db_stmts := db_stmts db + 1 \<rparr>)"
  by (simp add: HasRecentAlert_def run_fault_free queryHasRecentAlert_def notified_since_def)

lemma CreateAlert_fault_free:
  assumes "fault_free (db_server db)" and "a_watch_id a \<in> w_id ` set (db_watches db)" and "a_listing_id a \<in> lr_id ` set (db_listings db)"
  shows "db_alerts (snd (CreateAlert a db)) = db_alerts db @ (if pending_for (a_watch_id a) (a_listing_id a) db then []
    else [\<lparr> a_id = fresh db, a_watch_id = a_watch_id a, a_listing_id = a_listing_id a, a_score = a_score a,
            a_notified = False, a_notified_at = None, a_created_at = now db, a_dismissed_at = None,
            a_trace_id = nullif (case a_trace_id a of Some t \<Rightarrow> t | None \<Rightarrow> []) \<rparr>])"
proof -
  have rows: "\<exists>w\<in>set (db_watches db). w_id w = a_watch_id a" "\<exists>r\<in>set (db_listings db). lr_id r = a_listing_id a"
    using assms(2,3) by (auto simp: image_iff)
  show ?thesis
  proof (cases "pending_for (a_watch_id a) (a_listing_id a) db")
    case True
    then have "queryCreateAlert (a_watch_id a) (a_listing_id a) sc tr db = (Inl NoRows, db)" for sc tr
      unfolding pending_for_def by (simp add: queryCreateAlert_def)
    then show ?thesis using True assms(1) by (simp add: CreateAlert_def run_fault_free)
  next
    case False
    then have "\<not> (\<exists>aa\<in>set (db_alerts db). a_watch_id aa = a_watch_id a \<and> a_listing_id aa = a_listing_id a \<and> \<not> a_notified aa)"
      unfolding pending_for_def by simp
    then show ?thesis using False assms(1) rows by (simp add: CreateAlert_def run_fault_free queryCreateAlert_def del: bex_simps)
  qed
qed

lemma views_of_stmts [simp]:
  "notified_since c wi li (db\<lparr> db_stmts := n \<rparr>) = notified_since c wi li db"
  "pending_for wi li (db\<lparr> db_stmts := n \<rparr>) = pending_for wi li db" "fresh (db\<lparr> db_stmts := n \<rparr>) = fresh db"
  by (simp_all add: notified_since_def pending_for_def fresh_def)

text \<open>C9. When an alert is created. With a server that does not fail, evaluating a watch on a stored listing
  appends one pending alert for the pair, with the listing's score, exactly when an alert is due, and
  changes no alert otherwise.\<close>

theorem evaluateAlert_creates:
  assumes "fault_free (db_server db)" and "w_id w \<in> w_id ` set (db_watches db)" and "l_id l \<in> lr_id ` set (db_listings db)"
  shows "\<exists>a. db_alerts (snd (evaluateAlert eng w l db)) = db_alerts db @ (if alert_due eng w l db then [a] else [])
    \<and> a_watch_id a = w_id w \<and> a_listing_id a = l_id l \<and> \<not> a_notified a \<and> a_id a = fresh db
    \<and> (case l_score l of None \<Rightarrow> True | Some s \<Rightarrow> a_score a = s)"
proof -
  define n where "n = db_stmts db + 1"
  have ff: "fault_free (db_server (db\<lparr> db_stmts := n \<rparr>))" using assms(1) by simp
  note create = CreateAlert_fault_free [OF assms(1), of "new_alert eng w l s" for s]
    CreateAlert_fault_free [OF ff, of "new_alert eng w l s" for s]
  show ?thesis
  proof (cases "l_score l")
    case None
    then show ?thesis
      by (intro exI [of _ "(new_alert eng w l 0)\<lparr> a_id := fresh db \<rparr>"]) (simp add: evaluateAlert_def alert_due_def new_alert_def)
  next
    case (Some s)
    let ?a = "\<lambda>t. \<lparr> a_id = fresh db, a_watch_id = w_id w, a_listing_id = l_id l, a_score = s, a_notified = False,
        a_notified_at = None, a_created_at = t, a_dismissed_at = None, a_trace_id = nullif (case eg_trace eng of Some t \<Rightarrow> t | None \<Rightarrow> []) \<rparr>"
    have "\<exists>t. db_alerts (snd (evaluateAlert eng w l db)) = db_alerts db @ (if alert_due eng w l db then [?a t] else [])"
      using assms Some create [of s]
      by (auto simp: evaluateAlert_def alert_due_def HasRecentAlert_fault_free new_alert_def n_def
          split: option.split bool.split)
    then show ?thesis using Some by auto
  qed
qed

section \<open>Rescoring with alerts\<close>

interpretation marks: db_part scored
  by unfold_locales simp

lemma alert_views:
  "scoring_view (snd (evaluateAlertsForListing eng l db)) = scoring_view db"
  "scored (snd (evaluateAlertsForListing eng l db)) = scored db"
  by (rule view.evaluate_all marks.evaluate_all; simp add: queryCreateAlert_def scoring_view_def scored_def fun_eq_iff)+

lemma score_and_alert_laws:
  assumes "score_and_alert eng ls db = (r, db')"
  shows "scoring_view db' = scoring_view db \<and> (good db \<longrightarrow> good db' \<and>
    (core ` set ls \<subseteq> set (fst (scoring_view db)) \<longrightarrow> (\<forall>i. scored db i \<longrightarrow> scored db' i)
       \<and> (\<forall>n. r = Some (n, []) \<longrightarrow> n = int (length ls) \<and> (\<forall>l\<in>set ls. scored db' (l_id l)))))"
  using assms
proof (induction ls arbitrary: db r)
  case (Cons l ls)
  obtain e l' db1 where one: "ScoreListing (eg_fmt eng) l db = ((e, l'), db1)" by (metis prod.exhaust)
  have v: "scoring_view db1 = scoring_view db" using view_ScoreListing [of "eg_fmt eng" l db] by (simp add: one)
  have g: "good db1" if "good db" using good_ScoreListing [OF that, of "eg_fmt eng" l] by (simp add: one)
  note effect = score_effect [OF one]
  obtain p db2 where two: "(if e = None then evaluateAlertsForListing eng l' db1 else (Some (), db1)) = (p, db2)" by fastforce
  have v2: "scoring_view db2 = scoring_view db1" and s2: "scored db2 = scored db1"
    using alert_views [of eng l' db1] two by (auto split: if_splits)
  have g2: "good db2" if "good db1" using good_evaluateAlertsForListing [OF that, of eng l'] two that by (auto split: if_splits)
  obtain r3 db3 where rest: "score_and_alert eng ls db2 = (r3, db3)" by fastforce
  show ?case
  proof (cases p)
    case None
    then have "r = None" "db' = db2" using Cons.prems one two by (auto split: option.splits if_splits prod.splits)
    then show ?thesis using v g v2 s2 g2 effect by auto
  next
    case (Some u)
    have res: "db' = db3" "r = (case r3 of None \<Rightarrow> None | Some (n, es) \<Rightarrow>
        if e = None then Some (n + 1, es) else Some (n, ScoringFailed (l_id l) (the e) # es))"
      using Cons.prems one two Some rest by (auto split: option.splits if_splits prod.splits)
    show ?thesis
      using Cons.IH [OF rest [folded res(1)]] v g v2 s2 g2 effect res by (auto simp: image_subset_iff split: option.splits if_splits)
  qed
qed simp

interpretation engine_rescoring: rescoring "score_and_alert eng"
  using score_and_alert_laws by unfold_locales (blast, metis)

text \<open>C7. The engine's rescoring. \<open>RescoreAll\<close> of the engine ends whatever the server does; unless a filter
  panics or an error is reported, it has counted every active listing and left every active listing that has
  a product key with its score, whatever alerts it raised on the way.\<close>

theorem EngineRescoreAll_complete:
  assumes "good db" and "\<forall>r\<in>set (db_listings db). nil_uuid < lr_id r"
  shows "\<exists>res db'. EngineRescoreAll eng db = Some (res, db') \<and> good db' \<and> (\<forall>n. res = Some (n, []) \<longrightarrow>
    n = int (length (filter lr_active (db_listings db)))
    \<and> (\<forall>r\<in>set (db_listings db'). lr_active r \<and> l_product_key (scanListing r) \<noteq> [] \<longrightarrow>
         (\<exists>k. lr_score r = Some (score_at db' (sv_goclock (db_server db') k) (scanListing r)))))"
proof -
  obtain res db' where run: "EngineRescoreAll eng db = Some (res, db')" and view: "scoring_view db' = scoring_view db"
    and g: "good db'" and c: "\<And>n. res = Some (n, []) \<Longrightarrow> n = int (length (ahead [] db)) \<and> (\<forall>i\<in>set (ahead [] db). scored db' i)"
    using engine_rescoring.ends [of eng "[]" 0 "[]" db] assms(1)
    by (fastforce simp: EngineRescoreAll_def engine_rescoring.complete_def)
  have "n = int (length (filter lr_active (db_listings db)))
      \<and> (\<forall>r\<in>set (db_listings db'). lr_active r \<and> l_product_key (scanListing r) \<noteq> [] \<longrightarrow>
           (\<exists>k. lr_score r = Some (score_at db' (sv_goclock (db_server db') k) (scanListing r))))"
    if "res = Some (n, [])" for n
  proof -
    have "n = int (length (ahead [] db))" and walked: "\<forall>i\<in>set (ahead [] db). scored db' i"
      using c [OF that] by simp_all
    then show ?thesis using active_scored [OF view walked assms(2)] by (simp add: ahead_all [OF assms(2)] length_active_ids)
  qed
  then show ?thesis using run g by blast
qed

section \<open>Extraction jobs\<close>

definition completed :: "instant \<Rightarrow> string \<Rightarrow> queue_row \<Rightarrow> queue_row" where
  "completed t err j = j\<lparr> eq_completed_at := Some t, eq_error_text := nullif err \<rparr>"

text \<open>The parts of the database a job leaves alone before it completes.\<close>

definition job_part :: "db \<Rightarrow> queue_row list \<times> server" where "job_part db = (db_queue db, db_server db)"

interpretation job: db_part job_part
  by unfold_locales (simp add: job_part_def)

lemma job_part_updates [simp]:
  "job_part (snd (queryCreateAlert w l sc t db)) = job_part db"
  "job_part (snd (queryUpdateScore i sc b db)) = job_part db"
  "job_part (snd (queryUpdateListingExtraction i ct attrs c pk db)) = job_part db"
  by (simp_all add: queryCreateAlert_def queryUpdateScore_def queryUpdateListingExtraction_def job_part_def split: option.split)

lemma job_part_UpdateScore: "job_part (snd (UpdateScore i sc b db)) = job_part db"
  unfolding UpdateScore_def by (rule job.run) simp

lemma job_part_extraction: "job_part (snd (UpdateListingExtraction i ct attrs c pk db)) = job_part db"
  by (auto simp: UpdateListingExtraction_def intro: job.run split: option.split)

lemma job_part_ScoreListing: "job_part (snd (ScoreListing fmt l db)) = job_part db"
proof -
  obtain e l' db' where s: "ScoreListing fmt l db = ((e, l'), db')" by (metis prod.exhaust)
  from s show ?thesis
  proof (cases rule: ScoreListing_cases)
    case (written n js r sc)
    then show ?thesis using job_part_UpdateScore [of "l_id l" sc js "db\<lparr> db_stmts := n \<rparr>"] by (simp add: s job_part_def)
  qed (simp_all add: s job_part_def)
qed

lemma completeJob_fault_free:
  "fault_free (db_server db) \<Longrightarrow> db_queue (completeJob i err db)
     = update_where (\<lambda>j. eq_id j = i) (completed (now db) err) (db_queue db) \<and> db_server (completeJob i err db) = db_server db"
  by (simp add: completeJob_def CompleteExtractionJob_def run_fault_free queryCompleteExtractionJob_def completed_def [abs_def])

lemma good_completeJob: "good db \<Longrightarrow> good (completeJob i err db)"
  unfolding completeJob_def by (rule keepsD [OF keeps_queue(3)])

text \<open>Every path that does not panic ends in completing the job.\<close>

lemma job_ends:
  assumes "processExtractionJob eng job (db, s) = (r, (db', s'))"
  obtains (panic) "r = None" "job_part db' = job_part db" "good db \<Longrightarrow> good db'"
  | (complete) db1 err where "r = Some ()" "db' = completeJob (ej_id job) err db1" "job_part db1 = job_part db" "good db \<Longrightarrow> good db1"
proof -
  obtain r1 db1 where get: "GetListingByID (ej_listing_id job) db = (r1, db1)" by fastforce
  have 1: "job_part db1 = job_part db" "good db \<Longrightarrow> good db1"
    using job.listing_reads(1) [of "ej_listing_id job" db] keepsD [OF keeps_listings(3), of db "ej_listing_id job"] by (simp_all add: get)
  show ?thesis
  proof (cases r1)
    case (Inl e)
    then show ?thesis using assms get 1 by (auto simp: processExtractionJob_def intro: complete)
  next
    case (Inr l)
    obtain ct res s1 where ex: "eg_extract eng (l_title l) s = ((ct, res), s1)" by (metis prod.exhaust)
    show ?thesis
    proof (cases res)
      case (Inl e)
      then show ?thesis using assms get Inr ex 1
        by (cases "e = NilMapPanic") (auto simp: processExtractionJob_def intro: panic complete)
    next
      case attrs: (Inr attrs)
      obtain r2 db2 where upd: "UpdateListingExtraction (l_id l) ct attrs (fl (9 / 10)) (ProductKey ct attrs) db1 = (r2, db2)" by fastforce
      have 2: "job_part db2 = job_part db" "good db \<Longrightarrow> good db2"
        using 1 job_part_extraction [of "l_id l" ct attrs "fl (9 / 10)" "ProductKey ct attrs" db1]
          keepsD [OF keeps_UpdateListingExtraction, of db1 "l_id l" ct attrs "fl (9 / 10)" "ProductKey ct attrs"] by (simp_all add: upd)
      show ?thesis
      proof (cases r2)
        case (Inl e)
        then show ?thesis using assms get Inr ex attrs upd 2 by (auto simp: processExtractionJob_def Let_def intro: complete)
      next
        case ok: (Inr u)
        let ?l = "l\<lparr> l_product_key := ProductKey ct attrs, l_component_type := ct \<rparr>"
        obtain e l' db3 where score: "ScoreListing (eg_fmt eng) ?l db2 = ((e, l'), db3)" by (metis prod.exhaust)
        have 3: "job_part db3 = job_part db" "good db \<Longrightarrow> good db3"
          using 2 job_part_ScoreListing [of "eg_fmt eng" ?l db2] good_ScoreListing [of db2 "eg_fmt eng" ?l] by (simp_all add: score)
        obtain r4 db4 where alerts: "evaluateAlertsForListing eng l' db3 = (r4, db4)" by fastforce
        have 4: "job_part db4 = job_part db" "good db \<Longrightarrow> good db4"
          using 3 job.evaluate_all(2) [of eng l' db3] good_evaluateAlertsForListing [of db3 eng l'] by (simp_all add: alerts)
        show ?thesis
          using assms get Inr ex attrs upd ok score alerts 3 4
          by (cases e; cases r4) (auto simp: processExtractionJob_def Let_def intro: panic complete)
      qed
    qed
  qed
qed

section \<open>Draining the queue\<close>

definition finished_ids :: "db \<Rightarrow> string set" where
  "finished_ids db = eq_id ` {j \<in> set (db_queue db). \<not> unfinished j}"

lemma completed_simps [simp]: "eq_id (completed t err j) = eq_id j" "\<not> claimable (completed t err j)" "\<not> unfinished (completed t err j)"
  by (simp_all add: completed_def claimable_def unfinished_def)

lemma claimed_one: "claimed 1 db = (case sort_key queue_key (filter claimable (db_queue db)) of [] \<Rightarrow> [] | j # _ \<Rightarrow> [j])"
  by (simp add: claimed_def split: list.split)

lemma claimed_none: "claimed 1 db = [] \<Longrightarrow> open_ids db = {}"
proof -
  assume "claimed 1 db = []"
  then have "set (sort_key queue_key (filter claimable (db_queue db))) = {}" by (simp add: claimed_def)
  then show "open_ids db = {}" unfolding set_sort by (auto simp: open_ids_def)
qed

lemma ids_update:
  assumes "\<And>j. eq_id (f j) = eq_id j" and "\<And>j. Q j \<Longrightarrow> Q (f j)"
  shows "eq_id ` {j \<in> set xs. Q j} \<subseteq> eq_id ` {j \<in> set (update_where P f xs). Q j}"
proof
  fix i assume "i \<in> eq_id ` {j \<in> set xs. Q j}"
  then obtain j where j: "j \<in> set xs" "Q j" "i = eq_id j" by blast
  then have "(if P j then f j else j) \<in> {j \<in> set (update_where P f xs). Q j}"
    using assms(2) by (auto simp: update_where_def)
  moreover have "i = eq_id (if P j then f j else j)" using j(3) assms(1) by simp
  ultimately show "i \<in> eq_id ` {j \<in> set (update_where P f xs). Q j}" by (rule rev_image_eqI)
qed

lemma finished_update:
  assumes "db_queue db' = update_where P f (db_queue db)" and "\<And>j. eq_id (f j) = eq_id j"
    and "\<And>j. \<not> unfinished j \<Longrightarrow> \<not> unfinished (f j)"
  shows "finished_ids db \<subseteq> finished_ids db'" "eq_id ` set (db_queue db) \<subseteq> eq_id ` set (db_queue db')"
  using ids_update [of f "\<lambda>j. \<not> unfinished j" "db_queue db" P] ids_update [of f "\<lambda>j. True" "db_queue db" P] assms
  by (simp_all add: finished_ids_def)

lemma open_update:
  assumes "db_queue db' = update_where (\<lambda>j. eq_id j \<in> S) f (db_queue db)"
    and "\<And>j. eq_id (f j) = eq_id j" and "\<And>j. \<not> claimable (f j)"
  shows "open_ids db' = open_ids db - S"
  using assms by (force simp: open_ids_def update_where_def image_iff split: if_splits)

lemma finite_open: "finite (open_ids db)"
  by (simp add: open_ids_def)

text \<open>One round of a worker that finds a job and does not panic.\<close>

lemma round_effect:
  assumes "fault_free (db_server db)" and g: "good db" and "DequeueExtractions w 1 db = (Inr (jb # jobs), db1)"
    and "processExtractionJob eng jb (db1, s) = (Some u, (db', s'))"
  shows "good db' \<and> db_server db' = db_server db \<and> ej_id jb \<in> open_ids db
    \<and> open_ids db' = open_ids db - {ej_id jb} \<and> insert (ej_id jb) (finished_ids db) \<subseteq> finished_ids db'"
proof -
  note ans = dequeue_answer [OF assms(3)]
  have "ej_id jb \<in> set (map eq_id (claimed 1 db))" using ans by (metis list.set_intros(1) list.simps(9))
  then have op: "ej_id jb \<in> open_ids db" using claimed_open [of 1 db] by blast
  have g1: "good db1" using keepsD [OF keeps_queue(2) g, of w 1] by (simp add: assms(3))
  have q1: "db_queue db1 = update_where (\<lambda>j. eq_id j \<in> set (map eq_id (claimed 1 db))) (claim w (now db)) (db_queue db)"
    "db_server db1 = db_server db"
    using assms(1,3) by (auto simp: DequeueExtractions_def bind_db_def run_fault_free queryDequeueExtractions_def Let_def return_db_def)
  have ids: "set (map eq_id (claimed 1 db)) = {ej_id jb}"
    using ans claimed_one [of db] by (auto split: list.splits)
  have o1: "open_ids db1 = open_ids db - {ej_id jb}"
    unfolding ids [symmetric] by (rule open_update [OF q1(1)]) simp_all
  have fin1: "finished_ids db \<subseteq> finished_ids db1" "ej_id jb \<in> eq_id ` set (db_queue db1)"
    using finished_update [OF q1(1)] op by (auto simp: open_ids_def)
  from assms(4) show ?thesis
  proof (cases rule: job_ends)
    case (complete db2 err)
    have q2: "db_queue db2 = db_queue db1" "db_server db2 = db_server db1" using complete(3) by (simp_all add: job_part_def)
    then have q': "db_queue db' = update_where (\<lambda>j. eq_id j \<in> {ej_id jb}) (completed (now db2) err) (db_queue db1)" "db_server db' = db_server db1"
      using completeJob_fault_free [of db2 "ej_id jb" err] complete(2) assms(1) q1(2) by simp_all
    have "open_ids db' = open_ids db1 - {ej_id jb}" by (rule open_update [OF q'(1)]) simp_all
    moreover have "finished_ids db1 \<subseteq> finished_ids db'" by (rule finished_update [OF q'(1)]) simp_all
    moreover have "ej_id jb \<in> finished_ids db'"
    proof -
      obtain j where j: "j \<in> set (db_queue db1)" "eq_id j = ej_id jb" using fin1(2) by (metis imageE)
      then have "completed (now db2) err j \<in> set (db_queue db')" by (force simp: q'(1) update_where_def)
      then show ?thesis using j(2) by (force simp: finished_ids_def)
    qed
    moreover have "good db'" using complete(2,4) g1 good_completeJob by simp
    ultimately show ?thesis using op o1 fin1(1) q'(2) q1(2) by auto
  qed simp
qed

lemma worker_progress:
  assumes "fault_free (db_server db)" and "good db" and "\<And>s. \<not> eg_done eng s"
    and "runExtractionWorker eng w n (db, s) = (Some u, (db', s'))" and "card (open_ids db) \<le> n"
  shows "open_ids db' = {} \<and> open_ids db \<union> finished_ids db \<subseteq> finished_ids db'"
  using assms(1,2,4,5)
proof (induction n arbitrary: db s)
  case 0
  have "finite (open_ids db)" by (simp add: open_ids_def)
  then show ?case using 0 by simp
next
  case (Suc n)
  obtain r db1 where deq: "DequeueExtractions w 1 db = (r, db1)" by fastforce
  have r: "r = Inr (map (scan_job \<circ> claim w (now db)) (claimed 1 db))"
    using deq Suc.prems(1) by (auto simp: DequeueExtractions_def bind_db_def run_fault_free queryDequeueExtractions_def Let_def return_db_def)
  have g1: "good db1" using keepsD [OF keeps_queue(2) Suc.prems(2), of w 1] by (simp add: deq)
  show ?case
  proof (cases "claimed 1 db")
    case Nil
    have "db_queue db1 = db_queue db" "db_server db1 = db_server db"
      using deq Suc.prems(1) Nil by (auto simp: DequeueExtractions_def bind_db_def run_fault_free queryDequeueExtractions_def Let_def
          return_db_def update_where_def)
    then have same: "open_ids db1 = open_ids db" "finished_ids db1 = finished_ids db" "fault_free (db_server db1)"
      using Suc.prems(1) by (simp_all add: open_ids_def finished_ids_def)
    have "runExtractionWorker eng w n (db1, eg_sleep eng s) = (Some u, (db', s'))"
      using Suc.prems(3) deq r Nil assms(3) by simp
    from Suc.IH [OF same(3) g1 this] show ?thesis using claimed_none [OF Nil] same by simp
  next
    case (Cons j js)
    then obtain jb jobs where jb: "r = Inr (jb # jobs)" using r by simp
    obtain x db2 s2 where p: "processExtractionJob eng jb (db1, s) = (x, (db2, s2))" by (metis prod.exhaust)
    have loop: "x = Some ()" "runExtractionWorker eng w n (db2, s2) = (Some u, (db', s'))"
      using Suc.prems(3) deq jb p assms(3) by (auto split: option.splits)
    note eff = round_effect [OF Suc.prems(1,2) deq [unfolded jb] p [unfolded loop(1)]]
    have "card (open_ids db2) < card (open_ids db)"
      by (rule psubset_card_mono) (use eff in \<open>auto simp: finite_open\<close>)
    then have "card (open_ids db2) \<le> n" using Suc.prems(4) by simp
    with Suc.IH [OF _ _ loop(2)] eff Suc.prems(1) have "open_ids db' = {}" "open_ids db2 \<union> finished_ids db2 \<subseteq> finished_ids db'"
      by simp_all
    then show ?thesis using eff by blast
  qed
qed

text \<open>C3. A worker drains the queue. With a server that does not fail, a worker that runs for as many rounds as
  there are jobs to claim and does not panic leaves no job to claim: every one of them is completed,
  whether its listing was found, extracted, scored or not.\<close>

theorem worker_drains:
  assumes "fault_free (db_server db)" and "good db" and "\<And>s. \<not> eg_done eng s"
    and "runExtractionWorker eng w n (db, s) = (Some u, (db', s'))" and "length (filter claimable (db_queue db)) \<le> n"
  shows "filter claimable (db_queue db') = []
    \<and> (\<forall>j\<in>set (db_queue db). claimable j \<longrightarrow> (\<exists>k\<in>set (db_queue db'). eq_id k = eq_id j \<and> eq_completed_at k \<noteq> None))"
proof -
  have "open_ids db = set (map eq_id (filter claimable (db_queue db)))" by (auto simp: open_ids_def)
  then have "card (open_ids db) \<le> n"
    using card_length [of "map eq_id (filter claimable (db_queue db))"] assms(5) by simp
  from worker_progress [OF assms(1-4) this] have "open_ids db' = {}" "open_ids db \<subseteq> finished_ids db'" by simp_all
  then show ?thesis
    by (fastforce simp: open_ids_def finished_ids_def unfinished_def filter_empty_conv)
qed

text \<open>An engine for examples: a model that never answers with JSON, nothing to notify.\<close>

definition quiet_ops :: "'w alert_ops" where
  "quiet_ops = \<lparr> op_pending = (\<lambda>w. (Inr [], w)), op_watch = (\<lambda>i w. (Inl NoRows, w)), op_listing = (\<lambda>i w. (Inl NoRows, w)),
     op_has_success = (\<lambda>i w. (Inr False, w)), op_attempt = (\<lambda>i ok err w. (Inr (), w)), op_mark = (\<lambda>i w. (Inr (), w)),
     op_mark_all = (\<lambda>ids w. (Inr (), w)), op_send = (\<lambda>p w. (None, w)), op_send_batch = (\<lambda>ps nm w. ((int (length ps), None), w)),
     op_error_text = (\<lambda>e. []) \<rparr>"

definition quiet_engine :: "unit engine" where
  "quiet_engine = NewEngine \<lparr> eg_search = (\<lambda>req s. (Inl BodyFailed, s)), eg_parse_time = (\<lambda>t. None),
     eg_extract = (\<lambda>t s. (([], Inl xerr.ParseFailed), s)), eg_notifier = quiet_ops, eg_visit = id, eg_done = (\<lambda>s. False),
     eg_sleep = id, eg_stagger = (\<lambda>s. (False, s)), eg_fmt = (\<lambda>q. ''0''), eg_error_text = (\<lambda>e. ''failed''), eg_trace = None,
     eg_paginator = None, eg_analyticsClient = None, eg_rateLimiter = None, eg_maxCallsPerCycle = 0,
     eg_baselineWindowDays = 0, eg_staggerOffset = 0, eg_alertsConfig = \<lparr> alc_ReAlertsCooldown = 0 \<rparr>,
     eg_alertProcessing = \<lparr> ac_SummaryOnly = False, ac_AlertsURLBase = [] \<rparr>, eg_workerCount = 0 \<rparr> []"

theorem evaluateAlert_creates_witness:
  "length (db_alerts (snd (evaluateAlert quiet_engine demo_watch ((scanListing demo_listing)\<lparr> l_score := Some 90 \<rparr>)
     ((demo_db plain_server)\<lparr> db_alerts := [] \<rparr>)))) = 1"
proof -
  have "fault_free (db_server ((demo_db plain_server)\<lparr> db_alerts := [] \<rparr>))" by (simp add: demo_db_def empty_db_def plain_fault_free)
  moreover have "alert_due quiet_engine demo_watch ((scanListing demo_listing)\<lparr> l_score := Some 90 \<rparr>)
      ((demo_db plain_server)\<lparr> db_alerts := [] \<rparr>)"
    by code_simp
  ultimately show ?thesis
    using evaluateAlert_creates [of "(demo_db plain_server)\<lparr> db_alerts := [] \<rparr>" demo_watch
        "(scanListing demo_listing)\<lparr> l_score := Some 90 \<rparr>" quiet_engine]
    by (auto simp: demo_db_def empty_db_def scanListing_def demo_listing_def inserted_row_def)
qed

theorem EngineRescoreAll_complete_witness:
  "\<exists>db'. EngineRescoreAll quiet_engine shop = Some (Some (1, []), db')
    \<and> (\<forall>r\<in>set (db_listings db'). lr_active r \<and> l_product_key (scanListing r) \<noteq> [] \<longrightarrow>
         (\<exists>k. lr_score r = Some (score_at db' (sv_goclock (db_server db') k) (scanListing r))))"
proof -
  have "map_option fst (EngineRescoreAll quiet_engine shop) = Some (Some (1, []))" by code_simp
  then show ?thesis using EngineRescoreAll_complete [OF good_shop shop_ids, of quiet_engine] by force
qed

lemma quiet_runs: "fst (runExtractionWorker quiet_engine ''worker-0'' 1 (queue_db, ())) = Some ()"
  by code_simp

theorem worker_drains_witness:
  "filter claimable (db_queue (fst (snd (runExtractionWorker quiet_engine ''worker-0'' 1 (queue_db, ()))))) = []"
proof -
  obtain u db' x where "runExtractionWorker quiet_engine ''worker-0'' 1 (queue_db, ()) = (u, (db', x))" by (metis prod.exhaust)
  then have run: "runExtractionWorker quiet_engine ''worker-0'' 1 (queue_db, ()) = (Some (), (db', x))"
    using quiet_runs by simp
  have "fault_free (db_server queue_db)" by (simp add: queue_db_def empty_db_def plain_fault_free)
  moreover have "\<not> eg_done quiet_engine s" for s by (simp add: quiet_engine_def NewEngine_def)
  moreover have "length (filter claimable (db_queue queue_db)) \<le> 1" by (simp add: queue_db_def)
  ultimately show ?thesis using worker_drains [OF _ good_queue_db _ run] run by simp
qed

section \<open>Ingestion\<close>

lemma converted_unscored: "l_score (toListing parse_time item) = None"
  by (simp add: toListing_def Let_def zero_listing_def split: option.split list.split)

text \<open>A part of the database that upserting and enqueuing leave alone is left alone by ingestion.\<close>

context db_part
begin

lemma checker: "part (fst (snd (store_checker i world))) = part (fst world)"
  using listing_reads(2) [of i "fst world"] by (auto simp: store_checker_def split: prod.splits sum.splits)

lemma searching: "part (fst (snd (world_search eng req world))) = part (fst world)"
  by (auto simp: world_search_def split: prod.splits)

lemma page:
  assumes "page_loop store_checker ls result world = ((result', found), world')"
  shows "part (fst world') = part (fst world) \<and> set (pr_NewListings result') \<subseteq> set (pr_NewListings result) \<union> set ls"
  using assms
proof (induction ls arbitrary: result world)
  case (Cons l ls)
  obtain r w1 where 1: "store_checker (l_ebay_id l) world = (r, w1)" by (metis prod.exhaust)
  have "part (fst w1) = part (fst world)" using checker [of "l_ebay_id l" world] by (simp add: 1)
  then show ?case using Cons.prems Cons.IH by (fastforce simp: 1 Let_def split: option.splits)
qed simp

lemma pages:
  assumes "pages_loop pt (world_search eng) store_checker pgsize req ps result world = (r, world')"
    and "\<forall>l\<in>set (pr_NewListings result). l_score l = None"
  shows "part (fst world') = part (fst world)
    \<and> (case r of Inl e \<Rightarrow> True | Inr res \<Rightarrow> \<forall>l\<in>set (pr_NewListings res). l_score l = None)"
  using assms
proof (induction ps arbitrary: result world)
  case (Cons p ps)
  obtain a w1 where 1: "world_search eng (req\<lparr> sr_Offset := int p * pgsize \<rparr>) world = (a, w1)" by (metis prod.exhaust)
  have w1: "part (fst w1) = part (fst world)"
    using searching [of eng "req\<lparr> sr_Offset := int p * pgsize \<rparr>" world] by (simp add: 1)
  show ?case
  proof (cases a)
    case (Inl e) then show ?thesis using Cons.prems 1 w1 by auto
  next
    case (Inr resp)
    let ?res = "result\<lparr> pr_PagesUsed := pr_PagesUsed result + 1 \<rparr>"
    obtain res' found w2 where 2: "page_loop store_checker (ToListings pt (sp_Items resp)) ?res w1 = ((res', found), w2)"
      by (metis prod.exhaust)
    have "\<forall>l\<in>set (ToListings pt (sp_Items resp)). l_score l = None"
      using converted_unscored by (auto simp: ToListings_def)
    then have "part (fst w2) = part (fst world)" "\<forall>l\<in>set (pr_NewListings res'). l_score l = None"
      using page [OF 2] w1 Cons.prems(2) by auto
    then show ?thesis using Cons.prems 1 Inr 2 w1 Cons.IH [of res' w2] by (auto simp: Let_def split: if_splits)
  qed
qed auto

lemma listings:
  assumes "\<And>l db. part (snd (UpsertListing l db)) = part db" and "\<And>tr i p db. part (snd (EnqueueExtraction tr i p db)) = part db"
    and "\<forall>l\<in>set ls. l_score l = None"
  shows "part (snd (process_listings eng w ls db)) = part db"
  using assms(3)
proof (induction ls arbitrary: db)
  case (Cons l ls)
  have "part (snd (processListing eng w l db)) = part db" if "l_score l = None"
  proof (cases "UpsertListing l db")
    case (Pair r db1)
    have "l_score x = None" if "r = Inr x" for x
      using Pair \<open>l_score l = None\<close> that
      by (auto simp: UpsertListing_def bind_db_def return_db_def split: prod.splits sum.splits)
    then show ?thesis using Pair assms(1) [of l db] assms(2)
      by (auto simp: processListing_def evaluateAlert_def split: sum.split)
  qed
  moreover obtain r db1 where 1: "processListing eng w l db = (r, db1)" by (metis prod.exhaust)
  ultimately have "part db1 = part db" using Cons.prems by simp
  then show ?case using Cons by (auto simp: 1 split: option.split)
qed simp

lemma watching:
  assumes "\<And>l db. part (snd (UpsertListing l db)) = part db" and "\<And>tr i p db. part (snd (EnqueueExtraction tr i p db)) = part db"
  shows "part (fst (snd (processWatch eng w world))) = part (fst world)"
proof -
  obtain r world1 where r: "find_listings eng w world = (r, world1)" by (metis prod.exhaust)
  have "part (fst world1) = part (fst world) \<and> (case r of Inl e \<Rightarrow> True | Inr (ls, n) \<Rightarrow> \<forall>l\<in>set ls. l_score l = None)"
  proof (cases "eg_paginator eng")
    case None
    then show ?thesis using r unfolding find_listings_def using searching [of eng "watch_request w" world] converted_unscored
      by (auto simp: ToListings_def split: prod.splits sum.splits)
  next
    case (Some p)
    obtain a w2 where 1: "Paginate (eg_parse_time eng) (world_search eng) store_checker p (watch_request w) False world = (a, w2)"
      by (metis prod.exhaust)
    then show ?thesis using r Some unfolding find_listings_def using
      pages [of "eg_parse_time eng" eng "pg_pageSize p" "(watch_request w)\<lparr> sr_Limit := pg_pageSize p \<rparr>" "[0..<nat (pg_maxPages p)]"
          "\<lparr> pr_NewListings = [], pr_TotalSeen = 0, pr_PagesUsed = 0, pr_StoppedAt = [] \<rparr>" world a w2]
      by (auto simp: Paginate_def Let_def split: sum.splits)
  qed
  note found = this
  show ?thesis
  proof (cases r)
    case (Inl e)
    then show ?thesis using found r by (simp add: processWatch_def)
  next
    case (Inr y)
    obtain ls n db s where y: "y = (ls, n)" "world1 = (db, s)" by (metis prod.exhaust)
    have "\<forall>l\<in>set ls. l_score l = None" using found Inr y by simp
    from listings [OF assms this, of eng w db] show ?thesis
      using found Inr y r by (auto simp: processWatch_def split: prod.splits option.split)
  qed
qed

lemma ingesting:
  assumes "\<And>l db. part (snd (UpsertListing l db)) = part db" and "\<And>tr i p db. part (snd (EnqueueExtraction tr i p db)) = part db"
    and "\<And>i t db. part (snd (UpdateWatchLastPolled i t db)) = part db"
  shows "part (fst (snd (ingest_loop eng ws n world))) = part (fst world)"
proof (induction ws arbitrary: n world)
  case (Cons w ws)
  obtain a db s where 1: "processWatch eng w world = (a, (db, s))" by (metis prod.exhaust)
  have "part db = part (fst world)" using watching [OF assms(1,2), of eng w world] by (simp add: 1)
  then show ?case using Cons.IH assms(3) 1
    by (auto simp: Let_def split: option.split prod.split bool.split)
qed simp

end

interpretation raised: db_part db_alerts
  by unfold_locales simp

text \<open>C28. Ingestion raises no alert by itself. Whatever eBay answers and whichever round trips fail, the loop over
  the watches leaves the table of alerts as it was: the listings it evaluates come fresh from eBay and
  have no score, also those that are already stored with one.\<close>

theorem ingestion_raises_no_alert: "db_alerts (fst (snd (ingest_loop eng ws n world))) = db_alerts (fst world)"
proof (rule raised.ingesting)
  show "db_alerts (snd (UpsertListing l db)) = db_alerts db" for l db
    unfolding UpsertListing_def by (rule raised.bind, rule raised.run)
      (auto simp: queryUpsertListing_def Let_def return_db_def split: option.split prod.split)
  show "db_alerts (snd (EnqueueExtraction tr i p db)) = db_alerts db" for tr i p db
    unfolding EnqueueExtraction_def by (rule raised.run) (simp add: queryEnqueueExtraction_def)
  show "db_alerts (snd (UpdateWatchLastPolled i t db)) = db_alerts db" for i t db
    unfolding UpdateWatchLastPolled_def by (rule raised.run) (simp add: queryUpdateWatchLastPolled_def)
qed

end
