(* ===== verification/Scheduler.thy ===== *)
theory Scheduler
  imports EngineLaws
begin

text \<open>
  The scheduler (\<open>internal/engine/scheduler.go\<close>): running a job under a lock in the database with a row that
  records the run, and the jobs of the cron entries. A job ends normally, with an error, or with a panic that
  unwinds through the deferred release and recording. The cron library, spans and logs are left out; what
  a job's error says is a parameter.
\<close>

section \<open>Running a job\<close>

datatype job_outcome = JobOk | JobError string | JobPanic

type_synonym 's job = "'s eworld \<Rightarrow> job_outcome \<times> 's eworld"

text \<open>What the deferred function writes: a panic leaves the initial values in place.\<close>

definition recorded_status :: "job_outcome \<Rightarrow> string \<times> string" where
  "recorded_status out = (case out of JobError e \<Rightarrow> (''failed'', e) | _ \<Rightarrow> (''succeeded'', []))"

definition SchedulerRunJob :: "string \<Rightarrow> string \<Rightarrow> duration \<Rightarrow> 's job \<Rightarrow> 's job" where
  "SchedulerRunJob hostname jobName ttl fn world =
     (case world of (db, s) \<Rightarrow> case AcquireSchedulerLock jobName hostname ttl db of
        (Inl e, db) \<Rightarrow> (JobOk, (db, s))
      | (Inr acquired, db) \<Rightarrow>
          if \<not> acquired then (JobOk, (db, s))
          else case InsertJobRun jobName db of
            (Inl e, db) \<Rightarrow> fn (snd (ReleaseSchedulerLock jobName hostname db), s)
          | (Inr runID, db) \<Rightarrow>
              (case fn (db, s) of (out, (db, s)) \<Rightarrow>
                 let status = fst (recorded_status out); errText = snd (recorded_status out);
                     db = snd (ReleaseSchedulerLock jobName hostname db);
                     db = snd (CompleteJobRun runID status errText 0 db)
                 in (out, (db, s))))"

section \<open>The cron entries\<close>

datatype tick_error = IngestFailed ingest_error | RefreshFailed refresh_error | ReextractFailed reextract_error | JudgeFailed string

definition ingestion_job :: "(tick_error \<Rightarrow> string) \<Rightarrow> 's engine \<Rightarrow> 's job" where
  "ingestion_job txt_of eng world =
     (case RunIngestion eng world of
        (None, world) \<Rightarrow> (JobPanic, world)
      | (Some None, world) \<Rightarrow> (JobOk, world)
      | (Some (Some e), world) \<Rightarrow> (JobError (txt_of (IngestFailed e)), world))"

text \<open>None would be a baseline refresh that does not end.\<close>

definition refresh_job :: "(tick_error \<Rightarrow> string) \<Rightarrow> 's engine \<Rightarrow> 's eworld \<Rightarrow> (job_outcome \<times> 's eworld) option" where
  "refresh_job txt_of eng world =
     (case world of (db, s) \<Rightarrow> case RunBaselineRefresh eng db of
        None \<Rightarrow> None
      | Some (None, db) \<Rightarrow> Some (JobPanic, (db, s))
      | Some (Some None, db) \<Rightarrow> Some (JobOk, (db, s))
      | Some (Some (Some e), db) \<Rightarrow> Some (JobError (txt_of (RefreshFailed e)), (db, s)))"

definition reextraction_job :: "(tick_error \<Rightarrow> string) \<Rightarrow> 's engine \<Rightarrow> 's job" where
  "reextraction_job txt_of eng world =
     (case RunReExtraction eng [] 100 world of
        ((n, None), world) \<Rightarrow> (JobOk, world)
      | ((n, Some e), world) \<Rightarrow> (JobError (txt_of (ReextractFailed e)), world))"

definition judge_job :: "(tick_error \<Rightarrow> string) \<Rightarrow> ('s eworld \<Rightarrow> (int \<times> string option) \<times> 's eworld) \<Rightarrow> 's job" where
  "judge_job txt_of runFn world =
     (case runFn world of
        ((judged, None), world) \<Rightarrow> (JobOk, world)
      | ((judged, Some e), world) \<Rightarrow> (JobError (txt_of (JudgeFailed e)), world))"

definition runIngestion :: "(tick_error \<Rightarrow> string) \<Rightarrow> string \<Rightarrow> 's engine \<Rightarrow> 's job" where
  "runIngestion txt_of hostname eng = SchedulerRunJob hostname ''ingestion'' (30 * minute) (ingestion_job txt_of eng)"

definition runBaselineRefresh :: "(tick_error \<Rightarrow> string) \<Rightarrow> string \<Rightarrow> 's engine \<Rightarrow> 's job" where
  "runBaselineRefresh txt_of hostname eng = SchedulerRunJob hostname ''baseline_refresh'' (60 * minute)
     (\<lambda>world. case refresh_job txt_of eng world of Some r \<Rightarrow> r | None \<Rightarrow> (JobOk, world))"

definition runReExtraction :: "(tick_error \<Rightarrow> string) \<Rightarrow> string \<Rightarrow> 's engine \<Rightarrow> 's job" where
  "runReExtraction txt_of hostname eng = SchedulerRunJob hostname ''re_extraction'' (30 * minute) (reextraction_job txt_of eng)"

definition runJudge :: "(tick_error \<Rightarrow> string) \<Rightarrow> string \<Rightarrow> ('s eworld \<Rightarrow> (int \<times> string option) \<times> 's eworld) \<Rightarrow> 's job" where
  "runJudge txt_of hostname runFn = SchedulerRunJob hostname ''judge'' (30 * minute) (judge_job txt_of runFn)"

text \<open>The entries registered by the constructor, with their intervals.\<close>

definition NewScheduler :: "duration \<Rightarrow> duration \<Rightarrow> duration \<Rightarrow> (string \<times> duration) list" where
  "NewScheduler ingestionInterval baselineInterval reExtractionInterval =
     [(''ingestion'', ingestionInterval), (''baseline_refresh'', baselineInterval)]
     @ (if reExtractionInterval > 0 then [(''re_extraction'', reExtractionInterval)] else [])"

text \<open>\<open>RecoverStaleJobRuns\<close> of the scheduler, run at startup.\<close>

definition SchedulerRecoverStaleJobRuns :: "db \<Rightarrow> db" where
  "SchedulerRecoverStaleJobRuns db = snd (RecoverStaleJobRuns (2 * hour) db)"

section \<open>What a run does\<close>

lemma acquire_fault_free:
  assumes "fault_free (db_server db)"
  shows "AcquireSchedulerLock nm h ttl db
    = (Inr (case find (\<lambda>k. lk_job_name k = nm) (db_locks db) of None \<Rightarrow> True | Some k \<Rightarrow> lk_expires_at k < now db),
       (snd (queryAcquireSchedulerLock nm h (go_now db + ttl) db))\<lparr> db_stmts := db_stmts db + 1 \<rparr>)"
  using assms by (auto simp: AcquireSchedulerLock_def run_fault_free queryAcquireSchedulerLock_def split: option.split)


text \<open>A witness: a re-extraction tick on an idle database records one run that succeeded.\<close>

context db_part
begin

lemma enqueueing:
  assumes "\<And>tr i p db. part (snd (EnqueueExtraction tr i p db)) = part db"
  shows "part (fst (snd (enqueue_all eng ls n world))) = part (fst world)"
proof (induction ls arbitrary: n world)
  case (Cons l ls)
  obtain db s where w: "world = (db, s)" by fastforce
  obtain r db1 where 1: "EnqueueExtraction (trace_text eng) (l_id l) 1 db = (r, db1)" by fastforce
  have "part db1 = part db" using assms [of "trace_text eng" "l_id l" 1 db] by (simp add: 1)
  then show ?case using Cons.IH by (simp add: w 1 split: sum.split)
qed simp

end

definition run_part :: "db \<Rightarrow> job_run list \<times> server" where "run_part db = (db_job_runs db, db_server db)"

interpretation run: db_part run_part
  by unfold_locales (simp add: run_part_def)

lemma reextraction_keeps_runs: "run_part (fst (snd (reextraction_job txt_of eng world))) = run_part (fst world)"
proof -
  obtain db s where w: "world = (db, s)" by fastforce
  have enq: "run_part (snd (EnqueueExtraction tr i p db)) = run_part db" for tr i p db
    unfolding EnqueueExtraction_def by (rule run.run) (simp add: queryEnqueueExtraction_def run_part_def)
  obtain r db1 where 1: "ListIncompleteExtractions [] 100 db = (r, db1)" by fastforce
  have "run_part db1 = run_part db" using run.listing_reads(5) [of "[]" 100 db] by (simp add: 1)
  then have "run_part (fst (snd (RunReExtraction eng [] 100 world))) = run_part (fst world)"
    using run.enqueueing [OF enq, of eng _ _ "(db1, s)"] by (simp add: RunReExtraction_def w 1 split: sum.split)
  then show ?thesis by (auto simp: reextraction_job_def split: prod.splits option.splits)
qed

lemma db_job_runs_shop: "db_job_runs shop = []" and db_locks_shop: "db_locks shop = []"
  by (simp_all add: shop_def empty_db_def)


lemma update_where_holds:
  "\<forall>k\<in>set (update_where (\<lambda>k. lk_job_name k = nm) (\<lambda>k. k\<lparr> lk_locked_at := t, lk_holder := h, lk_expires_at := e \<rparr>) ks).
     lk_job_name k = nm \<longrightarrow> lk_holder k = h"
  by (induction ks) (simp_all add: update_where_def)

text \<open>C33. A tick whose run cannot be recorded runs unprotected. When the insertion of the run's row fails, the lock
  is released first and the job runs all the same: while it runs, the same tick on any other instance acquires
  the lock and runs the job too.\<close>

theorem runJob_unprotected:
  assumes "fst (AcquireSchedulerLock nm h ttl db) = Inr True"
    and "sv_fault (db_server db) = (\<lambda>n. if n = db_stmts db + 1 then FaultBefore else NoFault)"
  shows "\<exists>db3. SchedulerRunJob h nm ttl fn (db, s) = fn (db3, s) \<and> db_job_runs db3 = db_job_runs db
    \<and> (\<forall>h2 ttl2. fst (AcquireSchedulerLock nm h2 ttl2 db3) = Inr True)"
proof -
  obtain db1 where acq: "AcquireSchedulerLock nm h ttl db = (Inr True, db1)" using assms(1) by (metis prod.collapse)
  then obtain x where "run (queryAcquireSchedulerLock nm h (go_now db + ttl)) db = (Inr x, db1)"
    by (cases "run (queryAcquireSchedulerLock nm h (go_now db + ttl)) db")
      (auto simp: AcquireSchedulerLock_def Let_def split: sum.splits if_splits)
  note eff = run_Inr [OF this]
  have db1: "db_server db1 = db_server db" "db_stmts db1 = db_stmts db + 1" "db_job_runs db1 = db_job_runs db"
    using conjunct2 [OF eff] by (simp_all add: queryAcquireSchedulerLock_def split: option.split)
  have locks: "db_locks db1 = db_locks (snd (queryAcquireSchedulerLock nm h (go_now db + ttl) db))" using conjunct2 [OF eff] by simp
  have mine: "\<forall>k\<in>set (db_locks db1). lk_job_name k = nm \<longrightarrow> lk_holder k = h"
  proof (cases "find (\<lambda>k. lk_job_name k = nm) (db_locks db)")
    case None
    then have "db_locks db1 = db_locks db @ [\<lparr> lk_job_name = nm, lk_locked_at = now db, lk_holder = h, lk_expires_at = go_now db + ttl \<rparr>]"
      by (simp add: locks queryAcquireSchedulerLock_def)
    then show ?thesis using None by (auto simp: find_None_iff)
  next
    case (Some k)
    then have "lk_expires_at k < now db" using conjunct1 [OF eff] by (simp add: queryAcquireSchedulerLock_def split: if_splits)
    then have "db_locks db1 = update_where (\<lambda>k. lk_job_name k = nm)
        (\<lambda>k. k\<lparr> lk_locked_at := now db, lk_holder := h, lk_expires_at := go_now db + ttl \<rparr>) (db_locks db)"
      using Some by (simp add: locks queryAcquireSchedulerLock_def)
    then show ?thesis using update_where_holds by simp
  qed
  let ?db2 = "db1\<lparr> db_stmts := db_stmts db1 + 1 \<rparr>"
  have ins: "InsertJobRun nm db1 = (Inl ConnLost, ?db2)" using db1 assms(2) by (simp add: InsertJobRun_def run_def)
  define db3 where "db3 = snd (ReleaseSchedulerLock nm h ?db2)"
  have "SchedulerRunJob h nm ttl fn (db, s) = fn (db3, s)" using acq ins by (simp add: SchedulerRunJob_def db3_def)
  moreover have rel: "db_job_runs db3 = db_job_runs db" "db_server db3 = db_server db" "db_stmts db3 = db_stmts db + 3"
    "db_locks db3 = filter (\<lambda>k. \<not> (lk_job_name k = nm \<and> lk_holder k = h)) (db_locks db1)"
    using db1 assms(2) by (simp_all add: db3_def ReleaseSchedulerLock_def run_def queryReleaseSchedulerLock_def)
  moreover have "find (\<lambda>k. lk_job_name k = nm) (db_locks db3) = None"
    using mine by (auto simp: rel(4) find_None_iff)
  then have "fst (AcquireSchedulerLock nm h2 ttl2 db3) = Inr True" for h2 ttl2
    using rel assms(2) by (simp add: AcquireSchedulerLock_def run_def queryAcquireSchedulerLock_def)
  ultimately show ?thesis by blast
qed

definition failing_insert :: server where
  "failing_insert = plain_server\<lparr> sv_fault := (\<lambda>n. if n = 1 then FaultBefore else NoFault) \<rparr>"

theorem runJob_unprotected_witness:
  "\<exists>db3. SchedulerRunJob ''host'' ''ingestion'' hour (\<lambda>w. (JobOk, w)) (empty_db failing_insert, ()) = (JobOk, (db3, ()))
    \<and> fst (AcquireSchedulerLock ''ingestion'' ''other'' hour db3) = Inr True"
proof -
  have "fst (AcquireSchedulerLock ''ingestion'' ''host'' hour (empty_db failing_insert)) = Inr True" by code_simp
  moreover have "sv_fault (db_server (empty_db failing_insert))
      = (\<lambda>n. if n = db_stmts (empty_db failing_insert) + 1 then FaultBefore else NoFault)"
    by (simp add: empty_db_def failing_insert_def)
  ultimately show ?thesis using runJob_unprotected [where fn = "\<lambda>w. (JobOk, w)" and s = "()"] by blast
qed

end
