(* ===== verification/Runes.thy ===== *)
theory Runes
  imports GoStrings
begin

text \<open>
  Go strings are bytes; ranging over one, or converting it to \<open>[]rune\<close>, decodes UTF-8 with one replacement
  rune for every byte that does not belong to a valid encoding. This theory has the decoder and the encoder
  of the standard library and their round trip.
\<close>

type_synonym rune = nat

definition rune_error :: rune where "rune_error = 65533"

definition valid_rune :: "rune \<Rightarrow> bool" where
  "valid_rune r \<longleftrightarrow> r < 55296 \<or> 57344 \<le> r \<and> r \<le> 1114111"

text \<open>The number of bytes after a leading byte, and the range of the first of them.\<close>

definition lead :: "nat \<Rightarrow> (nat \<times> nat \<times> nat) option" where
  "lead b =
     (if 194 \<le> b \<and> b \<le> 223 then Some (1, 128, 191)
      else if b = 224 then Some (2, 160, 191)
      else if b = 237 then Some (2, 128, 159)
      else if 225 \<le> b \<and> b \<le> 239 then Some (2, 128, 191)
      else if b = 240 then Some (3, 144, 191)
      else if 241 \<le> b \<and> b \<le> 243 then Some (3, 128, 191)
      else if b = 244 then Some (3, 128, 143)
      else None)"

definition cont :: "nat \<Rightarrow> bool" where "cont b \<longleftrightarrow> 128 \<le> b \<and> b \<le> 191"

text \<open>The first rune of a string with its width.\<close>

definition decode_rune :: "string \<Rightarrow> rune \<times> nat" where
  "decode_rune s =
     (case map of_char (take 4 s) of
        [] \<Rightarrow> (rune_error, 0)
      | b # bs \<Rightarrow>
          if b < 128 then (b, 1)
          else (case lead b of
              None \<Rightarrow> (rune_error, 1)
            | Some (n, lo, hi) \<Rightarrow>
                (let cs = take n bs in
                 if length cs = n \<and> lo \<le> hd cs \<and> hd cs \<le> hi \<and> list_all cont (tl cs)
                 then (foldl (\<lambda>a c. a * 64 + c mod 64) (b mod 2 ^ (6 - n)) cs, n + 1)
                 else (rune_error, 1))))"

lemma lead_width: "lead b = Some (n, lo, hi) \<Longrightarrow> n \<in> {1, 2, 3}"
  by (auto simp: lead_def split: if_splits)

lemma decode_rune_width: "s \<noteq> [] \<Longrightarrow> 0 < snd (decode_rune s)"
  by (cases s) (auto simp: decode_rune_def Let_def split: option.split)

function runes :: "string \<Rightarrow> rune list" where
  "runes s = (if s = [] then [] else case decode_rune s of (r, w) \<Rightarrow> r # runes (drop w s))"
  by pat_completeness auto

termination
  by (relation "measure length") (use decode_rune_width in \<open>auto simp: less_diff_conv2\<close>, metis decode_rune_width diff_less length_greater_0_conv snd_conv)

declare runes.simps [simp del]

lemma runes_Nil [simp]: "runes [] = []"
  by (simp add: runes.simps)

lemma runes_step: "s \<noteq> [] \<Longrightarrow> runes s = fst (decode_rune s) # runes (drop (snd (decode_rune s)) s)"
  by (subst runes.simps) (simp add: case_prod_beta)

definition encode_rune :: "rune \<Rightarrow> string" where
  "encode_rune r = map char_of
     (let r = (if valid_rune r then r else rune_error) in
      if r < 128 then [r]
      else if r < 2048 then [192 + r div 64, 128 + r mod 64]
      else if r < 65536 then [224 + r div 4096, 128 + r div 64 mod 64, 128 + r mod 64]
      else [240 + r div 262144, 128 + r div 4096 mod 64, 128 + r div 64 mod 64, 128 + r mod 64])"

definition of_runes :: "rune list \<Rightarrow> string" where "of_runes rs = concat (map encode_rune rs)"

section \<open>The round trip\<close>

lemma bytes_of_chars: "list_all (\<lambda>b. b < 256) bs \<Longrightarrow> map (of_char \<circ> char_of) bs = (bs :: nat list)"
  by (induction bs) simp_all

lemma decode_head:
  "map of_char (take 4 s) = b # bs \<Longrightarrow> decode_rune s = (if b < 128 then (b, 1) else (case lead b of
     None \<Rightarrow> (rune_error, 1)
   | Some (n, lo, hi) \<Rightarrow> (let cs = take n bs in
       if length cs = n \<and> lo \<le> hd cs \<and> hd cs \<le> hi \<and> list_all cont (tl cs)
       then (foldl (\<lambda>a c. a * 64 + c mod 64) (b mod 2 ^ (6 - n)) cs, n + 1) else (rune_error, 1))))"
  by (simp add: decode_rune_def)

lemma decode_bytes:
  assumes ld: "lead b = Some (length cs, lo, hi)" and first: "lo \<le> hd cs" "hd cs \<le> hi"
    and tail: "list_all cont (tl cs)" and bytes: "b < 256" "list_all (\<lambda>c. c < 256) cs" and "128 \<le> b"
  shows "decode_rune (map char_of (b # cs) @ t)
    = (foldl (\<lambda>a c. a * 64 + c mod 64) (b mod 2 ^ (6 - length cs)) cs, length cs + 1)"
proof -
  have "length cs \<le> 3" using lead_width [OF ld] by auto
  then have "map of_char (take 4 (map char_of (b # cs) @ t)) = b # cs @ map of_char (take (3 - length cs) t)"
    using bytes(1) bytes_of_chars [OF bytes(2)] by (simp add: take_Cons')
  from decode_head [OF this] show ?thesis using assms by (simp add: Let_def)
qed

lemma masks: "(128 + x) mod 64 = x mod 64" "(192 + x) mod 32 = x mod 32" "(224 + x) mod 16 = x mod 16" "(240 + x) mod 8 = x mod (8 :: nat)"
  by (subst mod_add_left_eq [symmetric], simp)+

text \<open>A rune in base 64, and what the ranges of leading bytes say of the digits.\<close>

lemma horner_64:
  fixes r :: nat
  shows "r = q * 64 + x \<Longrightarrow> q = s * 64 + y \<Longrightarrow> r = s * 4096 + y * 64 + x"
    "r = q * 64 + x \<Longrightarrow> q = s * 64 + y \<Longrightarrow> s = u * 64 + z \<Longrightarrow> r = u * 262144 + z * 4096 + y * 64 + x"
  by simp_all

lemma base_64:
  fixes r :: nat
  shows "r = r div 4096 * 4096 + r div 64 mod 64 * 64 + r mod 64"
    "r = r div 262144 * 262144 + r div 4096 mod 64 * 4096 + r div 64 mod 64 * 64 + r mod 64"
proof -
  have e: "r div 4096 = r div 64 div 64" "r div 262144 = r div 4096 div 64" by (simp_all add: div_mult2_eq [symmetric])
  note d = div_mult_mod_eq [symmetric, of r 64] div_mult_mod_eq [symmetric, of "r div 64" 64]
    div_mult_mod_eq [symmetric, of "r div 4096" 64]
  show "r = r div 4096 * 4096 + r div 64 mod 64 * 64 + r mod 64" by (rule horner_64(1) [OF d(1)]) (subst e(1), rule d(2))
  show "r = r div 262144 * 262144 + r div 4096 mod 64 * 4096 + r div 64 mod 64 * 64 + r mod 64"
    by (rule horner_64(2) [OF d(1), of "r div 4096"]) (subst e, rule d)+
qed

lemma three_digits:
  fixes a b c :: nat
  assumes "valid_rune (a * 4096 + b * 64 + c)" "2048 \<le> a * 4096 + b * 64 + c" "a * 4096 + b * 64 + c < 65536" "b < 64" "c < 64"
  shows "decode_rune (map char_of [224 + a, 128 + b, 128 + c] @ t) = (a * 4096 + b * 64 + c, 3)"
proof -
  have q: "a < 16" "a = 0 \<longrightarrow> 32 \<le> b" "a = 13 \<longrightarrow> b < 32" using assms by (auto simp: valid_rune_def)
  have "decode_rune (map char_of [224 + a, 128 + b, 128 + c] @ t)
      = (foldl (\<lambda>a c. a * 64 + c mod 64) ((224 + a) mod 2 ^ (6 - length [128 + b, 128 + c])) [128 + b, 128 + c], length [128 + b, 128 + c] + 1)"
    by (rule decode_bytes [where lo = "if a = 0 then 160 else 128" and hi = "if a = 13 then 159 else 191"])
      (use q assms(4,5) in \<open>auto simp: lead_def cont_def\<close>)
  then show ?thesis using q(1) assms(4,5) by (simp add: masks)
qed

lemma four_digits:
  fixes a b c d :: nat
  assumes "65536 \<le> a * 262144 + b * 4096 + c * 64 + d" "a * 262144 + b * 4096 + c * 64 + d \<le> 1114111" "b < 64" "c < 64" "d < 64"
  shows "decode_rune (map char_of [240 + a, 128 + b, 128 + c, 128 + d] @ t) = (a * 262144 + b * 4096 + c * 64 + d, 4)"
proof -
  have q: "a < 5" "a = 0 \<longrightarrow> 16 \<le> b" "a = 4 \<longrightarrow> b < 16" using assms by auto
  have "decode_rune (map char_of [240 + a, 128 + b, 128 + c, 128 + d] @ t)
      = (foldl (\<lambda>a c. a * 64 + c mod 64) ((240 + a) mod 2 ^ (6 - length [128 + b, 128 + c, 128 + d])) [128 + b, 128 + c, 128 + d],
         length [128 + b, 128 + c, 128 + d] + 1)"
    by (rule decode_bytes [where lo = "if a = 0 then 144 else 128" and hi = "if a = 4 then 143 else 191"])
      (use q assms(3-5) in \<open>auto simp: lead_def cont_def\<close>)
  then show ?thesis using q(1) assms(3-5) by (simp add: masks)
qed

lemma two_digits:
  fixes a b :: nat
  assumes "2 \<le> a" "a < 32" "b < 64"
  shows "decode_rune (map char_of [192 + a, 128 + b] @ t) = (a * 64 + b, 2)"
  using decode_bytes [of "192 + a" "[128 + b]" 128 191 t] assms by (simp add: lead_def masks)

lemma decode_encode:
  assumes "valid_rune r"
  shows "decode_rune (encode_rune r @ t) = (r, length (encode_rune r)) \<and> encode_rune r \<noteq> []"
proof -
  consider "r < 128" | "128 \<le> r" "r < 2048" | "2048 \<le> r" "r < 65536" | "65536 \<le> r" "r \<le> 1114111"
    using assms by (fastforce simp: valid_rune_def)
  then show ?thesis
  proof cases
    case 1
    then show ?thesis using assms by (simp add: encode_rune_def decode_rune_def)
  next
    case 2
    then show ?thesis using assms two_digits [of "r div 64" "r mod 64" t] by (simp add: encode_rune_def)
  next
    case 3
    note base_64(1) [of r, symmetric]
    with three_digits [of "r div 4096" "r div 64 mod 64" "r mod 64" t] 3 assms
    have "decode_rune (map char_of [224 + r div 4096, 128 + r div 64 mod 64, 128 + r mod 64] @ t) = (r, 3)" by simp
    then show ?thesis using 3 assms by (simp add: encode_rune_def)
  next
    case 4
    note base_64(2) [of r, symmetric]
    with four_digits [of "r div 262144" "r div 4096 mod 64" "r div 64 mod 64" "r mod 64" t] 4
    have "decode_rune (map char_of [240 + r div 262144, 128 + r div 4096 mod 64, 128 + r div 64 mod 64, 128 + r mod 64] @ t) = (r, 4)"
      by simp
    then show ?thesis using 4 assms by (simp add: encode_rune_def)
  qed
qed

lemma runes_of_runes: "list_all valid_rune rs \<Longrightarrow> runes (of_runes rs) = rs"
proof (induction rs)
  case (Cons r rs)
  then show ?case using decode_encode [of r "of_runes rs"] by (simp add: of_runes_def runes_step)
qed (simp add: of_runes_def)

text \<open>Decoding gives valid runes only.\<close>

lemma foldl_two: "foldl (\<lambda>a c. a * 64 + c mod 64) m [c] = m * 64 + c mod (64 :: nat)"
  and foldl_three: "foldl (\<lambda>a c. a * 64 + c mod 64) m [c, d] = (m * 64 + c mod 64) * 64 + d mod (64 :: nat)"
  and foldl_four: "foldl (\<lambda>a c. a * 64 + c mod 64) m [c, d, e] = ((m * 64 + c mod 64) * 64 + d mod 64) * 64 + e mod (64 :: nat)"
  by simp_all

lemma decoded_value:
  assumes ld: "lead b = Some (n, lo, hi)" and cs: "length cs = n" "lo \<le> hd cs" "hd cs \<le> hi" "list_all cont (tl cs)"
  shows "valid_rune (foldl (\<lambda>a c. a * 64 + c mod 64) (b mod 2 ^ (6 - n)) cs)"
proof -
  have md: "c mod 64 = c - 128" if "cont c" for c
  proof -
    have "c - 128 < 64" "128 + (c - 128) = c" using that by (auto simp: cont_def)
    then show ?thesis using masks(1) [of "c - 128"] mod_less [of "c - 128" 64] by argo
  qed
  consider "n = 1" | "n = 2" | "n = 3" using lead_width [OF ld] by auto
  then show ?thesis
  proof cases
    case 1
    then obtain c where "cs = [c]" using cs(1) by (auto simp: length_Suc_conv numeral_eq_Suc)
    moreover have "b mod 32 * 64 + c mod 64 < 32 * 64" using mod_less_divisor [of 32 b] mod_less_divisor [of 64 c] by linarith
    ultimately show ?thesis using 1 by (simp add: valid_rune_def)
  next
    case 2
    then obtain c d where x: "cs = [c, d]" using cs(1) by (auto simp: length_Suc_conv numeral_eq_Suc)
    then have "cont c" "cont d" using ld cs by (auto simp: lead_def cont_def split: if_splits)
    then have m: "c mod 64 = c - 128" "d mod 64 = d - 128" "c - 128 < 64" "d - 128 < 64" using md by (auto simp: cont_def)
    have b: "b mod 16 < 16" "b mod 16 = 13 \<longrightarrow> c - 128 < 32"
    proof -
      have "b mod 16 = b - 224" "224 \<le> b \<and> b \<le> 239" using ld 2 masks(3) [of "b - 224"]
        by (auto simp: lead_def split: if_splits)
      then show "b mod 16 < 16" "b mod 16 = 13 \<longrightarrow> c - 128 < 32" using ld cs 2 x by (auto simp: lead_def split: if_splits)
    qed
    have "v < 55296 \<or> 57344 \<le> v \<and> v \<le> 1114111"
      if "v = (h * 64 + i) * 64 + j" "h < 16" "i < 64" "j < 64" "h = 13 \<longrightarrow> i < 32" for v h i j :: nat
    proof (cases "h \<le> 13")
      case True then show ?thesis using that by (cases "h = 13") auto
    next
      case False then show ?thesis using that by auto
    qed
    from this [OF refl b(1) m(3,4) b(2)] show ?thesis using x 2 m by (simp add: valid_rune_def)
  next
    case 3
    then obtain c d e where x: "cs = [c, d, e]" using cs(1) by (auto simp: length_Suc_conv numeral_eq_Suc)
    then have "cont c" "cont d" "cont e" using ld cs by (auto simp: lead_def cont_def split: if_splits)
    then have m: "c mod 64 = c - 128" "d mod 64 = d - 128" "e mod 64 = e - 128" "c - 128 < 64" "d - 128 < 64" "e - 128 < 64"
      using md by (auto simp: cont_def)
    have b: "b mod 8 < 5" "b mod 8 = 0 \<longrightarrow> 16 \<le> c - 128" "b mod 8 = 4 \<longrightarrow> c - 128 < 16"
    proof -
      have "b mod 8 = b - 240" "240 \<le> b \<and> b \<le> 244" using ld 3 masks(4) [of "b - 240"]
        by (auto simp: lead_def split: if_splits)
      then show "b mod 8 < 5" "b mod 8 = 0 \<longrightarrow> 16 \<le> c - 128" "b mod 8 = 4 \<longrightarrow> c - 128 < 16"
        using ld cs 3 x by (auto simp: lead_def split: if_splits)
    qed
    have "57344 \<le> v \<and> v \<le> 1114111"
      if "v = ((h * 64 + i) * 64 + j) * 64 + k" "h < 5" "i < 64" "j < 64" "k < 64" "h = 0 \<longrightarrow> 16 \<le> i" "h = 4 \<longrightarrow> i < 16"
      for v h i j k :: nat
      using that by (cases "h = 0"; cases "h = 4") auto
    from this [OF refl b(1) m(4-6) b(2,3)] show ?thesis using x 3 m by (simp add: valid_rune_def)
  qed
qed

lemma decode_valid: "s \<noteq> [] \<Longrightarrow> valid_rune (fst (decode_rune s))"
proof -
  assume "s \<noteq> []"
  then obtain b bs where h: "map of_char (take 4 s) = (b :: nat) # bs" by (cases s) auto
  have "valid_rune rune_error" by (simp add: valid_rune_def rune_error_def)
  then show ?thesis using decoded_value
    by (auto simp: decode_head [OF h] Let_def valid_rune_def split: option.split)
qed

lemma runes_valid: "list_all valid_rune (runes s)"
proof (induction s rule: runes.induct)
  case (1 s)
  show ?case
  proof (cases "s = []")
    case False
    then show ?thesis using decode_valid [of s] 1 [OF False prod.collapse] by (simp add: runes_step)
  qed simp
qed

lemma filter_valid: "list_all valid_rune rs \<Longrightarrow> list_all valid_rune (filter P rs)"
  by (auto simp: list_all_iff)

lemma take_valid: "list_all valid_rune rs \<Longrightarrow> list_all valid_rune (take n rs)"
  by (auto simp: list_all_iff dest: in_set_takeD)

end
