(* ===== verification/JudgeLaws.thy ===== *)
theory JudgeLaws
  imports Judge AlertWorld
begin

text \<open>
  What the judge guarantees: untrusted text is one line of bounded length, a batch stops at the daily budget
  whatever fails, and the number a run reports is the number of verdicts it stored.
\<close>

section \<open>Untrusted text\<close>

lemma runes_append_ellipsis:
  assumes "list_all valid_rune rs"
  shows "runes (of_runes rs @ ellipsis) = rs @ [8230]"
proof -
  have "list_all valid_rune (rs @ [8230])" using assms by (simp add: valid_rune_def)
  from runes_of_runes [OF this] show ?thesis by (simp add: of_runes_def ellipsis_def)
qed

lemma byte_below_128: "c \<in> set (encode_rune r) \<Longrightarrow> of_char c < (128 :: nat) \<Longrightarrow> of_char c = r"
proof -
  have big: "128 \<le> x \<Longrightarrow> x < 256 \<Longrightarrow> \<not> of_char (char_of x :: char) < (128 :: nat)" for x :: nat by simp
  assume "c \<in> set (encode_rune r)" and low: "of_char c < (128 :: nat)"
  then show ?thesis
    by (auto simp: encode_rune_def Let_def valid_rune_def rune_error_def split: if_splits)
qed

text \<open>C29. Untrusted text. The runes of a sanitised text are those of the text without control characters other
  than the tab, cut after the limit with an ellipsis in place of the rest; so it has no line break, whatever
  bytes the seller wrote.\<close>

theorem sanitize_runes:
  "runes (sanitizeUntrusted s n) = (let rs = filter (\<lambda>r. \<not> (IsControl r \<and> r \<noteq> 9)) (runes s)
     in if length rs > n then take n rs @ [8230] else rs)
   \<and> list_all (\<lambda>c. of_char c = (9 :: nat) \<or> 32 \<le> (of_char c :: nat)) (sanitizeUntrusted s n)"
proof
  let ?P = "\<lambda>r. r = 9 \<or> r = 32 \<or> \<not> IsControl r"
  have P: "?P = (\<lambda>r. \<not> (IsControl r \<and> r \<noteq> 9))" by (auto simp: IsControl_def fun_eq_iff)
  note v = filter_valid [OF runes_valid, of ?P s]
  note out = runes_of_runes [OF v]
  show "runes (sanitizeUntrusted s n) = (let rs = filter (\<lambda>r. \<not> (IsControl r \<and> r \<noteq> 9)) (runes s)
     in if length rs > n then take n rs @ [8230] else rs)"
    unfolding P [symmetric] using out runes_append_ellipsis [OF take_valid [OF v]]
    by (simp add: sanitizeUntrusted_def Let_def)
  have one: "list_all (\<lambda>c. of_char c = (9 :: nat) \<or> 32 \<le> (of_char c :: nat)) (of_runes rs)" if "list_all ?P rs" for rs
    using that byte_below_128 by (fastforce simp: of_runes_def list_all_iff IsControl_def)
  have "list_all ?P (take n (filter ?P (runes s)))" "list_all ?P (filter ?P (runes s))"
    by (auto simp: list_all_iff dest: in_set_takeD)
  moreover have "list_all (\<lambda>c. of_char c = (9 :: nat) \<or> 32 \<le> (of_char c :: nat)) ellipsis"
    using one [of "[8230]"] by (simp add: of_runes_def ellipsis_def IsControl_def)
  ultimately show "list_all (\<lambda>c. of_char c = (9 :: nat) \<or> 32 \<le> (of_char c :: nat)) (sanitizeUntrusted s n)"
    using one out by (simp add: sanitizeUntrusted_def Let_def)
qed

section \<open>The budget\<close>

definition spent_since :: "instant \<Rightarrow> judge_score list \<Rightarrow> f64" where
  "spent_since since rows = foldl fadd (Fin 0) (map js_cost_usd (filter (\<lambda>j. js_judged_at j \<ge> since) rows))"

text \<open>At some reading of the clock, the verdicts stored since midnight cost less than the budget.\<close>

definition affordable :: "'s judge_worker \<Rightarrow> server \<Rightarrow> judge_score list \<Rightarrow> bool" where
  "affordable w sv rows \<longleftrightarrow> (\<exists>k. \<not> fle (jw_dailyBudgetUSD w) (spent_since (todayUTCMidnight (sv_goclock sv k)) rows))"

lemma SumJudgeCostSince_effect:
  assumes "SumJudgeCostSince since db = (r, db')"
  shows "(\<exists>n. db' = db\<lparr> db_stmts := n \<rparr>) \<and> (case r of Inl e \<Rightarrow> True | Inr x \<Rightarrow> x = spent_since since (db_judge_scores db))"
  using assms unfolding SumJudgeCostSince_def
  by (rule run_cases) (auto simp: querySumJudgeCostSince_def spent_since_def)

lemma queryInsertJudgeScore_cases:
  obtains (same) e where "queryInsertJudgeScore j db = (e, db)" "js_alert_id j \<notin> js_alert_id ` set (db_judge_scores db) \<Longrightarrow> \<exists>x. e = Inl x"
  | (stored) "queryInsertJudgeScore j db = (Inr (), db\<lparr> db_judge_scores := db_judge_scores db @ [j\<lparr> js_judged_at := now db \<rparr>] \<rparr>)"
proof (cases "fle (Fin 0) (js_score j) \<and> fle (js_score j) (Fin 1)")
  case False
  then show ?thesis by (intro same) (auto simp: queryInsertJudgeScore_def)
next
  case True
  show ?thesis
  proof (cases "js_alert_id j \<in> js_alert_id ` set (db_judge_scores db)")
    case old: True
    then have "\<exists>k\<in>set (db_judge_scores db). js_alert_id k = js_alert_id j" by (metis imageE)
    then show ?thesis using True old by (intro same) (simp_all add: queryInsertJudgeScore_def)
  next
    case new: False
    show ?thesis
    proof (cases "\<exists>a\<in>set (db_alerts db). a_id a = js_alert_id j")
      case known: True
      then show ?thesis using True new by (intro stored) (auto simp: queryInsertJudgeScore_def image_iff)
    next
      case False
      then show ?thesis using True new by (intro same [of "Inl ForeignKey"]) (auto simp: queryInsertJudgeScore_def image_iff)
    qed
  qed
qed

lemma InsertJudgeScore_effect:
  assumes "InsertJudgeScore j db = (r, db')"
  shows "db_server db' = db_server db \<and> (\<exists>new. db_judge_scores db' = db_judge_scores db @ new \<and> length new \<le> 1
      \<and> set (map js_alert_id new) \<subseteq> {js_alert_id j}
      \<and> (fault_free (db_server db) \<and> js_alert_id j \<notin> js_alert_id ` set (db_judge_scores db)
           \<longrightarrow> int (length new) = (case r of Inl e \<Rightarrow> 0 | Inr u \<Rightarrow> 1)))"
proof -
  note rc = assms [unfolded InsertJudgeScore_def]
  show ?thesis
  proof (cases rule: queryInsertJudgeScore_cases [of j db])
    case (same e)
    from rc show ?thesis by (rule run_cases) (use same in auto)
  next
    case stored
    from rc show ?thesis by (rule run_cases) (simp_all add: stored)
  qed
qed

lemma checkBudget_effect:
  assumes "checkBudget w (db, s) = (r, (db', s'))"
  shows "(\<exists>n. db' = db\<lparr> db_stmts := n \<rparr>)
    \<and> (if r = None \<and> \<not> fle (jw_dailyBudgetUSD w) (Fin 0) then affordable w (db_server db) (db_judge_scores db) else True)"
proof (cases "fle (jw_dailyBudgetUSD w) (Fin 0)")
  case True
  then show ?thesis using assms by (auto simp: checkBudget_def intro: exI [of _ "db_stmts db"])
next
  case False
  obtain a db1 where sum: "SumJudgeCostSince (todayUTCMidnight (go_now db)) db = (a, db1)" by fastforce
  note eff = SumJudgeCostSince_effect [OF sum]
  show ?thesis using False assms sum eff
    by (auto simp: checkBudget_def adapterSumJudgeCostSince_def affordable_def go_now_def split: sum.splits if_splits)
qed

lemma judgeOne_effect:
  assumes "judgeOne w c (db, s) = (r, (db', s'))"
  shows "db_server db' = db_server db \<and> (\<exists>new. db_judge_scores db' = db_judge_scores db @ new \<and> length new \<le> 1
      \<and> set (map js_alert_id new) \<subseteq> {jc_alert_id c}
      \<and> (fault_free (db_server db) \<and> jc_alert_id c \<notin> js_alert_id ` set (db_judge_scores db)
           \<longrightarrow> int (length new) = (if r = None then 1 else 0)))"
proof -
  obtain v s1 where j: "jw_judge w (candidateToContext c) s = (v, s1)" by fastforce
  show ?thesis
  proof (cases v)
    case (Inl e)
    then show ?thesis using assms j by (auto simp: judgeOne_def intro: exI [of _ "[]"])
  next
    case (Inr v')
    let ?j = "\<lparr> js_alert_id = jc_alert_id c, js_score = vd_Score v', js_reason = vd_Reason v',
        js_model = vd_Model v', js_input_tokens = jt_InputTokens (vd_Tokens v'),
        js_output_tokens = jt_OutputTokens (vd_Tokens v'), js_cost_usd = vd_CostUSD v', js_judged_at = 0 \<rparr>"
    obtain a db1 where ins: "InsertJudgeScore ?j db = (a, db1)" by fastforce
    have "db' = db1" "(r = None) = (case a of Inl e \<Rightarrow> False | Inr u \<Rightarrow> True)"
      using assms j Inr ins by (auto simp: judgeOne_def adapterInsertJudgeScore_def Let_def split: sum.splits)
    then show ?thesis using InsertJudgeScore_effect [OF ins] by (auto split: sum.splits)
  qed
qed

text \<open>What the loop appends: every verdict that is stored was affordable before it was asked for.\<close>

lemma disjoint_insert_subset: "A \<subseteq> insert c R \<Longrightarrow> c \<notin> C \<Longrightarrow> C \<inter> R = {} \<Longrightarrow> C \<inter> A = {}"
  by blast

lemma judge_loop_effect:
  assumes "judge_loop w cs n fe (db, s) = (r, (db', s'))"
  shows "db_server db' = db_server db \<and> (\<exists>new. db_judge_scores db' = db_judge_scores db @ new
    \<and> length new \<le> length cs \<and> set (map js_alert_id new) \<subseteq> set (map jc_alert_id cs)
    \<and> (if fle (jw_dailyBudgetUSD w) (Fin 0) then True
       else \<forall>i<length new. affordable w (db_server db) (db_judge_scores db @ take i new))
    \<and> (fault_free (db_server db) \<and> distinct (map jc_alert_id cs)
         \<and> set (map jc_alert_id cs) \<inter> js_alert_id ` set (db_judge_scores db) = {}
       \<longrightarrow> fst r = n + int (length new)))"
  using assms
proof (induction cs arbitrary: n fe db s)
  case Nil
  then show ?case by (auto intro: exI [of _ "[]"])
next
  case (Cons c cs)
  obtain b db1 s1 where chk: "checkBudget w (db, s) = (b, (db1, s1))" by (metis prod.exhaust)
  note c1 = checkBudget_effect [OF chk]
  have db1: "db_server db1 = db_server db" "db_judge_scores db1 = db_judge_scores db" using c1 by auto
  show ?case
  proof (cases b)
    case (Some e)
    then show ?thesis using Cons.prems chk db1 by (auto split: if_splits intro: exI [of _ "[]"])
  next
    case None
    obtain o1 db2 s2 where one: "judgeOne w c (db1, s1) = (o1, (db2, s2))" by (metis prod.exhaust)
    obtain x where x: "db_judge_scores db2 = db_judge_scores db @ x" "length x \<le> 1" "set (map js_alert_id x) \<subseteq> {jc_alert_id c}"
      "fault_free (db_server db) \<and> jc_alert_id c \<notin> js_alert_id ` set (db_judge_scores db)
        \<longrightarrow> int (length x) = (if o1 = None then 1 else 0)" and sv2: "db_server db2 = db_server db"
      using judgeOne_effect [OF one] db1 by auto
    let ?n = "if o1 = None then n + 1 else n"
    obtain fe' where loop: "judge_loop w cs ?n fe' (db2, s2) = (r, (db', s'))"
      using Cons.prems chk None one by (auto split: option.splits)
    obtain new where new: "db_judge_scores db' = db_judge_scores db2 @ new" "length new \<le> length cs"
      "set (map js_alert_id new) \<subseteq> set (map jc_alert_id cs)" and sv': "db_server db' = db_server db2"
      and afford: "if fle (jw_dailyBudgetUSD w) (Fin 0) then True
         else \<forall>i<length new. affordable w (db_server db2) (db_judge_scores db2 @ take i new)"
      and count: "fault_free (db_server db2) \<and> distinct (map jc_alert_id cs)
         \<and> set (map jc_alert_id cs) \<inter> js_alert_id ` set (db_judge_scores db2) = {} \<longrightarrow> fst r = ?n + int (length new)"
      using Cons.IH [OF loop] by blast
    have cost: "affordable w (db_server db) (db_judge_scores db @ take i (x @ new))"
      if "\<not> fle (jw_dailyBudgetUSD w) (Fin 0)" "i < length (x @ new)" for i
    proof (cases i)
      case 0
      then show ?thesis using that(1) c1 None by simp
    next
      case (Suc k)
      then have "take i (x @ new) = x @ take (i - length x) new" "i - length x < length new"
        using x(2) that(2) by (auto simp: take_append)
      then show ?thesis using afford that(1) x(1) sv2 by simp
    qed
    have len: "fst r = n + int (length (x @ new))"
      if "fault_free (db_server db)" "distinct (map jc_alert_id (c # cs))"
        "set (map jc_alert_id (c # cs)) \<inter> js_alert_id ` set (db_judge_scores db) = {}"
    proof -
      have "js_alert_id ` set (db_judge_scores db2) \<subseteq> insert (jc_alert_id c) (js_alert_id ` set (db_judge_scores db))"
        using x(1,3) by auto
      moreover have "jc_alert_id c \<notin> set (map jc_alert_id cs)" "set (map jc_alert_id cs) \<inter> js_alert_id ` set (db_judge_scores db) = {}"
        using that(2,3) by auto
      ultimately have "set (map jc_alert_id cs) \<inter> js_alert_id ` set (db_judge_scores db2) = {}"
        by (rule disjoint_insert_subset)
      then have "fst r = ?n + int (length new)" using count that(1,2) sv2 by simp
      moreover have "int (length x) = (if o1 = None then 1 else 0)" using x(4) that by simp
      ultimately show ?thesis by simp
    qed
    show ?thesis using new(1-3) x(1-3) sv2 sv' cost len by (intro conjI exI [of _ "x @ new"]) auto
  qed
qed

section \<open>A run\<close>

text \<open>Candidates are alerts without a verdict.\<close>

definition unjudged :: "db \<Rightarrow> string set" where
  "unjudged db = a_id ` set (db_alerts db) - js_alert_id ` set (db_judge_scores db)"

lemma judge_row_id: "judge_row db a = Some c \<Longrightarrow> jc_alert_id c = a_id a"
  by (auto simp: judge_row_def Let_def split: option.splits)

lemma ids_of_candidates:
  "set (map jc_alert_id (List.map_filter (judge_row db) as)) \<subseteq> a_id ` set as"
  "distinct (map a_id as) \<Longrightarrow> distinct (map jc_alert_id (List.map_filter (judge_row db) as))"
proof -
  show sub: "set (map jc_alert_id (List.map_filter (judge_row db) as)) \<subseteq> a_id ` set as" for as
    using judge_row_id by (induction as) (auto simp: List.map_filter_simps split: option.split)
  show "distinct (map a_id as) \<Longrightarrow> distinct (map jc_alert_id (List.map_filter (judge_row db) as))"
  proof (induction as)
    case (Cons a as)
    then show ?case using sub [of as] judge_row_id [of db a] by (auto simp: List.map_filter_simps split: option.split)
  qed (simp add: List.map_filter_simps)
qed

lemma candidates:
  assumes "ListAlertsForJudging q db = (Inr cs, db1)" and "good db"
  shows "(\<exists>n. db1 = db\<lparr> db_stmts := n \<rparr>) \<and> set (map jc_alert_id cs) \<subseteq> unjudged db \<and> distinct (map jc_alert_id cs)
    \<and> int (length cs) \<le> (if jq_Limit q \<le> 0 then 50 else jq_Limit q)"
proof -
  let ?lim = "if jq_Limit q \<le> 0 then 50 else jq_Limit q"
  obtain since where run: "run (queryListAlertsForJudging since ?lim) db = (Inr cs, db1)"
    using assms(1) by (auto simp: ListAlertsForJudging_def Let_def)
  define as where "as = sort_key (\<lambda>a. - a_created_at a)
    (filter (\<lambda>a. a_created_at a \<ge> since \<and> \<not> (\<exists>j\<in>set (db_judge_scores db). js_alert_id j = a_id a)) (db_alerts db))"
  have cs: "cs = take (nat ?lim) (List.map_filter (judge_row db) as)" and "db1 = db\<lparr> db_stmts := db_stmts db + 1 \<rparr>"
    using run_Inr [OF run] by (auto simp: queryListAlertsForJudging_def limited_def as_def split: if_splits)
  moreover have "a_id ` set as \<subseteq> unjudged db" by (force simp: as_def unjudged_def)
  then have "set (map jc_alert_id (List.map_filter (judge_row db) as)) \<subseteq> unjudged db" using ids_of_candidates(1) by (rule order.trans [rotated])
  moreover have "distinct (map a_id (db_alerts db))" using assms(2) by (simp add: good_def db_inv_def distinct_on_def)
  then have "distinct (map a_id as)" unfolding as_def distinct_map by (auto intro: inj_on_subset)
  then have "distinct (map jc_alert_id (List.map_filter (judge_row db) as))" by (rule ids_of_candidates(2))
  ultimately show ?thesis using set_take_subset [of "nat ?lim" "map jc_alert_id (List.map_filter (judge_row db) as)"]
    unfolding cs take_map [symmetric] by (intro conjI exI [of _ "db_stmts db + 1"]) (auto simp del: set_map)
qed

lemma WorkerRun_effect:
  assumes "WorkerRun w (db, s) = (r, (db', s'))"
  shows "(db_server db' = db_server db \<and> db_judge_scores db' = db_judge_scores db \<and> fst r = 0)
    \<or> (\<exists>cs m k. fst (ListAlertsForJudging \<lparr> jq_Lookback = jw_lookback w, jq_Limit = jw_batchSize w \<rparr> (db\<lparr> db_stmts := m \<rparr>)) = Inr cs
         \<and> judge_loop w cs 0 None (db\<lparr> db_stmts := k \<rparr>, s) = (r, (db', s')))"
proof -
  have batch: ?thesis
    if b: "(case adapterListAlertsForJudging \<lparr> jsq_Lookback = jw_lookback w, jsq_Limit = jw_batchSize w \<rparr> (db\<lparr> db_stmts := m \<rparr>) of
              (Inl e, db) \<Rightarrow> ((0, Some (ListingCandidates e)), (db, s))
            | (Inr candidates, db) \<Rightarrow> judge_loop w candidates 0 None (db, s)) = (r, (db', s'))" for m
  proof -
    obtain a db1 where l: "ListAlertsForJudging \<lparr> jq_Lookback = jw_lookback w, jq_Limit = jw_batchSize w \<rparr> (db\<lparr> db_stmts := m \<rparr>) = (a, db1)"
      by fastforce
    then obtain n where "db1 = db\<lparr> db_stmts := n \<rparr>"
      unfolding ListAlertsForJudging_def Let_def by (auto elim!: run_cases simp: queryListAlertsForJudging_def)
    note n = this
    show ?thesis
    proof (cases a)
      case (Inl e)
      then show ?thesis using b l n by (auto simp: adapterListAlertsForJudging_def)
    next
      case (Inr cs)
      have "fst (ListAlertsForJudging \<lparr> jq_Lookback = jw_lookback w, jq_Limit = jw_batchSize w \<rparr> (db\<lparr> db_stmts := m \<rparr>)) = Inr cs"
        using l Inr by simp
      moreover have "judge_loop w cs 0 None (db\<lparr> db_stmts := n \<rparr>, s) = (r, (db', s'))"
        using b l n Inr by (simp add: adapterListAlertsForJudging_def)
      ultimately show ?thesis by blast
    qed
  qed
  show ?thesis
  proof (cases "flt (Fin 0) (jw_dailyBudgetUSD w)")
    case False
    then show ?thesis using assms batch [of "db_stmts db"] by (simp add: WorkerRun_def)
  next
    case True
    obtain a db1 where sum: "SumJudgeCostSince (todayUTCMidnight (go_now db)) db = (a, db1)" by fastforce
    obtain n where n: "db1 = db\<lparr> db_stmts := n \<rparr>" using SumJudgeCostSince_effect [OF sum] by blast
    then show ?thesis using True assms batch [of n] sum
      by (auto simp: WorkerRun_def adapterSumJudgeCostSince_def split: sum.splits if_splits)
  qed
qed


text \<open>What a run reports. With a server that does not fail, the number a run returns is the number of verdicts
  it stored; they are verdicts on distinct alerts that had none, at most a batch of them.\<close>

theorem judge_run_counts:
  assumes "fault_free (db_server db)" and "good db" and "0 < jw_batchSize w" and "WorkerRun w (db, s) = (r, (db', s'))"
  shows "\<exists>new. db_judge_scores db' = db_judge_scores db @ new \<and> fst r = int (length new) \<and> fst r \<le> jw_batchSize w
    \<and> set (map js_alert_id new) \<subseteq> unjudged db"
  using WorkerRun_effect [OF assms(4)]
proof (elim disjE exE conjE)
  fix cs m k
  assume c: "fst (ListAlertsForJudging \<lparr> jq_Lookback = jw_lookback w, jq_Limit = jw_batchSize w \<rparr> (db\<lparr> db_stmts := m \<rparr>)) = Inr cs"
    and l: "judge_loop w cs 0 None (db\<lparr> db_stmts := k \<rparr>, s) = (r, (db', s'))"
  have g: "good (db\<lparr> db_stmts := m \<rparr>)" using assms(2) by simp
  obtain db1 where "ListAlertsForJudging \<lparr> jq_Lookback = jw_lookback w, jq_Limit = jw_batchSize w \<rparr> (db\<lparr> db_stmts := m \<rparr>) = (Inr cs, db1)"
    using c by (metis prod.collapse)
  from candidates [OF this g]
  have cs: "set (map jc_alert_id cs) \<subseteq> unjudged db" "distinct (map jc_alert_id cs)" "int (length cs) \<le> jw_batchSize w"
    using assms(3) by (simp_all add: unjudged_def)
  have "set (map jc_alert_id cs) \<inter> js_alert_id ` set (db_judge_scores db) = {}" using cs(1) by (auto simp: unjudged_def)
  with judge_loop_effect [OF l] assms(1) cs(2)
  obtain new where "db_judge_scores db' = db_judge_scores db @ new" "length new \<le> length cs"
    "set (map js_alert_id new) \<subseteq> set (map jc_alert_id cs)" "fst r = int (length new)" by auto
  then show ?thesis using cs(1,3) by (intro exI [of _ new] conjI order.trans [OF _ cs(1)]) simp_all
qed (auto intro: exI [of _ "[]"] simp: assms(3) less_imp_le)

text \<open>A judge that likes everything, with a budget of a cent.\<close>

definition eager_worker :: "unit judge_worker" where
  "eager_worker = \<lparr> jw_judge = (\<lambda>ac s. (Inr \<lparr> vd_Score = Fin 1, vd_Reason = ''ok'',
       vd_Tokens = \<lparr> jt_InputTokens = 1, jt_OutputTokens = 1 \<rparr>, vd_Model = ''m'', vd_CostUSD = Fin 1 \<rparr>, s)),
     jw_metrics = (\<lambda>e s. s), jw_lfScore = (\<lambda>t n v c s. (None, s)), jw_lookback = hour, jw_batchSize = 5,
     jw_dailyBudgetUSD = Fin (1 / 100) \<rparr>"

definition judged_demo :: "(int \<times> worker_error option) \<times> unit judge_world" where
  "judged_demo = WorkerRun eager_worker (demo_db plain_server, ())"

lemma judged_demo_fst: "fst judged_demo = (1, None)"
  by code_simp

lemma judged_demo_run: "WorkerRun eager_worker (demo_db plain_server, ()) = (fst judged_demo, (fst (snd judged_demo), ()))"
  by (cases "WorkerRun eager_worker (demo_db plain_server, ())") (auto simp: judged_demo_def)


theorem judge_run_counts_witness: "length (db_judge_scores (fst (snd judged_demo))) = 1"
proof -
  have "fault_free (db_server (demo_db plain_server))" by (simp add: demo_db_def empty_db_def plain_fault_free)
  from judge_run_counts [OF this good_demo(1) _ judged_demo_run] show ?thesis
    using judged_demo_fst by (auto simp: eager_worker_def demo_db_def empty_db_def)
qed

end
