(* ===== verification/Handlers.thy ===== *)
theory Handlers
  imports Judge Engine
begin

text \<open>
  The JSON API (\<open>internal/api/handlers\<close>): the conversion of each request, the call into the store, the engine,
  the extractor, the judge or eBay, and the reply with its status. Routing, binding and schema validation
  belong to the web framework: a handler starts from its decoded input. \<open>et\<close> renders errors. A handler that
  panics is None.
\<close>

section \<open>Replies\<close>

datatype 'a reply = Reply 'a | HumaError int string

definition reply_of :: "(db_error \<Rightarrow> 'b reply) \<Rightarrow> ('a \<Rightarrow> 'b reply) \<Rightarrow> 'a stmt \<Rightarrow> db \<Rightarrow> 'b reply \<times> db" where
  "reply_of bad ok m db = (case m db of (Inl e, db) \<Rightarrow> (bad e, db) | (Inr x, db) \<Rightarrow> (ok x, db))"

section \<open>Watches\<close>

record watch_body =
  wb_Name :: string
  wb_SearchQuery :: string
  wb_CategoryID :: string
  wb_ComponentType :: component_type
  wb_Filters :: watch_filters
  wb_ScoreThreshold :: int
  wb_Enabled :: bool

definition body_watch :: "string \<Rightarrow> watch_body \<Rightarrow> watch" where
  "body_watch i b = \<lparr> w_id = i, w_name = wb_Name b, w_search_query = wb_SearchQuery b, w_category_id = wb_CategoryID b,
     w_component_type = wb_ComponentType b, w_filters = wb_Filters b, w_score_threshold = wb_ScoreThreshold b,
     w_enabled = wb_Enabled b, w_last_polled_at = None, w_created_at = 0, w_updated_at = 0 \<rparr>"

definition handleListWatches :: "(db_error \<Rightarrow> string) \<Rightarrow> string \<Rightarrow> db \<Rightarrow> watch list reply \<times> db" where
  "handleListWatches et enabled =
     reply_of (\<lambda>e. HumaError 500 (''listing watches: '' @ et e)) Reply (ListWatches (enabled = ''true''))"

definition handleGetWatch :: "string \<Rightarrow> db \<Rightarrow> watch reply \<times> db" where
  "handleGetWatch i = reply_of (\<lambda>e. HumaError 404 ''watch not found'') Reply (GetWatch i)"

definition handleCreateWatch :: "(db_error \<Rightarrow> string) \<Rightarrow> watch_body \<Rightarrow> db \<Rightarrow> watch reply \<times> db" where
  "handleCreateWatch et b =
     reply_of (\<lambda>e. HumaError 500 (''creating watch: '' @ et e)) Reply (CreateWatch (body_watch [] b))"

definition handleUpdateWatch :: "(db_error \<Rightarrow> string) \<Rightarrow> string \<Rightarrow> watch_body \<Rightarrow> db \<Rightarrow> watch reply \<times> db" where
  "handleUpdateWatch et i b =
     reply_of (\<lambda>e. HumaError 500 (''updating watch: '' @ et e)) (\<lambda>_. Reply (body_watch i b)) (UpdateWatch (body_watch i b))"

definition handleSetWatchEnabled :: "(db_error \<Rightarrow> string) \<Rightarrow> string \<Rightarrow> bool \<Rightarrow> db \<Rightarrow> string reply \<times> db" where
  "handleSetWatchEnabled et i b =
     reply_of (\<lambda>e. HumaError 500 (''setting watch enabled: '' @ et e)) (\<lambda>_. Reply ''updated'') (SetWatchEnabled i b)"

definition handleDeleteWatch :: "(db_error \<Rightarrow> string) \<Rightarrow> string \<Rightarrow> db \<Rightarrow> unit reply \<times> db" where
  "handleDeleteWatch et i = reply_of (\<lambda>e. HumaError 500 (''deleting watch: '' @ et e)) Reply (DeleteWatch i)"

section \<open>Listings\<close>

record list_listings_input =
  li_ComponentType :: string
  li_ProductKey :: string
  li_MinScore :: int
  li_MaxScore :: int
  li_Limit :: int
  li_Offset :: int
  li_OrderBy :: string

definition input_query :: "list_listings_input \<Rightarrow> listing_query" where
  "input_query i =
     \<lparr> lq_ComponentType = (if li_ComponentType i \<noteq> [] then Some (li_ComponentType i) else None),
       lq_MinScore = (if li_MinScore i \<noteq> 0 then Some (li_MinScore i) else None),
       lq_MaxScore = (if li_MaxScore i \<noteq> 0 then Some (li_MaxScore i) else None),
       lq_ProductKey = (if li_ProductKey i \<noteq> [] then Some (li_ProductKey i) else None),
       lq_SellerMinFB = None, lq_Conditions = [], lq_Limit = li_Limit i, lq_Offset = li_Offset i, lq_OrderBy = li_OrderBy i \<rparr>"

record listings_page =
  lp_Listings :: "listing list"
  lp_Total :: int
  lp_Limit :: int
  lp_Offset :: int

definition handleListListings :: "(db_error \<Rightarrow> string) \<Rightarrow> list_listings_input \<Rightarrow> db \<Rightarrow> listings_page reply \<times> db" where
  "handleListListings et i =
     (let q = input_query i in
      reply_of (\<lambda>e. HumaError 500 (''listing query failed: '' @ et e))
        (\<lambda>(ls, total). Reply \<lparr> lp_Listings = ls, lp_Total = total, lp_Limit = lq_Limit q, lp_Offset = lq_Offset q \<rparr>)
        (ListListings q))"

definition handleGetListing :: "string \<Rightarrow> db \<Rightarrow> listing reply \<times> db" where
  "handleGetListing i = reply_of (\<lambda>e. HumaError 404 ''listing not found'') Reply (GetListingByID i)"

section \<open>Baselines, jobs and state\<close>

definition handleListBaselines :: "(db_error \<Rightarrow> string) \<Rightarrow> db \<Rightarrow> price_baseline list reply \<times> db" where
  "handleListBaselines et = reply_of (\<lambda>e. HumaError 500 (''failed to list baselines: '' @ et e)) Reply ListBaselines"

definition handleGetBaseline :: "string \<Rightarrow> db \<Rightarrow> price_baseline reply \<times> db" where
  "handleGetBaseline k = reply_of (\<lambda>e. HumaError 404 ''baseline not found'') Reply (GetBaseline k)"

definition defaultJobHistoryLimit :: int where "defaultJobHistoryLimit = 20"

definition handleListJobs :: "(db_error \<Rightarrow> string) \<Rightarrow> db \<Rightarrow> job_run list reply \<times> db" where
  "handleListJobs et = reply_of (\<lambda>e. HumaError 500 (''listing jobs failed: '' @ et e)) Reply ListLatestJobRuns"

definition handleGetJobHistory :: "(db_error \<Rightarrow> string) \<Rightarrow> string \<Rightarrow> db \<Rightarrow> job_run list reply \<times> db" where
  "handleGetJobHistory et nm =
     reply_of (\<lambda>e. HumaError 500 (''fetching job history failed: '' @ et e)) Reply (ListJobRuns nm defaultJobHistoryLimit)"

definition handleGetSystemState :: "db \<Rightarrow> system_state reply \<times> db" where
  "handleGetSystemState = reply_of (\<lambda>e. HumaError 500 ''failed to get system state'') Reply GetSystemState"

text \<open>The total and the counts by type, which are always empty.\<close>

definition handleStats :: "(db_error \<Rightarrow> string) \<Rightarrow> db \<Rightarrow> (int \<times> (string, int) gomap) reply \<times> db" where
  "handleStats et = reply_of (\<lambda>e. HumaError 500 (''failed to get extraction stats: '' @ et e))
     (\<lambda>s. Reply (ss_listings_incomplete_extraction s, [])) GetSystemState"

definition Healthz :: "string reply" where "Healthz = Reply ''ok''"

definition Readyz :: "bool \<Rightarrow> string reply" where
  "Readyz reachable = (if \<not> reachable then HumaError 503 ''database unavailable'' else Reply ''ready'')"

record quota_body =
  qb_DailyLimit :: int
  qb_DailyUsed :: int
  qb_Remaining :: int
  qb_ResetAt :: "instant option"

definition GetQuota :: "limiter option \<Rightarrow> quota_body reply" where
  "GetQuota rl = Reply (case rl of
     None \<Rightarrow> \<lparr> qb_DailyLimit = 0, qb_DailyUsed = 0, qb_Remaining = 0, qb_ResetAt = None \<rparr>
   | Some r \<Rightarrow> \<lparr> qb_DailyLimit = MaxDaily r, qb_DailyUsed = DailyCount r, qb_Remaining = Remaining r, qb_ResetAt = Some (ResetAt r) \<rparr>)"

section \<open>Triggers\<close>

definition Ingest :: "(ingest_error \<Rightarrow> string) \<Rightarrow> 's engine \<Rightarrow> 's eworld \<Rightarrow> string reply option \<times> 's eworld" where
  "Ingest et eng world =
     (case RunIngestion eng world of
        (None, world) \<Rightarrow> (None, world)
      | (Some (Some e), world) \<Rightarrow> (Some (HumaError 500 (''ingestion failed: '' @ et e)), world)
      | (Some None, world) \<Rightarrow> (Some (Reply ''ingestion completed''), world))"

text \<open>None is a refresh that does not end.\<close>

definition Refresh :: "(refresh_error \<Rightarrow> string) \<Rightarrow> 's engine \<Rightarrow> db \<Rightarrow> (string reply option \<times> db) option" where
  "Refresh et eng db =
     map_option (\<lambda>(r, db). (map_option (\<lambda>e. case e of
         Some e \<Rightarrow> HumaError 500 (''baseline refresh failed: '' @ et e)
       | None \<Rightarrow> Reply ''baseline refresh completed'') r, db)) (RunBaselineRefresh eng db)"

definition handleRescore :: "(rescore_error list \<Rightarrow> string) \<Rightarrow> 's engine \<Rightarrow> db \<Rightarrow> (int reply option \<times> db) option" where
  "handleRescore et eng db =
     map_option (\<lambda>(r, db). (map_option (\<lambda>(n, es).
         if es \<noteq> [] then HumaError 500 (''rescore failed: '' @ et es) else Reply n) r, db)) (EngineRescoreAll eng db)"

definition ReExtract :: "(reextract_error \<Rightarrow> string) \<Rightarrow> 's engine \<Rightarrow> string \<Rightarrow> int \<Rightarrow> 's eworld \<Rightarrow> int reply \<times> 's eworld" where
  "ReExtract et eng ct lmt world =
     (case RunReExtraction eng ct lmt world of
        ((n, Some e), world) \<Rightarrow> (HumaError 500 (''re-extraction failed: '' @ et e), world)
      | ((n, None), world) \<Rightarrow> (Reply n, world))"

text \<open>The judged alerts, and whether the budget stopped the run.\<close>

definition RunJudge :: "(worker_error \<Rightarrow> string) \<Rightarrow> 's judge_worker option \<Rightarrow> 's judge_world \<Rightarrow> (int \<times> bool) reply \<times> 's judge_world" where
  "RunJudge et worker world =
     (case worker of
        None \<Rightarrow> (HumaError 503 ''judge worker not configured'', world)
      | Some w \<Rightarrow>
          (case WorkerRun w world of
             ((judged, None), world) \<Rightarrow> (Reply (judged, False), world)
           | ((judged, Some e), world) \<Rightarrow>
               if e = JudgeBudgetExhausted then (Reply (judged, True), world)
               else (HumaError 500 (''judge run failed: '' @ et e), world)))"

section \<open>Extraction and search\<close>

record extract_body =
  eb_ComponentType :: component_type
  eb_Attributes :: attrs
  eb_ProductKey :: string

definition handleExtract :: "(xerr \<Rightarrow> string) \<Rightarrow> 's extractor \<Rightarrow> string \<Rightarrow> (string, string) gomap \<Rightarrow> 's \<Rightarrow> extract_body reply option \<times> 's" where
  "handleExtract et ex title specifics s =
     (case ClassifyAndExtract ex title specifics s of
        ((ct, Inl e), s) \<Rightarrow> (if e = NilMapPanic then None else Some (HumaError 500 (''extraction failed: '' @ et e)), s)
      | ((ct, Inr attrs), s) \<Rightarrow>
          (Some (Reply \<lparr> eb_ComponentType = ct, eb_Attributes = attrs, eb_ProductKey = ProductKey ct attrs \<rparr>), s))"

record search_input =
  si_Query :: string
  si_CategoryID :: string
  si_Limit :: int
  si_Sort :: string
  si_Filters :: "(string, string) gomap"

record search_body =
  sb_Listings :: "listing list"
  sb_Total :: int
  sb_HasMore :: bool

definition handleSearch :: "('e \<Rightarrow> string) \<Rightarrow> (string \<Rightarrow> instant option) \<Rightarrow> ('e, 's) ebay_client \<Rightarrow> search_input \<Rightarrow> 's \<Rightarrow> search_body reply \<times> 's" where
  "handleSearch et parse_time client i s =
     (let lmt = (if si_Limit i \<le> 0 then 10 else si_Limit i) in
      case client \<lparr> sr_Query = si_Query i, sr_CategoryID = si_CategoryID i, sr_Limit = lmt, sr_Offset = 0,
             sr_Sort = si_Sort i, sr_Filters = si_Filters i \<rparr> s of
        (Inl e, s) \<Rightarrow> (HumaError 502 (''eBay API error: '' @ et e), s)
      | (Inr resp, s) \<Rightarrow>
          (Reply \<lparr> sb_Listings = ToListings parse_time (sp_Items resp), sb_Total = sp_Total resp, sb_HasMore = sp_HasMore resp \<rparr>, s))"

section \<open>Traces of alerts\<close>

definition GetAlertTrace :: "(db_error \<Rightarrow> string) \<Rightarrow> string \<Rightarrow> string \<Rightarrow> db \<Rightarrow> string reply \<times> db" where
  "GetAlertTrace et endpoint i db =
     (if endpoint = [] then (HumaError 404 (''langfuse not configured '' @ emdash @ '' no trace URL available''), db)
      else reply_of (\<lambda>e. if e = NoRows then HumaError 404 ''alert not found'' else HumaError 500 (''fetching alert: '' @ et e))
        (\<lambda>d. case a_trace_id (ad_alert d) of
           None \<Rightarrow> HumaError 404 ''alert has no trace ID''
         | Some t \<Rightarrow> if t = [] then HumaError 404 ''alert has no trace ID'' else Reply (BuildTraceURL endpoint t))
        (GetAlertDetail i) db)"

end
