(* ===== verification/AlertsUi.thy ===== *)
theory AlertsUi
  imports AlertWorld
begin

text \<open>
  The alert review pages (\<open>internal/api/handlers/alerts_ui.go\<close>). A request carries what the handlers read of
  it; a reply carries the data a template is rendered with, the rendering itself being generated code. The
  notifier, the Langfuse client and the counter of dismissals act on a state \<open>'s\<close> beside the database.
\<close>

section \<open>Requests and replies\<close>

text \<open>\<open>ui_json\<close> is the decoded list of ids of a JSON body, None when it does not decode; \<open>ui_form\<close> the values
  of a form, with the error of parsing it.\<close>

record ui_request =
  ui_query :: "(string, string) gomap"
  ui_raw_query :: string
  ui_id :: string
  ui_hx_request :: string
  ui_content_type :: string
  ui_json :: "string list option"
  ui_form :: "string + string list"

definition QueryParam :: "ui_request \<Rightarrow> string \<Rightarrow> string" where
  "QueryParam c k = (case mget (ui_query c) k of Some v \<Rightarrow> v | None \<Rightarrow> [])"

definition htmxHeaderValue :: string where "htmxHeaderValue = ''true''"

definition isHTMX :: "ui_request \<Rightarrow> bool" where
  "isHTMX c \<longleftrightarrow> ui_hx_request c = htmxHeaderValue"

record table_options =
  to_LangfuseEndpoint :: string
  to_JudgeEnabled :: bool

datatype ui_reply =
    AlertsTable alert_review_result string table_options
  | AlertsPage alert_review_result alert_review_query string table_options
  | AlertsJson alert_review_result
  | AlertDetailPage alert_detail string "judge_score option"
  | NotificationHistory "notification_attempt list"
  | NoContent int
  | Redirect int string
  | HttpError int string

record 's ui_deps =
  ud_sendAlert :: "alert_payload \<Rightarrow> 's \<Rightarrow> string option \<times> 's"
  ud_lfScore :: "string \<Rightarrow> string \<Rightarrow> f64 \<Rightarrow> string \<Rightarrow> 's \<Rightarrow> string option \<times> 's"
  ud_dismissedInc :: "'s \<Rightarrow> 's"
  ud_error_text :: "db_error \<Rightarrow> string"
  ud_LangfuseEndpoint :: string
  ud_JudgeEnabled :: bool

type_synonym 's ui_world = "db \<times> 's"

definition tableOpts :: "'s ui_deps \<Rightarrow> table_options" where
  "tableOpts d = \<lparr> to_LangfuseEndpoint = ud_LangfuseEndpoint d, to_JudgeEnabled = ud_JudgeEnabled d \<rparr>"

section \<open>The query of a list\<close>

definition defaultMinScore :: int where "defaultMinScore = 75"
definition defaultPerPage :: int where "defaultPerPage = 25"
definition maxPerPage :: int where "maxPerPage = 100"

definition parseIntDefault :: "string \<Rightarrow> int \<Rightarrow> int \<Rightarrow> int \<Rightarrow> int" where
  "parseIntDefault raw fallback minVal maxVal =
     (if raw = [] then fallback
      else case atoi raw of
        None \<Rightarrow> fallback
      | Some v \<Rightarrow> if v < minVal then minVal else if maxVal > 0 \<and> v > maxVal then maxVal else v)"

definition parseStatus :: "string \<Rightarrow> review_status" where
  "parseStatus raw =
     (if raw = ''active'' then StatusActive else if raw = ''dismissed'' then StatusDismissed
      else if raw = ''notified'' then StatusNotified else if raw = ''undismissed'' then StatusUndismissed
      else if raw = ''all'' then StatusAll else StatusActive)"

definition parseSort :: "string \<Rightarrow> string" where
  "parseSort raw = (if raw \<in> {''score'', ''created'', ''watch''} then raw else ''score'')"

definition parseAlertsListQuery :: "ui_request \<Rightarrow> alert_review_query" where
  "parseAlertsListQuery c =
     \<lparr> rq_Search = QueryParam c ''q'', rq_ComponentType = QueryParam c ''type'', rq_WatchID = QueryParam c ''watch'',
       rq_MinScore = parseIntDefault (QueryParam c ''min_score'') defaultMinScore 0 100,
       rq_Status = parseStatus (QueryParam c ''status''), rq_Sort = parseSort (QueryParam c ''sort''),
       rq_Page = parseIntDefault (QueryParam c ''page'') 1 1 0,
       rq_PerPage = parseIntDefault (QueryParam c ''per_page'') defaultPerPage 1 maxPerPage \<rparr>"

section \<open>Lists and details\<close>

definition ListPage :: "'s ui_deps \<Rightarrow> ui_request \<Rightarrow> db \<Rightarrow> ui_reply \<times> db" where
  "ListPage d c db =
     (let q = parseAlertsListQuery c in
      case ListAlertsForReview q db of
        (Inl e, db) \<Rightarrow> (HttpError 500 (''listing alerts: '' @ ud_error_text d e), db)
      | (Inr result, db) \<Rightarrow>
          (if isHTMX c then AlertsTable result (ui_raw_query c) (tableOpts d)
           else AlertsPage result q (ui_raw_query c) (tableOpts d), db))"

definition ListJSON :: "'s ui_deps \<Rightarrow> ui_request \<Rightarrow> db \<Rightarrow> ui_reply \<times> db" where
  "ListJSON d c db =
     (case ListAlertsForReview (parseAlertsListQuery c) db of
        (Inl e, db) \<Rightarrow> (HttpError 500 (''listing alerts: '' @ ud_error_text d e), db)
      | (Inr result, db) \<Rightarrow> (AlertsJson result, db))"

definition DetailPage :: "'s ui_deps \<Rightarrow> ui_request \<Rightarrow> db \<Rightarrow> ui_reply \<times> db" where
  "DetailPage d c db =
     (case GetAlertDetail (ui_id c) db of
        (Inl e, db) \<Rightarrow> (if e = NoRows then HttpError 404 ''alert not found''
                        else HttpError 500 (''fetching alert detail: '' @ ud_error_text d e), db)
      | (Inr det, db) \<Rightarrow>
          (case GetJudgeScore (ui_id c) db of (r, db) \<Rightarrow>
             (AlertDetailPage det (ud_LangfuseEndpoint d) (case r of Inl e \<Rightarrow> None | Inr j \<Rightarrow> j), db)))"

section \<open>Dismissing and restoring\<close>

fun scoreOperatorDismissValue :: "'s ui_deps \<Rightarrow> string list \<Rightarrow> f64 \<Rightarrow> 's \<Rightarrow> 's" where
  "scoreOperatorDismissValue d [] value s = s"
| "scoreOperatorDismissValue d (t # ts) value s =
     scoreOperatorDismissValue d ts value (snd (ud_lfScore d t ''operator_dismissed'' value [] s))"

definition scoreOperatorDismissed :: "'s ui_deps \<Rightarrow> string list \<Rightarrow> 's \<Rightarrow> 's" where
  "scoreOperatorDismissed d traceIDs = scoreOperatorDismissValue d traceIDs (Fin 1)"

definition scoreOperatorRestored :: "'s ui_deps \<Rightarrow> string list \<Rightarrow> 's \<Rightarrow> 's" where
  "scoreOperatorRestored d traceIDs = scoreOperatorDismissValue d traceIDs (Fin 0)"

definition DismissOne :: "'s ui_deps \<Rightarrow> ui_request \<Rightarrow> 's ui_world \<Rightarrow> ui_reply \<times> 's ui_world" where
  "DismissOne d c world =
     (case world of (db, s) \<Rightarrow> case DismissAlerts [ui_id c] db of
        (Inl e, db) \<Rightarrow> (HttpError 500 (''dismissing alert: '' @ ud_error_text d e), (db, s))
      | (Inr (n, traceIDs), db) \<Rightarrow>
          (let s = (ud_dismissedInc d ^^ nat n) s; s = scoreOperatorDismissed d traceIDs s
           in (if isHTMX c then NoContent 200 else Redirect 303 ''/alerts'', (db, s))))"

definition readIDs :: "ui_request \<Rightarrow> string + string list" where
  "readIDs c =
     (if has_prefix (ui_content_type c) ''application/json''
      then (case ui_json c of None \<Rightarrow> Inl ''invalid JSON body: expected {\"ids\": [...]}'' | Some ids \<Rightarrow> Inr ids)
      else ui_form c)"

definition DismissBulk :: "'s ui_deps \<Rightarrow> ui_request \<Rightarrow> 's ui_world \<Rightarrow> ui_reply \<times> 's ui_world" where
  "DismissBulk d c world =
     (case world of (db, s) \<Rightarrow> case readIDs c of
        Inl e \<Rightarrow> (HttpError 400 e, (db, s))
      | Inr ids \<Rightarrow>
          if ids = [] then (HttpError 400 ''no alert ids provided'', (db, s))
          else (case DismissAlerts ids db of
              (Inl e, db) \<Rightarrow> (HttpError 500 (''dismissing alerts: '' @ ud_error_text d e), (db, s))
            | (Inr (n, traceIDs), db) \<Rightarrow>
                (let s = (ud_dismissedInc d ^^ nat n) s; s = scoreOperatorDismissed d traceIDs s in
                 if isHTMX c then
                   (case ListAlertsForReview (parseAlertsListQuery c) db of
                      (Inl e, db) \<Rightarrow> (HttpError 500 (''refreshing alerts: '' @ ud_error_text d e), (db, s))
                    | (Inr result, db) \<Rightarrow> (AlertsTable result (ui_raw_query c) (tableOpts d), (db, s)))
                 else (Redirect 303 ''/alerts'', (db, s)))))"

definition Restore :: "'s ui_deps \<Rightarrow> ui_request \<Rightarrow> 's ui_world \<Rightarrow> ui_reply \<times> 's ui_world" where
  "Restore d c world =
     (case world of (db, s) \<Rightarrow> case RestoreAlerts [ui_id c] db of
        (Inl e, db) \<Rightarrow> (HttpError 500 (''restoring alert: '' @ ud_error_text d e), (db, s))
      | (Inr (n, traceIDs), db) \<Rightarrow>
          (let s = scoreOperatorRestored d traceIDs s
           in (if isHTMX c then NoContent 200 else Redirect 303 (''/alerts/'' @ ui_id c), (db, s))))"

section \<open>Sending again\<close>

definition buildRetryPayload :: "alert_detail \<Rightarrow> alert_payload" where
  "buildRetryPayload d =
     (let l = ad_listing d;
          unitPrice = (if l_quantity l > 1 then fdiv (l_price l) (f64_of_int (l_quantity l)) else l_price l)
      in zero_payload\<lparr> ap_WatchName := w_name (ad_watch d), ap_ListingTitle := l_title l, ap_EbayURL := l_item_url l,
           ap_ImageURL := l_image_url l, ap_Price := fixed2 (l_price l), ap_UnitPrice := fixed2 unitPrice,
           ap_Score := a_score (ad_alert d), ap_Seller := l_seller_name l, ap_Condition := l_condition_norm l,
           ap_ComponentType := l_component_type l \<rparr>)"

definition Retry :: "'s ui_deps \<Rightarrow> ui_request \<Rightarrow> 's ui_world \<Rightarrow> ui_reply \<times> 's ui_world" where
  "Retry d c world =
     (case world of (db, s) \<Rightarrow> case GetAlertDetail (ui_id c) db of
        (Inl e, db) \<Rightarrow> (if e = NoRows then HttpError 404 ''alert not found''
                        else HttpError 500 (''fetching alert: '' @ ud_error_text d e), (db, s))
      | (Inr det, db) \<Rightarrow>
          (case ud_sendAlert d (buildRetryPayload det) s of (sendErr, s) \<Rightarrow>
             let errText = (case sendErr of Some e \<Rightarrow> e | None \<Rightarrow> []);
                 db = snd (InsertNotificationAttempt (ui_id c) (sendErr = None) 0 errText db)
             in case GetAlertDetail (ui_id c) db of
                  (Inl e, db) \<Rightarrow> (HttpError 500 (''refreshing alert detail: '' @ ud_error_text d e), (db, s))
                | (Inr det, db) \<Rightarrow> (NotificationHistory (ad_notification_history det), (db, s))))"

section \<open>Parsed queries\<close>

lemma parseIntDefault_cases:
  "hi \<le> 0 \<or> lo \<le> hi \<Longrightarrow> parseIntDefault raw fb lo hi = fb
     \<or> lo \<le> parseIntDefault raw fb lo hi \<and> (hi \<le> 0 \<or> parseIntDefault raw fb lo hi \<le> hi)"
  by (auto simp: parseIntDefault_def split: option.split)

text \<open>Parsed queries are in range. Whatever the query string of a request, the minimal score is between 0 and
  100, the page is at least 1, a page has between 1 and 100 rows, and sorting and status are known ones, so
  the defaults of the store never replace them; an admissible value is taken as it is.\<close>

theorem parsed_query_in_range:
  "(let q = parseAlertsListQuery c in
      0 \<le> rq_MinScore q \<and> rq_MinScore q \<le> 100 \<and> 1 \<le> rq_Page q \<and> 1 \<le> rq_PerPage q \<and> rq_PerPage q \<le> 100
      \<and> rq_Sort q \<in> {''score'', ''created'', ''watch''} \<and> rq_Status q \<notin> {StatusUnset, StatusOther}
      \<and> alertReviewDefaults q = q
      \<and> (case atoi (QueryParam c ''per_page'') of
           None \<Rightarrow> rq_PerPage q = defaultPerPage | Some n \<Rightarrow> rq_PerPage q = max 1 (min 100 n)))"
proof -
  let ?q = "parseAlertsListQuery c"
  have "rq_MinScore ?q \<in> {0..100}" "1 \<le> rq_Page ?q" "rq_PerPage ?q \<in> {1..100}"
    using parseIntDefault_cases [of 100 0 "QueryParam c ''min_score''" defaultMinScore]
      parseIntDefault_cases [of 0 1 "QueryParam c ''page''" 1] parseIntDefault_cases [of maxPerPage 1 "QueryParam c ''per_page''" defaultPerPage]
    by (auto simp: parseAlertsListQuery_def defaultMinScore_def defaultPerPage_def maxPerPage_def)
  moreover have "rq_Sort ?q \<in> {''score'', ''created'', ''watch''}" "rq_Status ?q \<notin> {StatusUnset, StatusOther}"
    by (simp_all add: parseAlertsListQuery_def parseSort_def parseStatus_def)
  moreover from calculation have "alertReviewDefaults ?q = ?q" by (auto simp: alertReviewDefaults_def Let_def)
  moreover have "case atoi (QueryParam c ''per_page'') of
           None \<Rightarrow> rq_PerPage ?q = defaultPerPage | Some n \<Rightarrow> rq_PerPage ?q = max 1 (min 100 n)"
    by (auto simp: parseAlertsListQuery_def parseIntDefault_def maxPerPage_def atoi_def split: option.split)
  ultimately show ?thesis by (simp add: Let_def)
qed

end
