(* ===== verification/UiLaws.thy ===== *)
theory UiLaws
  imports AlertsUi
begin

text \<open>
  What the review pages do to the alerts: dismissing is idempotent and restoring undoes it, and sending an alert
  again that is still pending leaves it pending for ever.
\<close>

section \<open>Dismissing and restoring\<close>

lemma update_where_map: "update_where P f xs = map (\<lambda>x. if P x then f x else x) xs"
  by (simp add: update_where_def)

lemma filter_one:
  assumes "distinct_on k xs" and "x \<in> set xs" and "P x"
  shows "filter (\<lambda>y. k y = k x \<and> P y) xs = [x]"
proof -
  have "filter (\<lambda>y. k y = k x) xs = [x]"
    using assms(1,2) by (induction xs) (auto simp: distinct_on_def filter_empty_conv image_iff)
  then have "filter P (filter (\<lambda>y. k y = k x) xs) = [x]" using assms(3) by simp
  then show ?thesis by (simp add: conj_commute)
qed

definition dismissed :: "instant \<Rightarrow> string \<Rightarrow> alert list \<Rightarrow> alert list" where
  "dismissed t i = map (\<lambda>a. if a_id a = i \<and> a_dismissed_at a = None then a\<lparr> a_dismissed_at := Some t \<rparr> else a)"

definition traces_of :: "alert \<Rightarrow> string list" where
  "traces_of a = (case a_trace_id a of None \<Rightarrow> [] | Some t \<Rightarrow> if t = [] then [] else [t])"

lemma distinct_dismissed [simp]: "distinct_on a_id (dismissed t i as) = distinct_on a_id as"
proof -
  have "map a_id (dismissed t i as) = map a_id as" by (simp add: dismissed_def)
  then show ?thesis by (simp add: distinct_on_def)
qed

lemma DismissAlerts_one:
  assumes "fault_free (db_server db)" and "distinct_on a_id (db_alerts db)" and "a \<in> set (db_alerts db)" and "a_dismissed_at a = None"
  shows "DismissAlerts [a_id a] db = (Inr (1, traces_of a),
    db\<lparr> db_alerts := dismissed (now db) (a_id a) (db_alerts db), db_stmts := db_stmts db + 1 \<rparr>)"
proof -
  have "filter (\<lambda>y. a_id y = a_id a \<and> a_dismissed_at y = None) (db_alerts db) = [a]"
    using filter_one [OF assms(2,3), of "\<lambda>y. a_dismissed_at y = None"] assms(4) by simp
  then show ?thesis using assms(1)
    by (simp add: DismissAlerts_def bind_db_def run_fault_free queryDismissAlerts_def changed_ids_def return_db_def
        update_where_map dismissed_def traces_of_def split: option.split)
qed

lemma DismissAlerts_none:
  assumes "fault_free (db_server db)" and "\<forall>a\<in>set (db_alerts db). a_id a = i \<longrightarrow> a_dismissed_at a \<noteq> None"
  shows "DismissAlerts [i] db = (Inr (0, []), db\<lparr> db_stmts := db_stmts db + 1 \<rparr>)"
proof -
  have "filter (\<lambda>y. a_id y = i \<and> a_dismissed_at y = None) (db_alerts db) = []" using assms(2) by (auto simp: filter_empty_conv)
  moreover have "map (\<lambda>x. if a_id x = i \<and> a_dismissed_at x = None then x\<lparr> a_dismissed_at := Some t \<rparr> else x) (db_alerts db) = db_alerts db" for t
    using assms(2) by (auto intro: map_idI)
  ultimately show ?thesis using assms(1)
    by (simp add: DismissAlerts_def bind_db_def run_fault_free queryDismissAlerts_def changed_ids_def return_db_def update_where_map)
qed

lemma RestoreAlerts_dismissed:
  assumes "fault_free (db_server db)" and "distinct_on a_id as" and "a \<in> set as" and "a_dismissed_at a = None"
    and "db_alerts db = dismissed t (a_id a) as"
  shows "RestoreAlerts [a_id a] db = (Inr (1, traces_of a), db\<lparr> db_alerts := as, db_stmts := db_stmts db + 1 \<rparr>)"
proof -
  let ?b = "a\<lparr> a_dismissed_at := Some t \<rparr>"
  have same: "y = a" if "y \<in> set as" "a_id y = a_id a" for y
    using that assms(2,3) by (auto simp: distinct_on_def distinct_map inj_on_def)
  have "?b \<in> set (db_alerts db)" using assms(3-5) by (auto simp: dismissed_def)
  moreover have "distinct_on a_id (db_alerts db)" using assms(2,5) by simp
  ultimately have "filter (\<lambda>y. a_id y = a_id ?b \<and> a_dismissed_at y \<noteq> None) (db_alerts db) = [?b]"
    by (intro filter_one) simp_all
  then have "filter (\<lambda>y. a_id y = a_id a \<and> (\<exists>u. a_dismissed_at y = Some u)) (db_alerts db) = [?b]" by simp
  moreover have "map (\<lambda>x. if a_id x = a_id a \<and> (\<exists>u. a_dismissed_at x = Some u) then x\<lparr> a_dismissed_at := None \<rparr> else x) (db_alerts db) = as"
    unfolding assms(5) dismissed_def map_map
  proof (rule map_idI)
    fix x assume "x \<in> set as"
    then show "((\<lambda>x. if a_id x = a_id a \<and> (\<exists>u. a_dismissed_at x = Some u) then x\<lparr> a_dismissed_at := None \<rparr> else x)
      \<circ> (\<lambda>b. if a_id b = a_id a \<and> a_dismissed_at b = None then b\<lparr> a_dismissed_at := Some t \<rparr> else b)) x = x"
      using same [of x] assms(4) by (cases "a_id x = a_id a") auto
  qed
  ultimately show ?thesis using assms(1)
    by (simp add: RestoreAlerts_def bind_db_def run_fault_free queryRestoreAlerts_def changed_ids_def return_db_def
        update_where_map traces_of_def split: option.split)
qed

text \<open>C34. Dismissing and restoring. With a server that does not fail, dismissing an active alert marks exactly this
  alert and scores its trace once; dismissing it again changes no alert and scores nothing; restoring it
  gives back the alerts as they were and retracts the score.\<close>

theorem dismiss_restore:
  assumes "fault_free (db_server db)" and "good db" and "a \<in> set (db_alerts db)" and "a_dismissed_at a = None" and "ui_id c = a_id a"
  shows "\<exists>db1 db2 s1. DismissOne d c (db, s) = (if isHTMX c then NoContent 200 else Redirect 303 ''/alerts'', (db1, s1))
    \<and> s1 = scoreOperatorDismissed d (traces_of a) (ud_dismissedInc d s)
    \<and> db_alerts db1 = dismissed (now db) (a_id a) (db_alerts db)
    \<and> DismissOne d c (db1, s1) = (if isHTMX c then NoContent 200 else Redirect 303 ''/alerts'', (db2, s1))
    \<and> db_alerts db2 = db_alerts db1
    \<and> db_alerts (fst (snd (Restore d c (db2, s1)))) = db_alerts db
    \<and> snd (snd (Restore d c (db2, s1))) = scoreOperatorRestored d (traces_of a) s1"
proof -
  have dist: "distinct_on a_id (db_alerts db)" using assms(2) by (simp add: good_def db_inv_def)
  let ?s1 = "scoreOperatorDismissed d (traces_of a) (ud_dismissedInc d s)"
  define db1 where "db1 = db\<lparr> db_alerts := dismissed (now db) (a_id a) (db_alerts db), db_stmts := db_stmts db + 1 \<rparr>"
  define db2 where "db2 = db1\<lparr> db_stmts := db_stmts db1 + 1 \<rparr>"
  have one: "DismissAlerts [a_id a] db = (Inr (1, traces_of a), db1)"
    unfolding db1_def by (rule DismissAlerts_one [OF assms(1) dist assms(3,4)])
  have ff: "fault_free (db_server db1)" "fault_free (db_server db2)" using assms(1) by (simp_all add: db1_def db2_def)
  have "\<forall>b\<in>set (db_alerts db1). a_id b = a_id a \<longrightarrow> a_dismissed_at b \<noteq> None" by (auto simp: db1_def dismissed_def)
  from DismissAlerts_none [OF ff(1) this] have two: "DismissAlerts [a_id a] db1 = (Inr (0, []), db2)" by (simp add: db2_def)
  have "db_alerts db2 = dismissed (now db) (a_id a) (db_alerts db)" by (simp add: db2_def db1_def)
  from RestoreAlerts_dismissed [OF ff(2) dist assms(3,4) this]
  have three: "RestoreAlerts [a_id a] db2 = (Inr (1, traces_of a), db2\<lparr> db_alerts := db_alerts db, db_stmts := db_stmts db2 + 1 \<rparr>)" .
  show ?thesis
    using assms(5) one two three
    by (intro exI [of _ db1] exI [of _ db2] exI [of _ ?s1])
      (simp add: DismissOne_def Restore_def Let_def scoreOperatorDismissed_def db1_def db2_def)
qed

text \<open>A request for the example alert, and collaborators that accept everything.\<close>

definition demo_request :: ui_request where
  "demo_request = \<lparr> ui_query = [], ui_raw_query = [], ui_id = itoa 2, ui_hx_request = [], ui_content_type = [],
     ui_json = None, ui_form = Inr [] \<rparr>"

definition quiet_deps :: "nat ui_deps" where
  "quiet_deps = \<lparr> ud_sendAlert = (\<lambda>p s. (None, s)), ud_lfScore = (\<lambda>t n v c s. (None, s)), ud_dismissedInc = Suc,
     ud_error_text = (\<lambda>e. []), ud_LangfuseEndpoint = [], ud_JudgeEnabled = False \<rparr>"

theorem dismiss_restore_witness:
  "map a_dismissed_at (db_alerts (fst (snd (DismissOne quiet_deps demo_request (demo_db plain_server, 0))))) = [Some 0]"
proof -
  have "fault_free (db_server (demo_db plain_server))" by (simp add: demo_db_def empty_db_def plain_fault_free)
  from dismiss_restore [OF this good_demo(1), where a = demo_alert and s = 0 and c = demo_request and d = quiet_deps]
  show ?thesis
    by (auto simp: demo_db_def demo_alert_def demo_request_def dismissed_def now_def empty_db_def plain_server_def)
qed

section \<open>Sending again\<close>

lemma detail_found:
  assumes "fault_free (db_server db)" and "good db" and "a \<in> set (db_alerts db)"
  shows "\<exists>det n. GetAlertDetail (a_id a) db = (Inr det, db\<lparr> db_stmts := n \<rparr>)"
proof -
  obtain w l where wl: "find (\<lambda>w. w_id w = a_watch_id a) (db_watches db) = Some w"
    "find (\<lambda>r. lr_id r = a_listing_id a) (db_listings db) = Some l"
  proof -
    have "a_watch_id a \<in> w_id ` set (db_watches db)" "a_listing_id a \<in> lr_id ` set (db_listings db)"
      using assms(2,3) by (auto simp: good_def db_inv_def)
    then have "find (\<lambda>w. w_id w = a_watch_id a) (db_watches db) \<noteq> None" "find (\<lambda>r. lr_id r = a_listing_id a) (db_listings db) \<noteq> None"
      by (auto simp: find_None_iff)
    then show thesis using that by blast
  qed
  have "(a, l, w) \<in> set (alert_join db)"
    using assms(3) wl by (force simp: alert_join_def List.map_filter_def)
  then have "find (\<lambda>(b, l, w). a_id b = a_id a) (alert_join db) \<noteq> None"
    unfolding find_None_iff by force
  then obtain b l' w' where f: "find (\<lambda>(b, l, w). a_id b = a_id a) (alert_join db) = Some (b, l', w')" by auto
  then have "(b, l', w') \<in> set (alert_join db)" by (auto simp: find_Some_iff in_set_conv_nth)
  then have "find (\<lambda>w. w_id w = a_watch_id b) (db_watches db) = Some w'"
    by (auto simp: alert_join_def List.map_filter_def split: option.splits)
  then show ?thesis using assms(1) f
    by (simp add: GetAlertDetail_def bind_db_def run_fault_free single_def GetWatch_def queryGetWatch_def
        listNotificationAttempts_def queryNotificationAttemptsByAlert_def return_db_def exI [of _ "Suc (Suc (Suc (db_stmts db)))"])
qed

text \<open>C35. Sending a pending alert again strands it. With a server that does not fail, when the operator sends an
  alert again that is still pending, and Discord accepts it, the delivery is recorded and the alert stays
  pending; from then on no processing of alerts marks it, whatever happens, and no further alert can be
  created for its watch and listing.\<close>

theorem retry_strands_alert:
  assumes "fault_free (db_server db)" and "good db" and "\<not> ac_SummaryOnly cfg"
    and "a \<in> set (db_alerts db)" and "\<not> a_notified a" and "ui_id c = a_id a" and "\<And>p s. fst (ud_sendAlert d p s) = None"
  shows "\<exists>db1 s1. snd (Retry d c (db, s)) = (db1, s1)
    \<and> a_id a \<in> pending_ids (fst (snd (ProcessAlerts (world_ops env dn render) visit cfg (db1, n))))
    \<and> queryCreateAlert (a_watch_id a) (a_listing_id a) score trace db1 = (Inl NoRows, db1)"
proof -
  obtain det k where det: "GetAlertDetail (a_id a) db = (Inr det, db\<lparr> db_stmts := k \<rparr>)" using detail_found [OF assms(1,2,4)] by blast
  let ?db = "db\<lparr> db_stmts := k \<rparr>"
  obtain s1 where send: "ud_sendAlert d (buildRetryPayload det) s = (None, s1)" using assms(7) by (metis prod.collapse)
  define db2 where "db2 = snd (InsertNotificationAttempt (a_id a) True 0 [] ?db)"
  have db2: "db_alerts db2 = db_alerts db" "db_server db2 = db_server db" "a_id a \<in> recorded db2"
    using assms(1,4) by (force simp: db2_def InsertNotificationAttempt_def run_fault_free queryInsertNotificationAttempt_def recorded_def)+
  have "good db2" unfolding db2_def by (rule keepsD [OF keeps_alerts(5)]) (simp add: assms(2))
  then obtain det' m where det': "GetAlertDetail (a_id a) db2 = (Inr det', db2\<lparr> db_stmts := m \<rparr>)"
    using detail_found [of db2 a] assms(1,4) db2 by auto
  let ?db1 = "db2\<lparr> db_stmts := m \<rparr>"
  have "snd (Retry d c (db, s)) = (?db1, s1)"
    using det send det' assms(6) by (simp add: Retry_def Let_def db2_def [symmetric])
  moreover have "world_inv (db_server ?db1) (?db1, n)" using \<open>good db2\<close> by (simp add: world_inv_def)
  moreover have "a_id a \<in> pending_ids ?db1" using assms(4,5) db2(1) by (auto simp: pending_ids_def)
  ultimately show ?thesis
    using pg.recorded_stays [of "db_server ?db1" "(?db1, n)" cfg "a_id a" env dn render visit] assms(3-5) db2
    by (auto simp: queryCreateAlert_def)
qed

lemma demo_pending: "demo_alert \<in> set (db_alerts (demo_db plain_server))" "\<not> a_notified demo_alert"
  by (simp_all add: demo_db_def demo_alert_def)

theorem retry_strands_alert_witness:
  "map a_notified (db_alerts (fst (snd (Retry quiet_deps demo_request (demo_db plain_server, 0))))) = [False]
   \<and> (\<exists>db1 s1. snd (Retry quiet_deps demo_request (demo_db plain_server, 0)) = (db1, s1)
        \<and> queryCreateAlert (itoa 1) (itoa 0) 95 [] db1 = (Inl NoRows, db1))"
proof
  show "map a_notified (db_alerts (fst (snd (Retry quiet_deps demo_request (demo_db plain_server, 0))))) = [False]"
    by code_simp
  have "fault_free (db_server (demo_db plain_server))" by (simp add: demo_db_def empty_db_def plain_fault_free)
  from retry_strands_alert [OF this good_demo(1) default_mode_full demo_pending, where d = quiet_deps and c = demo_request
      and s = 0 and env = calm_env and dn = demo_discord and render = "\<lambda>e. []" and visit = id
      and n = "(newRateLimitState, ((), []))" and score = 95 and trace = "[]"]
  show "\<exists>db1 s1. snd (Retry quiet_deps demo_request (demo_db plain_server, 0)) = (db1, s1)
        \<and> queryCreateAlert (itoa 1) (itoa 0) 95 [] db1 = (Inl NoRows, db1)"
    by (auto simp: quiet_deps_def demo_request_def demo_alert_def)
qed

end
