(* ===== verification/Filters.thy ===== *)
theory Filters
  imports Domain Numbers Url
begin

text \<open>
  The filter arguments of the command line (\<open>internal/api/handlers/filters.go\<close>) and the update of a watch from
  its flags (\<open>cmd/spt/cmd/watches_update.go\<close>), with the parts of \<open>strconv\<close> they use: \<open>ParseFloat\<close> with
  infinities, NaN, hexadecimal floats and digit separators, and \<open>ParseBool\<close>.
\<close>

section \<open>Floats and booleans\<close>

datatype num_error = ErrSyntax | ErrRange

text \<open>The spellings of infinities and NaN, in any case; NaN takes no sign.\<close>

definition special_float :: "string \<Rightarrow> f64 option" where
  "special_float s =
     (if to_lower s = ''nan'' then Some NaN
      else case parse_sign s of (neg, r) \<Rightarrow>
        if to_lower r = ''inf'' \<or> to_lower r = ''infinity'' then Some (if neg then NInf else PInf) else None)"

text \<open>\<open>underscoreOK\<close>: a separator stands between digits, or between the base prefix and a digit. The state is
  whether the last character was a digit or the prefix, and whether it was a separator.\<close>

fun separators_ok :: "(char \<Rightarrow> bool) \<Rightarrow> bool \<Rightarrow> bool \<Rightarrow> string \<Rightarrow> bool" where
  "separators_ok dig afterdig aftersep [] = (\<not> aftersep)"
| "separators_ok dig afterdig aftersep (c # cs) =
     (if dig c then separators_ok dig True False cs
      else if c = CHR ''_'' then afterdig \<and> separators_ok dig False True cs
      else \<not> aftersep \<and> separators_ok dig False False cs)"

definition is_hex :: "char \<Rightarrow> bool" where "is_hex c \<longleftrightarrow> hex_val c \<noteq> None"

definition hex_digits_val :: "string \<Rightarrow> nat" where
  "hex_digits_val ds = fold (\<lambda>c n. 16 * n + (case hex_val c of Some d \<Rightarrow> d | None \<Rightarrow> 0)) ds 0"

fun span_hex :: "string \<Rightarrow> string \<times> string" where
  "span_hex [] = ([], [])"
| "span_hex (c # cs) = (if is_hex c then (case span_hex cs of (ds, r) \<Rightarrow> (c # ds, r)) else ([], c # cs))"

definition fraction_of :: "(string \<Rightarrow> string \<times> string) \<Rightarrow> string \<Rightarrow> string \<times> string" where
  "fraction_of sp s = (case s of c # cs \<Rightarrow> if c = CHR ''.'' then sp cs else ([], s) | [] \<Rightarrow> ([], []))"

text \<open>The value of a decimal float, and of a hexadecimal one after its prefix, whose exponent is mandatory.\<close>

definition decimal_value :: "string \<Rightarrow> rat option" where
  "decimal_value s =
     (case span_digits s of (ip, s) \<Rightarrow> case fraction_of span_digits s of (fp, s) \<Rightarrow>
        if ip @ fp = [] then None
        else map_option (\<lambda>e. of_nat (digits_val (ip @ fp)) * scale10 (e - int (length fp))) (parse_exponent s))"

definition hex_exponent :: "string \<Rightarrow> int option" where
  "hex_exponent s = (case s of [] \<Rightarrow> None
     | c # cs \<Rightarrow> if c = CHR ''p'' \<or> c = CHR ''P''
         then (let (neg, ds) = parse_sign cs in
           if ds \<noteq> [] \<and> list_all is_digit ds
           then Some (if neg then - int (digits_val ds) else int (digits_val ds)) else None)
         else None)"

definition hex_value :: "string \<Rightarrow> rat option" where
  "hex_value s =
     (case span_hex s of (ip, s) \<Rightarrow> case fraction_of span_hex s of (fp, s) \<Rightarrow>
        if ip @ fp = [] then None
        else map_option (\<lambda>e. of_nat (hex_digits_val (ip @ fp)) * pow2 (e - 4 * int (length fp))) (hex_exponent s))"

definition hex_prefix :: "string \<Rightarrow> string option" where
  "hex_prefix r = (case r of a # b # cs \<Rightarrow> if a = CHR ''0'' \<and> (b = CHR ''x'' \<or> b = CHR ''X'') then Some cs else None | _ \<Rightarrow> None)"

text \<open>\<open>strconv.ParseFloat(s, 64)\<close>.\<close>

definition parse_float :: "string \<Rightarrow> num_error + f64" where
  "parse_float s =
     (case special_float s of
        Some x \<Rightarrow> Inr x
      | None \<Rightarrow>
          (case parse_sign s of (neg, r) \<Rightarrow>
           let bare = filter (\<lambda>c. c \<noteq> CHR ''_'');
               mag = (case hex_prefix r of
                   Some h \<Rightarrow> if separators_ok is_hex True False h then hex_value (bare h) else None
                 | None \<Rightarrow> if separators_ok is_digit False False r then decimal_value (bare r) else None)
           in case mag of
                None \<Rightarrow> Inl ErrSyntax
              | Some m \<Rightarrow> (case fl (if neg then - m else m) of Fin q \<Rightarrow> Inr (Fin q) | _ \<Rightarrow> Inl ErrRange)))"

text \<open>\<open>strconv.ParseBool\<close>.\<close>

definition parse_bool :: "string \<Rightarrow> bool option" where
  "parse_bool s =
     (if s \<in> {''1'', ''t'', ''T'', ''TRUE'', ''true'', ''True''} then Some True
      else if s \<in> {''0'', ''f'', ''F'', ''FALSE'', ''false'', ''False''} then Some False else None)"

section \<open>Filter arguments\<close>

datatype filter_error =
    InvalidFormat string
  | InvalidAttribute string num_error
  | InvalidValue string string
  | UnknownKey string

definition no_filters :: watch_filters where
  "no_filters = \<lparr> wf_price_max = None, wf_price_min = None, wf_seller_min_feedback = None,
     wf_seller_min_feedback_pct = None, wf_seller_top_rated_only = False, wf_conditions = [], wf_attribute_filters = [] \<rparr>"

definition no_attribute :: attribute_filter where
  "no_attribute = \<lparr> af_equals = JNull, af_min = None, af_max = None, af_in = None \<rparr>"

definition parseAttributeFilter :: "string \<Rightarrow> num_error + attribute_filter" where
  "parseAttributeFilter v =
     (case cut_prefix v ''min:'' of
        Some r \<Rightarrow> map_sum id (\<lambda>x. no_attribute\<lparr> af_min := Some x \<rparr>) (parse_float r)
      | None \<Rightarrow>
     (case cut_prefix v ''max:'' of
        Some r \<Rightarrow> map_sum id (\<lambda>x. no_attribute\<lparr> af_max := Some x \<rparr>) (parse_float r)
      | None \<Rightarrow>
     (case cut_prefix v ''eq:'' of
        Some r \<Rightarrow> Inr (no_attribute\<lparr> af_equals := JStr r \<rparr>)
      | None \<Rightarrow>
     (case parse_float v of
        Inr x \<Rightarrow> Inr (no_attribute\<lparr> af_equals := JNum x \<rparr>)
      | Inl e \<Rightarrow> Inr (no_attribute\<lparr> af_equals := JStr v \<rparr>)))))"

definition parseStandardFilter :: "watch_filters \<Rightarrow> string \<Rightarrow> string \<Rightarrow> filter_error + watch_filters" where
  "parseStandardFilter wfs key v =
     (if key = ''price_max'' then
        (case parse_float v of Inl e \<Rightarrow> Inl (InvalidValue key v) | Inr x \<Rightarrow> Inr (wfs\<lparr> wf_price_max := Some x \<rparr>))
      else if key = ''price_min'' then
        (case parse_float v of Inl e \<Rightarrow> Inl (InvalidValue key v) | Inr x \<Rightarrow> Inr (wfs\<lparr> wf_price_min := Some x \<rparr>))
      else if key = ''seller_min_feedback'' then
        (case atoi v of None \<Rightarrow> Inl (InvalidValue key v) | Some x \<Rightarrow> Inr (wfs\<lparr> wf_seller_min_feedback := Some x \<rparr>))
      else if key = ''seller_min_feedback_pct'' then
        (case parse_float v of Inl e \<Rightarrow> Inl (InvalidValue key v) | Inr x \<Rightarrow> Inr (wfs\<lparr> wf_seller_min_feedback_pct := Some x \<rparr>))
      else if key = ''seller_top_rated_only'' then
        (case parse_bool v of None \<Rightarrow> Inl (InvalidValue key v) | Some b \<Rightarrow> Inr (wfs\<lparr> wf_seller_top_rated_only := b \<rparr>))
      else if key = ''conditions'' then
        Inr (wfs\<lparr> wf_conditions := wf_conditions wfs @ map trim_space (split_at (CHR '','') v) \<rparr>)
      else Inl (UnknownKey key))"

text \<open>\<open>strings.SplitN(f, "=", 2)\<close>: None when there is no separator.\<close>

definition split_filter :: "string \<Rightarrow> (string \<times> string) option" where
  "split_filter f =
     (case dropWhile (\<lambda>c. c \<noteq> CHR ''='') f of [] \<Rightarrow> None | c # r \<Rightarrow> Some (takeWhile (\<lambda>c. c \<noteq> CHR ''='') f, r))"

fun parse_filters_loop :: "string list \<Rightarrow> watch_filters \<Rightarrow> filter_error + watch_filters" where
  "parse_filters_loop [] wfs = Inr wfs"
| "parse_filters_loop (f # fs) wfs =
     (case split_filter f of
        None \<Rightarrow> Inl (InvalidFormat f)
      | Some (key, v) \<Rightarrow>
          (case cut_prefix key ''attr:'' of
             Some attrKey \<Rightarrow>
               (case parseAttributeFilter v of
                  Inl e \<Rightarrow> Inl (InvalidAttribute f e)
                | Inr af \<Rightarrow> parse_filters_loop fs (wfs\<lparr> wf_attribute_filters := mput attrKey af (wf_attribute_filters wfs) \<rparr>))
           | None \<Rightarrow>
               (case parseStandardFilter wfs key v of Inl e \<Rightarrow> Inl e | Inr wfs \<Rightarrow> parse_filters_loop fs wfs)))"

definition ParseFilters :: "string list \<Rightarrow> filter_error + watch_filters" where
  "ParseFilters fs = parse_filters_loop fs no_filters"

section \<open>Updating a watch\<close>

definition cliComponentTypes :: "string list" where
  "cliComponentTypes = [''ram'', ''drive'', ''server'', ''cpu'', ''nic'', ''other'']"

record watch_update_flags =
  fl_name :: string
  fl_query :: string
  fl_category :: string
  fl_compType :: string
  fl_threshold :: int
  fl_enabled :: bool
  fl_filterFlag :: "string list"
  fl_addFilter :: "string list"
  fl_clearFilters :: bool

text \<open>The flags that were given on the command line are a predicate on their names.\<close>

definition applyScalarFlags :: "(string \<Rightarrow> bool) \<Rightarrow> watch_update_flags \<Rightarrow> watch \<Rightarrow> watch" where
  "applyScalarFlags changed f w =
     (let w = (if changed ''name'' then w\<lparr> w_name := fl_name f \<rparr> else w);
          w = (if changed ''query'' then w\<lparr> w_search_query := fl_query f \<rparr> else w);
          w = (if changed ''category'' then w\<lparr> w_category_id := fl_category f \<rparr> else w);
          w = (if changed ''type'' then w\<lparr> w_component_type := fl_compType f \<rparr> else w);
          w = (if changed ''threshold'' then w\<lparr> w_score_threshold := fl_threshold f \<rparr> else w)
      in if changed ''enabled'' then w\<lparr> w_enabled := fl_enabled f \<rparr> else w)"

datatype update_error = Exclusive | FilterFlag string filter_error

text \<open>\<open>maps.Copy\<close>.\<close>

definition map_copy :: "('k, 'v) gomap \<Rightarrow> ('k, 'v) gomap \<Rightarrow> ('k, 'v) gomap" where
  "map_copy dst m = fold (\<lambda>(k, v). mput k v) m dst"

definition applyFilterUpdates :: "watch_filters \<Rightarrow> string list \<Rightarrow> string list \<Rightarrow> bool \<Rightarrow> update_error + watch_filters" where
  "applyFilterUpdates current filterFlag addFilter clearFlag =
     (let n = (if clearFlag then 1 else 0) + (if filterFlag \<noteq> [] then 1 else 0) + (if addFilter \<noteq> [] then 1 else 0 :: nat) in
      if n > 1 then Inl Exclusive
      else if clearFlag then Inr no_filters
      else if filterFlag \<noteq> [] then map_sum (FilterFlag ''filter'') id (ParseFilters filterFlag)
      else if addFilter \<noteq> [] then
        map_sum (FilterFlag ''add-filter'')
          (\<lambda>parsed. current\<lparr> wf_attribute_filters := map_copy (wf_attribute_filters current) (wf_attribute_filters parsed) \<rparr>)
          (ParseFilters addFilter)
      else Inr current)"

datatype 'e run_error = InvalidType string | FetchingWatch 'e | UpdateFlags update_error | UpdatingWatch 'e

text \<open>The client's \<open>GetWatch\<close> and \<open>UpdateWatch\<close> are the arguments.\<close>

definition run_update ::
  "(string \<Rightarrow> 's \<Rightarrow> ('e + watch) \<times> 's) \<Rightarrow> (watch \<Rightarrow> 's \<Rightarrow> ('e + watch) \<times> 's)
    \<Rightarrow> (string \<Rightarrow> bool) \<Rightarrow> watch_update_flags \<Rightarrow> string \<Rightarrow> 's \<Rightarrow> ('e run_error + watch) \<times> 's" where
  "run_update getw putw changed f i s =
     (if fl_compType f \<noteq> [] \<and> fl_compType f \<notin> set cliComponentTypes then (Inl (InvalidType (fl_compType f)), s)
      else case getw i s of
        (Inl e, s) \<Rightarrow> (Inl (FetchingWatch e), s)
      | (Inr current, s) \<Rightarrow>
          (let current = applyScalarFlags changed f current in
           case applyFilterUpdates (w_filters current) (fl_filterFlag f) (fl_addFilter f) (fl_clearFilters f) of
             Inl e \<Rightarrow> (Inl (UpdateFlags e), s)
           | Inr fs \<Rightarrow> (case putw (current\<lparr> w_filters := fs \<rparr>) s of
               (Inl e, s) \<Rightarrow> (Inl (UpdatingWatch e), s)
             | (Inr updated, s) \<Rightarrow> (Inr updated, s))))"

section \<open>Round trip\<close>

text \<open>The arguments that denote given filters. \<open>rf\<close> renders floats; a filter can be written down when no
  delimiter occurs in its parts and no attribute needs more than one bound.\<close>

definition number_text :: "(f64 \<Rightarrow> string) \<Rightarrow> f64 \<Rightarrow> bool" where
  "number_text rf x \<longleftrightarrow> parse_float (rf x) = Inr x \<and> CHR '':'' \<notin> set (rf x)"

definition render_attr :: "(f64 \<Rightarrow> string) \<Rightarrow> attribute_filter \<Rightarrow> string" where
  "render_attr rf af = (case (af_equals af, af_min af, af_max af) of
     (JStr s, _, _) \<Rightarrow> ''eq:'' @ s | (JNum x, _, _) \<Rightarrow> rf x
   | (_, Some x, _) \<Rightarrow> ''min:'' @ rf x | (_, None, Some x) \<Rightarrow> ''max:'' @ rf x | _ \<Rightarrow> [])"

definition writable_attr :: "(f64 \<Rightarrow> string) \<Rightarrow> attribute_filter \<Rightarrow> bool" where
  "writable_attr rf af \<longleftrightarrow> af_in af = None \<and> (case (af_equals af, af_min af, af_max af) of
     (JStr s, None, None) \<Rightarrow> True | (JNum x, None, None) \<Rightarrow> number_text rf x
   | (JNull, Some x, None) \<Rightarrow> number_text rf x | (JNull, None, Some x) \<Rightarrow> number_text rf x | _ \<Rightarrow> False)"

definition argument :: "string \<Rightarrow> ('a \<Rightarrow> string) \<Rightarrow> 'a option \<Rightarrow> string list" where
  "argument key g v = (case v of None \<Rightarrow> [] | Some x \<Rightarrow> [key @ ''='' @ g x])"

definition render_filters :: "(f64 \<Rightarrow> string) \<Rightarrow> watch_filters \<Rightarrow> string list" where
  "render_filters rf w =
     argument ''price_max'' rf (wf_price_max w) @ argument ''price_min'' rf (wf_price_min w)
     @ argument ''seller_min_feedback'' itoa (wf_seller_min_feedback w)
     @ argument ''seller_min_feedback_pct'' rf (wf_seller_min_feedback_pct w)
     @ argument ''seller_top_rated_only'' (\<lambda>u. ''true'') (if wf_seller_top_rated_only w then Some () else None)
     @ argument ''conditions'' (join '','') (if wf_conditions w = [] then None else Some (wf_conditions w))
     @ map (\<lambda>(k, af). ''attr:'' @ k @ ''='' @ render_attr rf af) (wf_attribute_filters w)"

definition writable :: "(f64 \<Rightarrow> string) \<Rightarrow> watch_filters \<Rightarrow> bool" where
  "writable rf w \<longleftrightarrow>
     pred_option (number_text rf) (wf_price_max w) \<and> pred_option (number_text rf) (wf_price_min w)
     \<and> pred_option in_int64 (wf_seller_min_feedback w) \<and> pred_option (number_text rf) (wf_seller_min_feedback_pct w)
     \<and> list_all (\<lambda>c. trim_space c = c \<and> CHR '','' \<notin> set c) (wf_conditions w)
     \<and> distinct (map fst (wf_attribute_filters w))
     \<and> list_all (\<lambda>(k, af). CHR ''='' \<notin> set k \<and> writable_attr rf af) (wf_attribute_filters w)"

lemma split_filter_arg: "CHR ''='' \<notin> set k \<Longrightarrow> split_filter (k @ CHR ''='' # v) = Some (k, v)"
  by (simp add: split_filter_def takeWhile_cut dropWhile_cut)

lemma cut_prefix_append [simp]: "cut_prefix (p @ s) p = Some s"
  by (induction p) auto

lemma cut_prefix_some: "cut_prefix s p = Some r \<Longrightarrow> s = p @ r"
  by (induction s p rule: cut_prefix.induct) (auto split: if_splits)

lemma cut_prefix_other: "c \<in> set p \<Longrightarrow> c \<notin> set s \<Longrightarrow> cut_prefix s p = None"
  by (cases "cut_prefix s p") (auto dest: cut_prefix_some)

lemma mput_new: "k \<notin> fst ` set m \<Longrightarrow> mput k v m = m @ [(k, v)]"
  by (induction m) auto

lemma no_operator:
  assumes "CHR '':'' \<notin> set s"
  shows "cut_prefix s ''min:'' = None" "cut_prefix s ''max:'' = None" "cut_prefix s ''eq:'' = None"
  using assms cut_prefix_other [of "CHR '':''"] by simp_all

lemma parse_render_attr:
  assumes "writable_attr rf af"
  shows "parseAttributeFilter (render_attr rf af) = Inr af"
proof -
  have eta: "af = no_attribute\<lparr> af_equals := af_equals af, af_min := af_min af, af_max := af_max af \<rparr>"
    using assms by (simp add: writable_attr_def no_attribute_def)
  show ?thesis
    using assms
    by (subst (2) eta)
      (auto simp: writable_attr_def render_attr_def parseAttributeFilter_def number_text_def no_operator no_attribute_def
        split: jval.splits option.splits)
qed

lemma loop_append:
  "parse_filters_loop (xs @ ys) w = (case parse_filters_loop xs w of Inl e \<Rightarrow> Inl e | Inr w \<Rightarrow> parse_filters_loop ys w)"
  by (induction xs w rule: parse_filters_loop.induct) (auto split: option.split sum.split prod.split)

lemma loop_argument:
  assumes "CHR ''='' \<notin> set key" and "cut_prefix key ''attr:'' = None"
    and "v = None \<Longrightarrow> w' = w" and "\<And>x. v = Some x \<Longrightarrow> parseStandardFilter w key (g x) = Inr w'"
  shows "parse_filters_loop (argument key g v) w = Inr w'"
  using assms by (cases v) (simp_all add: argument_def split_filter_arg)

lemma loop_attributes:
  assumes "distinct (map fst (as @ bs))" and "list_all (\<lambda>(k, af). CHR ''='' \<notin> set k \<and> writable_attr rf af) bs"
    and "wf_attribute_filters w = as"
  shows "parse_filters_loop (map (\<lambda>(k, af). ''attr:'' @ k @ ''='' @ render_attr rf af) bs) w
    = Inr (w\<lparr> wf_attribute_filters := as @ bs \<rparr>)"
  using assms
proof (induction bs arbitrary: as w)
  case Nil
  then show ?case by simp
next
  case (Cons b bs)
  obtain k af where b: "b = (k, af)" by (cases b)
  have split: "split_filter (''attr:'' @ k @ CHR ''='' # render_attr rf af) = Some (''attr:'' @ k, render_attr rf af)"
    using split_filter_arg [of "''attr:'' @ k"] Cons.prems(2) b by simp
  have cut: "cut_prefix (''attr:'' @ k) ''attr:'' = Some k" by (rule cut_prefix_append)
  have new: "mput k af as = as @ [(k, af)]"
    using Cons.prems(1) b by (intro mput_new) auto
  show ?case
    using Cons.IH [of "as @ [b]" "w\<lparr> wf_attribute_filters := as @ [b] \<rparr>"] Cons.prems split cut b new
    by (simp add: parse_render_attr)
qed

lemma atoi_itoa:
  assumes "in_int64 k"
  shows "atoi (itoa k) = Some k"
proof (cases "k < 0")
  case True
  then show ?thesis using assms by (simp add: atoi_def itoa_def digits_of_nonempty digits_of_digits)
next
  case False
  obtain d ds where d: "digits_of (nat k) = d # ds" using digits_of_nonempty [of "nat k"] by (cases "digits_of (nat k)") auto
  then have "is_digit d" using hd_digits_of [of "nat k"] by simp
  then have "d \<noteq> CHR ''-''" "d \<noteq> CHR ''+''" by (auto simp: is_digit_def)
  moreover have "digits_val (d # ds) = nat k" "list_all is_digit (d # ds)" "d # ds \<noteq> []"
    using digits_val_digits_of [of "nat k"] digits_of_digits [of "nat k"] d by simp_all
  ultimately show ?thesis using assms False d unfolding atoi_def itoa_def by simp
qed

lemma loop_standard:
  assumes "parse_filters_loop xs w = Inr w1" and "parse_filters_loop ys w1 = r"
  shows "parse_filters_loop (xs @ ys) w = r"
  using assms by (simp add: loop_append)

text \<open>C31. Round trip of filters. Every combination of filters that can be written down, with floats in a
  rendering that reads back, is parsed back exactly: no filter is lost, overwritten or reordered.\<close>

theorem filters_roundtrip:
  assumes "writable rf w"
  shows "ParseFilters (render_filters rf w) = Inr w"
proof -
  note std = parseStandardFilter_def no_filters_def number_text_def pred_option_def
  let ?w1 = "no_filters\<lparr> wf_price_max := wf_price_max w \<rparr>"
  let ?w2 = "?w1\<lparr> wf_price_min := wf_price_min w \<rparr>"
  let ?w3 = "?w2\<lparr> wf_seller_min_feedback := wf_seller_min_feedback w \<rparr>"
  let ?w4 = "?w3\<lparr> wf_seller_min_feedback_pct := wf_seller_min_feedback_pct w \<rparr>"
  let ?w5 = "?w4\<lparr> wf_seller_top_rated_only := wf_seller_top_rated_only w \<rparr>"
  let ?w6 = "?w5\<lparr> wf_conditions := wf_conditions w \<rparr>"
  have 1: "parse_filters_loop (argument ''price_max'' rf (wf_price_max w)) no_filters = Inr ?w1"
    using assms by (intro loop_argument) (auto simp: writable_def std)
  have 2: "parse_filters_loop (argument ''price_min'' rf (wf_price_min w)) ?w1 = Inr ?w2"
    using assms by (intro loop_argument) (auto simp: writable_def std)
  have 3: "parse_filters_loop (argument ''seller_min_feedback'' itoa (wf_seller_min_feedback w)) ?w2 = Inr ?w3"
    using assms by (intro loop_argument) (auto simp: writable_def std atoi_itoa)
  have 4: "parse_filters_loop (argument ''seller_min_feedback_pct'' rf (wf_seller_min_feedback_pct w)) ?w3 = Inr ?w4"
    using assms by (intro loop_argument) (auto simp: writable_def std)
  have 5: "parse_filters_loop (argument ''seller_top_rated_only'' (\<lambda>u. ''true'')
      (if wf_seller_top_rated_only w then Some () else None)) ?w4 = Inr ?w5"
    by (intro loop_argument) (auto simp: std parse_bool_def split: if_splits)
  have conds: "map trim_space (split_at (CHR '','') (join '','' (wf_conditions w))) = wf_conditions w" if "wf_conditions w \<noteq> []"
    using assms that by (subst split_at_join) (auto simp: writable_def list_all_iff intro: map_idI)
  have 6: "parse_filters_loop (argument ''conditions'' (join '','')
      (if wf_conditions w = [] then None else Some (wf_conditions w))) ?w5 = Inr ?w6"
    using conds by (intro loop_argument) (auto simp: std split: if_splits)
  have 7: "parse_filters_loop (map (\<lambda>(k, af). ''attr:'' @ k @ ''='' @ render_attr rf af) (wf_attribute_filters w)) ?w6 = Inr w"
    using assms loop_attributes [of "[]" "wf_attribute_filters w" rf ?w6] by (simp add: writable_def no_filters_def)
  show ?thesis
    unfolding ParseFilters_def render_filters_def
    by (rule loop_standard [OF 1] loop_standard [OF 2] loop_standard [OF 3] loop_standard [OF 4] loop_standard [OF 5]
        loop_standard [OF 6] 7)+
qed

text \<open>Three filters and two attributes, written and read back.\<close>

definition three_filters :: watch_filters where
  "three_filters = no_filters\<lparr> wf_price_max := Some (Fin 100), wf_seller_min_feedback := Some (- 5),
     wf_conditions := [''new'', ''used_working''],
     wf_attribute_filters := [(''ddr_gen'', no_attribute\<lparr> af_equals := JStr ''ddr4'' \<rparr>),
       (''speed'', no_attribute\<lparr> af_min := Some (Fin 100) \<rparr>)] \<rparr>"

lemma sample_number: "parse_float ''100'' = Inr (Fin 100)"
  by code_simp

lemma sample_writable: "writable (\<lambda>x. ''100'') three_filters"
proof -
  have "number_text (\<lambda>x. ''100'') (Fin 100)"
    using sample_number by (simp add: number_text_def)
  moreover have "list_all (\<lambda>c. trim_space c = c \<and> CHR '','' \<notin> set c) (wf_conditions three_filters)"
    by code_simp
  ultimately show ?thesis
    by (simp add: writable_def writable_attr_def three_filters_def no_filters_def no_attribute_def in_int64_def int64_min_def int64_max_def)
qed

theorem filters_roundtrip_witness:
  "ParseFilters (render_filters (\<lambda>x. ''100'') three_filters) = Inr three_filters"
  by (rule filters_roundtrip [OF sample_writable])

end
