(* ===== verification/ApiClient.thy ===== *)
theory ApiClient
  imports Handlers Filters
begin

text \<open>
  The HTTP client of the API (\<open>internal/api/client\<close>) and the commands of \<open>cmd/spt\<close> that decide something.
  Bodies are values of a type \<open>'b\<close>: the JSON codec is the argument of each operation, an encoder returns None
  when marshaling fails, a decoder when decoding fails. The network acts on a state \<open>'s\<close>.
\<close>

section \<open>Requests\<close>

text \<open>The content type \<open>application/json\<close> is set exactly when there is a body. Not created means that the URL
  does not parse.\<close>

record 'b api_request =
  aq_method :: string
  aq_url :: string
  aq_body :: "'b option"

datatype 'b api_answer = NotCreated | NotSent string | BodyBroken | ApiAnswer int 'b

datatype 'b api_error =
    MarshalFailed | CreateFailed | ServerNotRunning string | SendFailed string | ReadFailed
  | ApiError int 'b | DecodeFailed

text \<open>\<open>cl_blank\<close> tells an empty body.\<close>

record ('b, 's) api_client =
  cl_baseURL :: string
  cl_http :: "'b api_request \<Rightarrow> 's \<Rightarrow> 'b api_answer \<times> 's"
  cl_blank :: "'b \<Rightarrow> bool"

definition NewApiClient :: "string \<Rightarrow> ('b api_request \<Rightarrow> 's \<Rightarrow> 'b api_answer \<times> 's) \<Rightarrow> ('b \<Rightarrow> bool) \<Rightarrow> ('b, 's) api_client" where
  "NewApiClient baseURL http blank = \<lparr> cl_baseURL = trim_right (CHR ''/'') baseURL, cl_http = http, cl_blank = blank \<rparr>"

definition isConnectionRefused :: "string \<Rightarrow> bool" where
  "isConnectionRefused e \<longleftrightarrow> contains_str e ''connection refused'' \<or> contains_str e ''connect: connection refused''"

text \<open>The body is absent, or the encoding of a value, which may fail. The result is the decoded answer, or the
  value the destination had when the answer is empty.\<close>

definition api_do :: "('b, 's) api_client \<Rightarrow> string \<Rightarrow> string \<Rightarrow> 'b option option \<Rightarrow> ('b \<Rightarrow> 'a option) \<Rightarrow> 'a
    \<Rightarrow> 's \<Rightarrow> ('b api_error + 'a) \<times> 's" where
  "api_do c method path body dec dst s =
     (if body = Some None then (Inl MarshalFailed, s)
      else case cl_http c \<lparr> aq_method = method, aq_url = cl_baseURL c @ path, aq_body = Option.bind body id \<rparr> s of
        (NotCreated, s) \<Rightarrow> (Inl CreateFailed, s)
      | (NotSent e, s) \<Rightarrow> (Inl (if isConnectionRefused e then ServerNotRunning (cl_baseURL c) else SendFailed e), s)
      | (BodyBroken, s) \<Rightarrow> (Inl ReadFailed, s)
      | (ApiAnswer status b, s) \<Rightarrow>
          (if 400 \<le> status then Inl (ApiError status b)
           else if cl_blank c b then Inr dst
           else case dec b of None \<Rightarrow> Inl DecodeFailed | Some x \<Rightarrow> Inr x, s))"

definition api_get :: "('b, 's) api_client \<Rightarrow> string \<Rightarrow> ('b \<Rightarrow> 'a option) \<Rightarrow> 'a \<Rightarrow> 's \<Rightarrow> ('b api_error + 'a) \<times> 's" where
  "api_get c path = api_do c ''GET'' path None"

definition api_post :: "('b, 's) api_client \<Rightarrow> string \<Rightarrow> 'b option option \<Rightarrow> ('b \<Rightarrow> 'a option) \<Rightarrow> 'a \<Rightarrow> 's \<Rightarrow> ('b api_error + 'a) \<times> 's" where
  "api_post c = api_do c ''POST''"

definition api_put :: "('b, 's) api_client \<Rightarrow> string \<Rightarrow> 'b option option \<Rightarrow> ('b \<Rightarrow> 'a option) \<Rightarrow> 'a \<Rightarrow> 's \<Rightarrow> ('b api_error + 'a) \<times> 's" where
  "api_put c = api_do c ''PUT''"

definition api_del :: "('b, 's) api_client \<Rightarrow> string \<Rightarrow> ('b \<Rightarrow> 'a option) \<Rightarrow> 'a \<Rightarrow> 's \<Rightarrow> ('b api_error + 'a) \<times> 's" where
  "api_del c path = api_do c ''DELETE'' path None"

text \<open>A nil destination.\<close>

definition ignore_body :: "'b \<Rightarrow> unit option" where "ignore_body b = Some ()"

section \<open>Watches\<close>

definition zero_watch :: watch where
  "zero_watch = \<lparr> w_id = [], w_name = [], w_search_query = [], w_category_id = [], w_component_type = [],
     w_filters = no_filters, w_score_threshold = 0, w_enabled = False, w_last_polled_at = None, w_created_at = 0, w_updated_at = 0 \<rparr>"

text \<open>\<open>watchRequest\<close>: the fields the API accepts.\<close>

definition client_watch_request :: "watch \<Rightarrow> watch_body" where
  "client_watch_request w = \<lparr> wb_Name = w_name w, wb_SearchQuery = w_search_query w, wb_CategoryID = w_category_id w,
     wb_ComponentType = w_component_type w, wb_Filters = w_filters w, wb_ScoreThreshold = w_score_threshold w,
     wb_Enabled = w_enabled w \<rparr>"

definition clientListWatches :: "('b, 's) api_client \<Rightarrow> ('b \<Rightarrow> watch list option) \<Rightarrow> 's \<Rightarrow> ('b api_error + watch list) \<times> 's" where
  "clientListWatches c dec = api_get c ''/api/v1/watches'' dec []"

definition clientGetWatch :: "('b, 's) api_client \<Rightarrow> ('b \<Rightarrow> watch option) \<Rightarrow> string \<Rightarrow> 's \<Rightarrow> ('b api_error + watch) \<times> 's" where
  "clientGetWatch c dec i = api_get c (''/api/v1/watches/'' @ i) dec zero_watch"

definition clientCreateWatch :: "('b, 's) api_client \<Rightarrow> (watch_body \<Rightarrow> 'b option) \<Rightarrow> ('b \<Rightarrow> watch option) \<Rightarrow> watch \<Rightarrow> 's
    \<Rightarrow> ('b api_error + watch) \<times> 's" where
  "clientCreateWatch c enc dec w = api_post c ''/api/v1/watches'' (Some (enc (client_watch_request w))) dec zero_watch"

definition clientUpdateWatch :: "('b, 's) api_client \<Rightarrow> (watch_body \<Rightarrow> 'b option) \<Rightarrow> ('b \<Rightarrow> watch option) \<Rightarrow> watch \<Rightarrow> 's
    \<Rightarrow> ('b api_error + watch) \<times> 's" where
  "clientUpdateWatch c enc dec w = api_put c (''/api/v1/watches/'' @ w_id w) (Some (enc (client_watch_request w))) dec zero_watch"

definition clientSetWatchEnabled :: "('b, 's) api_client \<Rightarrow> (bool \<Rightarrow> 'b option) \<Rightarrow> string \<Rightarrow> bool \<Rightarrow> 's \<Rightarrow> ('b api_error + unit) \<times> 's" where
  "clientSetWatchEnabled c enc i b = api_put c (''/api/v1/watches/'' @ i @ ''/enabled'') (Some (enc b)) ignore_body ()"

definition clientDeleteWatch :: "('b, 's) api_client \<Rightarrow> string \<Rightarrow> 's \<Rightarrow> ('b api_error + unit) \<times> 's" where
  "clientDeleteWatch c i = api_del c (''/api/v1/watches/'' @ i) ignore_body ()"

section \<open>Listings, baselines, jobs and the judge\<close>

record list_listings_params =
  pa_ComponentType :: string
  pa_ProductKey :: string
  pa_MinScore :: int
  pa_MaxScore :: int
  pa_Limit :: int
  pa_Offset :: int
  pa_OrderBy :: string

definition listings_values :: "list_listings_params \<Rightarrow> url_values" where
  "listings_values p =
     (let q = [];
          q = (if pa_ComponentType p \<noteq> [] then mput ''component_type'' (pa_ComponentType p) q else q);
          q = (if pa_ProductKey p \<noteq> [] then mput ''product_key'' (pa_ProductKey p) q else q);
          q = (if pa_MinScore p > 0 then mput ''min_score'' (itoa (pa_MinScore p)) q else q);
          q = (if pa_MaxScore p > 0 then mput ''max_score'' (itoa (pa_MaxScore p)) q else q);
          q = (if pa_Limit p > 0 then mput ''limit'' (itoa (pa_Limit p)) q else q);
          q = (if pa_Offset p > 0 then mput ''offset'' (itoa (pa_Offset p)) q else q)
      in if pa_OrderBy p \<noteq> [] then mput ''order_by'' (pa_OrderBy p) q else q)"

definition listings_path :: "list_listings_params \<Rightarrow> string" where
  "listings_path p = ''/api/v1/listings'' @ (if listings_values p \<noteq> [] then ''?'' @ Encode (listings_values p) else [])"

text \<open>The listings of the answer and their total.\<close>

definition clientListListings :: "('b, 's) api_client \<Rightarrow> ('b \<Rightarrow> (listing list \<times> int) option) \<Rightarrow> list_listings_params \<Rightarrow> 's
    \<Rightarrow> ('b api_error + listing list \<times> int) \<times> 's" where
  "clientListListings c dec p = api_get c (listings_path p) dec ([], 0)"

definition clientGetListing :: "('b, 's) api_client \<Rightarrow> ('b \<Rightarrow> listing option) \<Rightarrow> listing \<Rightarrow> string \<Rightarrow> 's \<Rightarrow> ('b api_error + listing) \<times> 's" where
  "clientGetListing c dec zero i = api_get c (''/api/v1/listings/'' @ i) dec zero"

definition clientRescore :: "('b, 's) api_client \<Rightarrow> ('b \<Rightarrow> int option) \<Rightarrow> 's \<Rightarrow> ('b api_error + int) \<times> 's" where
  "clientRescore c dec = api_post c ''/api/v1/rescore'' None dec 0"

definition reextract_body :: "string \<Rightarrow> int \<Rightarrow> (string, jval) gomap" where
  "reextract_body componentType lmt =
     (let b = [];
          b = (if componentType \<noteq> [] then mput ''component_type'' (JStr componentType) b else b)
      in if lmt > 0 then mput ''limit'' (JInt lmt) b else b)"

definition clientReExtract :: "('b, 's) api_client \<Rightarrow> ((string, jval) gomap \<Rightarrow> 'b option) \<Rightarrow> ('b \<Rightarrow> int option) \<Rightarrow> string \<Rightarrow> int \<Rightarrow> 's
    \<Rightarrow> ('b api_error + int) \<times> 's" where
  "clientReExtract c enc dec componentType lmt =
     api_post c ''/api/v1/reextract'' (Some (enc (reextract_body componentType lmt))) dec 0"

definition clientListBaselines :: "('b, 's) api_client \<Rightarrow> ('b \<Rightarrow> price_baseline list option) \<Rightarrow> 's \<Rightarrow> ('b api_error + price_baseline list) \<times> 's" where
  "clientListBaselines c dec = api_get c ''/api/v1/baselines'' dec []"

definition clientGetBaseline :: "('b, 's) api_client \<Rightarrow> ('b \<Rightarrow> price_baseline option) \<Rightarrow> price_baseline \<Rightarrow> string \<Rightarrow> 's
    \<Rightarrow> ('b api_error + price_baseline) \<times> 's" where
  "clientGetBaseline c dec zero k = api_get c (''/api/v1/baselines/'' @ k) dec zero"

definition clientRefreshBaselines :: "('b, 's) api_client \<Rightarrow> 's \<Rightarrow> ('b api_error + unit) \<times> 's" where
  "clientRefreshBaselines c = api_post c ''/api/v1/baselines/refresh'' None ignore_body ()"

definition clientTriggerIngestion :: "('b, 's) api_client \<Rightarrow> 's \<Rightarrow> ('b api_error + unit) \<times> 's" where
  "clientTriggerIngestion c = api_post c ''/api/v1/ingest'' None ignore_body ()"

definition clientListJobs :: "('b, 's) api_client \<Rightarrow> ('b \<Rightarrow> job_run list option) \<Rightarrow> 's \<Rightarrow> ('b api_error + job_run list) \<times> 's" where
  "clientListJobs c dec = api_get c ''/api/v1/jobs'' dec []"

definition clientGetJobHistory :: "('b, 's) api_client \<Rightarrow> ('b \<Rightarrow> job_run list option) \<Rightarrow> string \<Rightarrow> 's \<Rightarrow> ('b api_error + job_run list) \<times> 's" where
  "clientGetJobHistory c dec nm = api_get c (''/api/v1/jobs/'' @ nm) dec []"

text \<open>The body is the empty object.\<close>

definition clientRunJudge :: "('b, 's) api_client \<Rightarrow> 'b \<Rightarrow> ('b \<Rightarrow> (int \<times> bool) option) \<Rightarrow> 's \<Rightarrow> ('b api_error + int \<times> bool) \<times> 's" where
  "clientRunJudge c empty_object dec = api_post c ''/api/v1/judge/run'' (Some (Some empty_object)) dec (0, False)"

end
