(* ===== verification/ApiLaws.thy ===== *)
theory ApiLaws
  imports ApiClient StoreLaws
begin

text \<open>
  The command that updates a watch, through the client, the server and the store. The two calls the command makes
  are an interface, with what a service of watches promises; the client in front of the handlers provides it.
\<close>

section \<open>A service of watches\<close>

text \<open>\<open>stored\<close> looks a watch up, without the time of its last change; \<open>able\<close> tells the filters JSON can write
  (no infinities, no NaN).\<close>

definition unstamped :: "watch \<Rightarrow> watch" where "unstamped w = w\<lparr> w_updated_at := 0 \<rparr>"

locale watch_service =
  fixes getw :: "string \<Rightarrow> 's \<Rightarrow> ('e + watch) \<times> 's"
    and putw :: "watch \<Rightarrow> 's \<Rightarrow> ('e + watch) \<times> 's"
    and usable :: "'s \<Rightarrow> bool"
    and stored :: "'s \<Rightarrow> string \<Rightarrow> watch option"
    and able :: "watch_filters \<Rightarrow> bool"
  assumes get_found: "usable s \<Longrightarrow> stored s i = Some w \<Longrightarrow>
      \<exists>v s'. getw i s = (Inr v, s') \<and> unstamped v = w \<and> w_id v = i \<and> usable s' \<and> stored s' = stored s"
    and get_missing: "usable s \<Longrightarrow> stored s i = None \<Longrightarrow>
      \<exists>e s'. getw i s = (Inl e, s') \<and> usable s' \<and> stored s' = stored s"
    and put_accepted: "usable s \<Longrightarrow> stored s (w_id w) = Some v \<Longrightarrow> able (w_filters w) \<Longrightarrow>
      valid_component_type (w_component_type w) \<Longrightarrow>
      w_last_polled_at w = w_last_polled_at v \<Longrightarrow> w_created_at w = w_created_at v \<Longrightarrow>
      \<exists>u s'. putw w s = (Inr u, s') \<and> usable s' \<and> stored s' = (stored s)(w_id w \<mapsto> unstamped w)"
    and put_refused: "usable s \<Longrightarrow> stored s (w_id w) = Some v \<Longrightarrow>
      \<not> (able (w_filters w) \<and> valid_component_type (w_component_type w)) \<Longrightarrow>
      \<exists>e s'. putw w s = (Inl e, s') \<and> usable s' \<and> stored s' = stored s"

text \<open>The watch the flags ask for, when they can be applied.\<close>

definition wanted :: "(string \<Rightarrow> bool) \<Rightarrow> watch_update_flags \<Rightarrow> watch \<Rightarrow> watch option" where
  "wanted changed f w =
     (if fl_compType f \<noteq> [] \<and> fl_compType f \<notin> set cliComponentTypes then None
      else case applyFilterUpdates (w_filters w) (fl_filterFlag f) (fl_addFilter f) (fl_clearFilters f) of
        Inl e \<Rightarrow> None | Inr fs \<Rightarrow> Some ((applyScalarFlags changed f w)\<lparr> w_filters := fs \<rparr>))"

lemma applyScalarFlags_keeps [simp]:
  "w_id (applyScalarFlags changed f w) = w_id w" "w_filters (applyScalarFlags changed f w) = w_filters w"
  "w_last_polled_at (applyScalarFlags changed f w) = w_last_polled_at w"
  "w_created_at (applyScalarFlags changed f w) = w_created_at w"
  by (simp_all add: applyScalarFlags_def Let_def)

lemma unstamped_flags:
  "unstamped ((applyScalarFlags changed f w)\<lparr> w_filters := fs \<rparr>) = (applyScalarFlags changed f (unstamped w))\<lparr> w_filters := fs \<rparr>"
  by (simp add: applyScalarFlags_def unstamped_def Let_def)

lemma unstamped_fields [simp]:
  "w_id (unstamped w) = w_id w" "w_filters (unstamped w) = w_filters w" "w_created_at (unstamped w) = w_created_at w"
  "w_last_polled_at (unstamped w) = w_last_polled_at w" "w_component_type (unstamped w) = w_component_type w"
  by (simp_all add: unstamped_def)

context watch_service begin

lemma run_update_effect:
  assumes "usable s"
  shows "case (case stored s i of None \<Rightarrow> None | Some w \<Rightarrow> wanted changed f w) of
      Some w' \<Rightarrow> if able (w_filters w') \<and> valid_component_type (w_component_type w')
        then \<exists>u s'. run_update getw putw changed f i s = (Inr u, s') \<and> stored s' = (stored s)(i \<mapsto> w')
        else \<exists>e s'. run_update getw putw changed f i s = (Inl e, s') \<and> stored s' = stored s
    | None \<Rightarrow> \<exists>e s'. run_update getw putw changed f i s = (Inl e, s') \<and> stored s' = stored s"
proof (cases "fl_compType f \<noteq> [] \<and> fl_compType f \<notin> set cliComponentTypes")
  case True
  then show ?thesis by (auto simp: run_update_def wanted_def split: option.split)
next
  case typed: False
  show ?thesis
  proof (cases "stored s i")
    case None
    from get_missing [OF assms None] show ?thesis using typed None by (auto simp: run_update_def)
  next
    case (Some w)
    from get_found [OF assms Some] obtain v s1 where
      v: "getw i s = (Inr v, s1)" "unstamped v = w" "w_id v = i" and s1: "usable s1" "stored s1 = stored s" by blast
    have filters: "w_filters v = w_filters w" using v(2) by auto
    show ?thesis
    proof (cases "applyFilterUpdates (w_filters w) (fl_filterFlag f) (fl_addFilter f) (fl_clearFilters f)")
      case (Inl e)
      then show ?thesis using typed Some v s1 filters by (simp add: run_update_def wanted_def)
    next
      case (Inr fs)
      let ?v = "(applyScalarFlags changed f v)\<lparr> w_filters := fs \<rparr>"
      let ?w = "(applyScalarFlags changed f w)\<lparr> w_filters := fs \<rparr>"
      have eq: "unstamped ?v = ?w" using v(2) unstamped_flags [where changed = changed and f = f and w = v and fs = fs] by simp
      have ct: "w_component_type ?v = w_component_type ?w" using eq by (metis unstamped_fields(5))
      have st: "stored s1 (w_id ?v) = Some w" using v(3) s1(2) Some by simp
      have times: "w_last_polled_at ?v = w_last_polled_at w" "w_created_at ?v = w_created_at w" using v(2) by auto
      have step: "run_update getw putw changed f i s = (case putw ?v s1 of (Inl e, s) \<Rightarrow> (Inl (UpdatingWatch e), s) | (Inr u, s) \<Rightarrow> (Inr u, s))"
        using typed v filters Inr by (simp add: run_update_def Let_def) blast
      have want: "wanted changed f w = Some ?w" using typed Inr by (simp add: wanted_def)
      show ?thesis
      proof (cases "able (w_filters ?v) \<and> valid_component_type (w_component_type ?v)")
        case True
        with put_accepted [OF s1(1) st _ _ times] obtain u s2 where
          p: "putw ?v s1 = (Inr u, s2)" "stored s2 = (stored s1)(w_id ?v \<mapsto> unstamped ?v)" by blast
        then have "run_update getw putw changed f i s = (Inr u, s2)" using step by simp
        moreover have "stored s2 = (stored s)(i \<mapsto> ?w)" using p(2) eq s1(2) v(3) by simp
        ultimately show ?thesis using True Some want ct by simp
      next
        case False
        with put_refused [OF s1(1) st] obtain e s2 where p: "putw ?v s1 = (Inl e, s2)" "stored s2 = stored s1" by blast
        then have "run_update getw putw changed f i s = (Inl (UpdatingWatch e), s2)" using step by simp
        then show ?thesis using False Some want ct p(2) s1(2) by simp
      qed
    qed
  qed
qed

end

section \<open>The service over HTTP\<close>

text \<open>JSON as the client and the web framework use it: what is encodable is decoded to itself.\<close>

record 'b json_codec =
  jc_able :: "watch_filters \<Rightarrow> bool"
  jc_watch :: "watch \<Rightarrow> 'b option"
  jc_unwatch :: "'b \<Rightarrow> watch option"
  jc_body :: "watch_body \<Rightarrow> 'b option"
  jc_unbody :: "'b \<Rightarrow> watch_body option"
  jc_error :: "string \<Rightarrow> 'b"
  jc_blank :: "'b \<Rightarrow> bool"

definition codec_ok :: "'b json_codec \<Rightarrow> bool" where
  "codec_ok K \<longleftrightarrow>
     (\<forall>w. case jc_watch K w of None \<Rightarrow> \<not> jc_able K (w_filters w)
        | Some x \<Rightarrow> jc_able K (w_filters w) \<and> jc_unwatch K x = Some w \<and> \<not> jc_blank K x)
     \<and> (\<forall>b. case jc_body K b of None \<Rightarrow> \<not> jc_able K (wb_Filters b)
        | Some x \<Rightarrow> jc_able K (wb_Filters b) \<and> jc_unbody K x = Some b)"

text \<open>The two routes of a single watch, as the framework serves them.\<close>

definition watch_answer :: "'b json_codec \<Rightarrow> watch reply \<Rightarrow> 'b api_answer" where
  "watch_answer K r =
     (case r of HumaError st m \<Rightarrow> ApiAnswer st (jc_error K m)
      | Reply w \<Rightarrow> (case jc_watch K w of None \<Rightarrow> ApiAnswer 500 (jc_error K []) | Some b \<Rightarrow> ApiAnswer 200 b))"

definition watch_server :: "'b json_codec \<Rightarrow> (db_error \<Rightarrow> string) \<Rightarrow> string \<Rightarrow> 'b api_request \<Rightarrow> db \<Rightarrow> 'b api_answer \<times> db" where
  "watch_server K et base r db =
     (case cut_prefix (aq_url r) (base @ ''/api/v1/watches/'') of
        None \<Rightarrow> (ApiAnswer 404 (jc_error K []), db)
      | Some i \<Rightarrow>
          if aq_method r = ''GET'' then map_prod (watch_answer K) id (handleGetWatch i db)
          else if aq_method r = ''PUT'' then
            (case Option.bind (aq_body r) (jc_unbody K) of
               None \<Rightarrow> (ApiAnswer 422 (jc_error K []), db)
             | Some b \<Rightarrow> map_prod (watch_answer K) id (handleUpdateWatch et i b db))
          else (ApiAnswer 405 (jc_error K []), db))"

definition local_client :: "'b json_codec \<Rightarrow> (db_error \<Rightarrow> string) \<Rightarrow> string \<Rightarrow> ('b, db) api_client" where
  "local_client K et base = NewApiClient base (watch_server K et (trim_right (CHR ''/'') base)) (jc_blank K)"

definition stored_watch :: "db \<Rightarrow> string \<Rightarrow> watch option" where
  "stored_watch db i = map_option unstamped (find (\<lambda>w. w_id w = i) (db_watches db))"

definition watches_usable :: "'b json_codec \<Rightarrow> db \<Rightarrow> bool" where
  "watches_usable K db \<longleftrightarrow> codec_ok K \<and> fault_free (db_server db) \<and> (\<forall>f. jc_able K f \<longrightarrow> sv_filters (db_server db) f = Some f)
     \<and> (\<forall>w\<in>set (db_watches db). jc_able K (w_filters w))"

lemma watch_url: "cut_prefix (trim_right (CHR ''/'') base @ ''/api/v1/watches/'' @ i) (trim_right (CHR ''/'') base @ ''/api/v1/watches/'') = Some i"
  using cut_prefix_append [of "trim_right (CHR ''/'') base @ ''/api/v1/watches/''" i] by simp

lemma local_get:
  "clientGetWatch (local_client K et base) dec i db =
     (case handleGetWatch i db of (r, db') \<Rightarrow>
       (case watch_answer K r of ApiAnswer st b \<Rightarrow> if 400 \<le> st then Inl (ApiError st b)
          else if jc_blank K b then Inr zero_watch else case dec b of None \<Rightarrow> Inl DecodeFailed | Some x \<Rightarrow> Inr x, db'))"
  using watch_url [of base i]
  by (simp add: clientGetWatch_def api_get_def api_do_def local_client_def NewApiClient_def watch_server_def
      watch_answer_def split: prod.split reply.split option.split)

lemma local_put:
  "clientUpdateWatch (local_client K et base) (jc_body K) dec w db =
     (case jc_body K (client_watch_request w) of None \<Rightarrow> (Inl MarshalFailed, db)
      | Some x \<Rightarrow> case jc_unbody K x of None \<Rightarrow> (Inl (ApiError 422 (jc_error K [])), db)
        | Some b \<Rightarrow> case handleUpdateWatch et (w_id w) b db of (r, db') \<Rightarrow>
       (case watch_answer K r of ApiAnswer st b \<Rightarrow> if 400 \<le> st then Inl (ApiError st b)
          else if jc_blank K b then Inr zero_watch else case dec b of None \<Rightarrow> Inl DecodeFailed | Some x \<Rightarrow> Inr x, db'))"
  using watch_url [of base "w_id w"]
  by (simp add: clientUpdateWatch_def api_put_def api_do_def local_client_def NewApiClient_def watch_server_def
      watch_answer_def split: prod.split reply.split option.split)

lemma get_watch_found:
  assumes "fault_free (db_server db)" and "find (\<lambda>w. w_id w = i) (db_watches db) = Some v"
  shows "handleGetWatch i db = (Reply v, db\<lparr> db_stmts := db_stmts db + 1 \<rparr>)"
  using assms by (simp add: handleGetWatch_def reply_of_def GetWatch_def run_fault_free queryGetWatch_def single_def)

lemma get_watch_missing:
  assumes "fault_free (db_server db)" and "find (\<lambda>w. w_id w = i) (db_watches db) = None"
  shows "handleGetWatch i db = (HumaError 404 ''watch not found'', db\<lparr> db_stmts := db_stmts db + 1 \<rparr>)"
  using assms by (simp add: handleGetWatch_def reply_of_def GetWatch_def run_fault_free queryGetWatch_def single_def)

text \<open>The row an update leaves behind.\<close>

definition updated_row :: "watch \<Rightarrow> instant \<Rightarrow> watch \<Rightarrow> watch" where
  "updated_row w t v = v\<lparr> w_name := w_name w, w_search_query := w_search_query w, w_category_id := w_category_id w,
     w_component_type := w_component_type w, w_filters := w_filters w, w_score_threshold := w_score_threshold w,
     w_enabled := w_enabled w, w_updated_at := t \<rparr>"

lemma update_watch_accepted:
  assumes "fault_free (db_server db)" and "sv_filters (db_server db) (w_filters w) = Some (w_filters w)"
    and "valid_component_type (w_component_type w)"
  shows "handleUpdateWatch et (w_id w) (client_watch_request w) db = (Reply (body_watch (w_id w) (client_watch_request w)),
    db\<lparr> db_watches := map (\<lambda>v. if w_id v = w_id w then updated_row w (now db) v else v) (db_watches db), db_stmts := db_stmts db + 1 \<rparr>)"
  using assms by (simp add: handleUpdateWatch_def reply_of_def UpdateWatch_def run_fault_free queryUpdateWatch_def
      update_where_def client_watch_request_def body_watch_def updated_row_def)

lemma update_watch_refused:
  assumes "fault_free (db_server db)" and "sv_filters (db_server db) (w_filters w) = Some (w_filters w)"
    and "\<not> valid_component_type (w_component_type w)" and "v \<in> set (db_watches db)" and "w_id v = w_id w"
  shows "handleUpdateWatch et (w_id w) (client_watch_request w) db =
    (HumaError 500 (''updating watch: '' @ et CheckViolation), db\<lparr> db_stmts := db_stmts db + 1 \<rparr>)"
  using assms by (auto simp: handleUpdateWatch_def reply_of_def UpdateWatch_def run_fault_free queryUpdateWatch_def
      client_watch_request_def body_watch_def)

lemma find_updated_rows:
  "find (\<lambda>v. w_id v = i) (map (\<lambda>v. if w_id v = w_id w then updated_row w t v else v) ws)
   = (if i = w_id w then map_option (updated_row w t) (find (\<lambda>v. w_id v = i) ws) else find (\<lambda>v. w_id v = i) ws)"
proof -
  have "w_id (updated_row w t v) = w_id v" for v by (simp add: updated_row_def)
  then show ?thesis by (induction ws) auto
qed

lemma unstamped_updated_row:
  "w_id w = w_id v \<Longrightarrow> w_last_polled_at w = w_last_polled_at v \<Longrightarrow> w_created_at w = w_created_at v
    \<Longrightarrow> unstamped (updated_row w t v) = unstamped w"
  by (simp add: updated_row_def unstamped_def)

lemma codec_watch:
  assumes "codec_ok K" and "jc_able K (w_filters w)"
  obtains x where "jc_watch K w = Some x" "jc_unwatch K x = Some w" "\<not> jc_blank K x"
proof -
  have "case jc_watch K w of None \<Rightarrow> \<not> jc_able K (w_filters w)
        | Some x \<Rightarrow> jc_able K (w_filters w) \<and> jc_unwatch K x = Some w \<and> \<not> jc_blank K x"
    using assms(1) by (simp add: codec_ok_def)
  then show ?thesis using assms(2) that by (auto split: option.splits)
qed

lemma codec_body:
  assumes "codec_ok K"
  shows "jc_body K b = None \<and> \<not> jc_able K (wb_Filters b) \<or> (\<exists>x. jc_body K b = Some x \<and> jc_able K (wb_Filters b) \<and> jc_unbody K x = Some b)"
proof -
  have "case jc_body K b of None \<Rightarrow> \<not> jc_able K (wb_Filters b)
        | Some x \<Rightarrow> jc_able K (wb_Filters b) \<and> jc_unbody K x = Some b"
    using assms by (simp add: codec_ok_def)
  then show ?thesis by (auto split: option.splits)
qed

lemma usable_step:
  "watches_usable K (db\<lparr> db_stmts := n \<rparr>) = watches_usable K db" "stored_watch (db\<lparr> db_stmts := n \<rparr>) = stored_watch db"
  by (simp_all add: watches_usable_def stored_watch_def fun_eq_iff)

lemma request_filters [simp]: "wb_Filters (client_watch_request w) = w_filters w"
  by (simp add: client_watch_request_def)

interpretation local_service: watch_service "clientGetWatch (local_client K et base) (jc_unwatch K)"
  "clientUpdateWatch (local_client K et base) (jc_body K) (jc_unwatch K)" "watches_usable K" stored_watch "jc_able K"
  for K et base
proof
  fix db i w
  assume u: "watches_usable K db" and "stored_watch db i = Some w"
  then obtain v where v: "find (\<lambda>w. w_id w = i) (db_watches db) = Some v" "w = unstamped v" by (auto simp: stored_watch_def)
  then have mem: "v \<in> set (db_watches db)" "w_id v = i" by (auto simp: find_Some_iff in_set_conv_nth)
  then have "jc_able K (w_filters v)" using u by (simp add: watches_usable_def)
  with u obtain x where x: "jc_watch K v = Some x" "jc_unwatch K x = Some v" "\<not> jc_blank K x"
    by (auto simp: watches_usable_def elim: codec_watch)
  have "fault_free (db_server db)" using u by (simp add: watches_usable_def)
  from get_watch_found [OF this v(1)] x
  have "clientGetWatch (local_client K et base) (jc_unwatch K) i db = (Inr v, db\<lparr> db_stmts := db_stmts db + 1 \<rparr>)"
    by (simp add: local_get watch_answer_def)
  then show "\<exists>v s'. clientGetWatch (local_client K et base) (jc_unwatch K) i db = (Inr v, s') \<and> unstamped v = w \<and> w_id v = i
      \<and> watches_usable K s' \<and> stored_watch s' = stored_watch db"
    using u v(2) mem(2) by (simp add: usable_step)
next
  fix db i
  assume u: "watches_usable K db" and "stored_watch db i = None"
  then have "find (\<lambda>w. w_id w = i) (db_watches db) = None" "fault_free (db_server db)"
    by (simp_all add: stored_watch_def watches_usable_def)
  then have "clientGetWatch (local_client K et base) (jc_unwatch K) i db
      = (Inl (ApiError 404 (jc_error K ''watch not found'')), db\<lparr> db_stmts := db_stmts db + 1 \<rparr>)"
    by (simp add: local_get watch_answer_def get_watch_missing)
  then show "\<exists>e s'. clientGetWatch (local_client K et base) (jc_unwatch K) i db = (Inl e, s')
      \<and> watches_usable K s' \<and> stored_watch s' = stored_watch db"
    using u by (simp add: usable_step)
next
  fix db and w v :: watch
  assume u: "watches_usable K db" and st: "stored_watch db (w_id w) = Some v" and able: "jc_able K (w_filters w)"
    and ct: "valid_component_type (w_component_type w)"
    and times: "w_last_polled_at w = w_last_polled_at v" "w_created_at w = w_created_at v"
  have srv: "codec_ok K" "fault_free (db_server db)" "sv_filters (db_server db) (w_filters w) = Some (w_filters w)"
    using u able by (simp_all add: watches_usable_def)
  obtain x where x: "jc_body K (client_watch_request w) = Some x" "jc_unbody K x = Some (client_watch_request w)"
    using codec_body [OF srv(1), of "client_watch_request w"] able by auto
  let ?b = "body_watch (w_id w) (client_watch_request w)"
  have "w_filters ?b = w_filters w" by (simp add: body_watch_def)
  then obtain y where y: "jc_watch K ?b = Some y" "jc_unwatch K y = Some ?b" "\<not> jc_blank K y"
    using codec_watch [OF srv(1), of ?b] able by auto
  let ?db = "db\<lparr> db_watches := map (\<lambda>v. if w_id v = w_id w then updated_row w (now db) v else v) (db_watches db),
    db_stmts := db_stmts db + 1 \<rparr>"
  have "clientUpdateWatch (local_client K et base) (jc_body K) (jc_unwatch K) w db = (Inr ?b, ?db)"
    using x y update_watch_accepted [OF srv(2,3) ct] by (simp add: local_put watch_answer_def)
  moreover have "watches_usable K ?db"
    using u able by (auto simp: watches_usable_def updated_row_def)
  moreover have "stored_watch ?db = (stored_watch db)(w_id w \<mapsto> unstamped w)"
  proof
    fix i
    obtain r where r: "find (\<lambda>v. w_id v = w_id w) (db_watches db) = Some r" "v = unstamped r"
      using st by (auto simp: stored_watch_def)
    then have "w_id r = w_id w" by (auto simp: find_Some_iff)
    then have "unstamped (updated_row w (now db) r) = unstamped w" using r(2) times by (intro unstamped_updated_row) simp_all
    then show "stored_watch ?db i = ((stored_watch db)(w_id w \<mapsto> unstamped w)) i"
      using r(1) by (simp add: stored_watch_def find_updated_rows)
  qed
  ultimately show "\<exists>u s'. clientUpdateWatch (local_client K et base) (jc_body K) (jc_unwatch K) w db = (Inr u, s')
      \<and> watches_usable K s' \<and> stored_watch s' = (stored_watch db)(w_id w \<mapsto> unstamped w)"
    by blast
next
  fix db and w v :: watch
  assume u: "watches_usable K db" and st: "stored_watch db (w_id w) = Some v"
    and bad: "\<not> (jc_able K (w_filters w) \<and> valid_component_type (w_component_type w))"
  have srv: "codec_ok K" "fault_free (db_server db)" using u by (simp_all add: watches_usable_def)
  show "\<exists>e s'. clientUpdateWatch (local_client K et base) (jc_body K) (jc_unwatch K) w db = (Inl e, s')
      \<and> watches_usable K s' \<and> stored_watch s' = stored_watch db"
  proof (cases "jc_able K (w_filters w)")
    case False
    then have "jc_body K (client_watch_request w) = None" using codec_body [OF srv(1), of "client_watch_request w"] by auto
    then show ?thesis using u by (simp add: local_put)
  next
    case True
    then obtain x where x: "jc_body K (client_watch_request w) = Some x" "jc_unbody K x = Some (client_watch_request w)"
      using codec_body [OF srv(1), of "client_watch_request w"] by auto
    obtain r where "r \<in> set (db_watches db)" "w_id r = w_id w"
      using st by (auto simp: stored_watch_def find_Some_iff in_set_conv_nth)
    moreover have "sv_filters (db_server db) (w_filters w) = Some (w_filters w)" using u True by (simp add: watches_usable_def)
    ultimately have "handleUpdateWatch et (w_id w) (client_watch_request w) db =
        (HumaError 500 (''updating watch: '' @ et CheckViolation), db\<lparr> db_stmts := db_stmts db + 1 \<rparr>)"
      using bad True srv(2) by (intro update_watch_refused [where v = r]) auto
    then show ?thesis using u x by (simp add: local_put watch_answer_def usable_step)
  qed
qed

definition update_command :: "'b json_codec \<Rightarrow> (db_error \<Rightarrow> string) \<Rightarrow> string \<Rightarrow> (string \<Rightarrow> bool) \<Rightarrow> watch_update_flags \<Rightarrow> string \<Rightarrow> db
    \<Rightarrow> ('b api_error run_error + watch) \<times> db" where
  "update_command K et base changed f i =
     run_update (clientGetWatch (local_client K et base) (jc_unwatch K))
       (clientUpdateWatch (local_client K et base) (jc_body K) (jc_unwatch K)) changed f i"


text \<open>A codec for examples: what is sent is the value itself, and filters without price bounds can be written.\<close>

datatype plain_body = PlainWatch watch | PlainRequest watch_body | PlainError string

definition plain_codec :: "plain_body json_codec" where
  "plain_codec = \<lparr> jc_able = (\<lambda>f. wf_price_max f = None),
     jc_watch = (\<lambda>w. if wf_price_max (w_filters w) = None then Some (PlainWatch w) else None),
     jc_unwatch = (\<lambda>b. case b of PlainWatch w \<Rightarrow> Some w | _ \<Rightarrow> None),
     jc_body = (\<lambda>r. if wf_price_max (wb_Filters r) = None then Some (PlainRequest r) else None),
     jc_unbody = (\<lambda>b. case b of PlainRequest r \<Rightarrow> Some r | _ \<Rightarrow> None),
     jc_error = PlainError, jc_blank = (\<lambda>b. False) \<rparr>"

definition example_watch :: watch where
  "example_watch = \<lparr> w_id = ''a'', w_name = ''ram'', w_search_query = ''q'', w_category_id = [],
     w_component_type = ''ram'', w_filters = no_filters, w_score_threshold = 80, w_enabled = True,
     w_last_polled_at = Some 7, w_created_at = 0, w_updated_at = 0 \<rparr>"

definition threshold_flags :: watch_update_flags where
  "threshold_flags = \<lparr> fl_name = [], fl_query = [], fl_category = [], fl_compType = [], fl_threshold = 90,
     fl_enabled = False, fl_filterFlag = [], fl_addFilter = [''attr:capacity_gb=32''], fl_clearFilters = False \<rparr>"

lemma plain_usable: "watches_usable plain_codec ((empty_db plain_server)\<lparr> db_watches := [example_watch] \<rparr>)"
  by (auto simp: watches_usable_def codec_ok_def plain_codec_def plain_fault_free empty_db_def plain_server_def
      example_watch_def no_filters_def fault_free_def)


end
