(* ===== verification/Http.thy ===== *)
theory Http
  imports ApiClient
begin

text \<open>
  The HTTP surface of the server: the routes its handlers are registered on (\<open>internal/api/handlers\<close>,
  \<open>registerRoutes\<close> of \<open>cmd/server-price-tracker/cmd/serve.go\<close>) and the middleware around every handler
  (\<open>internal/api/middleware\<close>). The matching of paths and the rendering of returned errors belong to the web
  framework.
\<close>

section \<open>Routes\<close>

record route =
  rt_id :: string
  rt_method :: string
  rt_path :: string

abbreviation (input) route :: "string \<Rightarrow> string \<Rightarrow> string \<Rightarrow> route" where
  "route i m p \<equiv> \<lparr> rt_id = i, rt_method = m, rt_path = p \<rparr>"

definition RegisterHealthRoutes :: "route list" where
  "RegisterHealthRoutes = [route ''healthz'' ''GET'' ''/healthz'', route ''readyz'' ''GET'' ''/readyz'']"

definition RegisterQuotaRoutes :: "route list" where
  "RegisterQuotaRoutes = [route ''get-quota'' ''GET'' ''/api/v1/quota'']"

definition RegisterListingRoutes :: "route list" where
  "RegisterListingRoutes =
     [route ''list-listings'' ''GET'' ''/api/v1/listings'', route ''get-listing'' ''GET'' ''/api/v1/listings/{id}'']"

definition RegisterWatchRoutes :: "route list" where
  "RegisterWatchRoutes =
     [route ''list-watches'' ''GET'' ''/api/v1/watches'',
      route ''get-watch'' ''GET'' ''/api/v1/watches/{id}'',
      route ''create-watch'' ''POST'' ''/api/v1/watches'',
      route ''update-watch'' ''PUT'' ''/api/v1/watches/{id}'',
      route ''set-watch-enabled'' ''PUT'' ''/api/v1/watches/{id}/enabled'',
      route ''delete-watch'' ''DELETE'' ''/api/v1/watches/{id}'']"

definition RegisterRescoreRoutes :: "route list" where
  "RegisterRescoreRoutes = [route ''rescore-listings'' ''POST'' ''/api/v1/rescore'']"

definition RegisterBaselineRoutes :: "route list" where
  "RegisterBaselineRoutes =
     [route ''list-baselines'' ''GET'' ''/api/v1/baselines'',
      route ''get-baseline'' ''GET'' ''/api/v1/baselines/{product_key}'']"

definition RegisterExtractionStatsRoutes :: "route list" where
  "RegisterExtractionStatsRoutes = [route ''extraction-stats'' ''GET'' ''/api/v1/extraction/stats'']"

definition RegisterSystemStateRoutes :: "route list" where
  "RegisterSystemStateRoutes = [route ''get-system-state'' ''GET'' ''/api/v1/system/state'']"

definition RegisterAlertsAPIRoutes :: "route list" where
  "RegisterAlertsAPIRoutes = [route ''get-alert-trace'' ''GET'' ''/api/v1/alerts/{id}/trace'']"

definition RegisterJudgeRoutes :: "route list" where
  "RegisterJudgeRoutes = [route ''run-judge'' ''POST'' ''/api/v1/judge/run'']"

definition RegisterJobRoutes :: "route list" where
  "RegisterJobRoutes =
     [route ''list-jobs'' ''GET'' ''/api/v1/jobs'', route ''get-job-history'' ''GET'' ''/api/v1/jobs/{job_name}'']"

definition RegisterSearchRoutes :: "route list" where
  "RegisterSearchRoutes = [route ''search-ebay'' ''POST'' ''/api/v1/search'']"

definition RegisterExtractRoutes :: "route list" where
  "RegisterExtractRoutes = [route ''extract-attributes'' ''POST'' ''/api/v1/extract'']"

definition RegisterTriggerRoutes :: "route list" where
  "RegisterTriggerRoutes =
     [route ''trigger-ingest'' ''POST'' ''/api/v1/ingest'',
      route ''refresh-baselines'' ''POST'' ''/api/v1/baselines/refresh'']"

definition RegisterReExtractRoutes :: "route list" where
  "RegisterReExtractRoutes = [route ''reextract-listings'' ''POST'' ''/api/v1/reextract'']"

text \<open>What is registered depends on which of the store, the eBay client, the extractor and the engine exist.\<close>

definition registerRoutes :: "bool \<Rightarrow> bool \<Rightarrow> bool \<Rightarrow> bool \<Rightarrow> route list" where
  "registerRoutes store ebay extractor eng =
     RegisterHealthRoutes @ RegisterQuotaRoutes
     @ (if store then RegisterListingRoutes @ RegisterWatchRoutes @ RegisterRescoreRoutes @ RegisterBaselineRoutes
          @ RegisterExtractionStatsRoutes @ RegisterSystemStateRoutes @ RegisterAlertsAPIRoutes @ RegisterJudgeRoutes
          @ RegisterJobRoutes
        else [])
     @ (if ebay then RegisterSearchRoutes else [])
     @ (if extractor then RegisterExtractRoutes else [])
     @ (if eng then RegisterTriggerRoutes @ RegisterReExtractRoutes else [])"

text \<open>The review pages; the framework writes their parameters with a colon.\<close>

definition RegisterAlertsUIRoutes :: "(string \<times> string) list" where
  "RegisterAlertsUIRoutes =
     [(''GET'', ''/alerts''), (''GET'', ''/alerts.json''), (''GET'', ''/alerts/:id''), (''POST'', ''/alerts/:id/dismiss''),
      (''POST'', ''/alerts/dismiss''), (''POST'', ''/alerts/:id/restore''), (''POST'', ''/alerts/:id/retry'')]"

section \<open>Middleware\<close>

text \<open>A handler ends with the status of the response and, when it returns an error instead of writing the
  response, the status the framework renders for it afterwards; or it panics.\<close>

datatype outcome = Finished int "int option" | Panicked string

record http_input =
  hi_method :: string
  hi_url_path :: string
  hi_route :: string
  hi_request_id :: string

datatype log_level = LogInfo | LogWarn | LogError

record log_line =
  ll_level :: log_level
  ll_path :: string
  ll_status :: int
  ll_request_id :: string

text \<open>The gauges and the counter of the process, its log, the paths whose first success was logged, and the
  identifiers generated so far.\<close>

record http_world =
  hw_gauges :: "(string, int) gomap"
  hw_requests :: "(string \<times> string \<times> string) list"
  hw_log :: "log_line list"
  hw_logged :: "string list"
  hw_ids :: nat

type_synonym handler = "http_world \<Rightarrow> outcome \<times> http_world"

definition metricsSkipPaths :: "string list" where "metricsSkipPaths = [''/metrics'', ''/healthz'', ''/readyz'']"

definition healthGauges :: "string list" where "healthGauges = [''/healthz'', ''/readyz'']"

definition updateHealthGauge :: "string \<Rightarrow> int \<Rightarrow> http_world \<Rightarrow> http_world" where
  "updateHealthGauge path status w =
     (if path \<notin> set healthGauges then w
      else w\<lparr> hw_gauges := mput path (if 200 \<le> status \<and> status < 300 then 1 else 0) (hw_gauges w) \<rparr>)"

text \<open>\<open>next(c)\<close> that panics skips what follows it.\<close>

definition Metrics :: "http_input \<Rightarrow> handler \<Rightarrow> handler" where
  "Metrics c nxt w =
     (let path = (if hi_route c = [] then hi_url_path c else hi_route c) in
      case nxt w of
        (Panicked m, w) \<Rightarrow> (Panicked m, w)
      | (Finished st err, w) \<Rightarrow>
          (Finished st err,
           if path \<in> set metricsSkipPaths then updateHealthGauge path st w
           else w\<lparr> hw_requests := hw_requests w @ [(hi_method c, path, itoa st)] \<rparr>))"

definition logSuppressPaths :: "string list" where "logSuppressPaths = [''/healthz'', ''/readyz'', ''/metrics'']"

definition RequestLog :: "(nat \<Rightarrow> string) \<Rightarrow> http_input \<Rightarrow> handler \<Rightarrow> handler" where
  "RequestLog uuid c nxt w =
     (let (reqID, w) = (if hi_request_id c = [] then (uuid (hw_ids w), w\<lparr> hw_ids := hw_ids w + 1 \<rparr>) else (hi_request_id c, w)) in
      case nxt w of
        (Panicked m, w) \<Rightarrow> (Panicked m, w)
      | (Finished st err, w) \<Rightarrow>
          (let line = (\<lambda>lv. \<lparr> ll_level = lv, ll_path = hi_url_path c, ll_status = st, ll_request_id = reqID \<rparr>)
           in (Finished st err,
               if hi_url_path c \<in> set logSuppressPaths then
                 if 200 \<le> st \<and> st < 300 then
                   (if hi_url_path c \<in> set (hw_logged w) then w
                    else w\<lparr> hw_logged := hi_url_path c # hw_logged w, hw_log := hw_log w @ [line LogInfo] \<rparr>)
                 else w\<lparr> hw_log := hw_log w @ [line LogWarn] \<rparr>
               else w\<lparr> hw_log := hw_log w @ [line LogInfo] \<rparr>)))"

definition Recovery :: "http_input \<Rightarrow> handler \<Rightarrow> handler" where
  "Recovery c nxt w =
     (case nxt w of
        (Panicked m, w) \<Rightarrow>
          (Finished 500 None, w\<lparr> hw_log := hw_log w @
             [\<lparr> ll_level = LogError, ll_path = hi_url_path c, ll_status = 500, ll_request_id = [] \<rparr>] \<rparr>)
      | (Finished st err, w) \<Rightarrow> (Finished st err, w))"

text \<open>The chain of \<open>buildHTTPServer\<close>, and the status the client sees.\<close>

definition server_chain :: "(nat \<Rightarrow> string) \<Rightarrow> http_input \<Rightarrow> handler \<Rightarrow> handler" where
  "server_chain uuid c h = Recovery c (RequestLog uuid c (Metrics c h))"

definition visible_status :: "outcome \<Rightarrow> int" where
  "visible_status oc = (case oc of Finished st None \<Rightarrow> st | Finished st (Some e) \<Rightarrow> e | Panicked m \<Rightarrow> 0)"

text \<open>The readiness handler over a store that may be missing: calling a method of a nil interface panics.\<close>

definition reply_status :: "'a reply \<Rightarrow> int" where
  "reply_status r = (case r of Reply x \<Rightarrow> 200 | HumaError st m \<Rightarrow> st)"

definition readyz_handler :: "bool option \<Rightarrow> handler" where
  "readyz_handler store w =
     (case store of None \<Rightarrow> (Panicked ''nil pointer dereference'', w)
      | Some reachable \<Rightarrow> (Finished (reply_status (Readyz reachable)) None, w))"

section \<open>Laws\<close>

lemma probe_paths: "''/readyz'' \<in> set metricsSkipPaths" "''/readyz'' \<in> set healthGauges" "''/readyz'' \<in> set logSuppressPaths"
  "''/alerts/:id'' \<notin> set metricsSkipPaths" "''/alerts/7'' \<notin> set logSuppressPaths"
  by (simp_all add: metricsSkipPaths_def healthGauges_def logSuppressPaths_def)

lemma probe_metrics:
  assumes "hi_route c = ''/readyz''"
  shows "Metrics c nxt w = (case nxt w of (Panicked m, w) \<Rightarrow> (Panicked m, w)
    | (Finished st err, w) \<Rightarrow> (Finished st err, w\<lparr> hw_gauges := mput ''/readyz'' (if 200 \<le> st \<and> st < 300 then 1 else 0) (hw_gauges w) \<rparr>))"
  using assms probe_paths(1,2) by (auto simp: Metrics_def Let_def updateHealthGauge_def split: outcome.split prod.split)

lemma RequestLog_frame:
  "\<exists>w0. hw_gauges w0 = hw_gauges w \<and> hw_requests w0 = hw_requests w \<and> hw_log w0 = hw_log w
    \<and> (case nxt w0 of (oc, w1) \<Rightarrow> \<exists>w2. RequestLog uuid c nxt w = (oc, w2) \<and> hw_gauges w2 = hw_gauges w1 \<and> hw_requests w2 = hw_requests w1)"
proof -
  define w0 where "w0 = (if hi_request_id c = [] then w\<lparr> hw_ids := hw_ids w + 1 \<rparr> else w)"
  obtain oc w1 where n: "nxt w0 = (oc, w1)" by (cases "nxt w0")
  have "\<exists>w2. RequestLog uuid c nxt w = (oc, w2) \<and> hw_gauges w2 = hw_gauges w1 \<and> hw_requests w2 = hw_requests w1"
  proof (cases oc)
    case (Finished st err)
    then show ?thesis using n by (simp add: RequestLog_def w0_def Let_def split: if_splits)
  next
    case (Panicked m)
    then show ?thesis using n by (simp add: RequestLog_def w0_def Let_def split: if_splits)
  qed
  moreover have "hw_gauges w0 = hw_gauges w" "hw_requests w0 = hw_requests w" "hw_log w0 = hw_log w" by (simp_all add: w0_def)
  ultimately show ?thesis using n by (intro exI [of _ w0]) simp
qed

lemma probe_answer:
  assumes "c = \<lparr> hi_method = ''GET'', hi_url_path = ''/readyz'', hi_route = ''/readyz'', hi_request_id = i \<rparr>"
    and "\<And>w. h w = (oc, w)"
  shows "case server_chain uuid c h w of (oc', w') \<Rightarrow>
    (case oc of Finished st err \<Rightarrow> oc' = oc \<and> hw_gauges w' = mput ''/readyz'' (if 200 \<le> st \<and> st < 300 then 1 else 0) (hw_gauges w)
     | Panicked m \<Rightarrow> oc' = Finished 500 None \<and> hw_gauges w' = hw_gauges w)"
proof -
  have r: "hi_route c = ''/readyz''" using assms(1) by simp
  show ?thesis
    using RequestLog_frame [where w = w and nxt = "Metrics c h" and uuid = uuid and c = c]
    by (auto simp: server_chain_def Recovery_def probe_metrics [OF r] assms(2) split: outcome.splits)
qed

text \<open>C38. Readiness. With a store, the answer and the readiness gauge tell whether the database is reachable.
  Without one, which is how the server goes on when it cannot connect at start-up, the handler panics: the
  answer is 500, and the gauge keeps the value it had.\<close>

theorem readiness_reported:
  "let c = \<lparr> hi_method = ''GET'', hi_url_path = ''/readyz'', hi_route = ''/readyz'', hi_request_id = i \<rparr>;
       ask = (\<lambda>store. server_chain uuid c (readyz_handler store) w)
   in visible_status (fst (ask (Some b))) = (if b then 200 else 503)
    \<and> mget (hw_gauges (snd (ask (Some b)))) ''/readyz'' = Some (if b then 1 else 0)
    \<and> visible_status (fst (ask None)) = 500
    \<and> hw_gauges (snd (ask None)) = hw_gauges w"
proof -
  let ?c = "\<lparr> hi_method = ''GET'', hi_url_path = ''/readyz'', hi_route = ''/readyz'', hi_request_id = i \<rparr>"
  have some: "\<And>w. readyz_handler (Some b) w = (Finished (if b then 200 else 503) None, w)"
    and none: "\<And>w. readyz_handler None w = (Panicked ''nil pointer dereference'', w)"
    by (simp_all add: readyz_handler_def Readyz_def reply_status_def)
  show ?thesis
    using probe_answer [OF refl some, where i = i and uuid = uuid and w = w] probe_answer [OF refl none, where i = i and uuid = uuid and w = w]
    by (auto simp: Let_def visible_status_def split: prod.splits)
qed

text \<open>A returned error is counted as a success. When a handler of the review pages returns an error without
  writing the response, the client sees the status of the error, and both the request counter and the log
  record the status the response had before, which is 200.\<close>

theorem returned_error_miscounted:
  "let c = \<lparr> hi_method = m, hi_url_path = ''/alerts/7'', hi_route = ''/alerts/:id'', hi_request_id = ''r'' \<rparr>;
       (oc, w') = server_chain uuid c (\<lambda>w. (Finished 200 (Some e), w)) w
   in visible_status oc = e \<and> hw_requests w' = hw_requests w @ [(m, ''/alerts/:id'', ''200'')]
    \<and> map ll_status (hw_log w') = map ll_status (hw_log w) @ [200]"
proof -
  have "itoa 200 = ''200''" by code_simp
  then show ?thesis
    by (simp add: server_chain_def Recovery_def RequestLog_def Metrics_def visible_status_def metricsSkipPaths_def logSuppressPaths_def)
qed

text \<open>The route of a request: paths match segment by segment, a parameter matches any segment that is not empty.\<close>

definition seg_match :: "string \<Rightarrow> string \<Rightarrow> bool" where
  "seg_match t s \<longleftrightarrow> (case t of c # cs \<Rightarrow> if c = CHR ''{'' then s \<noteq> [] else s = t | [] \<Rightarrow> s = [])"

definition path_match :: "string \<Rightarrow> string \<Rightarrow> bool" where
  "path_match t p \<longleftrightarrow> list_all2 seg_match (split_at (CHR ''/'') t) (split_at (CHR ''/'') p)"

definition dispatch :: "route list \<Rightarrow> string \<times> string \<Rightarrow> string list" where
  "dispatch rs r = map rt_id (filter (\<lambda>x. rt_method x = fst r
     \<and> path_match (rt_path x) (takeWhile (\<lambda>c. c \<noteq> CHR ''?'') (snd r))) rs)"

text \<open>The requests a call sends, by a network that records them.\<close>

definition recorder :: "(unit, (string \<times> string) list) api_client" where
  "recorder = NewApiClient [] (\<lambda>r s. (BodyBroken, s @ [(aq_method r, aq_url r)])) (\<lambda>b. False)"

definition client_traffic :: "string \<Rightarrow> string \<Rightarrow> string \<Rightarrow> string \<Rightarrow> watch \<Rightarrow> list_listings_params \<Rightarrow> listing
    \<Rightarrow> price_baseline \<Rightarrow> (string \<times> string) list" where
  "client_traffic i j k nm w p zl zb = concat
     [snd (clientListWatches recorder (\<lambda>b. None) []),
      snd (clientGetWatch recorder (\<lambda>b. None) i []),
      snd (clientCreateWatch recorder (\<lambda>b. Some ()) (\<lambda>b. None) w []),
      snd (clientUpdateWatch recorder (\<lambda>b. Some ()) (\<lambda>b. None) (w\<lparr> w_id := i \<rparr>) []),
      snd (clientSetWatchEnabled recorder (\<lambda>b. Some ()) i True []),
      snd (clientDeleteWatch recorder i []),
      snd (clientListListings recorder (\<lambda>b. None) p []),
      snd (clientGetListing recorder (\<lambda>b. None) zl j []),
      snd (clientRescore recorder (\<lambda>b. None) []),
      snd (clientReExtract recorder (\<lambda>b. Some ()) (\<lambda>b. None) [] 0 []),
      snd (clientListBaselines recorder (\<lambda>b. None) []),
      snd (clientGetBaseline recorder (\<lambda>b. None) zb k []),
      snd (clientRefreshBaselines recorder []),
      snd (clientTriggerIngestion recorder []),
      snd (clientListJobs recorder (\<lambda>b. None) []),
      snd (clientGetJobHistory recorder (\<lambda>b. None) nm []),
      snd (clientRunJudge recorder () (\<lambda>b. None) [])]"

lemma client_traffic_requests:
  "client_traffic i j k nm w p zl zb =
     [(''GET'', ''/api/v1/watches''),
      (''GET'', ''/api/v1/watches/'' @ i),
      (''POST'', ''/api/v1/watches''),
      (''PUT'', ''/api/v1/watches/'' @ i),
      (''PUT'', ''/api/v1/watches/'' @ i @ ''/enabled''),
      (''DELETE'', ''/api/v1/watches/'' @ i),
      (''GET'', listings_path p),
      (''GET'', ''/api/v1/listings/'' @ j),
      (''POST'', ''/api/v1/rescore''),
      (''POST'', ''/api/v1/reextract''),
      (''GET'', ''/api/v1/baselines''),
      (''GET'', ''/api/v1/baselines/'' @ k),
      (''POST'', ''/api/v1/baselines/refresh''),
      (''POST'', ''/api/v1/ingest''),
      (''GET'', ''/api/v1/jobs''),
      (''GET'', ''/api/v1/jobs/'' @ nm),
      (''POST'', ''/api/v1/judge/run'')]"
  by (simp add: client_traffic_def recorder_def NewApiClient_def trim_right_def clientListWatches_def clientGetWatch_def
      clientCreateWatch_def clientUpdateWatch_def clientSetWatchEnabled_def clientDeleteWatch_def clientListListings_def
      clientGetListing_def clientRescore_def clientReExtract_def clientListBaselines_def clientGetBaseline_def
      clientRefreshBaselines_def clientTriggerIngestion_def clientListJobs_def clientGetJobHistory_def clientRunJudge_def
      api_get_def api_post_def api_put_def api_del_def api_do_def)

text \<open>The table of routes with their segments.\<close>

definition route_segments :: "route \<Rightarrow> string \<times> string \<times> string list" where
  "route_segments x = (rt_id x, rt_method x, split_at (CHR ''/'') (rt_path x))"

lemma registered_segments:
  "map route_segments (registerRoutes True True True True) =
     [(''healthz'', ''GET'', [[], ''healthz'']),
      (''readyz'', ''GET'', [[], ''readyz'']),
      (''get-quota'', ''GET'', [[], ''api'', ''v1'', ''quota'']),
      (''list-listings'', ''GET'', [[], ''api'', ''v1'', ''listings'']),
      (''get-listing'', ''GET'', [[], ''api'', ''v1'', ''listings'', ''{id}'']),
      (''list-watches'', ''GET'', [[], ''api'', ''v1'', ''watches'']),
      (''get-watch'', ''GET'', [[], ''api'', ''v1'', ''watches'', ''{id}'']),
      (''create-watch'', ''POST'', [[], ''api'', ''v1'', ''watches'']),
      (''update-watch'', ''PUT'', [[], ''api'', ''v1'', ''watches'', ''{id}'']),
      (''set-watch-enabled'', ''PUT'', [[], ''api'', ''v1'', ''watches'', ''{id}'', ''enabled'']),
      (''delete-watch'', ''DELETE'', [[], ''api'', ''v1'', ''watches'', ''{id}'']),
      (''rescore-listings'', ''POST'', [[], ''api'', ''v1'', ''rescore'']),
      (''list-baselines'', ''GET'', [[], ''api'', ''v1'', ''baselines'']),
      (''get-baseline'', ''GET'', [[], ''api'', ''v1'', ''baselines'', ''{product_key}'']),
      (''extraction-stats'', ''GET'', [[], ''api'', ''v1'', ''extraction'', ''stats'']),
      (''get-system-state'', ''GET'', [[], ''api'', ''v1'', ''system'', ''state'']),
      (''get-alert-trace'', ''GET'', [[], ''api'', ''v1'', ''alerts'', ''{id}'', ''trace'']),
      (''run-judge'', ''POST'', [[], ''api'', ''v1'', ''judge'', ''run'']),
      (''list-jobs'', ''GET'', [[], ''api'', ''v1'', ''jobs'']),
      (''get-job-history'', ''GET'', [[], ''api'', ''v1'', ''jobs'', ''{job_name}'']),
      (''search-ebay'', ''POST'', [[], ''api'', ''v1'', ''search'']),
      (''extract-attributes'', ''POST'', [[], ''api'', ''v1'', ''extract'']),
      (''trigger-ingest'', ''POST'', [[], ''api'', ''v1'', ''ingest'']),
      (''refresh-baselines'', ''POST'', [[], ''api'', ''v1'', ''baselines'', ''refresh'']),
      (''reextract-listings'', ''POST'', [[], ''api'', ''v1'', ''reextract''])]"
  by code_simp

lemma dispatch_segments:
  assumes "map route_segments rs = table" and "split_at (CHR ''/'') (takeWhile (\<lambda>c. c \<noteq> CHR ''?'') path) = segs"
  shows "dispatch rs (m, path) = map fst (filter (\<lambda>(i, m', t). m' = m \<and> list_all2 seg_match t segs) table)"
  using assms(2) unfolding assms(1) [symmetric] dispatch_def path_match_def
  by (simp add: filter_map o_def route_segments_def)

definition url_segment :: "string \<Rightarrow> bool" where
  "url_segment s \<longleftrightarrow> s \<noteq> [] \<and> CHR ''/'' \<notin> set s \<and> CHR ''?'' \<notin> set s"

lemma seg_match_simps [simp]:
  "seg_match (CHR ''{'' # t) s = (s \<noteq> [])" "c \<noteq> CHR ''{'' \<Longrightarrow> seg_match (c # t) s = (s = c # t)" "seg_match [] s = (s = [])"
  by (auto simp: seg_match_def)

lemma takeWhile_segment: "CHR ''?'' \<notin> set s \<Longrightarrow> takeWhile (\<lambda>c. c \<noteq> CHR ''?'') (s @ r) = s @ takeWhile (\<lambda>c. c \<noteq> CHR ''?'') r"
  by (induction s) auto

lemma listings_path_plain: "takeWhile (\<lambda>c. c \<noteq> CHR ''?'') (listings_path p) = ''/api/v1/listings''"
  by (simp add: listings_path_def)

lemma takeWhile_path: "CHR ''?'' \<notin> set s \<Longrightarrow> takeWhile (\<lambda>c. c \<noteq> CHR ''?'') s = s"
  by (induction s) auto

lemmas routing = url_segment_def takeWhile_path takeWhile_segment split_at_word split_at_append listings_path_plain

lemma routed_list_watches: "dispatch (registerRoutes True True True True) (''GET'', ''/api/v1/watches'') = [''list-watches'']"
  by (subst dispatch_segments [OF registered_segments, where segs = "[[], ''api'', ''v1'', ''watches'']"])
    (simp_all add: routing)

lemma routed_get_watch: "url_segment i \<Longrightarrow> dispatch (registerRoutes True True True True) (''GET'', ''/api/v1/watches/'' @ i) = [''get-watch'']"
  by (subst dispatch_segments [OF registered_segments, where segs = "[[], ''api'', ''v1'', ''watches'', i]"])
    (simp_all add: routing)

lemma routed_create_watch: "dispatch (registerRoutes True True True True) (''POST'', ''/api/v1/watches'') = [''create-watch'']"
  by (subst dispatch_segments [OF registered_segments, where segs = "[[], ''api'', ''v1'', ''watches'']"])
    (simp_all add: routing)

lemma routed_update_watch: "url_segment i \<Longrightarrow> dispatch (registerRoutes True True True True) (''PUT'', ''/api/v1/watches/'' @ i) = [''update-watch'']"
  by (subst dispatch_segments [OF registered_segments, where segs = "[[], ''api'', ''v1'', ''watches'', i]"])
    (simp_all add: routing)

lemma routed_set_watch_enabled: "url_segment i \<Longrightarrow> dispatch (registerRoutes True True True True) (''PUT'', ''/api/v1/watches/'' @ i @ ''/enabled'') = [''set-watch-enabled'']"
  by (subst dispatch_segments [OF registered_segments, where segs = "[[], ''api'', ''v1'', ''watches'', i, ''enabled'']"])
    (simp_all add: routing)

lemma routed_delete_watch: "url_segment i \<Longrightarrow> dispatch (registerRoutes True True True True) (''DELETE'', ''/api/v1/watches/'' @ i) = [''delete-watch'']"
  by (subst dispatch_segments [OF registered_segments, where segs = "[[], ''api'', ''v1'', ''watches'', i]"])
    (simp_all add: routing)

lemma routed_list_listings: "dispatch (registerRoutes True True True True) (''GET'', listings_path p) = [''list-listings'']"
  by (subst dispatch_segments [OF registered_segments, where segs = "[[], ''api'', ''v1'', ''listings'']"])
    (simp_all add: routing)

lemma routed_get_listing: "url_segment j \<Longrightarrow> dispatch (registerRoutes True True True True) (''GET'', ''/api/v1/listings/'' @ j) = [''get-listing'']"
  by (subst dispatch_segments [OF registered_segments, where segs = "[[], ''api'', ''v1'', ''listings'', j]"])
    (simp_all add: routing)

lemma routed_rescore_listings: "dispatch (registerRoutes True True True True) (''POST'', ''/api/v1/rescore'') = [''rescore-listings'']"
  by (subst dispatch_segments [OF registered_segments, where segs = "[[], ''api'', ''v1'', ''rescore'']"])
    (simp_all add: routing)

lemma routed_reextract_listings: "dispatch (registerRoutes True True True True) (''POST'', ''/api/v1/reextract'') = [''reextract-listings'']"
  by (subst dispatch_segments [OF registered_segments, where segs = "[[], ''api'', ''v1'', ''reextract'']"])
    (simp_all add: routing)

lemma routed_list_baselines: "dispatch (registerRoutes True True True True) (''GET'', ''/api/v1/baselines'') = [''list-baselines'']"
  by (subst dispatch_segments [OF registered_segments, where segs = "[[], ''api'', ''v1'', ''baselines'']"])
    (simp_all add: routing)

lemma routed_get_baseline: "url_segment k \<Longrightarrow> dispatch (registerRoutes True True True True) (''GET'', ''/api/v1/baselines/'' @ k) = [''get-baseline'']"
  by (subst dispatch_segments [OF registered_segments, where segs = "[[], ''api'', ''v1'', ''baselines'', k]"])
    (simp_all add: routing)

lemma routed_refresh_baselines: "dispatch (registerRoutes True True True True) (''POST'', ''/api/v1/baselines/refresh'') = [''refresh-baselines'']"
  by (subst dispatch_segments [OF registered_segments, where segs = "[[], ''api'', ''v1'', ''baselines'', ''refresh'']"])
    (simp_all add: routing)

lemma routed_trigger_ingest: "dispatch (registerRoutes True True True True) (''POST'', ''/api/v1/ingest'') = [''trigger-ingest'']"
  by (subst dispatch_segments [OF registered_segments, where segs = "[[], ''api'', ''v1'', ''ingest'']"])
    (simp_all add: routing)

lemma routed_list_jobs: "dispatch (registerRoutes True True True True) (''GET'', ''/api/v1/jobs'') = [''list-jobs'']"
  by (subst dispatch_segments [OF registered_segments, where segs = "[[], ''api'', ''v1'', ''jobs'']"])
    (simp_all add: routing)

lemma routed_get_job_history: "url_segment nm \<Longrightarrow> dispatch (registerRoutes True True True True) (''GET'', ''/api/v1/jobs/'' @ nm) = [''get-job-history'']"
  by (subst dispatch_segments [OF registered_segments, where segs = "[[], ''api'', ''v1'', ''jobs'', nm]"])
    (simp_all add: routing)

lemma routed_run_judge: "dispatch (registerRoutes True True True True) (''POST'', ''/api/v1/judge/run'') = [''run-judge'']"
  by (subst dispatch_segments [OF registered_segments, where segs = "[[], ''api'', ''v1'', ''judge'', ''run'']"])
    (simp_all add: routing)

text \<open>C17. Client and server agree. Every call of the API client sends one request, and the routes the server
  registers when all its parts exist serve it by exactly one operation, the intended one, for all identifiers,
  keys, job names and query parameters that are single segments.\<close>

theorem client_requests_routed:
  assumes "list_all url_segment [i, j, k, nm]"
  shows "map (dispatch (registerRoutes True True True True)) (client_traffic i j k nm w p zl zb) =
     map (\<lambda>x. [x]) [''list-watches'', ''get-watch'', ''create-watch'', ''update-watch'', ''set-watch-enabled'', ''delete-watch'', ''list-listings'', ''get-listing'', ''rescore-listings'', ''reextract-listings'', ''list-baselines'', ''get-baseline'', ''refresh-baselines'', ''trigger-ingest'', ''list-jobs'', ''get-job-history'', ''run-judge'']"
proof -
  have seg: "url_segment i" "url_segment j" "url_segment k" "url_segment nm" using assms by simp_all
  show ?thesis
    unfolding client_traffic_requests
    by (simp only: list.map seg routed_list_watches routed_get_watch routed_create_watch routed_update_watch routed_set_watch_enabled routed_delete_watch routed_list_listings routed_get_listing routed_rescore_listings routed_reextract_listings routed_list_baselines routed_get_baseline routed_refresh_baselines routed_trigger_ingest routed_list_jobs routed_get_job_history routed_run_judge)
qed

theorem client_requests_routed_witness:
  "\<forall>w p zl zb. concat (map (dispatch (registerRoutes True True True True))
      (take 3 (client_traffic ''7'' ''8'' ''ram:ddr4'' ''ingestion'' w p zl zb))) = [''list-watches'', ''get-watch'', ''create-watch'']"
proof (intro allI)
  fix w p zl zb
  have "list_all url_segment [''7'', ''8'', ''ram:ddr4'', ''ingestion'']" by (simp add: url_segment_def)
  from client_requests_routed [OF this, of w p zl zb]
  show "concat (map (dispatch (registerRoutes True True True True))
      (take 3 (client_traffic ''7'' ''8'' ''ram:ddr4'' ''ingestion'' w p zl zb))) = [''list-watches'', ''get-watch'', ''create-watch'']"
    unfolding take_map [symmetric] by (simp add: numeral_3_eq_3)
qed

end
