(* ===== verification/LangfuseHttp.thy ===== *)
theory LangfuseHttp
  imports Langfuse
begin

text \<open>
  The HTTP client of Langfuse (\<open>pkg/observability/langfuse/http_client.go\<close>, \<open>noop_client.go\<close>): the bodies of
  its requests, the ingestion envelope, and the retries. JSON, the network, waiting, the clock and fresh
  identifiers are an environment over a state \<open>'s\<close>.
\<close>

section \<open>Bodies\<close>

record ingestion_usage =
  iu_Input :: int
  iu_Output :: int
  iu_Total :: int
  iu_Unit :: string
  iu_TotalCost :: f64

record generation_create_body =
  gb_ID :: string
  gb_TraceID :: string
  gb_SessionID :: string
  gb_Name :: string
  gb_Model :: string
  gb_Input :: string
  gb_Output :: string
  gb_StartTime :: instant
  gb_EndTime :: instant
  gb_Usage :: "ingestion_usage option"
  gb_Metadata :: "(string, string) gomap"
  gb_Level :: string
  gb_StatusMessage :: string

record score_create_body =
  sb_ID :: string
  sb_TraceID :: string
  sb_Name :: string
  sb_Value :: f64
  sb_Comment :: string

record trace_create_body =
  tb_ID :: string
  tb_SessionID :: string
  tb_Name :: string
  tb_Metadata :: "(string, string) gomap"

datatype event_body = GenerationBody generation_create_body | ScoreBody score_create_body | TraceBody trace_create_body

record ingestion_event =
  ie_ID :: string
  ie_Type :: string
  ie_Timestamp :: instant
  ie_Body :: event_body

record dataset_item_body =
  db_ID :: string
  db_DatasetID :: string
  db_Input :: attrs
  db_ExpectedOutput :: attrs
  db_Metadata :: "(string, string) gomap"

record dataset_run_item_body =
  rb_RunName :: string
  rb_DatasetItemID :: string
  rb_TraceID :: string
  rb_Output :: attrs
  rb_Metadata :: "(string, string) gomap"

text \<open>The envelope of the ingestion endpoint is its batch.\<close>

datatype lf_payload = IngestionRequest "ingestion_event list" | ItemPayload dataset_item_body | RunItemPayload dataset_run_item_body

record ingestion_error =
  ir_ID :: string
  ir_Status :: int
  ir_Message :: string

text \<open>The successes are the identifiers with their status.\<close>

record ingestion_response =
  is_Successes :: "(string \<times> int) list"
  is_Errors :: "ingestion_error list"

definition ingestionEventGenerationCreate :: string where "ingestionEventGenerationCreate = ''generation-create''"
definition ingestionEventScoreCreate :: string where "ingestionEventScoreCreate = ''score-create''"
definition ingestionEventTraceCreate :: string where "ingestionEventTraceCreate = ''trace-create''"

section \<open>The client and its environment\<close>

definition defaultMaxRetries :: int where "defaultMaxRetries = 3"
definition retryBaseDelay :: duration where "retryBaseDelay = 50000000"

record lf_http =
  lh_endpoint :: string
  lh_publicKey :: string
  lh_secretKey :: string
  lh_maxRetries :: int

definition NewHTTPClient :: "string \<Rightarrow> string \<Rightarrow> string \<Rightarrow> (lf_http \<Rightarrow> lf_http) list \<Rightarrow> string + lf_http" where
  "NewHTTPClient endpoint publicKey secretKey opts =
     (if endpoint = [] then Inl ''langfuse: endpoint is required''
      else if publicKey = [] \<or> secretKey = [] then Inl ''langfuse: public_key and secret_key are required''
      else Inr (fold (\<lambda>opt. opt) opts
        \<lparr> lh_endpoint = endpoint, lh_publicKey = publicKey, lh_secretKey = secretKey, lh_maxRetries = defaultMaxRetries \<rparr>))"

definition WithMaxRetries :: "int \<Rightarrow> lf_http \<Rightarrow> lf_http" where "WithMaxRetries n h = h\<lparr> lh_maxRetries := n \<rparr>"

text \<open>An answer has its status, its body, None when reading it fails, and the envelope decoded from the first
  mebibyte of it.\<close>

datatype lf_answer = RequestNotBuilt | NoAnswer string | LfAnswer int "string option" "ingestion_response option"

text \<open>A request carries the address, the two keys of the basic authorisation and the payload.\<close>

record 's lf_env =
  le_encodes :: "lf_payload \<Rightarrow> bool"
  le_send :: "string \<Rightarrow> string \<times> string \<Rightarrow> lf_payload \<Rightarrow> 's \<Rightarrow> lf_answer \<times> 's"
  le_wait :: "duration \<Rightarrow> 's \<Rightarrow> bool \<times> 's"
  le_now :: "'s \<Rightarrow> instant \<times> 's"
  le_uuid :: "'s \<Rightarrow> string \<times> 's"
  le_session :: string

datatype lf_error =
    MarshalError string | BuildError | TransportError string | ServerStatus int | ClientStatus int string
  | DecodeError | ContextDone | EventRejected string int string | RunItemError string lf_error

fun isRetryable :: "lf_error \<Rightarrow> bool" where
  "isRetryable (TransportError e) = True"
| "isRetryable (ServerStatus st) = True"
| "isRetryable (RunItemError i e) = isRetryable e"
| "isRetryable e = False"

definition readErrorBody :: "string option \<Rightarrow> string" where
  "readErrorBody b = (case b of None \<Rightarrow> [] | Some t \<Rightarrow> take 16384 t)"

definition no_response :: ingestion_response where "no_response = \<lparr> is_Successes = [], is_Errors = [] \<rparr>"

text \<open>The outcome of one attempt; \<open>want\<close> tells whether the caller passed a destination for the response.\<close>

definition attempt_outcome :: "bool \<Rightarrow> lf_answer \<Rightarrow> lf_error + ingestion_response" where
  "attempt_outcome want a =
     (case a of
        RequestNotBuilt \<Rightarrow> Inl BuildError
      | NoAnswer e \<Rightarrow> Inl (TransportError e)
      | LfAnswer st body resp \<Rightarrow>
          if 500 \<le> st then Inl (ServerStatus st)
          else if 400 \<le> st then Inl (ClientStatus st (readErrorBody body))
          else if \<not> want then Inr no_response
          else case resp of None \<Rightarrow> Inl DecodeError | Some r \<Rightarrow> Inr r)"

definition attemptOnce :: "'s lf_env \<Rightarrow> lf_http \<Rightarrow> string \<Rightarrow> lf_payload \<Rightarrow> bool \<Rightarrow> 's \<Rightarrow> (lf_error + ingestion_response) \<times> 's" where
  "attemptOnce env c url payload want s =
     (case le_send env url (lh_publicKey c, lh_secretKey c) payload s of (a, s) \<Rightarrow> (attempt_outcome want a, s))"

text \<open>The loop with the number of attempts that are left; without any, the last error is nil.\<close>

fun retry_loop :: "'s lf_env \<Rightarrow> lf_http \<Rightarrow> string \<Rightarrow> lf_payload \<Rightarrow> bool \<Rightarrow> nat \<Rightarrow> duration \<Rightarrow> 's \<Rightarrow> (lf_error + ingestion_response) \<times> 's" where
  "retry_loop env c url payload want 0 delay s = (Inr no_response, s)"
| "retry_loop env c url payload want (Suc n) delay s =
     (case attemptOnce env c url payload want s of
        (Inr r, s) \<Rightarrow> (Inr r, s)
      | (Inl e, s) \<Rightarrow>
          if \<not> isRetryable e \<or> n = 0 then (Inl e, s)
          else case le_wait env delay s of
            (True, s) \<Rightarrow> (Inl ContextDone, s)
          | (False, s) \<Rightarrow> retry_loop env c url payload want n (wrap64 (delay * 2)) s)"

definition postWithResponse :: "'s lf_env \<Rightarrow> lf_http \<Rightarrow> string \<Rightarrow> lf_payload \<Rightarrow> bool \<Rightarrow> 's \<Rightarrow> (lf_error + ingestion_response) \<times> 's" where
  "postWithResponse env c path payload want s =
     (if \<not> le_encodes env payload then (Inl (MarshalError path), s)
      else retry_loop env c (lh_endpoint c @ path) payload want (nat (lh_maxRetries c + 1)) retryBaseDelay s)"

definition lf_post :: "'s lf_env \<Rightarrow> lf_http \<Rightarrow> string \<Rightarrow> lf_payload \<Rightarrow> 's \<Rightarrow> lf_error option \<times> 's" where
  "lf_post env c path payload s =
     (case postWithResponse env c path payload False s of (Inl e, s) \<Rightarrow> (Some e, s) | (Inr r, s) \<Rightarrow> (None, s))"

definition lf_ingest :: "'s lf_env \<Rightarrow> lf_http \<Rightarrow> string \<Rightarrow> event_body \<Rightarrow> 's \<Rightarrow> lf_error option \<times> 's" where
  "lf_ingest env c eventType body s =
     (case le_uuid env s of (i, s) \<Rightarrow> case le_now env s of (t, s) \<Rightarrow>
      case postWithResponse env c ''/api/public/ingestion''
          (IngestionRequest [\<lparr> ie_ID = i, ie_Type = eventType, ie_Timestamp = t, ie_Body = body \<rparr>]) True s of
        (Inl e, s) \<Rightarrow> (Some e, s)
      | (Inr resp, s) \<Rightarrow>
          (case is_Errors resp of [] \<Rightarrow> (None, s)
           | first # others \<Rightarrow> (Some (EventRejected (ir_ID first) (ir_Status first) (ir_Message first)), s)))"

section \<open>Operations\<close>

definition HTTPLogGeneration :: "'s lf_env \<Rightarrow> lf_http \<Rightarrow> generation_record \<Rightarrow> 's \<Rightarrow> lf_error option \<times> 's" where
  "HTTPLogGeneration env c g s =
     (case le_uuid env s of (i, s) \<Rightarrow>
        lf_ingest env c ingestionEventGenerationCreate
          (GenerationBody \<lparr> gb_ID = i, gb_TraceID = gen_TraceID g, gb_SessionID = gen_SessionID g, gb_Name = gen_Name g,
             gb_Model = gen_Model g, gb_Input = gen_Prompt g, gb_Output = gen_Completion g, gb_StartTime = gen_StartTime g,
             gb_EndTime = gen_EndTime g,
             gb_Usage = Some \<lparr> iu_Input = lu_InputTokens (gen_Usage g), iu_Output = lu_OutputTokens (gen_Usage g),
               iu_Total = lu_TotalTokens (gen_Usage g), iu_Unit = ''TOKENS'',
               iu_TotalCost = (if flt (Fin 0) (gen_CostUSD g) then gen_CostUSD g else Fin 0) \<rparr>,
             gb_Metadata = gen_Metadata g, gb_Level = gen_Level g, gb_StatusMessage = gen_StatusMsg g \<rparr>) s)"

definition HTTPScore :: "'s lf_env \<Rightarrow> lf_http \<Rightarrow> string \<Rightarrow> string \<Rightarrow> f64 \<Rightarrow> string \<Rightarrow> 's \<Rightarrow> lf_error option \<times> 's" where
  "HTTPScore env c traceID nm v comment s =
     (case le_uuid env s of (i, s) \<Rightarrow>
        lf_ingest env c ingestionEventScoreCreate
          (ScoreBody \<lparr> sb_ID = i, sb_TraceID = traceID, sb_Name = nm, sb_Value = v, sb_Comment = comment \<rparr>) s)"

definition HTTPCreateTrace :: "'s lf_env \<Rightarrow> lf_http \<Rightarrow> string \<Rightarrow> (string, string) gomap \<Rightarrow> 's \<Rightarrow> (lf_error + trace_handle) \<times> 's" where
  "HTTPCreateTrace env c nm metadata s =
     (case le_uuid env s of (i, s) \<Rightarrow>
        (case lf_ingest env c ingestionEventTraceCreate
            (TraceBody \<lparr> tb_ID = i, tb_SessionID = le_session env, tb_Name = nm, tb_Metadata = metadata \<rparr>) s of
           (Some e, s) \<Rightarrow> (Inl e, s) | (None, s) \<Rightarrow> (Inr \<lparr> th_TraceID = i \<rparr>, s)))"

definition HTTPCreateDatasetItem :: "'s lf_env \<Rightarrow> lf_http \<Rightarrow> string \<Rightarrow> dataset_item \<Rightarrow> 's \<Rightarrow> lf_error option \<times> 's" where
  "HTTPCreateDatasetItem env c datasetID item =
     lf_post env c ''/api/public/dataset-items''
       (ItemPayload \<lparr> db_ID = di_ID item, db_DatasetID = datasetID, db_Input = di_Input item,
          db_ExpectedOutput = di_ExpectedOutput item, db_Metadata = di_Metadata item \<rparr>)"

fun run_items_loop :: "'s lf_env \<Rightarrow> lf_http \<Rightarrow> dataset_run \<Rightarrow> dataset_run_item list \<Rightarrow> 's \<Rightarrow> lf_error option \<times> 's" where
  "run_items_loop env c run [] s = (None, s)"
| "run_items_loop env c run (item # items) s =
     (case lf_post env c ''/api/public/dataset-run-items''
         (RunItemPayload \<lparr> rb_RunName = dr_RunName run, rb_DatasetItemID = ri_DatasetItemID item, rb_TraceID = ri_TraceID item,
            rb_Output = ri_Output item, rb_Metadata = dr_Metadata run \<rparr>) s of
        (Some e, s) \<Rightarrow> (Some (RunItemError (ri_DatasetItemID item) e), s)
      | (None, s) \<Rightarrow> run_items_loop env c run items s)"

definition HTTPCreateDatasetRun :: "'s lf_env \<Rightarrow> lf_http \<Rightarrow> dataset_run \<Rightarrow> 's \<Rightarrow> lf_error option \<times> 's" where
  "HTTPCreateDatasetRun env c run = run_items_loop env c run (dr_ItemResults run)"

text \<open>The session of a context is None when none is set.\<close>

definition WithSessionID :: "string \<Rightarrow> string option \<Rightarrow> string option" where
  "WithSessionID i ctx = (if i = [] then ctx else Some i)"

definition SessionIDFromContext :: "string option \<Rightarrow> string" where
  "SessionIDFromContext ctx = (case ctx of Some v \<Rightarrow> v | None \<Rightarrow> [])"

section \<open>Retries\<close>

text \<open>An environment that answers the n-th request and cancels the n-th wait as told, and records both.\<close>

definition scripted_langfuse :: "(nat \<Rightarrow> lf_answer) \<Rightarrow> (nat \<Rightarrow> bool) \<Rightarrow> ((string \<times> lf_payload) list \<times> duration list) lf_env" where
  "scripted_langfuse ans cancel = \<lparr> le_encodes = (\<lambda>p. True),
     le_send = (\<lambda>url keys p (sent, waits). (ans (length sent), (sent @ [(url, p)], waits))),
     le_wait = (\<lambda>d (sent, waits). (cancel (length waits), (sent, waits @ [d]))),
     le_now = (\<lambda>s. (0, s)), le_uuid = (\<lambda>s. ([], s)), le_session = [] \<rparr>"

definition transient :: "lf_error + ingestion_response \<Rightarrow> bool" where
  "transient r = (case r of Inl e \<Rightarrow> isRetryable e | Inr x \<Rightarrow> False)"

definition backoffs :: "nat \<Rightarrow> nat \<Rightarrow> duration list" where
  "backoffs j k = map (\<lambda>i. retryBaseDelay * 2 ^ (j + i)) [0..<k]"

lemma backoffs_Suc: "backoffs j (Suc k) = retryBaseDelay * 2 ^ j # backoffs (Suc j) k"
proof -
  have "[0..<Suc k] = 0 # map Suc [0..<k]" by (simp add: map_Suc_upt upt_conv_Cons del: upt_Suc)
  then show ?thesis by (simp add: backoffs_def o_def del: upt_Suc)
qed

lemma next_delay:
  assumes "Suc j \<le> 37"
  shows "wrap64 (retryBaseDelay * 2 ^ j * 2) = retryBaseDelay * 2 ^ Suc j"
proof -
  have "(2::int) ^ Suc j \<le> 2 ^ 37" using assms by (rule power_increasing) simp
  moreover have "0 \<le> (2::int) ^ Suc j" by simp
  moreover have "in_int64 (retryBaseDelay * y)" if "0 \<le> y" "y \<le> 2 ^ 37" for y
    using that by (simp add: in_int64_def int64_min_def int64_max_def retryBaseDelay_def)
  ultimately have "in_int64 (retryBaseDelay * 2 ^ Suc j)" by blast
  then show ?thesis using wrap64_id by (metis mult.assoc mult.commute power_Suc)
qed

definition retry_result :: "(nat \<Rightarrow> lf_answer) \<Rightarrow> (nat \<Rightarrow> bool) \<Rightarrow> bool \<Rightarrow> nat \<Rightarrow> nat \<Rightarrow> nat \<Rightarrow> (lf_error + ingestion_response) \<Rightarrow> duration list \<Rightarrow> bool" where
  "retry_result ans cancel want j n k r waits \<longleftrightarrow>
     k \<le> n \<and> (\<forall>i<k. transient (attempt_outcome want (ans (j + i))) \<and> \<not> cancel (j + i))
     \<and> (r = attempt_outcome want (ans (j + k)) \<and> waits = backoffs j k \<and> (transient r \<longrightarrow> k = n)
       \<or> r = Inl ContextDone \<and> cancel (j + k) \<and> transient (attempt_outcome want (ans (j + k))) \<and> k < n \<and> waits = backoffs j (Suc k))"

lemma retry_result_Suc:
  assumes "transient (attempt_outcome want (ans j))" and "\<not> cancel j" and "retry_result ans cancel want (Suc j) n k r waits"
  shows "retry_result ans cancel want j (Suc n) (Suc k) r (retryBaseDelay * 2 ^ j # waits)"
proof -
  have "transient (attempt_outcome want (ans (j + i))) \<and> \<not> cancel (j + i)" if "i < Suc k" for i
  proof (cases i)
    case 0
    then show ?thesis using assms(1,2) by simp
  next
    case (Suc m)
    then have "m < k" using that by simp
    then show ?thesis using assms(3) Suc by (simp add: retry_result_def)
  qed
  then show ?thesis using assms(3) by (auto simp: retry_result_def backoffs_Suc [of j])
qed

lemma retry_scripted:
  assumes "j + n \<le> 37" and "length sent = j" and "length waits = j"
  shows "\<exists>k r ws. retry_loop (scripted_langfuse ans cancel) c url payload want (Suc n) (retryBaseDelay * 2 ^ j) (sent, waits)
      = (r, (sent @ replicate (Suc k) (url, payload), waits @ ws)) \<and> retry_result ans cancel want j n k r ws"
  using assms
proof (induction n arbitrary: j sent waits)
  case 0
  have "retry_loop (scripted_langfuse ans cancel) c url payload want (Suc 0) (retryBaseDelay * 2 ^ j) (sent, waits)
      = (attempt_outcome want (ans j), (sent @ replicate (Suc 0) (url, payload), waits @ []))"
    using 0 by (simp add: attemptOnce_def scripted_langfuse_def split: sum.split)
  moreover have "retry_result ans cancel want j 0 0 (attempt_outcome want (ans j)) []" by (simp add: retry_result_def backoffs_def)
  ultimately show ?case by blast
next
  case (Suc n)
  let ?o = "attempt_outcome want (ans j)"
  have att: "attemptOnce (scripted_langfuse ans cancel) c url payload want (sent, waits) = (?o, (sent @ [(url, payload)], waits))"
    using Suc.prems by (simp add: attemptOnce_def scripted_langfuse_def)
  show ?case
  proof (cases "transient ?o")
    case False
    then have "retry_loop (scripted_langfuse ans cancel) c url payload want (Suc (Suc n)) (retryBaseDelay * 2 ^ j) (sent, waits)
      = (?o, (sent @ replicate (Suc 0) (url, payload), waits @ []))"
      using att by (auto simp: transient_def split: sum.splits)
    moreover have "retry_result ans cancel want j (Suc n) 0 ?o []" using False by (simp add: retry_result_def backoffs_def)
    ultimately show ?thesis by blast
  next
    case True
    then obtain e where e: "?o = Inl e" "isRetryable e" by (auto simp: transient_def split: sum.splits)
    show ?thesis
    proof (cases "cancel j")
      case c: True
      then have "retry_loop (scripted_langfuse ans cancel) c url payload want (Suc (Suc n)) (retryBaseDelay * 2 ^ j) (sent, waits)
        = (Inl ContextDone, (sent @ replicate (Suc 0) (url, payload), waits @ backoffs j (Suc 0)))"
        using att e Suc.prems by (simp add: scripted_langfuse_def backoffs_def)
      moreover have "retry_result ans cancel want j (Suc n) 0 (Inl ContextDone) (backoffs j (Suc 0))"
        using c True by (simp add: retry_result_def)
      ultimately show ?thesis by blast
    next
      case nc: False
      let ?s = "(sent @ [(url, payload)], waits @ [retryBaseDelay * 2 ^ j])"
      have "retry_loop (scripted_langfuse ans cancel) c url payload want (Suc (Suc n)) (retryBaseDelay * 2 ^ j) (sent, waits)
        = retry_loop (scripted_langfuse ans cancel) c url payload want (Suc n) (wrap64 (retryBaseDelay * 2 ^ j * 2)) ?s"
        using att e nc Suc.prems by (simp add: scripted_langfuse_def)
      also have "\<dots> = retry_loop (scripted_langfuse ans cancel) c url payload want (Suc n) (retryBaseDelay * 2 ^ Suc j) ?s"
        using Suc.prems by (subst next_delay) simp_all
      finally have step: "retry_loop (scripted_langfuse ans cancel) c url payload want (Suc (Suc n)) (retryBaseDelay * 2 ^ j) (sent, waits)
        = retry_loop (scripted_langfuse ans cancel) c url payload want (Suc n) (retryBaseDelay * 2 ^ Suc j) ?s" .
      have "\<exists>k r ws. retry_loop (scripted_langfuse ans cancel) c url payload want (Suc n) (retryBaseDelay * 2 ^ Suc j) ?s
          = (r, ((sent @ [(url, payload)]) @ replicate (Suc k) (url, payload), (waits @ [retryBaseDelay * 2 ^ j]) @ ws))
          \<and> retry_result ans cancel want (Suc j) n k r ws"
        using Suc.prems by (intro Suc.IH) simp_all
      then obtain k r ws where r: "retry_loop (scripted_langfuse ans cancel) c url payload want (Suc (Suc n)) (retryBaseDelay * 2 ^ j) (sent, waits)
          = (r, (sent @ replicate (Suc (Suc k)) (url, payload), waits @ retryBaseDelay * 2 ^ j # ws))"
        "retry_result ans cancel want (Suc j) n k r ws"
        using step by auto
      from retry_result_Suc [where cancel = cancel and ans = ans, OF True nc r(2)] r(1) show ?thesis by blast
    qed
  qed
qed

text \<open>C25. Retries of the Langfuse client. With a retry budget of n up to 37, a request is sent at most n + 1 times,
  always the same; every attempt but the last failed in a transient way (no answer, or a status of 500 and
  more) and was followed by a wait that doubles from 50 ms; the result is the outcome of the last attempt,
  which is not transient unless the budget is used up, or the context ended during a wait. With a negative
  budget nothing is sent and the call reports success.\<close>

theorem langfuse_retries:
  assumes "lh_maxRetries c \<le> 37"
  shows "case postWithResponse (scripted_langfuse ans cancel) c path payload want ([], []) of (r, sent, waits) \<Rightarrow>
    if lh_maxRetries c < 0 then r = Inr no_response \<and> sent = []
    else \<exists>k. sent = replicate (Suc k) (lh_endpoint c @ path, payload) \<and> retry_result ans cancel want 0 (nat (lh_maxRetries c)) k r waits"
proof (cases "lh_maxRetries c < 0")
  case True
  then show ?thesis by (simp add: postWithResponse_def scripted_langfuse_def)
next
  case False
  then have n: "nat (lh_maxRetries c + 1) = Suc (nat (lh_maxRetries c))" by (simp add: nat_add_distrib)
  from False assms retry_scripted [of 0 "nat (lh_maxRetries c)" "[]" "[]" ans cancel c "lh_endpoint c @ path" payload want]
  show ?thesis by (auto simp: postWithResponse_def n scripted_langfuse_def [of ans cancel])
qed

theorem langfuse_retries_witness:
  "\<exists>k. retry_result (\<lambda>n. if n < 2 then LfAnswer 503 None None else LfAnswer 207 None (Some no_response)) (\<lambda>n. False) True 0 3 k
     (Inr no_response) [50000000, 100000000]"
proof -
  let ?ans = "\<lambda>n::nat. if n < 2 then LfAnswer 503 None None else LfAnswer 207 None (Some no_response)"
  let ?c = "\<lparr> lh_endpoint = ''e'', lh_publicKey = ''p'', lh_secretKey = ''s'', lh_maxRetries = 3 \<rparr>"
  have "postWithResponse (scripted_langfuse ?ans (\<lambda>n. False)) ?c ''/p'' (IngestionRequest []) True ([], [])
    = (Inr no_response, (replicate 3 (''e/p'', IngestionRequest []), [50000000, 100000000]))"
    by code_simp
  with langfuse_retries [where c = ?c and ans = ?ans and cancel = "\<lambda>n. False" and path = "''/p''" and payload = "IngestionRequest []" and want = True]
  show ?thesis by auto
qed

end
