(* ===== verification/Startup.thy ===== *)
theory Startup
  imports Scheduler JudgeLaws LangfuseHttp
begin

text \<open>
  The start-up of the server (\<open>cmd/server-price-tracker/cmd/serve.go\<close>): which clients the configuration asks
  for, the engine with its options, the warm-up of the rate limiter, the cron entries and the judge. Flags,
  signals, the web framework and the telemetry SDK are left out.
\<close>

section \<open>Language-model backends\<close>

definition defaultAnthropicURL :: string where "defaultAnthropicURL = ''https://api.anthropic.com/v1/messages''"
definition defaultAnthropicModel :: string where "defaultAnthropicModel = ''claude-haiku-4-20250514''"
definition defaultAnthropicVersion :: string where "defaultAnthropicVersion = ''2023-06-01''"

definition NewAnthropicBackend :: "(string \<Rightarrow> string) \<Rightarrow> (anthropic_backend \<Rightarrow> anthropic_backend) list \<Rightarrow> anthropic_backend" where
  "NewAnthropicBackend getenv opts = fold (\<lambda>opt. opt) opts
     \<lparr> an_apiKey = getenv ''ANTHROPIC_API_KEY'', an_model = defaultAnthropicModel, an_endpoint = defaultAnthropicURL,
       an_apiVersion = defaultAnthropicVersion \<rparr>"

definition WithAnthropicModel :: "string \<Rightarrow> anthropic_backend \<Rightarrow> anthropic_backend" where
  "WithAnthropicModel m b = b\<lparr> an_model := m \<rparr>"

definition NewOllamaBackend :: "string \<Rightarrow> string \<Rightarrow> ollama_backend" where
  "NewOllamaBackend endpoint m = \<lparr> ol_endpoint = endpoint, ol_model = m \<rparr>"

definition NewOpenAICompatBackend :: "(string \<Rightarrow> string) \<Rightarrow> string \<Rightarrow> string \<Rightarrow> openai_backend" where
  "NewOpenAICompatBackend getenv endpoint m = \<lparr> oa_endpoint = endpoint, oa_model = m, oa_apiKey = getenv ''OPENAI_API_KEY'' \<rparr>"

text \<open>The chosen backend; the timeout of the HTTP client of Ollama is configured.\<close>

datatype llm_choice = UseOllama ollama_backend duration | UseAnthropic anthropic_backend | UseOpenAI openai_backend

definition buildLLMBackend :: "(string \<Rightarrow> string) \<Rightarrow> config \<Rightarrow> llm_choice option" where
  "buildLLMBackend getenv cfg =
     (let llm = cfg_LLM cfg in
      if lc_Backend llm = ''ollama'' then
        (if oc_Endpoint (lc_Ollama llm) = [] then None
         else (let timeout = (if lc_Timeout llm = 0 then 120 * second else lc_Timeout llm)
           in Some (UseOllama (NewOllamaBackend (oc_Endpoint (lc_Ollama llm)) (oc_Model (lc_Ollama llm))) timeout)))
      else if lc_Backend llm = ''anthropic'' then
        Some (UseAnthropic (NewAnthropicBackend getenv [WithAnthropicModel (anc_Model (lc_Anthropic llm))]))
      else if lc_Backend llm = ''openai_compat'' then
        (if occ_Endpoint (lc_OpenAICompat llm) = [] then None
         else Some (UseOpenAI (NewOpenAICompatBackend getenv (occ_Endpoint (lc_OpenAICompat llm)) (occ_Model (lc_OpenAICompat llm)))))
      else None)"

text \<open>JSON and the network are given for each kind of backend.\<close>

record 's llm_services =
  ls_ollama :: "duration \<Rightarrow> 's network"
  ls_net :: "'s network"
  ls_ollama_json :: "string \<Rightarrow> ollama_response option"
  ls_openai_json :: "string \<Rightarrow> openai_chat_response option"
  ls_anthropic_json :: "string \<Rightarrow> anthropic_response option"
  ls_anthropic_error :: "string \<Rightarrow> (string \<times> string) option"

definition llm_generate :: "'s llm_services \<Rightarrow> llm_choice \<Rightarrow> 's backend" where
  "llm_generate v b =
     (case b of
        UseOllama ol timeout \<Rightarrow> OllamaGenerate ol (ls_ollama_json v) (ls_ollama v timeout)
      | UseAnthropic a \<Rightarrow> AnthropicGenerate a (ls_anthropic_json v) (ls_anthropic_error v) (ls_net v)
      | UseOpenAI oa \<Rightarrow> OpenAIGenerate oa (ls_openai_json v) (ls_net v))"

section \<open>Clients\<close>

datatype langfuse_choice = NoopLangfuse | BufferedLangfuse lf_http int

definition initLangfuse :: "langfuse_config \<Rightarrow> string + langfuse_choice" where
  "initLangfuse cfg =
     (if \<not> lfc_Enabled cfg then Inr NoopLangfuse
      else if lfc_Endpoint cfg = [] \<or> lfc_PublicKey cfg = [] \<or> lfc_SecretKey cfg = []
        then Inl ''langfuse enabled but endpoint/public_key/secret_key missing''
      else case NewHTTPClient (lfc_Endpoint cfg) (lfc_PublicKey cfg) (lfc_SecretKey cfg) [] of
        Inl e \<Rightarrow> Inl (''building langfuse http client: '' @ e)
      | Inr c \<Rightarrow> Inr (BufferedLangfuse c (lfc_BufferSize cfg)))"

text \<open>What the decorator of a backend is built with: the name of its generations, the backend's own by default,
  and the rates.\<close>

record decoration =
  dc_name :: "string option"
  dc_costs :: "(string, model_cost) gomap"

record extractor_plan =
  xp_backend :: llm_choice
  xp_decoration :: "decoration option"

definition buildExtractor :: "(string \<Rightarrow> string) \<Rightarrow> config \<Rightarrow> langfuse_choice \<Rightarrow> extractor_plan option" where
  "buildExtractor getenv cfg lf =
     (case buildLLMBackend getenv cfg of
        None \<Rightarrow> None
      | Some b \<Rightarrow>
          (let costs = lfc_ModelCosts (obc_Langfuse (cfg_Observability cfg))
           in Some \<lparr> xp_backend = b,
                xp_decoration = (if lf \<noteq> NoopLangfuse then Some \<lparr> dc_name = None, dc_costs = costs \<rparr> else None) \<rparr>))"

definition NewDiscordNotifier :: "string \<Rightarrow> (discord \<Rightarrow> discord) list \<Rightarrow> discord" where
  "NewDiscordNotifier webhookURL opts = fold (\<lambda>opt. opt) opts \<lparr> dn_webhookURL = webhookURL, dn_interChunkDelay = 0 \<rparr>"

definition WithInterChunkDelay :: "duration \<Rightarrow> discord \<Rightarrow> discord" where
  "WithInterChunkDelay delay d = d\<lparr> dn_interChunkDelay := delay \<rparr>"

text \<open>None is the no-op notifier.\<close>

definition buildNotifier :: "config \<Rightarrow> discord option" where
  "buildNotifier cfg =
     (let dc = nc_Discord (cfg_Notifications cfg) in
      if dcf_Enabled dc \<and> dcf_WebhookURL dc \<noteq> [] then
        (let opts = (if dcf_InterChunkDelay dc > 0 then [WithInterChunkDelay (dcf_InterChunkDelay dc)] else [])
         in Some (NewDiscordNotifier (dcf_WebhookURL dc) opts))
      else None)"

text \<open>The eBay client, its limiter and the analytics client exist together.\<close>

record ebay_plan =
  ep_limiter :: limiter
  ep_per_second :: f64
  ep_burst :: int
  ep_token_url :: string
  ep_browse :: browse_client
  ep_analytics_url :: string

definition buildEbayClient :: "config \<Rightarrow> instant \<Rightarrow> ebay_plan option" where
  "buildEbayClient cfg t =
     (let e = cfg_Ebay cfg in
      if ec_AppID e = [] \<or> ec_CertID e = [] then None
      else Some \<lparr> ep_limiter = NewRateLimiter (rlc_DailyLimit (ec_RateLimit e)) t,
             ep_per_second = rlc_PerSecond (ec_RateLimit e), ep_burst = rlc_Burst (ec_RateLimit e),
             ep_token_url = ec_TokenURL e,
             ep_browse = NewBrowseClient\<lparr> bc_browseURL := ec_BrowseURL e, bc_marketplace := ec_Marketplace e, bc_limited := True \<rparr>,
             ep_analytics_url = ec_AnalyticsURL e \<rparr>)"

section \<open>The judge\<close>

datatype judge_setup_error = ConstructJudge | ConstructWorker new_worker_error

text \<open>\<open>decorate\<close> wraps a backend for Langfuse; None is a judge that is not configured. The cron library accepts
  every interval.\<close>

definition registerJudgeWorker :: "(string \<Rightarrow> string) \<Rightarrow> config \<Rightarrow> 's llm_services \<Rightarrow> (decoration \<Rightarrow> 's backend \<Rightarrow> 's backend)
    \<Rightarrow> (string \<Rightarrow> verdict_payload option) \<Rightarrow> judge_example list option \<Rightarrow> (metric_event \<Rightarrow> 's \<Rightarrow> 's)
    \<Rightarrow> (string \<Rightarrow> string \<Rightarrow> f64 \<Rightarrow> string \<Rightarrow> 's \<Rightarrow> string option \<times> 's) \<Rightarrow> langfuse_choice
    \<Rightarrow> judge_setup_error + ('s judge_worker \<times> (string \<times> duration)) option" where
  "registerJudgeWorker getenv cfg v decorate unmarshal embedded metrics score lf =
     (let jc = obc_Judge (cfg_Observability cfg); costs = lfc_ModelCosts (obc_Langfuse (cfg_Observability cfg)) in
      if \<not> jc_Enabled jc then Inr None
      else case buildLLMBackend getenv cfg of
        None \<Rightarrow> Inr None
      | Some b \<Rightarrow>
          (let backend = llm_generate v b;
               backend = (if lf \<noteq> NoopLangfuse then decorate \<lparr> dc_name = Some ''judge-llm'', dc_costs = costs \<rparr> backend else backend)
           in case NewLLMJudge backend unmarshal embedded [WithJudgeCosts costs] of
                None \<Rightarrow> Inl ConstructJudge
              | Some j \<Rightarrow>
                  (case NewWorker \<lparr> wk_Judge = Some (EvaluateAlert j), wk_Store = True, wk_Metrics = Some metrics,
                      wk_Langfuse = Some score, wk_Lookback = jc_Lookback jc, wk_BatchSize = jc_BatchSize jc,
                      wk_DailyBudgetUSD = jc_DailyBudgetUSD jc \<rparr> of
                     Inl e \<Rightarrow> Inl (ConstructWorker e)
                   | Inr w \<Rightarrow> Inr (Some (w, (''judge'', jc_Interval jc))))))"

section \<open>The engine\<close>

definition engine_options :: "config \<Rightarrow> ('s \<Rightarrow> (quota_call_error + quota_state) \<times> 's) option
    \<Rightarrow> (int \<Rightarrow> int \<Rightarrow> instant \<Rightarrow> 's \<Rightarrow> 's) option \<Rightarrow> 's engine_option list" where
  "engine_options cfg ac rl =
     [WithBaselineWindowDays (sgc_BaselineWindowDays (cfg_Scoring cfg)),
      WithStaggerOffset (shc_StaggerOffset (cfg_Schedule cfg)),
      WithAlertsConfig (cfg_Alerts cfg),
      WithAlertProcessing \<lparr> ac_SummaryOnly = dcf_SummaryOnly (nc_Discord (cfg_Notifications cfg)),
        ac_AlertsURLBase = wc_AlertsURLBase (cfg_Web cfg) \<rparr>]
     @ (case ac of Some q \<Rightarrow> [WithAnalyticsClient q] | None \<Rightarrow> [])
     @ (case rl of Some r \<Rightarrow> [WithRateLimiter r] | None \<Rightarrow> [])
     @ [WithPaginator NewPaginator]
     @ (if ec_MaxCallsPerCycle (cfg_Ebay cfg) > 0 then [WithMaxCallsPerCycle (ec_MaxCallsPerCycle (cfg_Ebay cfg))] else [])
     @ [WithWorkerCount (lc_Concurrency (cfg_LLM cfg))]"

text \<open>The warm-up of the limiter from the stored state.\<close>

definition prewarm :: "(int \<Rightarrow> int \<Rightarrow> instant \<Rightarrow> 's \<Rightarrow> 's) option \<Rightarrow> 's eworld \<Rightarrow> 's eworld" where
  "prewarm rl world =
     (case (rl, world) of
        (None, w) \<Rightarrow> w
      | (Some sync, (db, s)) \<Rightarrow>
          (case LoadRateLimiterState db of
             (Inl e, db) \<Rightarrow> (db, s)
           | (Inr st, db) \<Rightarrow> (db, sync (rl_tokens_used st) (rl_daily_limit st) (rl_reset_at st) s)))"

record 's started =
  sd_engine :: "'s engine"
  sd_gauges :: "(string \<times> int) list"
  sd_entries :: "(string \<times> duration) list"

text \<open>\<open>parts\<close> tells whether the store, the eBay client and the extractor exist; \<open>deps\<close> carries the collaborators;
  \<open>judge_entry\<close> is what registering the judge adds to the cron entries.\<close>

definition buildEngine :: "config \<Rightarrow> bool \<Rightarrow> 's engine \<Rightarrow> ('s \<Rightarrow> (quota_call_error + quota_state) \<times> 's) option
    \<Rightarrow> (int \<Rightarrow> int \<Rightarrow> instant \<Rightarrow> 's \<Rightarrow> 's) option \<Rightarrow> (string \<times> duration) list \<Rightarrow> 's eworld \<Rightarrow> 's started option \<times> 's eworld" where
  "buildEngine cfg parts deps ac rl judge_entry world =
     (if \<not> parts then (None, world)
      else
        let eng = NewEngine deps (engine_options cfg ac rl);
            world = prewarm rl world;
            world = SyncQuota eng world
        in case world of (db, s) \<Rightarrow> case SyncStateMetrics db of (gauges, db) \<Rightarrow>
          let entries = NewScheduler (shc_IngestionInterval (cfg_Schedule cfg)) (shc_BaselineInterval (cfg_Schedule cfg))
                (shc_ReExtractionInterval (cfg_Schedule cfg));
              db = SchedulerRecoverStaleJobRuns db
          in (Some \<lparr> sd_engine = eng, sd_gauges = gauges, sd_entries = entries @ judge_entry \<rparr>, (db, s)))"

text \<open>\<open>shutdownServer\<close>: the workers are cancelled, the scheduler is drained when there is one, then the HTTP
  server is stopped; only its error is returned.\<close>

datatype shutdown_step = CancelWorkers | DrainScheduler | StopHTTP

definition shutdownServer :: "bool \<Rightarrow> string option \<Rightarrow> shutdown_step list \<times> string option" where
  "shutdownServer has_scheduler httpErr =
     ([CancelWorkers] @ (if has_scheduler then [DrainScheduler] else []) @ [StopHTTP],
      map_option (\<lambda>e. ''shutting down server: '' @ e) httpErr)"

section \<open>What start-up establishes\<close>

lemmas option_setters = WithBaselineWindowDays_def WithStaggerOffset_def WithAlertsConfig_def WithAlertProcessing_def
  WithAnalyticsClient_def WithRateLimiter_def WithPaginator_def WithMaxCallsPerCycle_def WithWorkerCount_def

lemma NewEngine_settings:
  "eg_baselineWindowDays (NewEngine deps (engine_options cfg ac rl)) = sgc_BaselineWindowDays (cfg_Scoring cfg)"
  "eg_staggerOffset (NewEngine deps (engine_options cfg ac rl)) = shc_StaggerOffset (cfg_Schedule cfg)"
  "eg_alertsConfig (NewEngine deps (engine_options cfg ac rl)) = cfg_Alerts cfg"
  "eg_analyticsClient (NewEngine deps (engine_options cfg ac rl)) = ac"
  "eg_rateLimiter (NewEngine deps (engine_options cfg ac rl)) = rl"
  "eg_paginator (NewEngine deps (engine_options cfg ac rl)) = Some NewPaginator"
  "eg_maxCallsPerCycle (NewEngine deps (engine_options cfg ac rl)) =
     (if ec_MaxCallsPerCycle (cfg_Ebay cfg) > 0 then ec_MaxCallsPerCycle (cfg_Ebay cfg) else defaultMaxCallsPerCycle)"
  "eg_workerCount (NewEngine deps (engine_options cfg ac rl)) = lc_Concurrency (cfg_LLM cfg)"
  by (cases ac; cases rl; simp add: NewEngine_def engine_options_def option_setters)+

lemma SyncQuota_answered:
  assumes "eg_analyticsClient eng = Some getQuota" and "getQuota s = (Inr q, s1)" and "eg_rateLimiter eng = Some sync"
    and "fault_free (db_server db)"
  shows "\<exists>t n. SyncQuota eng (db, s) =
    (db\<lparr> db_rate := Some \<lparr> rl_tokens_used = qs_Count q, rl_daily_limit = qs_Limit q, rl_reset_at = qs_ResetAt q, rl_synced_at = t \<rparr>,
       db_stmts := n \<rparr>, sync (qs_Count q) (qs_Limit q) (qs_ResetAt q) s1)"
  using assms by (auto simp: SyncQuota_def PersistRateLimiterState_def run_fault_free queryPersistRateLimiterState_def)

lemma prewarm_stored:
  assumes "fault_free (db_server db)" and "db_rate db = Some r"
  shows "prewarm (Some sync) (db, s)
    = (db\<lparr> db_stmts := db_stmts db + 1 \<rparr>, sync (rl_tokens_used r) (rl_daily_limit r) (rl_reset_at r) s)"
  using assms by (simp add: prewarm_def LoadRateLimiterState_def run_fault_free queryLoadRateLimiterState_def)

text \<open>C18. The quota survives a restart. When the running server has synchronised its quota with eBay and the
  database does not fail, a server started afterwards for which eBay does not answer has a limiter with
  the same calls used, the same limit and the same time of reset, instead of a full quota.\<close>

theorem quota_survives_restart:
  assumes "fault_free (db_server db)" and "eg_analyticsClient eng = Some getQuota" and "eg_rateLimiter eng = Some Sync"
    and "getQuota lm = (Inr q, asked)" and "\<And>l. noQuota l = (Inl e, l)"
  shows "\<exists>st db2 lim2. buildEngine cfg True deps (Some noQuota) (Some Sync) je (fst (SyncQuota eng (db, lm)), new) = (Some st, (db2, lim2))
    \<and> DailyCount lim2 = qs_Count q \<and> MaxDaily lim2 = qs_Limit q \<and> ResetAt lim2 = qs_ResetAt q"
proof -
  obtain t n where first: "fst (SyncQuota eng (db, lm)) = db\<lparr> db_rate := Some \<lparr> rl_tokens_used = qs_Count q,
      rl_daily_limit = qs_Limit q, rl_reset_at = qs_ResetAt q, rl_synced_at = t \<rparr>, db_stmts := n \<rparr>"
    using SyncQuota_answered [OF assms(2,4,3,1)] by auto
  let ?db = "db\<lparr> db_rate := Some \<lparr> rl_tokens_used = qs_Count q,
      rl_daily_limit = qs_Limit q, rl_reset_at = qs_ResetAt q, rl_synced_at = t \<rparr>, db_stmts := n \<rparr>"
  let ?lm = "Sync (qs_Count q) (qs_Limit q) (qs_ResetAt q) new"
  let ?eng = "NewEngine deps (engine_options cfg (Some noQuota) (Some Sync))"
  have warm: "prewarm (Some Sync) (?db, new) = (?db\<lparr> db_stmts := n + 1 \<rparr>, ?lm)"
    using assms(1) prewarm_stored [of ?db _ Sync new] by simp
  have sync: "SyncQuota ?eng (?db\<lparr> db_stmts := n + 1 \<rparr>, ?lm) = (?db\<lparr> db_stmts := n + 1 \<rparr>, ?lm)"
    using assms(5) [of ?lm] NewEngine_settings(4) [of deps cfg "Some noQuota" "Some Sync"] by (simp add: SyncQuota_def)
  have "\<exists>st db2. buildEngine cfg True deps (Some noQuota) (Some Sync) je (?db, new) = (Some st, (db2, ?lm))"
    using warm sync by (simp add: buildEngine_def Let_def split: prod.split)
  then show ?thesis unfolding first by (auto simp: Sync_def DailyCount_def MaxDaily_def ResetAt_def)
qed

definition reported_quota :: quota_state where
  "reported_quota = \<lparr> qs_Count = 17, qs_Limit = 5000, qs_Remaining = 4983, qs_ResetAt = 100, qs_TimeWindow = 24 * hour \<rparr>"

theorem quota_survives_restart_witness:
  "\<forall>cfg (parts :: limiter engine). \<exists>st db2 lm2.
     buildEngine cfg True parts (Some (\<lambda>l. (Inl QuotaBody, l))) (Some Sync) []
       (fst (SyncQuota (parts\<lparr> eg_analyticsClient := Some (\<lambda>l. (Inr reported_quota, l)), eg_rateLimiter := Some Sync \<rparr>)
          (empty_db plain_server, NewRateLimiter 5000 0)), NewRateLimiter 5000 0) = (Some st, (db2, lm2))
     \<and> DailyCount lm2 = 17"
proof (intro allI)
  fix cfg and parts :: "limiter engine"
  have ff: "fault_free (db_server (empty_db plain_server))" by (simp add: empty_db_def plain_fault_free)
  show "\<exists>st db2 lm2.
     buildEngine cfg True parts (Some (\<lambda>l. (Inl QuotaBody, l))) (Some Sync) []
       (fst (SyncQuota (parts\<lparr> eg_analyticsClient := Some (\<lambda>l. (Inr reported_quota, l)), eg_rateLimiter := Some Sync \<rparr>)
          (empty_db plain_server, NewRateLimiter 5000 0)), NewRateLimiter 5000 0) = (Some st, (db2, lm2))
     \<and> DailyCount lm2 = 17"
    using ff quota_survives_restart [where db = "empty_db plain_server" and lm = "NewRateLimiter 5000 0"
        and getQuota = "\<lambda>l. (Inr reported_quota, l)" and q = reported_quota and asked = "NewRateLimiter 5000 0"
        and eng = "parts\<lparr> eg_analyticsClient := Some (\<lambda>l. (Inr reported_quota, l)), eg_rateLimiter := Some Sync \<rparr>"
        and cfg = cfg and deps = parts and je = "[]" and noQuota = "\<lambda>l. (Inl QuotaBody, l)" and e = QuotaBody
        and new = "NewRateLimiter 5000 0"]
    by (simp add: reported_quota_def) blast
qed

end
