(* ===== verification/Regression.thy ===== *)
theory Regression
  imports Startup Url
begin

text \<open>
  The regression runner (\<open>tools/regression-runner/main.go\<close>, \<open>internal/regression\<close>): a labelled dataset is put
  through the extraction pipeline of each backend, the outcomes are counted, and the run can be recorded in
  Langfuse. SHA-256, JSON, files, the clock and the rendering of percentages are parameters; printing is left out.
\<close>

section \<open>Datasets\<close>

record regression_item =
  it_Title :: string
  it_ItemSpecifics :: specs
  it_ExpectedComponent :: component_type
  it_ExpectedProductKey :: string

definition lower_hex_digit :: "nat \<Rightarrow> char" where
  "lower_hex_digit n = (if n < 10 then char_of (48 + n) else char_of (87 + n))"

text \<open>\<open>hex.EncodeToString\<close> of the first eight bytes of the digest.\<close>

definition TitleHash :: "(string \<Rightarrow> string) \<Rightarrow> string \<Rightarrow> string" where
  "TitleHash sha256 title =
     concat (map (\<lambda>c. [lower_hex_digit (of_char c div 16), lower_hex_digit (of_char c mod 16)]) (take 8 (sha256 title)))"

text \<open>A file is missing, unreadable or has a content; a missing one is an empty dataset.\<close>

datatype file_read = FileMissing | FileError string | FileContent string

datatype dataset_error = ResolvingPath | ReadingDataset string | ParsingDataset

definition LoadDataset :: "(string \<Rightarrow> string option) \<Rightarrow> (string \<Rightarrow> file_read) \<Rightarrow> (string \<Rightarrow> regression_item list option) \<Rightarrow> string
    \<Rightarrow> dataset_error + regression_item list" where
  "LoadDataset abs_path read_file decode path =
     (case abs_path path of
        None \<Rightarrow> Inl ResolvingPath
      | Some p \<Rightarrow> (case read_file p of
          FileMissing \<Rightarrow> Inr []
        | FileError e \<Rightarrow> Inl (ReadingDataset e)
        | FileContent raw \<Rightarrow> (case decode raw of None \<Rightarrow> Inl ParsingDataset | Some items \<Rightarrow> Inr items)))"

section \<open>Results\<close>

record component_result =
  cr_Component :: component_type
  cr_Total :: int
  cr_Correct :: int

text \<open>\<open>float64(part) / float64(total) * 100\<close>.\<close>

definition percent :: "int \<Rightarrow> int \<Rightarrow> f64" where
  "percent part whole = fmul (fdiv (f64_of_int part) (f64_of_int whole)) (Fin 100)"

definition Accuracy :: "component_result \<Rightarrow> f64" where
  "Accuracy r = (if cr_Total r = 0 then Fin 0 else percent (cr_Correct r) (cr_Total r))"

record mismatch =
  mm_Title :: string
  mm_Expected :: component_type
  mm_Actual :: component_type
  mm_Error :: string

record run_result =
  rr_Backend :: string
  rr_Model :: string
  rr_Total :: int
  rr_Correct :: int
  rr_Errors :: int
  rr_Accuracy :: f64
  rr_ErrorRate :: f64
  rr_Duration :: duration
  rr_P50Latency :: duration
  rr_P95Latency :: duration
  rr_PerComp :: "component_result list"
  rr_Mismatches :: "mismatch list"

text \<open>\<open>(n - 1) * p / 100\<close> of the sorted sample.\<close>

definition percentiles :: "duration list \<Rightarrow> duration \<times> duration" where
  "percentiles latencies =
     (if latencies = [] then (0, 0)
      else let xs = sort latencies
        in (xs ! ((length xs - 1) * 50 div 100), xs ! ((length xs - 1) * 95 div 100)))"

section \<open>Running a dataset\<close>

record rg_acc =
  ra_perComp :: "(component_type, component_result) gomap"
  ra_mismatches :: "mismatch list"
  ra_latencies :: "duration list"
  ra_correct :: int
  ra_errCount :: int

definition component_bucket :: "component_type \<Rightarrow> (component_type, component_result) gomap \<Rightarrow> component_result" where
  "component_bucket c m = (case mget m c of Some b \<Rightarrow> b | None \<Rightarrow> \<lparr> cr_Component = c, cr_Total = 0, cr_Correct = 0 \<rparr>)"

text \<open>What the outcome of one call adds.\<close>

definition tally :: "(xerr \<Rightarrow> string) \<Rightarrow> regression_item \<Rightarrow> component_type \<times> (xerr + attrs) \<Rightarrow> duration \<Rightarrow> rg_acc \<Rightarrow> rg_acc" where
  "tally et item r latency a =
     (let b = component_bucket (it_ExpectedComponent item) (ra_perComp a);
          b = b\<lparr> cr_Total := cr_Total b + 1 \<rparr>;
          a = a\<lparr> ra_latencies := ra_latencies a @ [latency] \<rparr>;
          wrong = (\<lambda>e. \<lparr> mm_Title = it_Title item, mm_Expected = it_ExpectedComponent item, mm_Actual = fst r, mm_Error = e \<rparr>)
      in case snd r of
           Inl e \<Rightarrow> a\<lparr> ra_errCount := ra_errCount a + 1, ra_mismatches := ra_mismatches a @ [wrong (et e)],
                       ra_perComp := mput (it_ExpectedComponent item) b (ra_perComp a) \<rparr>
         | Inr x \<Rightarrow>
             if fst r = it_ExpectedComponent item
             then a\<lparr> ra_correct := ra_correct a + 1,
                     ra_perComp := mput (it_ExpectedComponent item) (b\<lparr> cr_Correct := cr_Correct b + 1 \<rparr>) (ra_perComp a) \<rparr>
             else a\<lparr> ra_mismatches := ra_mismatches a @ [wrong []],
                     ra_perComp := mput (it_ExpectedComponent item) b (ra_perComp a) \<rparr>)"

text \<open>None is a panic of the pipeline, which ends the program.\<close>

fun run_dataset_loop :: "('s \<Rightarrow> instant \<times> 's) \<Rightarrow> (xerr \<Rightarrow> string) \<Rightarrow> 's extractor \<Rightarrow> regression_item list \<Rightarrow> rg_acc \<Rightarrow> 's \<Rightarrow> rg_acc option \<times> 's" where
  "run_dataset_loop clk et ex [] a s = (Some a, s)"
| "run_dataset_loop clk et ex (item # items) a s =
     (case clk s of (t0, s) \<Rightarrow>
      case ClassifyAndExtract ex (it_Title item) (it_ItemSpecifics item) s of (r, s) \<Rightarrow>
        if snd r = Inl NilMapPanic then (None, s)
        else case clk s of (t1, s) \<Rightarrow> run_dataset_loop clk et ex items (tally et item r (t1 - t0) a) s)"

definition runDataset :: "('s \<Rightarrow> instant \<times> 's) \<Rightarrow> (xerr \<Rightarrow> string) \<Rightarrow> 's extractor \<Rightarrow> regression_item list \<Rightarrow> string \<Rightarrow> string
    \<Rightarrow> 's \<Rightarrow> run_result option \<times> 's" where
  "runDataset clk et ex dataset backendName modelName s =
     (case clk s of (start, s) \<Rightarrow>
      case run_dataset_loop clk et ex dataset
          \<lparr> ra_perComp = [], ra_mismatches = [], ra_latencies = [], ra_correct = 0, ra_errCount = 0 \<rparr> s of
        (None, s) \<Rightarrow> (None, s)
      | (Some a, s) \<Rightarrow>
          (let results = sort_key cr_Component (map snd (ra_perComp a));
               n = int (length dataset);
               overall = (if n > 0 then percent (ra_correct a) n else Fin 0);
               errorRate = (if n > 0 then percent (ra_errCount a) n else Fin 0);
               (p50, p95) = percentiles (ra_latencies a)
           in case clk s of (stop, s) \<Rightarrow>
             (Some \<lparr> rr_Backend = backendName, rr_Model = modelName, rr_Total = n, rr_Correct = ra_correct a,
                rr_Errors = ra_errCount a, rr_Accuracy = overall, rr_ErrorRate = errorRate, rr_Duration = stop - start,
                rr_P50Latency = p50, rr_P95Latency = p95, rr_PerComp = results, rr_Mismatches = ra_mismatches a \<rparr>, s)))"

section \<open>Backends\<close>

fun dedup_parts :: "string list \<Rightarrow> string list \<Rightarrow> string list" where
  "dedup_parts seen [] = []"
| "dedup_parts seen (p # ps) =
     (let p = trim_space p in if p = [] \<or> p \<in> set seen then dedup_parts seen ps else p # dedup_parts (p # seen) ps)"

definition parseBackends :: "string \<Rightarrow> string \<Rightarrow> string list" where
  "parseBackends flagVal fallback =
     (if flagVal = [] then [fallback] else dedup_parts [] (split_at (CHR '','') flagVal))"

definition buildBackendByName :: "(string \<Rightarrow> string) \<Rightarrow> config \<Rightarrow> string \<Rightarrow> llm_choice option" where
  "buildBackendByName getenv cfg name =
     (let llm = cfg_LLM cfg in
      if name = ''ollama'' then
        (if oc_Endpoint (lc_Ollama llm) = [] then None
         else (let timeout = (if lc_Timeout llm = 0 then 120 * second else lc_Timeout llm)
           in Some (UseOllama (NewOllamaBackend (oc_Endpoint (lc_Ollama llm)) (oc_Model (lc_Ollama llm))) timeout)))
      else if name = ''anthropic'' then
        Some (UseAnthropic (NewAnthropicBackend getenv [WithAnthropicModel (anc_Model (lc_Anthropic llm))]))
      else if name = ''openai_compat'' then
        (if occ_Endpoint (lc_OpenAICompat llm) = [] then None
         else Some (UseOpenAI (NewOpenAICompatBackend getenv (occ_Endpoint (lc_OpenAICompat llm)) (occ_Model (lc_OpenAICompat llm)))))
      else None)"

definition modelOfBackend :: "config \<Rightarrow> string \<Rightarrow> string" where
  "modelOfBackend cfg name =
     (if name = ''ollama'' then oc_Model (lc_Ollama (cfg_LLM cfg))
      else if name = ''anthropic'' then anc_Model (lc_Anthropic (cfg_LLM cfg))
      else if name = ''openai_compat'' then occ_Model (lc_OpenAICompat (cfg_LLM cfg))
      else [])"

record 's runner =
  ru_getenv :: "string \<Rightarrow> string"
  ru_services :: "'s llm_services"
  ru_decode :: "string \<Rightarrow> decoded"
  ru_clock :: "'s \<Rightarrow> instant \<times> 's"
  ru_error_text :: "xerr \<Rightarrow> string"

text \<open>The result is None when the backend is not configured; the outer None is a panic.\<close>

definition executeBackend :: "'s runner \<Rightarrow> config \<Rightarrow> regression_item list \<Rightarrow> string \<Rightarrow> 's \<Rightarrow> run_result option option \<times> 's" where
  "executeBackend ru cfg dataset name s =
     (case buildBackendByName (ru_getenv ru) cfg name of
        None \<Rightarrow> (Some None, s)
      | Some b \<Rightarrow>
          (case runDataset (ru_clock ru) (ru_error_text ru) (NewLLMExtractor (llm_generate (ru_services ru) b) (ru_decode ru))
              dataset name (modelOfBackend cfg name) s of
             (None, s) \<Rightarrow> (None, s) | (Some r, s) \<Rightarrow> (Some (Some r), s)))"

fun executeAll :: "'s runner \<Rightarrow> config \<Rightarrow> regression_item list \<Rightarrow> string list \<Rightarrow> 's \<Rightarrow> run_result list option \<times> 's" where
  "executeAll ru cfg dataset [] s = (Some [], s)"
| "executeAll ru cfg dataset (b # bs) s =
     (case executeBackend ru cfg dataset b s of
        (None, s) \<Rightarrow> (None, s)
      | (Some r, s) \<Rightarrow> (case executeAll ru cfg dataset bs s of
          (None, s) \<Rightarrow> (None, s)
        | (Some rs, s) \<Rightarrow> (Some (case r of None \<Rightarrow> rs | Some x \<Rightarrow> x # rs), s)))"

section \<open>Recording a run\<close>

definition mismatch_by_title :: "mismatch list \<Rightarrow> (string, mismatch) gomap" where
  "mismatch_by_title ms = fold (\<lambda>m. mput (mm_Title m) m) ms []"

definition buildDatasetRunItems :: "(string \<Rightarrow> string) \<Rightarrow> regression_item list \<Rightarrow> run_result \<Rightarrow> dataset_run_item list" where
  "buildDatasetRunItems sha256 dataset r =
     map (\<lambda>item. \<lparr> ri_DatasetItemID = TitleHash sha256 (it_Title item),
        ri_Output = (case mget (mismatch_by_title (rr_Mismatches r)) (it_Title item) of
            Some m \<Rightarrow> [(''expected'', JStr (mm_Expected m)), (''actual'', JStr (mm_Actual m)), (''error'', JStr (mm_Error m))]
          | None \<Rightarrow> [(''expected'', JStr (it_ExpectedComponent item)), (''actual'', JStr (it_ExpectedComponent item))]),
        ri_TraceID = [] \<rparr>) dataset"

text \<open>\<open>fmt1\<close> and \<open>fmt4\<close> render with one and four decimals. The error of a run is logged and the next one is posted.\<close>

definition run_annotation :: "(string \<Rightarrow> string) \<Rightarrow> (f64 \<Rightarrow> string) \<Rightarrow> (f64 \<Rightarrow> string) \<Rightarrow> string \<Rightarrow> string \<Rightarrow> regression_item list \<Rightarrow> run_result \<Rightarrow> dataset_run" where
  "run_annotation sha256 fmt1 fmt4 datasetID sha dataset r =
     \<lparr> dr_DatasetID = datasetID, dr_RunName = ''classify_prompt:'' @ sha @ '':'' @ rr_Backend r,
       dr_Description = ''regression-runner accuracy='' @ fmt1 (rr_Accuracy r) @ ''% errors='' @ fmt1 (rr_ErrorRate r) @ ''%'',
       dr_Metadata = [(''backend'', rr_Backend r), (''model'', rr_Model r), (''sha'', sha), (''accuracy'', fmt4 (rr_Accuracy r))],
       dr_ItemResults = buildDatasetRunItems sha256 dataset r \<rparr>"

definition annotateLangfuse :: "'s lf_env \<Rightarrow> (string \<Rightarrow> string) \<Rightarrow> (f64 \<Rightarrow> string) \<Rightarrow> (f64 \<Rightarrow> string) \<Rightarrow> ('s \<Rightarrow> string option \<times> 's) \<Rightarrow> config
    \<Rightarrow> run_result list \<Rightarrow> regression_item list \<Rightarrow> string \<Rightarrow> string \<Rightarrow> 's \<Rightarrow> 's" where
  "annotateLangfuse env sha256 fmt1 fmt4 git_head cfg results dataset datasetID shaOverride s =
     (let lf = obc_Langfuse (cfg_Observability cfg) in
      if \<not> lfc_Enabled lf \<or> datasetID = [] then s
      else
        (let (sha, s) = (if shaOverride = [] then (case git_head s of (None, s) \<Rightarrow> ([], s) | (Some t, s) \<Rightarrow> (trim_space t, s))
                         else (shaOverride, s)) in
         if sha = [] then s
         else case NewHTTPClient (lfc_Endpoint lf) (lfc_PublicKey lf) (lfc_SecretKey lf) [] of
           Inl e \<Rightarrow> s
         | Inr c \<Rightarrow> fold (\<lambda>r s. snd (HTTPCreateDatasetRun env c (run_annotation sha256 fmt1 fmt4 datasetID sha dataset r) s)) results s))"

section \<open>What a run reports\<close>

definition expected_count :: "component_type \<Rightarrow> regression_item list \<Rightarrow> int" where
  "expected_count c items = int (length (filter (\<lambda>i. it_ExpectedComponent i = c) items))"

definition entry_ok :: "regression_item list \<Rightarrow> component_type \<Rightarrow> component_result \<Rightarrow> bool" where
  "entry_ok items c b \<longleftrightarrow> cr_Component b = c \<and> cr_Total b = expected_count c items \<and> 0 \<le> cr_Correct b \<and> cr_Correct b \<le> cr_Total b"

definition tallied :: "regression_item list \<Rightarrow> rg_acc \<Rightarrow> bool" where
  "tallied items a \<longleftrightarrow>
     ra_correct a + int (length (ra_mismatches a)) = int (length items)
     \<and> 0 \<le> ra_errCount a \<and> ra_errCount a \<le> int (length (ra_mismatches a))
     \<and> length (ra_latencies a) = length items
     \<and> distinct (map fst (ra_perComp a)) \<and> set (map fst (ra_perComp a)) = it_ExpectedComponent ` set items
     \<and> (\<forall>c b. mget (ra_perComp a) c = Some b \<longrightarrow> entry_ok items c b)
     \<and> sum_list (map (cr_Total \<circ> snd) (ra_perComp a)) = int (length items)
     \<and> sum_list (map (cr_Correct \<circ> snd) (ra_perComp a)) = ra_correct a"

text \<open>Replacing the entry of a key changes a sum by the difference.\<close>

lemma sum_mput:
  fixes f :: "'b \<Rightarrow> int"
  assumes "distinct (map fst m)"
  shows "sum_list (map (f \<circ> snd) (mput k b m))
    = sum_list (map (f \<circ> snd) m) + f b - (case mget m k of None \<Rightarrow> 0 | Some b' \<Rightarrow> f b')"
  using assms
proof (induction m)
  case (Cons x m)
  obtain k' b' where x: "x = (k', b')" by (cases x)
  show ?case
  proof (cases "k' = k")
    case True
    then show ?thesis using x by simp
  next
    case False
    then show ?thesis using x Cons by simp
  qed
qed simp

lemma component_bucket_cases:
  "mget m c = Some b \<Longrightarrow> component_bucket c m = b" "mget m c = None \<Longrightarrow> component_bucket c m = \<lparr> cr_Component = c, cr_Total = 0, cr_Correct = 0 \<rparr>"
  by (simp_all add: component_bucket_def)

lemma expected_count_snoc [simp]:
  "expected_count c (items @ [i]) = expected_count c items + (if it_ExpectedComponent i = c then 1 else 0)"
  by (simp add: expected_count_def)

lemma expected_count_absent: "c \<notin> it_ExpectedComponent ` set items \<Longrightarrow> expected_count c items = 0"
  by (auto simp: expected_count_def filter_empty_conv image_iff)

lemma tallied_component_bucket:
  assumes "tallied items a"
  shows "entry_ok items c (component_bucket c (ra_perComp a))"
proof (cases "mget (ra_perComp a) c")
  case None
  then have "c \<notin> it_ExpectedComponent ` set items" using assms unfolding tallied_def by (metis map_of_eq_None_iff set_map)
  then show ?thesis using None by (simp add: component_bucket_cases expected_count_absent entry_ok_def)
next
  case (Some b)
  then have "entry_ok items c b" using assms unfolding tallied_def by blast
  then show ?thesis using Some by (simp only: component_bucket_cases)
qed

text \<open>Writing the component_bucket of an item with one more call, and possibly one more correct answer.\<close>

lemma tallied_entry:
  fixes item :: regression_item
  assumes "tallied items a" and "d = 0 \<or> d = 1"
  defines "c \<equiv> it_ExpectedComponent item"
  defines "b \<equiv> (component_bucket c (ra_perComp a))\<lparr> cr_Total := cr_Total (component_bucket c (ra_perComp a)) + 1,
    cr_Correct := cr_Correct (component_bucket c (ra_perComp a)) + d \<rparr>"
  defines "m \<equiv> mput c b (ra_perComp a)"
  shows "distinct (map fst m)" "set (map fst m) = it_ExpectedComponent ` set (items @ [item])"
    "\<forall>c b. mget m c = Some b \<longrightarrow> entry_ok (items @ [item]) c b"
    "sum_list (map (cr_Total \<circ> snd) m) = int (length (items @ [item]))"
    "sum_list (map (cr_Correct \<circ> snd) m) = ra_correct a + d"
proof -
  note inv = assms(1) [unfolded tallied_def]
  note bk = tallied_component_bucket [OF assms(1), of c]
  have dist: "distinct (map fst (ra_perComp a))" using inv by blast
  then show "distinct (map fst m)" by (simp add: m_def distinct_update)
  show "set (map fst m) = it_ExpectedComponent ` set (items @ [item])"
    using inv by (simp add: m_def dom_update c_def)
  show "\<forall>c b. mget m c = Some b \<longrightarrow> entry_ok (items @ [item]) c b"
  proof (intro allI impI)
    fix c' b' assume e: "mget m c' = Some b'"
    show "entry_ok (items @ [item]) c' b'"
    proof (cases "c' = c")
      case True
      then have "b' = b" using e by (simp add: m_def)
      then show ?thesis using True bk assms(2) by (auto simp: entry_ok_def b_def c_def)
    next
      case False
      then have "mget (ra_perComp a) c' = Some b'" using e by (simp only: m_def mget_mput if_False)
      then have "entry_ok items c' b'" using inv by blast
      then show ?thesis using False by (simp add: entry_ok_def c_def)
    qed
  qed
  have tot: "(case mget (ra_perComp a) c of None \<Rightarrow> 0 | Some b' \<Rightarrow> cr_Total b') = cr_Total (component_bucket c (ra_perComp a))"
    and cor: "(case mget (ra_perComp a) c of None \<Rightarrow> 0 | Some b' \<Rightarrow> cr_Correct b') = cr_Correct (component_bucket c (ra_perComp a))"
    by (simp_all add: component_bucket_def split: option.split)
  show "sum_list (map (cr_Total \<circ> snd) m) = int (length (items @ [item]))"
    using inv sum_mput [OF dist, of cr_Total c b] tot by (simp add: m_def b_def)
  show "sum_list (map (cr_Correct \<circ> snd) m) = ra_correct a + d"
    using inv sum_mput [OF dist, of cr_Correct c b] cor by (simp add: m_def b_def)
qed

lemma tallied_next:
  fixes item :: regression_item
  assumes "tallied items a" and "d = 0 \<or> d = 1"
    and "ra_perComp a' = mput (it_ExpectedComponent item) ((component_bucket (it_ExpectedComponent item) (ra_perComp a))\<lparr>
      cr_Total := cr_Total (component_bucket (it_ExpectedComponent item) (ra_perComp a)) + 1,
      cr_Correct := cr_Correct (component_bucket (it_ExpectedComponent item) (ra_perComp a)) + d \<rparr>) (ra_perComp a)"
    and "ra_correct a' = ra_correct a + d" and "int (length (ra_mismatches a')) = int (length (ra_mismatches a)) + (1 - d)"
    and "ra_errCount a \<le> ra_errCount a'" and "ra_errCount a' \<le> ra_errCount a + (1 - d)"
    and "length (ra_latencies a') = length (ra_latencies a) + 1"
  shows "tallied (items @ [item]) a'"
proof -
  note inv = assms(1) [unfolded tallied_def]
  note entry = tallied_entry [OF assms(1,2), of item, folded assms(3)]
  have "ra_correct a' + int (length (ra_mismatches a')) = int (length (items @ [item]))" using inv assms(4,5) by simp
  moreover have "0 \<le> ra_errCount a'" "ra_errCount a' \<le> int (length (ra_mismatches a'))" using inv assms(5-7) by auto
  moreover have "length (ra_latencies a') = length (items @ [item])" using inv assms(8) by simp
  ultimately show ?thesis using entry assms(4) unfolding tallied_def by (intro conjI) simp_all
qed

lemma tallied_step:
  assumes "tallied items a"
  shows "tallied (items @ [item]) (tally et item r latency a)"
proof (cases "snd r")
  case (Inl e)
  then show ?thesis by (intro tallied_next [OF assms, of 0]) (simp_all add: tally_def Let_def)
next
  case (Inr x)
  show ?thesis
  proof (cases "fst r = it_ExpectedComponent item")
    case True
    then show ?thesis using Inr by (intro tallied_next [OF assms, of 1]) (simp_all add: tally_def Let_def)
  next
    case False
    then show ?thesis using Inr by (intro tallied_next [OF assms, of 0]) (simp_all add: tally_def Let_def)
  qed
qed

lemma loop_tallied:
  assumes "tallied items a" and "run_dataset_loop clk et ex todo a s = (Some a', s')"
  shows "tallied (items @ todo) a'"
  using assms
proof (induction todo arbitrary: items a s)
  case (Cons item todo)
  obtain t0 s1 where 1: "clk s = (t0, s1)" by (cases "clk s")
  obtain r s2 where 2: "ClassifyAndExtract ex (it_Title item) (it_ItemSpecifics item) s1 = (r, s2)"
    by (cases "ClassifyAndExtract ex (it_Title item) (it_ItemSpecifics item) s1")
  obtain t1 s3 where 3: "clk s2 = (t1, s3)" by (cases "clk s2")
  have "run_dataset_loop clk et ex todo (tally et item r (t1 - t0) a) s3 = (Some a', s')"
    using Cons.prems(2) 1 2 3 by (auto split: if_splits)
  from Cons.IH [OF tallied_step [OF Cons.prems(1)] this] show ?case by simp
qed simp

lemma percentiles_ordered:
  "percentiles ls = (p, q) \<Longrightarrow> p \<le> q \<and> (ls \<noteq> [] \<longrightarrow> p \<in> set ls \<and> q \<in> set ls)"
proof (cases "ls = []")
  case False
  assume "percentiles ls = (p, q)"
  then have pq: "p = sort ls ! ((length ls - 1) * 50 div 100)" "q = sort ls ! ((length ls - 1) * 95 div 100)"
    using False by (simp_all add: percentiles_def Let_def)
  have idx: "(length ls - 1) * 95 div 100 < length ls" "(length ls - 1) * 50 div 100 \<le> (length ls - 1) * 95 div 100"
    using False by (cases "length ls"; simp; arith)+
  then have "p \<le> q" unfolding pq by (intro sorted_nth_mono) simp_all
  moreover have "p \<in> set (sort ls)" "q \<in> set (sort ls)" unfolding pq using idx by (intro nth_mem; simp)+
  ultimately show ?thesis by simp
qed (simp add: percentiles_def)

lemma sum_insort_key:
  fixes f :: "'a \<Rightarrow> int"
  shows "sum_list (map f (insort_key k x xs)) = f x + sum_list (map f xs)"
  by (induction xs) auto

lemma sum_sort_key:
  fixes f :: "'a \<Rightarrow> int"
  shows "sum_list (map f (sort_key k xs)) = sum_list (map f xs)"
  by (induction xs) (simp_all add: sum_insort_key)

lemma results_of:
  assumes "tallied items a"
  shows "map cr_Component (sort_key cr_Component (map snd (ra_perComp a))) = sorted_list_of_set (it_ExpectedComponent ` set items)"
    "list_all (\<lambda>x. cr_Total x = expected_count (cr_Component x) items \<and> 0 \<le> cr_Correct x \<and> cr_Correct x \<le> cr_Total x)
      (sort_key cr_Component (map snd (ra_perComp a)))"
proof -
  note inv = assms [unfolded tallied_def]
  let ?rs = "sort_key cr_Component (map snd (ra_perComp a))"
  have entry: "entry_ok items c b" if "(c, b) \<in> set (ra_perComp a)" for c b
    using that inv by (metis map_of_eq_Some_iff)
  have comps: "map (cr_Component \<circ> snd) (ra_perComp a) = map fst (ra_perComp a)"
    using entry by (intro map_cong) (auto simp: entry_ok_def)
  have "set (map cr_Component ?rs) = it_ExpectedComponent ` set items"
    using inv comps by (metis (no_types) list.map_comp set_map set_sort)
  moreover have "sorted (map cr_Component ?rs)" by (rule sorted_sort_key)
  moreover have "distinct (map cr_Component (map snd (ra_perComp a)))" using comps inv by (metis list.map_comp)
  then have "distinct (map cr_Component ?rs)" by (auto simp: distinct_map intro: inj_on_imageI inj_on_imageI2)
  ultimately show "map cr_Component ?rs = sorted_list_of_set (it_ExpectedComponent ` set items)"
    using sorted_list_of_set.idem_if_sorted_distinct by metis
  show "list_all (\<lambda>x. cr_Total x = expected_count (cr_Component x) items \<and> 0 \<le> cr_Correct x \<and> cr_Correct x \<le> cr_Total x) ?rs"
    using entry by (fastforce simp: list_all_iff entry_ok_def)
qed


text \<open>The list of backends: the first occurrences of the trimmed parts that are not empty.\<close>

lemma dedup_parts_eq:
  "dedup_parts seen ps = filter (\<lambda>p. p \<notin> set seen) (rev (remdups (rev (filter (\<lambda>p. p \<noteq> []) (map trim_space ps)))))"
proof (induction ps arbitrary: seen)
  case (Cons p ps)
  have snoc: "rev (remdups (rev xs @ [x])) = x # filter (\<lambda>y. y \<noteq> x) (rev (remdups (rev xs)))" for x :: string and xs
  proof -
    have "remdups (ys @ [x]) = filter (\<lambda>y. y \<noteq> x) (remdups ys) @ [x]" for ys :: "string list"
      by (induction ys) auto
    then show ?thesis by (simp add: rev_filter)
  qed
  show ?case
    using Cons.IH by (auto simp: Let_def snoc intro!: filter_cong)
qed simp

text \<open>The runner measures the pipeline of the server. Without a list of backends, a run puts the dataset
  through exactly the backend and the extractor the server would build from the same configuration, and
  runs nothing when the server would have no extractor.\<close>

theorem runner_measures_server:
  "executeAll ru cfg dataset (parseBackends [] (lc_Backend (cfg_LLM cfg))) s =
     (case buildExtractor (ru_getenv ru) cfg NoopLangfuse of
        None \<Rightarrow> (Some [], s)
      | Some plan \<Rightarrow>
          (case runDataset (ru_clock ru) (ru_error_text ru) (NewLLMExtractor (llm_generate (ru_services ru) (xp_backend plan)) (ru_decode ru))
              dataset (lc_Backend (cfg_LLM cfg)) (modelOfBackend cfg (lc_Backend (cfg_LLM cfg))) s of
             (None, s) \<Rightarrow> (None, s) | (Some r, s) \<Rightarrow> (Some [r], s)))"
proof -
  have same: "buildBackendByName (ru_getenv ru) cfg (lc_Backend (cfg_LLM cfg)) = buildLLMBackend (ru_getenv ru) cfg"
    by (simp add: buildBackendByName_def buildLLMBackend_def Let_def)
  show ?thesis
    by (simp add: parseBackends_def executeBackend_def same buildExtractor_def Let_def split: option.split prod.split)
qed

end
