(* ===== verification/Migrate.thy ===== *)
theory Migrate
  imports Db
begin

text \<open>
  The migration runner (\<open>internal/store/migrate.go\<close>): the scripts of the embedded directory are executed in the
  order of their names, and each is entered into a table when it has been executed. Executing a script and entering
  it are two round trips, each of which can fail before or after it took effect.
\<close>

section \<open>Scripts and the database\<close>

text \<open>The script is None when the file cannot be read.\<close>

record migration_file =
  mf_name :: string
  mf_dir :: bool
  mf_sql :: "string option"

text \<open>A script has an effect on the schema, or an error and no effect: PostgreSQL runs it in one transaction.\<close>

record 'd mig_server =
  mv_fault :: "nat \<Rightarrow> fault"
  mv_apply :: "string \<Rightarrow> 'd \<Rightarrow> 'd option"

text \<open>The table of versions, the schema, and a history of the scripts that took effect.\<close>

record 'd mig_world =
  mw_tick :: nat
  mw_table :: bool
  mw_recorded :: "string list"
  mw_schema :: 'd
  mw_history :: "string list"

datatype migrate_error =
    CreatingTable | ReadingDirectory | CheckingMigration string | ReadingMigration string
  | ApplyingMigration string | RecordingMigration string

definition mig_exec :: "'d mig_server \<Rightarrow> ('d mig_world \<Rightarrow> ('a \<times> 'd mig_world) option) \<Rightarrow> 'd mig_world \<Rightarrow> 'a option \<times> 'd mig_world" where
  "mig_exec sv f w =
     (let ft = mv_fault sv (mw_tick w); w = w\<lparr> mw_tick := Suc (mw_tick w) \<rparr> in
      if ft = FaultBefore then (None, w)
      else case f w of None \<Rightarrow> (None, w) | Some (x, w) \<Rightarrow> (if ft = FaultAfter then None else Some x, w))"

definition create_versions :: "'d mig_world \<Rightarrow> (unit \<times> 'd mig_world) option" where
  "create_versions w = Some ((), w\<lparr> mw_table := True \<rparr>)"

definition version_exists :: "string \<Rightarrow> 'd mig_world \<Rightarrow> (bool \<times> 'd mig_world) option" where
  "version_exists v w = (if mw_table w then Some (v \<in> set (mw_recorded w), w) else None)"

definition run_script :: "'d mig_server \<Rightarrow> string \<Rightarrow> string \<Rightarrow> 'd mig_world \<Rightarrow> (unit \<times> 'd mig_world) option" where
  "run_script sv v sql w = (case mv_apply sv sql (mw_schema w) of
     None \<Rightarrow> None | Some d \<Rightarrow> Some ((), w\<lparr> mw_schema := d, mw_history := mw_history w @ [v] \<rparr>))"

definition insert_version :: "string \<Rightarrow> 'd mig_world \<Rightarrow> (unit \<times> 'd mig_world) option" where
  "insert_version v w =
     (if mw_table w \<and> v \<notin> set (mw_recorded w) then Some ((), w\<lparr> mw_recorded := mw_recorded w @ [v] \<rparr>) else None)"

section \<open>The runner\<close>

definition has_suffix :: "string \<Rightarrow> string \<Rightarrow> bool" where
  "has_suffix s p = has_prefix (rev s) (rev p)"

definition is_script :: "migration_file \<Rightarrow> bool" where
  "is_script e \<longleftrightarrow> \<not> (mf_dir e \<or> \<not> has_suffix (mf_name e) ''.sql'')"

fun migrate_loop :: "'d mig_server \<Rightarrow> migration_file list \<Rightarrow> 'd mig_world \<Rightarrow> migrate_error option \<times> 'd mig_world" where
  "migrate_loop sv [] w = (None, w)"
| "migrate_loop sv (e # es) w =
     (if \<not> is_script e then migrate_loop sv es w
      else let v = mf_name e in
        case mig_exec sv (version_exists v) w of
          (None, w) \<Rightarrow> (Some (CheckingMigration v), w)
        | (Some True, w) \<Rightarrow> migrate_loop sv es w
        | (Some False, w) \<Rightarrow>
            (case mf_sql e of
               None \<Rightarrow> (Some (ReadingMigration v), w)
             | Some sql \<Rightarrow>
                 (case mig_exec sv (run_script sv v sql) w of
                    (None, w) \<Rightarrow> (Some (ApplyingMigration v), w)
                  | (Some u, w) \<Rightarrow>
                      (case mig_exec sv (insert_version v) w of
                         (None, w) \<Rightarrow> (Some (RecordingMigration v), w)
                       | (Some u, w) \<Rightarrow> migrate_loop sv es w))))"

definition RunMigrations :: "'d mig_server \<Rightarrow> migration_file list option \<Rightarrow> 'd mig_world \<Rightarrow> migrate_error option \<times> 'd mig_world" where
  "RunMigrations sv dir w =
     (case mig_exec sv create_versions w of
        (None, w) \<Rightarrow> (Some CreatingTable, w)
      | (Some u, w) \<Rightarrow>
          (case dir of
             None \<Rightarrow> (Some ReadingDirectory, w)
           | Some entries \<Rightarrow> migrate_loop sv (sort_key mf_name entries) w))"

section \<open>Histories\<close>

text \<open>The worlds that runs over a directory produce from an empty database, whatever fails on the way.\<close>

inductive migrated :: "'d mig_server \<Rightarrow> migration_file list \<Rightarrow> 'd mig_world \<Rightarrow> bool" for sv files where
  fresh: "mw_recorded w = [] \<Longrightarrow> mw_history w = [] \<Longrightarrow> migrated sv files w"
| again: "migrated sv files w \<Longrightarrow> migrated sv files (snd (RunMigrations sv (Some files) w))"

definition versions :: "migration_file list \<Rightarrow> string list" where
  "versions files = map mf_name (filter is_script files)"

text \<open>The recorded scripts are the first ones of the directory; the scripts that took effect are these, each
  perhaps several times in a row, and perhaps the one that follows.\<close>

definition orderly :: "string list \<Rightarrow> 'd mig_world \<Rightarrow> bool" where
  "orderly vs w \<longleftrightarrow> (\<exists>k. mw_recorded w = take k vs \<and> remdups_adj (mw_history w) \<in> {take k vs, take (Suc k) vs})"

lemma exec_cases:
  assumes "mig_exec sv f w = (r, w')"
  obtains (nothing) "r = None" "w' = w\<lparr> mw_tick := Suc (mw_tick w) \<rparr>"
  | (effect) x where "f (w\<lparr> mw_tick := Suc (mw_tick w) \<rparr>) = Some (x, w')" "r = None \<or> r = Some x"
  using assms by (auto simp: mig_exec_def Let_def split: if_splits option.splits prod.splits)

lemma remdups_adj_snoc:
  "remdups_adj (xs @ [v]) = (if xs \<noteq> [] \<and> last (remdups_adj xs) = v then remdups_adj xs else remdups_adj xs @ [v])"
proof (cases xs rule: rev_cases)
  case (snoc ys y)
  then show ?thesis by (simp add: remdups_adj_append_two)
qed simp

text \<open>Executing the script that follows the recorded ones, and entering it.\<close>

lemma orderly_run:
  assumes "orderly (pre @ v # rest) w" and "mw_recorded w = pre" and "distinct (pre @ v # rest)"
    and "run_script sv v sql w = Some (u, w')"
  shows "orderly (pre @ v # rest) w' \<and> mw_recorded w' = pre \<and> remdups_adj (mw_history w') = pre @ [v]"
proof -
  obtain k where k: "pre = take k (pre @ v # rest)"
    and h: "remdups_adj (mw_history w) \<in> {take k (pre @ v # rest), take (Suc k) (pre @ v # rest)}"
    using assms(1,2) unfolding orderly_def by metis
  have len: "length pre = min k (Suc (length pre + length rest))" by (subst k) simp
  have "k = length pre" using len by (cases "k \<le> length pre + length rest") auto
  then have "remdups_adj (mw_history w) = pre \<or> remdups_adj (mw_history w) = pre @ [v]" using h by simp
  moreover have "remdups_adj (mw_history w @ [v]) = pre @ [v]" if "remdups_adj (mw_history w) = pre"
  proof -
    have "\<not> (mw_history w \<noteq> [] \<and> last (remdups_adj (mw_history w)) = v)"
      using assms(3) that unfolding that by (auto simp flip: that)
    then show ?thesis using that by (simp only: remdups_adj_snoc if_False)
  qed
  moreover have "remdups_adj (mw_history w @ [v]) = pre @ [v]" if h: "remdups_adj (mw_history w) = pre @ [v]"
  proof -
    have "mw_history w \<noteq> [] \<and> last (remdups_adj (mw_history w)) = v" unfolding h using h by auto
    then show ?thesis using h by (simp only: remdups_adj_snoc simp_thms if_True)
  qed
  moreover have w': "mw_history w' = mw_history w @ [v]" "mw_recorded w' = pre"
    using assms(2,4) by (auto simp: run_script_def split: option.splits)
  ultimately have eff: "remdups_adj (mw_history w') = pre @ [v]" by metis
  then show ?thesis unfolding orderly_def using w'(2) by (intro conjI exI [of _ "length pre"]) simp_all
qed

lemma orderly_insert:
  assumes "remdups_adj (mw_history w) = pre @ [v]" and "mw_recorded w = pre" and "insert_version v w = Some (u, w')"
  shows "orderly (pre @ v # rest) w' \<and> mw_recorded w' = pre @ [v]"
  using assms unfolding orderly_def
  by (auto simp: insert_version_def split: if_splits intro!: exI [of _ "Suc (length pre)"])

lemma orderly_tick [simp]: "orderly vs (w\<lparr> mw_tick := t \<rparr>) = orderly vs w"
  by (simp add: orderly_def)

lemma orderly_same: "mw_recorded x = mw_recorded w \<Longrightarrow> mw_history x = mw_history w \<Longrightarrow> orderly vs x = orderly vs w"
  by (simp add: orderly_def)

text \<open>A version that is not recorded when all before it are is the next one.\<close>

lemma next_version:
  assumes "orderly (pre @ v # rest) w" and "set pre \<subseteq> set (mw_recorded w)" and "v \<notin> set (mw_recorded w)"
    and "distinct (pre @ v # rest)"
  shows "mw_recorded w = pre"
proof -
  obtain k where k: "mw_recorded w = take k (pre @ v # rest)" using assms(1) unfolding orderly_def by auto
  have "k \<le> length pre"
  proof (rule ccontr)
    assume "\<not> k \<le> length pre"
    then have "v \<in> set (mw_recorded w)" by (cases "k - length pre") (auto simp: k)
    then show False using assms(3) by simp
  qed
  then have r: "mw_recorded w = take k pre" by (simp add: k)
  have "drop k pre = []"
  proof (rule ccontr)
    assume ne: "drop k pre \<noteq> []"
    then obtain x where "x \<in> set (drop k pre)" by (cases "drop k pre") auto
    moreover have "x \<in> set (take k pre)" using calculation assms(2) r by (auto dest: in_set_dropD)
    moreover have "distinct (take k pre @ drop k pre)" using assms(4) by simp
    ultimately show False unfolding distinct_append by auto
  qed
  then show ?thesis using r by simp
qed

lemma exists_some: "version_exists v w = Some (b, w') \<longleftrightarrow> mw_table w \<and> w' = w \<and> b = (v \<in> set (mw_recorded w))"
  by (auto simp: version_exists_def)

lemma loop_orderly:
  assumes "orderly (pre @ versions es) w" and "set pre \<subseteq> set (mw_recorded w)" and "distinct (pre @ versions es)"
  shows "orderly (pre @ versions es) (snd (migrate_loop sv es w))"
  using assms
proof (induction es arbitrary: pre w)
  case Nil
  then show ?case by simp
next
  case (Cons e es)
  show ?case
  proof (cases "is_script e")
    case False
    then show ?thesis using Cons by (simp add: versions_def)
  next
    case True
    let ?v = "mf_name e"
    have vs: "pre @ versions (e # es) = pre @ ?v # versions es" using True by (simp add: versions_def)
    note o = Cons.prems(1) [unfolded vs] and d = Cons.prems(3) [unfolded vs]
    have go: "orderly (pre @ ?v # versions es) (snd (migrate_loop sv es x))"
      if "orderly (pre @ ?v # versions es) x" "set (pre @ [?v]) \<subseteq> set (mw_recorded x)" for x
      using Cons.IH [of "pre @ [?v]" x] that d by simp
    obtain r wa where a: "mig_exec sv (version_exists ?v) w = (r, wa)" by fastforce
    then have wa: "orderly (pre @ ?v # versions es) wa" "mw_recorded wa = mw_recorded w"
      using o by (auto elim!: exec_cases simp: exists_some)
    show ?thesis
    proof (cases r)
      case None
      then show ?thesis using True a wa vs by simp
    next
      case (Some b)
      then have b: "b = (?v \<in> set (mw_recorded w))" using a by (auto elim!: exec_cases simp: exists_some)
      show ?thesis
      proof (cases "b \<or> mf_sql e = None")
        case True
        then show ?thesis using a Some b wa vs go [of wa] Cons.prems(2) \<open>is_script e\<close>
          by (cases b) (auto split: option.split)
      next
        case False
        then obtain sql where sql: "mf_sql e = Some sql" and nb: "b = False" by auto
        have "?v \<notin> set (mw_recorded wa)" using b nb wa(2) by simp
        then have pre: "mw_recorded wa = pre" using next_version [OF wa(1)] Cons.prems(2) wa(2) d by simp
        obtain ra wb where run: "mig_exec sv (run_script sv ?v sql) wa = (ra, wb)" by fastforce
        have wb: "orderly (pre @ ?v # versions es) wb \<and> mw_recorded wb = pre
            \<and> (ra \<noteq> None \<longrightarrow> remdups_adj (mw_history wb) = pre @ [?v])"
          using run
        proof (cases rule: exec_cases)
          case nothing
          then show ?thesis using wa pre by simp
        next
          case (effect x)
          then show ?thesis using orderly_run [of pre ?v "versions es" "wa\<lparr> mw_tick := Suc (mw_tick wa) \<rparr>" sv sql x wb] wa pre d by simp
        qed
        obtain rb wc where ins: "mig_exec sv (insert_version ?v) wb = (rb, wc)" by fastforce
        have wc: "orderly (pre @ ?v # versions es) wc \<and> (rb \<noteq> None \<longrightarrow> mw_recorded wc = pre @ [?v])" if "ra \<noteq> None"
          using ins
        proof (cases rule: exec_cases)
          case nothing
          then show ?thesis using wb by simp
        next
          case (effect x)
          then show ?thesis
            using orderly_insert [of "wb\<lparr> mw_tick := Suc (mw_tick wb) \<rparr>" pre ?v x wc "versions es"] wb that by simp
        qed
        have "orderly (pre @ ?v # versions es) (snd (migrate_loop sv es wc))" if "ra \<noteq> None" "rb \<noteq> None"
          using go [of wc] wc that by simp
        then show ?thesis
          using \<open>is_script e\<close> a Some nb sql run ins wb wc vs by (cases ra; cases rb) simp_all
      qed
    qed
  qed
qed

lemma versions_sorted: "distinct (map mf_name files) \<Longrightarrow> distinct (versions (sort_key mf_name files))"
proof -
  assume "distinct (map mf_name files)"
  then have "distinct (map mf_name (sort_key mf_name files))" by (metis distinct_sort distinct_map set_sort)
  then show ?thesis by (auto simp: versions_def distinct_map intro: inj_on_subset)
qed


section \<open>A version that is not recorded\<close>

lemma exec_grow:
  assumes "mig_exec sv f w = (r, w')" and "\<And>x y t. f (w\<lparr> mw_tick := t \<rparr>) = Some (x, y) \<Longrightarrow> set (mw_recorded w) \<subseteq> set (mw_recorded y)"
  shows "set (mw_recorded w) \<subseteq> set (mw_recorded w')"
  using assms(1) by (cases rule: exec_cases) (use assms(2) in auto)

lemma script_grow:
  assumes "mig_exec sv (run_script sv v sql) w = (r, w')"
  shows "set (mw_recorded w) \<subseteq> set (mw_recorded w')"
  using assms by (rule exec_grow) (auto simp: run_script_def split: option.splits)

lemma insert_grow:
  assumes "mig_exec sv (insert_version v) w = (r, w')"
  shows "set (mw_recorded w) \<subseteq> set (mw_recorded w')" "r = Some u \<Longrightarrow> v \<in> set (mw_recorded w')"
  using assms by (auto elim!: exec_cases simp: insert_version_def split: if_splits)

lemma check_same:
  assumes "mig_exec sv (version_exists v) w = (r, w')"
  shows "mw_recorded w' = mw_recorded w" "mw_schema w' = mw_schema w" "mw_history w' = mw_history w" "mw_table w' = mw_table w"
    "r = Some b \<Longrightarrow> b = (v \<in> set (mw_recorded w))"
  using assms by (auto elim!: exec_cases simp: exists_some)

text \<open>What one script does to a run: the run ends there, or goes on with the script recorded.\<close>

lemma loop_step:
  assumes "is_script e" and "migrate_loop sv (e # es) w = (r, w')"
  obtains (stop) "set (mw_recorded w) \<subseteq> set (mw_recorded w')"
      "\<And>v. r = Some (RecordingMigration v) \<Longrightarrow> v = mf_name e \<and> mf_sql e \<noteq> None"
  | (go) wa where "migrate_loop sv es wa = (r, w')" "set (mw_recorded w) \<subseteq> set (mw_recorded wa)" "mf_name e \<in> set (mw_recorded wa)"
proof -
  let ?v = "mf_name e"
  obtain ra wa where a: "mig_exec sv (version_exists ?v) w = (ra, wa)" by fastforce
  note c = check_same [OF a]
  show thesis
  proof (cases "ra = Some False \<and> mf_sql e \<noteq> None")
    case False
    show thesis
    proof (cases "ra = Some True")
      case True
      then show thesis using assms a c by (intro go [of wa]) (auto simp: Let_def)
    next
      case other: False
      then show thesis using False assms a c by (intro stop) (auto simp: Let_def split: option.splits bool.splits)
    qed
  next
    case True
    then obtain sql where sql: "mf_sql e = Some sql" by auto
    obtain rb wb where b: "mig_exec sv (run_script sv ?v sql) wa = (rb, wb)" by fastforce
    obtain rc wc where i: "mig_exec sv (insert_version ?v) wb = (rc, wc)" by fastforce
    note grow = c(1) script_grow [OF b] insert_grow [OF i]
    show thesis
    proof (cases "rb \<noteq> None \<and> rc \<noteq> None")
      case True
      then show thesis using assms a b i sql \<open>ra = Some False \<and> _\<close> grow
        by (intro go [of wc]) (auto simp: Let_def)
    next
      case False
      then show thesis using assms a b i sql \<open>ra = Some False \<and> _\<close> grow
        by (intro stop) (auto simp: Let_def split: option.splits)
    qed
  qed
qed

text \<open>The script of a version is reached when the scripts before it are recorded.\<close>

definition reached :: "migration_file list \<Rightarrow> string \<Rightarrow> 'd mig_world \<Rightarrow> bool" where
  "reached es v w \<longleftrightarrow> (\<exists>pre e post. es = pre @ e # post \<and> is_script e \<and> mf_name e = v \<and> mf_sql e \<noteq> None
     \<and> set (versions pre) \<subseteq> set (mw_recorded w))"

lemma reached_here: "is_script e \<Longrightarrow> mf_sql e \<noteq> None \<Longrightarrow> reached (e # es) (mf_name e) w"
  unfolding reached_def by (rule exI [of _ "[]"]) (simp add: versions_def)

lemma reached_later: "reached es v w \<Longrightarrow> (is_script e \<Longrightarrow> mf_name e \<in> set (mw_recorded w)) \<Longrightarrow> reached (e # es) v w"
proof -
  assume "reached es v w" and e: "is_script e \<Longrightarrow> mf_name e \<in> set (mw_recorded w)"
  then obtain pre f post where "es = pre @ f # post" "is_script f" "mf_name f = v" "mf_sql f \<noteq> None"
      "set (versions pre) \<subseteq> set (mw_recorded w)"
    unfolding reached_def by blast
  then show ?thesis unfolding reached_def using e by (intro exI [of _ "e # pre"] exI [of _ f] exI [of _ post]) (auto simp: versions_def)
qed

lemma loop_recording:
  assumes "migrate_loop sv es w = (r, w')"
  shows "set (mw_recorded w) \<subseteq> set (mw_recorded w') \<and> (\<forall>v. r = Some (RecordingMigration v) \<longrightarrow> reached es v w')"
  using assms
proof (induction es arbitrary: w)
  case Nil
  then show ?case by auto
next
  case (Cons e es)
  show ?case
  proof (cases "is_script e")
    case False
    then show ?thesis using Cons.IH [of w] Cons.prems by (auto intro: reached_later)
  next
    case True
    from True Cons.prems show ?thesis
    proof (cases rule: loop_step)
      case stop
      then show ?thesis using True by (auto simp: reached_here)
    next
      case (go wa)
      then show ?thesis using Cons.IH [of wa] by (auto intro: reached_later)
    qed
  qed
qed

text \<open>A run over scripts of which the first unrecorded one fails.\<close>

lemma loop_blocked:
  assumes "reached es v w" and "v \<notin> set (mw_recorded w)"
    and "\<And>e sql. e \<in> set es \<Longrightarrow> mf_name e = v \<Longrightarrow> mf_sql e = Some sql \<Longrightarrow> mv_apply sv sql (mw_schema w) = None"
  shows "fst (migrate_loop sv es w) \<noteq> None \<and> mw_recorded (snd (migrate_loop sv es w)) = mw_recorded w
    \<and> mw_schema (snd (migrate_loop sv es w)) = mw_schema w"
  using assms
proof (induction es arbitrary: w)
  case Nil
  then show ?case by (simp add: reached_def)
next
  case (Cons e es)
  obtain pre f post where d: "e # es = pre @ f # post" "is_script f" "mf_name f = v" "mf_sql f \<noteq> None"
      "set (versions pre) \<subseteq> set (mw_recorded w)"
    using Cons.prems(1) unfolding reached_def by blast
  obtain ra wa where a: "mig_exec sv (version_exists (mf_name e)) w = (ra, wa)" by fastforce
  note c = check_same [OF a]
  note IH = Cons.IH and prems = Cons.prems
  show ?case
  proof (cases pre)
    case Nil
    then obtain sql where e: "e = f" "mf_sql e = Some sql" using d by auto
    have "mv_apply sv sql (mw_schema wa) = None" using Cons.prems(3) [of e sql] e d c by simp
    then obtain wb where "mig_exec sv (run_script sv v sql) wa = (None, wb)" "mw_recorded wb = mw_recorded wa" "mw_schema wb = mw_schema wa"
      by (cases "mig_exec sv (run_script sv v sql) wa") (auto elim!: exec_cases simp: run_script_def)
    then show ?thesis using a c prems(2) d(2-4) e by (cases ra) (auto simp: Let_def)
  next
    case (Cons x xs)
    then have e: "x = e" "es = xs @ f # post" using d(1) by simp_all
    have r: "reached es v y" if "mw_recorded y = mw_recorded w" for y :: "'a mig_world"
      unfolding reached_def using d e that Cons by (intro exI [of _ xs] exI [of _ f] exI [of _ post]) (auto simp: versions_def split: if_splits)
    have go: "fst (migrate_loop sv es y) \<noteq> None \<and> mw_recorded (snd (migrate_loop sv es y)) = mw_recorded w
        \<and> mw_schema (snd (migrate_loop sv es y)) = mw_schema w"
      if "mw_recorded y = mw_recorded w" "mw_schema y = mw_schema w" for y
      using IH [of y] r [of y] prems(2) prems(3) that by (metis list.set_intros(2))
    show ?thesis
    proof (cases "is_script e")
      case False
      then show ?thesis using go [of w] by simp
    next
      case True
      then have "mf_name e \<in> set (mw_recorded w)" using d(5) Cons e by (simp add: versions_def)
      then show ?thesis using True a c go [of wa] by (cases ra) (auto simp: Let_def)
    qed
  qed
qed

lemma run_blocked:
  assumes "reached (sort_key mf_name files) v w" and "v \<notin> set (mw_recorded w)"
    and "\<And>e sql. e \<in> set files \<Longrightarrow> mf_name e = v \<Longrightarrow> mf_sql e = Some sql \<Longrightarrow> mv_apply sv sql (mw_schema w) = None"
  shows "fst (RunMigrations sv (Some files) w) \<noteq> None \<and> mw_recorded (snd (RunMigrations sv (Some files) w)) = mw_recorded w
    \<and> mw_schema (snd (RunMigrations sv (Some files) w)) = mw_schema w"
proof -
  obtain r wa where a: "mig_exec sv create_versions w = (r, wa)" by fastforce
  then have wa: "mw_recorded wa = mw_recorded w" "mw_schema wa = mw_schema w"
    by (auto elim!: exec_cases simp: create_versions_def)
  have "reached (sort_key mf_name files) v wa" using assms(1) wa unfolding reached_def by simp
  moreover have "mv_apply sv sql (mw_schema wa) = None"
    if "e \<in> set (sort_key mf_name files)" "mf_name e = v" "mf_sql e = Some sql" for e sql
    using assms(3) that wa by simp
  ultimately show ?thesis
    using loop_blocked [of "sort_key mf_name files" v wa sv] assms(2) a wa
    by (cases r) (simp_all add: RunMigrations_def)
qed

text \<open>C37. A lost record blocks all later migrations. When a script took effect but could not be recorded, and it fails
  when it is executed again, as a script that creates a table does, every later run fails, records nothing and
  changes nothing, also when no round trip fails any more.\<close>

theorem lost_record_blocks:
  assumes "RunMigrations sv (Some files) w = (Some (RecordingMigration v), w')" and "v \<notin> set (mw_recorded w')"
    and "\<And>e sql. e \<in> set files \<Longrightarrow> mf_name e = v \<Longrightarrow> mf_sql e = Some sql \<Longrightarrow> mv_apply sv sql (mw_schema w') = None"
  shows "let x = ((\<lambda>x. snd (RunMigrations sv (Some files) x)) ^^ n) w' in
    fst (RunMigrations sv (Some files) x) \<noteq> None \<and> mw_recorded x = mw_recorded w' \<and> mw_schema x = mw_schema w'"
proof -
  let ?s = "sort_key mf_name files" and ?run = "\<lambda>x. snd (RunMigrations sv (Some files) x)"
  obtain wa where "migrate_loop sv ?s wa = (Some (RecordingMigration v), w')"
    using assms(1) by (auto simp: RunMigrations_def split: prod.splits option.splits)
  then have r: "reached ?s v w'" using loop_recording by blast
  have step: "fst (RunMigrations sv (Some files) x) \<noteq> None \<and> mw_recorded (?run x) = mw_recorded w' \<and> mw_schema (?run x) = mw_schema w'"
    if "mw_recorded x = mw_recorded w'" "mw_schema x = mw_schema w'" for x
  proof -
    have "reached ?s v x" using r that unfolding reached_def by simp
    then show ?thesis using run_blocked [of files v x sv] assms(2,3) that by simp
  qed
  have "mw_recorded ((?run ^^ n) w') = mw_recorded w' \<and> mw_schema ((?run ^^ n) w') = mw_schema w'"
    by (induction n) (use step in auto)
  then show ?thesis using step [of "(?run ^^ n) w'"] by (simp add: Let_def)
qed

text \<open>Two scripts, of which the first creates a table; recording it fails once.\<close>

definition two_scripts :: "migration_file list" where
  "two_scripts = [\<lparr> mf_name = ''002_more.sql'', mf_dir = False, mf_sql = Some ''more'' \<rparr>,
     \<lparr> mf_name = ''001_tables.sql'', mf_dir = False, mf_sql = Some ''tables'' \<rparr>,
     \<lparr> mf_name = ''notes.md'', mf_dir = False, mf_sql = Some [] \<rparr>]"

definition created_once :: "string list mig_server" where
  "created_once = \<lparr> mv_fault = (\<lambda>n. if n = 3 then FaultBefore else NoFault),
     mv_apply = (\<lambda>sql d. if sql \<in> set d then None else Some (sql # d)) \<rparr>"

definition fresh_world :: "string list mig_world" where
  "fresh_world = \<lparr> mw_tick = 0, mw_table = False, mw_recorded = [], mw_schema = [], mw_history = [] \<rparr>"

lemma first_run: "RunMigrations created_once (Some two_scripts) fresh_world
  = (Some (RecordingMigration ''001_tables.sql''),
     \<lparr> mw_tick = 4, mw_table = True, mw_recorded = [], mw_schema = [''tables''], mw_history = [''001_tables.sql''] \<rparr>)"
  by code_simp

lemma tables_once:
  "e \<in> set two_scripts \<Longrightarrow> mf_name e = ''001_tables.sql'' \<Longrightarrow> mf_sql e = Some sql \<Longrightarrow>
    mv_apply created_once sql (mw_schema \<lparr> mw_tick = 4, mw_table = True, mw_recorded = [], mw_schema = [''tables''],
      mw_history = [''001_tables.sql''] \<rparr>) = None"
  by (auto simp: two_scripts_def created_once_def)

theorem lost_record_blocks_witness:
  "let x = ((\<lambda>x. snd (RunMigrations created_once (Some two_scripts) x)) ^^ 5) (snd (RunMigrations created_once (Some two_scripts) fresh_world)) in
     fst (RunMigrations created_once (Some two_scripts) x) \<noteq> None \<and> mw_recorded x = [] \<and> mw_schema x = [''tables'']"
  unfolding first_run snd_conv
  using lost_record_blocks [OF first_run _ tables_once, where n = 5] by simp


end
