(* ===== verification/Labelling.thy ===== *)
theory Labelling
  imports Regression QueryLaws
begin

text \<open>
  The tools that prepare labelled data: few-shot examples of the judge (\<open>tools/judge-bootstrap\<close>), the regression
  dataset (\<open>tools/dataset-bootstrap\<close>) and its upload to Langfuse (\<open>tools/dataset-upload\<close>). Flags, files and the
  JSON codec are parameters.
\<close>

section \<open>Judge candidates\<close>

record labelled_candidate =
  bc_Label :: string
  bc_Alert :: alert_context
  bc_Verdict :: verdict

definition zero_verdict :: verdict where
  "zero_verdict = \<lparr> vd_Score = Fin 0, vd_Reason = [], vd_Tokens = \<lparr> jt_InputTokens = 0, jt_OutputTokens = 0 \<rparr>,
     vd_Model = [], vd_CostUSD = Fin 0 \<rparr>"

definition traceIDValue :: "string option \<Rightarrow> string" where
  "traceIDValue p = (case p of None \<Rightarrow> [] | Some s \<Rightarrow> s)"

definition blank_candidate :: "judge_candidate \<Rightarrow> labelled_candidate" where
  "blank_candidate c = \<lparr> bc_Label = [],
     bc_Alert = \<lparr> jx_AlertID = jc_alert_id c, jx_WatchName = jc_watch_name c, jx_ComponentType = jc_component_type c,
       jx_ListingTitle = jc_listing_title c, jx_Condition = jc_condition c, jx_PriceUSD = jc_price_usd c,
       jx_BaselineP25 = jc_baseline_p25 c, jx_BaselineP50 = jc_baseline_p50 c, jx_BaselineP75 = jc_baseline_p75 c,
       jx_SampleSize = jc_sample_size c, jx_Score = jc_score c, jx_Threshold = jc_threshold c, jx_Reasons = [],
       jx_TraceID = traceIDValue (jc_trace_id c), jx_CreatedAt = jc_created_at c \<rparr>,
     bc_Verdict = zero_verdict \<rparr>"

text \<open>The keys in the order of their first candidate, and the candidates of each.\<close>

fun fill_buckets :: "judge_candidate list \<Rightarrow> string list \<times> (string, labelled_candidate list) gomap
    \<Rightarrow> string list \<times> (string, labelled_candidate list) gomap" where
  "fill_buckets [] acc = acc"
| "fill_buckets (c # cs) (keys, buckets) =
     (let key = jc_component_type c;
          keys = (if mget buckets key = None then keys @ [key] else keys);
          old = (case mget buckets key of None \<Rightarrow> [] | Some xs \<Rightarrow> xs)
      in fill_buckets cs (keys, mput key (old @ [blank_candidate c]) buckets))"

text \<open>One pass over the keys; the flag tells whether anything was added.\<close>

fun round_pass :: "nat \<Rightarrow> nat \<Rightarrow> ('k \<Rightarrow> 'a list) \<Rightarrow> 'k list \<Rightarrow> 'a list \<Rightarrow> bool \<Rightarrow> 'a list \<times> bool" where
  "round_pass lmt i bucket [] out added = (out, added)"
| "round_pass lmt i bucket (k # ks) out added =
     (if i < length (bucket k)
      then (let out = out @ [bucket k ! i] in if length out \<ge> lmt then (out, True) else round_pass lmt i bucket ks out True)
      else round_pass lmt i bucket ks out added)"

lemma round_pass_mono: "length out \<le> length (fst (round_pass lmt i bucket ks out added))"
proof (induction ks arbitrary: out added)
  case (Cons k ks)
  show ?case using Cons.IH [of "out @ [bucket k ! i]" True] Cons.IH [of out added] by (simp add: Let_def)
qed simp

lemma round_pass_grows: "snd (round_pass lmt i bucket ks out False) \<Longrightarrow> length out < length (fst (round_pass lmt i bucket ks out False))"
proof (induction ks arbitrary: out)
  case (Cons k ks)
  show ?case
    using Cons round_pass_mono [of "out @ [bucket k ! i]" lmt i bucket ks True]
    by (auto simp: Let_def split: if_splits)
qed simp

lemma round_pass_progress:
  assumes "(x, True) = round_pass lmt i bucket ks out False" and "length out < lmt"
  shows "lmt - length x < lmt - length out"
  using round_pass_grows [of lmt i bucket ks out] assms(2) unfolding assms(1) [symmetric] by simp

function rounds :: "nat \<Rightarrow> nat \<Rightarrow> ('k \<Rightarrow> 'a list) \<Rightarrow> 'k list \<Rightarrow> 'a list \<Rightarrow> 'a list" where
  "rounds lmt i bucket keys out =
     (if length out < lmt
      then (case round_pass lmt i bucket keys out False of
              (out, added) \<Rightarrow> if \<not> added then out else rounds lmt (Suc i) bucket keys out)
      else out)"
  by pat_completeness auto
termination
  by (relation "measure (\<lambda>(lmt, i, bucket, keys, out). lmt - length out)") (auto intro: round_pass_progress)

declare rounds.simps [simp del]

text \<open>A negative limit is a panic of \<open>make\<close>.\<close>

definition stratify :: "judge_candidate list \<Rightarrow> int \<Rightarrow> labelled_candidate list option" where
  "stratify candidates lmt =
     (case fill_buckets candidates ([], []) of (keys, buckets) \<Rightarrow>
        if lmt < 0 then None
        else Some (rounds (nat lmt) 0 (\<lambda>k. case mget buckets k of None \<Rightarrow> [] | Some xs \<Rightarrow> xs) (sort keys) []))"

subsection \<open>Rounds\<close>

lemma round_pass_row:
  assumes "length out < lmt"
  shows "round_pass lmt i bucket ks out added =
    (let row = map (\<lambda>k. bucket k ! i) (filter (\<lambda>k. i < length (bucket k)) ks) in (take lmt (out @ row), added \<or> row \<noteq> []))"
  using assms
proof (induction ks arbitrary: out added)
  case (Cons k ks)
  show ?case
  proof (cases "i < length (bucket k) \<and> lmt \<le> Suc (length out)")
    case True
    then have "lmt - length out = 1" using Cons.prems by linarith
    then show ?thesis using True by (simp add: Let_def)
  next
    case False
    then show ?thesis using Cons.IH [of "out @ [bucket k ! i]"] Cons.IH [of out] Cons.prems
      by (cases "i < length (bucket k)") (simp_all add: Let_def)
  qed
qed simp

lemma length_transpose_less: "i < length (transpose xss) \<longleftrightarrow> (\<exists>xs\<in>set xss. i < length xs)"
  by (induction xss) (auto simp: length_transpose less_max_iff_disj)

lemma transpose_row:
  "map (\<lambda>k. bucket k ! i) (filter (\<lambda>k. i < length (bucket k)) ks)
    = (if i < length (transpose (map bucket ks)) then transpose (map bucket ks) ! i else [])"
  using length_transpose_less [of i "map bucket ks"]
  by (auto simp: nth_transpose filter_map comp_def filter_empty_conv)

lemma rounds_transpose:
  assumes "length out \<le> lmt"
  shows "rounds lmt i bucket keys out = take lmt (out @ concat (drop i (transpose (map bucket keys))))"
  using assms
proof (induction lmt i bucket keys out rule: rounds.induct)
  case (1 lmt i bucket keys out)
  let ?t = "transpose (map bucket keys)"
  show ?case
  proof (cases "length out < lmt")
    case False
    then show ?thesis using 1 by (subst rounds.simps) simp
  next
    case True
    note pass = round_pass_row [OF True, of i bucket keys False] 
    show ?thesis
    proof (cases "i < length ?t")
      case False
      then show ?thesis using True pass by (subst rounds.simps) (simp add: transpose_row)
    next
      case i: True
      then have "\<exists>k\<in>set keys. i < length (bucket k)" using length_transpose_less [of i "map bucket keys"] by auto
      then have ne: "?t ! i \<noteq> []" using i by (auto simp: nth_transpose filter_map comp_def filter_empty_conv)
      then have p: "round_pass lmt i bucket keys out False = (take lmt (out @ ?t ! i), True)"
        using pass i by (simp only: transpose_row if_True) simp
      have "rounds lmt (Suc i) bucket keys (take lmt (out @ ?t ! i))
          = take lmt (take lmt (out @ ?t ! i) @ concat (drop (Suc i) ?t))"
        using 1 (1) [OF True p [symmetric]] by simp
      also have "\<dots> = take lmt (out @ concat (drop i ?t))"
        unfolding Cons_nth_drop_Suc [OF i, symmetric] by (simp add: min_def)
      finally show ?thesis using True p by (subst rounds.simps) simp
    qed
  qed
qed
subsection \<open>The candidates in rounds\<close>

abbreviation bucket_of :: "('k, 'a list) gomap \<Rightarrow> 'k \<Rightarrow> 'a list" where
  "bucket_of m k \<equiv> (case mget m k of None \<Rightarrow> [] | Some xs \<Rightarrow> xs)"

lemma fill_buckets_spec:
  assumes "fill_buckets cs (keys, m) = (keys', m')" and "distinct keys" and "\<And>k. k \<in> set keys \<longleftrightarrow> mget m k \<noteq> None"
  shows "distinct keys' \<and> set keys' = set keys \<union> jc_component_type ` set cs
    \<and> (\<forall>k. bucket_of m' k = bucket_of m k @ map blank_candidate (filter (\<lambda>c. jc_component_type c = k) cs))"
  using assms
proof (induction cs arbitrary: keys m)
  case Nil
  then show ?case by simp
next
  case (Cons c cs)
  let ?k = "jc_component_type c"
  let ?keys = "if mget m ?k = None then keys @ [?k] else keys"
  let ?m = "mput ?k (bucket_of m ?k @ [blank_candidate c]) m"
  have run: "fill_buckets cs (?keys, ?m) = (keys', m')" using Cons.prems(1) by (simp add: Let_def)
  have "distinct ?keys" "set ?keys = insert ?k (set keys)" using Cons.prems(2,3) by auto
  moreover have "k \<in> set ?keys \<longleftrightarrow> mget ?m k \<noteq> None" for k using Cons.prems(3) by auto
  ultimately show ?case using Cons.IH [OF run] by (auto split: option.split)
qed

text \<open>C27. Stratification. The candidates are taken in rounds, in each round the next one of every component type that
  has one left, in the order of the types: the result is the prefix, of the given length, of the columns of the table whose
  rows are the candidates of a type in their order. A negative limit panics.\<close>

theorem stratify_round_robin:
  "stratify candidates lmt = (if lmt < 0 then None else Some (take (nat lmt) (concat (transpose
     (map (\<lambda>t. map blank_candidate (filter (\<lambda>c. jc_component_type c = t) candidates))
       (sorted_list_of_set (jc_component_type ` set candidates)))))))"
proof -
  obtain keys m where f: "fill_buckets candidates ([], []) = (keys, m)" by fastforce
  then have spec: "distinct keys" "set keys = jc_component_type ` set candidates"
      "bucket_of m k = map blank_candidate (filter (\<lambda>c. jc_component_type c = k) candidates)" for k
    using fill_buckets_spec [OF f] by simp_all
  have "sort keys = sorted_list_of_set (set keys)"
    using spec(1) by (simp add: sorted_list_of_set_sort_remdups distinct_remdups_id)
  then show ?thesis
    using f spec by (simp add: stratify_def rounds_transpose)
qed

section \<open>Listing and applying labels\<close>

datatype 'a tool_outcome = ToolFails string | ToolPanics | NothingFound | Emits 'a

text \<open>\<open>load\<close> and \<open>connect\<close> read the configuration and open the database.\<close>

definition runList :: "(string \<Rightarrow> config option) \<Rightarrow> (config \<Rightarrow> db option) \<Rightarrow> (labelled_candidate list \<Rightarrow> 'b option) \<Rightarrow> string
    \<Rightarrow> duration \<Rightarrow> int \<Rightarrow> 'b tool_outcome" where
  "runList load connect encode path lookback lmt =
     (case load path of
        None \<Rightarrow> ToolFails ''loading config''
      | Some cfg \<Rightarrow>
          (case connect cfg of
             None \<Rightarrow> ToolFails ''connecting to database''
           | Some db \<Rightarrow>
               (case fst (ListAlertsForJudging \<lparr> jq_Lookback = lookback, jq_Limit = lmt \<rparr> db) of
                  Inl e \<Rightarrow> ToolFails ''listing alerts''
                | Inr candidates \<Rightarrow>
                    if candidates = [] then NothingFound
                    else (case stratify candidates lmt of
                            None \<Rightarrow> ToolPanics
                          | Some out \<Rightarrow> (case encode out of None \<Rightarrow> ToolFails ''encoding JSON'' | Some b \<Rightarrow> Emits b)))))"

definition validLabels :: "string list" where "validLabels = [''deal'', ''edge'', ''noise'']"

datatype apply_error =
    ReadingInput string | ParsingInput | ZeroRows | BadLabel nat | BadScore nat | EmptyReason nat
  | EncodingExamples | EnsuringDir string | WritingOutput string

fun validate_from :: "nat \<Rightarrow> labelled_candidate list \<Rightarrow> apply_error option" where
  "validate_from i [] = None"
| "validate_from i (c # cs) =
     (if bc_Label c \<notin> set validLabels then Some (BadLabel i)
      else if flt (vd_Score (bc_Verdict c)) (Fin 0) \<or> flt (Fin 1) (vd_Score (bc_Verdict c)) then Some (BadScore i)
      else if vd_Reason (bc_Verdict c) = [] then Some (EmptyReason i)
      else validate_from (Suc i) cs)"

definition validateLabels :: "labelled_candidate list \<Rightarrow> apply_error option" where
  "validateLabels items = validate_from 0 items"

definition example_of :: "labelled_candidate \<Rightarrow> judge_example" where
  "example_of c = \<lparr> xm_Label = bc_Label c, xm_Alert = bc_Alert c, xm_Verdict = bc_Verdict c \<rparr>"

text \<open>The files of the operator; \<open>dir_of\<close> is \<open>filepath.Dir\<close>.\<close>

record 's tool_files =
  tf_read :: "string \<Rightarrow> 's \<Rightarrow> string + string"
  tf_mkdir :: "string \<Rightarrow> 's \<Rightarrow> string option \<times> 's"
  tf_write :: "string \<Rightarrow> string \<Rightarrow> 's \<Rightarrow> string option \<times> 's"
  tf_dir_of :: "string \<Rightarrow> string"

definition runApply :: "'s tool_files \<Rightarrow> (string \<Rightarrow> labelled_candidate list option) \<Rightarrow> (judge_example list \<Rightarrow> string option) \<Rightarrow> string \<Rightarrow> string
    \<Rightarrow> 's \<Rightarrow> apply_error option \<times> 's" where
  "runApply fs decode encode input out s =
     (case tf_read fs input s of
        Inl e \<Rightarrow> (Some (ReadingInput e), s)
      | Inr raw \<Rightarrow>
          (case decode raw of
             None \<Rightarrow> (Some ParsingInput, s)
           | Some labelled \<Rightarrow>
               if labelled = [] then (Some ZeroRows, s)
               else (case validateLabels labelled of
                  Some e \<Rightarrow> (Some e, s)
                | None \<Rightarrow>
                    (case encode (map example_of labelled) of
                       None \<Rightarrow> (Some EncodingExamples, s)
                     | Some body \<Rightarrow>
                         (let body = body @ [CHR 0x0A];
                              dir = tf_dir_of fs out;
                              (e, s) = (if dir \<noteq> [] \<and> dir \<noteq> ''.'' then tf_mkdir fs dir s else (None, s))
                          in case e of
                               Some m \<Rightarrow> (Some (EnsuringDir m), s)
                             | None \<Rightarrow> (case tf_write fs out body s of
                                 (Some m, s) \<Rightarrow> (Some (WritingOutput m), s) | (None, s) \<Rightarrow> (None, s)))))))"

section \<open>The regression dataset\<close>

definition candidateFromListing :: "listing \<Rightarrow> regression_item" where
  "candidateFromListing l = \<lparr> it_Title = l_title l, it_ItemSpecifics = [], it_ExpectedComponent = l_component_type l,
     it_ExpectedProductKey = l_product_key l \<rparr>"

definition sampled_types :: "component_type list" where
  "sampled_types = [ComponentRAM, ComponentDrive, ComponentServer, ComponentCPU, ComponentNIC, ComponentGPU,
     ComponentWorkstation, ComponentDesktop, ComponentOther]"

definition sample_query :: "int \<Rightarrow> component_type \<Rightarrow> listing_query" where
  "sample_query perComponent ct = \<lparr> lq_ComponentType = Some ct, lq_MinScore = None, lq_MaxScore = None, lq_ProductKey = None,
     lq_SellerMinFB = None, lq_Conditions = [], lq_Limit = perComponent, lq_Offset = 0, lq_OrderBy = ''first_seen_at'' \<rparr>"

fun sample_loop :: "int \<Rightarrow> component_type list \<Rightarrow> db \<Rightarrow> regression_item list \<times> db" where
  "sample_loop n [] db = ([], db)"
| "sample_loop n (ct # cts) db =
     (case ListListings (sample_query n ct) db of
        (Inl e, db) \<Rightarrow> sample_loop n cts db
      | (Inr (ls, n_total), db) \<Rightarrow> (case sample_loop n cts db of (out, db) \<Rightarrow> (map candidateFromListing ls @ out, db)))"

text \<open>A negative capacity is a panic of \<open>make\<close>.\<close>

definition stratifiedSample :: "int \<Rightarrow> db \<Rightarrow> regression_item list option \<times> db" where
  "stratifiedSample perComponent db =
     (if wrap64 (perComponent * int (length sampled_types)) < 0 then (None, db)
      else (case sample_loop perComponent sampled_types db of (out, db) \<Rightarrow> (Some (sort_key it_ExpectedComponent out), db)))"

definition bootstrapRun :: "(string \<Rightarrow> config option) \<Rightarrow> (config \<Rightarrow> db option) \<Rightarrow> (regression_item list \<Rightarrow> 'b option) \<Rightarrow> string
    \<Rightarrow> int \<Rightarrow> 'b tool_outcome" where
  "bootstrapRun load connect encode path perComponent =
     (case load path of
        None \<Rightarrow> ToolFails ''loading config''
      | Some cfg \<Rightarrow>
          (case connect cfg of
             None \<Rightarrow> ToolFails ''connecting to database''
           | Some db \<Rightarrow>
               (case fst (stratifiedSample perComponent db) of
                  None \<Rightarrow> ToolPanics
                | Some candidates \<Rightarrow>
                    if candidates = [] then NothingFound
                    else (case encode candidates of None \<Rightarrow> ToolFails ''encoding JSON'' | Some b \<Rightarrow> Emits b))))"

lemma ListListings_empty: "ListListings q db = (Inr (ls, n), db') \<Longrightarrow> ls = []"
  by (auto simp: ListListings_def Let_def bind_db_def lift_result_def return_db_def scanListingRows_def scan_destinations_def
      baseListingsSelect_def split: prod.splits sum.splits if_splits)

lemma sample_empty: "fst (sample_loop n cts db) = []"
proof (induction cts arbitrary: db)
  case (Cons ct cts)
  obtain r db' where l: "ListListings (sample_query n ct) db = (r, db')" by fastforce
  show ?case
  proof (cases r)
    case (Inr x)
    then obtain ls m where x: "x = (ls, m)" by (cases x) auto
    then have "ls = []" using l Inr ListListings_empty by blast
    then show ?thesis using l Inr x Cons.IH [of db'] by (simp add: case_prod_beta)
  qed (use l Cons.IH [of db'] in simp)
qed simp

text \<open>The dataset tool finds nothing. Whatever the database holds and whatever fails, no candidate is ever
  emitted: every query that matches a listing fails, because the select list lacks a column, and a failing
  query is skipped.\<close>

theorem bootstrap_finds_nothing:
  "bootstrapRun load connect encode path n =
     (case load path of
        None \<Rightarrow> ToolFails ''loading config''
      | Some cfg \<Rightarrow> case connect cfg of
          None \<Rightarrow> ToolFails ''connecting to database''
        | Some db \<Rightarrow> if wrap64 (n * 9) < 0 then ToolPanics else NothingFound)"
proof -
  have "fst (stratifiedSample n db) = (if wrap64 (n * 9) < 0 then None else Some [])" for db
    using sample_empty [of n sampled_types db]
    by (simp add: stratifiedSample_def sampled_types_def case_prod_beta)
  then show ?thesis by (simp add: bootstrapRun_def split: option.split)
qed

section \<open>Uploading the dataset\<close>

text \<open>\<open>obj\<close> makes a JSON object of a string map.\<close>

definition datasetItem :: "(string \<Rightarrow> string) \<Rightarrow> (specs \<Rightarrow> jval) \<Rightarrow> regression_item \<Rightarrow> dataset_item" where
  "datasetItem sha256 obj g = \<lparr> di_ID = TitleHash sha256 (it_Title g),
     di_Input = [(''title'', JStr (it_Title g)), (''item_specifics'', obj (it_ItemSpecifics g))],
     di_ExpectedOutput = [(''component_type'', JStr (it_ExpectedComponent g)), (''product_key'', JStr (it_ExpectedProductKey g))],
     di_Metadata = [(''source'', ''golden_classifications.json'')] \<rparr>"

fun upload_loop :: "'s lf_env \<Rightarrow> lf_http \<Rightarrow> (string \<Rightarrow> string) \<Rightarrow> (specs \<Rightarrow> jval) \<Rightarrow> string \<Rightarrow> regression_item list \<Rightarrow> int \<Rightarrow> 's \<Rightarrow> int \<times> 's" where
  "upload_loop env c sha256 obj datasetID [] uploaded s = (uploaded, s)"
| "upload_loop env c sha256 obj datasetID (g # gs) uploaded s =
     (case HTTPCreateDatasetItem env c datasetID (datasetItem sha256 obj g) s of
        (Some e, s) \<Rightarrow> upload_loop env c sha256 obj datasetID gs uploaded s
      | (None, s) \<Rightarrow> upload_loop env c sha256 obj datasetID gs (uploaded + 1) s)"

datatype upload_error =
    DatasetIDRequired | UploadConfig | LangfuseDisabled | LoadingDataset dataset_error | DatasetEmpty
  | ConstructingClient | NothingUploaded

definition uploadRun :: "'s lf_env \<Rightarrow> (string \<Rightarrow> string) \<Rightarrow> (specs \<Rightarrow> jval) \<Rightarrow> (string \<Rightarrow> config option) \<Rightarrow> (string \<Rightarrow> dataset_error + regression_item list)
    \<Rightarrow> string \<Rightarrow> string \<Rightarrow> string \<Rightarrow> 's \<Rightarrow> upload_error option \<times> 's" where
  "uploadRun env sha256 obj load load_dataset configPath datasetPath datasetID s =
     (if datasetID = [] then (Some DatasetIDRequired, s)
      else case load configPath of
        None \<Rightarrow> (Some UploadConfig, s)
      | Some cfg \<Rightarrow>
          (let lf = obc_Langfuse (cfg_Observability cfg) in
           if \<not> lfc_Enabled lf then (Some LangfuseDisabled, s)
           else case load_dataset datasetPath of
             Inl e \<Rightarrow> (Some (LoadingDataset e), s)
           | Inr dataset \<Rightarrow>
               if dataset = [] then (Some DatasetEmpty, s)
               else case NewHTTPClient (lfc_Endpoint lf) (lfc_PublicKey lf) (lfc_SecretKey lf) [] of
                 Inl e \<Rightarrow> (Some ConstructingClient, s)
               | Inr c \<Rightarrow> (case upload_loop env c sha256 obj datasetID dataset 0 s of
                   (uploaded, s) \<Rightarrow> (if uploaded = 0 then Some NothingUploaded else None, s))))"

text \<open>The items of a run refer to the items that were uploaded, row by row.\<close>

lemma upload_matches_runs:
  "map ri_DatasetItemID (dr_ItemResults (run_annotation sha256 f g datasetID sha dataset r)) = map (di_ID \<circ> datasetItem sha256 obj) dataset"
  by (simp add: run_annotation_def buildDatasetRunItems_def datasetItem_def)

end
