(* ===== verification/Cli.thy ===== *)
theory Cli
  imports ApiLaws
begin

text \<open>
  The commands of \<open>cmd/spt\<close>: each calls the client once and prints its answer as a table, as JSON or as a sentence.
  The layout of columns (\<open>text/tabwriter\<close>), the rendering of floats and times, JSON and the flags' binding are
  parameters; a table is the text that is handed to the column writer.
\<close>

section \<open>Output\<close>

record cli_format =
  cf_align :: "string \<Rightarrow> string"
  cf_fixed :: "nat \<Rightarrow> f64 \<Rightarrow> string"
  cf_time :: "instant \<Rightarrow> string"
  cf_quote :: "string \<Rightarrow> string"

definition newline :: string where "newline = [CHR 0x0A]"
definition tab :: string where "tab = [CHR 0x09]"

definition tab_line :: "string list \<Rightarrow> string" where
  "tab_line cells = Url.join tab cells @ newline"

definition bool_text :: "bool \<Rightarrow> string" where "bool_text b = (if b then ''true'' else ''false'')"

text \<open>Bytes, not characters, are cut; a limit below three is a panic.\<close>

definition truncate_text :: "string \<Rightarrow> nat \<Rightarrow> string" where
  "truncate_text s maxLen = (if length s \<le> maxLen then s else take (maxLen - 3) s @ ''...'')"

definition dollars :: "cli_format \<Rightarrow> f64 \<Rightarrow> string" where
  "dollars fm x = ''$'' @ cf_fixed fm 2 x"

definition printWatchTable :: "cli_format \<Rightarrow> watch list \<Rightarrow> string" where
  "printWatchTable fm ws = cf_align fm
     (tab_line [''ID'', ''NAME'', ''QUERY'', ''TYPE'', ''THRESHOLD'', ''ENABLED'']
      @ concat (map (\<lambda>w. tab_line [w_id w, w_name w, w_search_query w, w_component_type w, itoa (w_score_threshold w),
          bool_text (w_enabled w)]) ws))"

definition printWatchDetail :: "cli_format \<Rightarrow> watch \<Rightarrow> string" where
  "printWatchDetail fm w = cf_align fm
     (tab_line [''ID:'', w_id w] @ tab_line [''Name:'', w_name w] @ tab_line [''Query:'', w_search_query w]
      @ tab_line [''Type:'', w_component_type w] @ tab_line [''Threshold:'', itoa (w_score_threshold w)]
      @ tab_line [''Enabled:'', bool_text (w_enabled w)] @ tab_line [''Category:'', w_category_id w])"

definition printListingsTable :: "cli_format \<Rightarrow> listing list \<Rightarrow> string" where
  "printListingsTable fm ls = cf_align fm
     (tab_line [''ID'', ''TITLE'', ''PRICE'', ''SCORE'', ''TYPE'', ''SELLER'']
      @ concat (map (\<lambda>l. tab_line [l_id l, truncate_text (l_title l) 40, dollars fm (l_price l),
          (case l_score l of None \<Rightarrow> ''-'' | Some n \<Rightarrow> itoa n), l_component_type l, l_seller_name l]) ls))"

definition printListingDetail :: "cli_format \<Rightarrow> listing \<Rightarrow> string" where
  "printListingDetail fm l = cf_align fm
     (tab_line [''ID:'', l_id l] @ tab_line [''eBay ID:'', l_ebay_id l] @ tab_line [''Title:'', l_title l]
      @ tab_line [''Price:'', dollars fm (l_price l) @ '' '' @ l_currency l]
      @ tab_line [''Unit Price:'', dollars fm (UnitPrice l)] @ tab_line [''Type:'', l_component_type l]
      @ tab_line [''Condition:'', l_condition_norm l]
      @ tab_line [''Seller:'', l_seller_name l @ '' ('' @ itoa (l_seller_feedback l) @ '', '' @ cf_fixed fm 1 (l_seller_feedback_pct l) @ ''%)'']
      @ (case l_score l of None \<Rightarrow> [] | Some n \<Rightarrow> tab_line [''Score:'', itoa n @ ''/100''])
      @ tab_line [''URL:'', l_item_url l] @ tab_line [''Product Key:'', l_product_key l])"

definition printBaselinesTable :: "cli_format \<Rightarrow> price_baseline list \<Rightarrow> string" where
  "printBaselinesTable fm bs = cf_align fm
     (tab_line [''PRODUCT KEY'', ''SAMPLES'', ''P10'', ''P25'', ''P50'', ''P75'', ''P90'', ''MEAN'']
      @ concat (map (\<lambda>b. tab_line [pb_product_key b, itoa (pb_sample_count b), dollars fm (pb_p10 b), dollars fm (pb_p25 b),
          dollars fm (pb_p50 b), dollars fm (pb_p75 b), dollars fm (pb_p90 b), dollars fm (pb_mean b)]) bs))"

definition printBaselineDetail :: "cli_format \<Rightarrow> price_baseline \<Rightarrow> string" where
  "printBaselineDetail fm b = cf_align fm
     (tab_line [''Product Key:'', pb_product_key b] @ tab_line [''Samples:'', itoa (pb_sample_count b)]
      @ tab_line [''P10:'', dollars fm (pb_p10 b)] @ tab_line [''P25:'', dollars fm (pb_p25 b)]
      @ tab_line [''P50:'', dollars fm (pb_p50 b)] @ tab_line [''P75:'', dollars fm (pb_p75 b)]
      @ tab_line [''P90:'', dollars fm (pb_p90 b)] @ tab_line [''Mean:'', dollars fm (pb_mean b)])"

definition printJobRunsTable :: "cli_format \<Rightarrow> job_run list \<Rightarrow> string" where
  "printJobRunsTable fm rs = cf_align fm
     (tab_line [''JOB'', ''STATUS'', ''STARTED'', ''COMPLETED'', ''ERROR'']
      @ concat (map (\<lambda>r. tab_line [jr_job_name r, jr_status r, cf_time fm (jr_started_at r),
          (case jr_completed_at r of None \<Rightarrow> ''-'' | Some t \<Rightarrow> cf_time fm t), truncate_text (jr_error_text r) 40]) rs))"

section \<open>Running a command\<close>

datatype ('b, 'e) cli_error = ClientFailed "'b api_error" | ArgumentsWrong 'e | EncodingFailed

text \<open>What a command does with the answer of the client: the JSON form, when it is asked for, comes first. An encoder of
  None means that the command has no JSON form.\<close>

definition answered :: "bool \<Rightarrow> ('a \<Rightarrow> string option) option \<Rightarrow> ('a \<Rightarrow> string) \<Rightarrow> ('b api_error + 'a) \<times> 's \<Rightarrow> (('b, 'e) cli_error + string) \<times> 's" where
  "answered json enc print r =
     (case r of
        (Inl e, s) \<Rightarrow> (Inl (ClientFailed e), s)
      | (Inr x, s) \<Rightarrow>
          (case (json, enc) of
             (True, Some f) \<Rightarrow> (case f x of None \<Rightarrow> (Inl EncodingFailed, s) | Some t \<Rightarrow> (Inr t, s))
           | _ \<Rightarrow> (Inr (print x), s)))"

definition or_sentence :: "string \<Rightarrow> ('a list \<Rightarrow> string) \<Rightarrow> 'a list \<Rightarrow> string" where
  "or_sentence msg print xs = (if xs = [] then msg @ newline else print xs)"

definition jsonOutput :: "string \<Rightarrow> bool" where "jsonOutput output = (output = ''json'')"

text \<open>The name of the server comes from the flag, the environment or the file.\<close>

definition newClient :: "string \<Rightarrow> ('b api_request \<Rightarrow> 's \<Rightarrow> 'b api_answer \<times> 's) \<Rightarrow> ('b \<Rightarrow> bool) \<Rightarrow> ('b, 's) api_client" where
  "newClient server = NewApiClient server"

section \<open>Watches\<close>

definition watchListCmd where
  "watchListCmd c dec enc fm output s =
     answered (jsonOutput output) (Some enc) (or_sentence ''No watches found.'' (printWatchTable fm)) (clientListWatches c dec s)"

definition watchGetCmd where
  "watchGetCmd c dec enc fm output i s =
     answered (jsonOutput output) (Some enc) (printWatchDetail fm) (clientGetWatch c dec i s)"

record watch_create_flags =
  cw_name :: string
  cw_query :: string
  cw_type :: string
  cw_threshold :: int
  cw_filters :: "string list"

datatype create_error = NameAndQueryRequired | ParsingFilters filter_error

definition new_watch :: "watch_create_flags \<Rightarrow> watch_filters \<Rightarrow> watch" where
  "new_watch f fs = zero_watch\<lparr> w_name := cw_name f, w_search_query := cw_query f, w_component_type := cw_type f,
     w_score_threshold := cw_threshold f, w_filters := fs, w_enabled := True \<rparr>"

definition watchCreateCmd :: "('b, 's) api_client \<Rightarrow> (watch_body \<Rightarrow> 'b option) \<Rightarrow> ('b \<Rightarrow> watch option) \<Rightarrow> (watch \<Rightarrow> string option)
    \<Rightarrow> string \<Rightarrow> watch_create_flags \<Rightarrow> 's \<Rightarrow> (('b, create_error) cli_error + string) \<times> 's" where
  "watchCreateCmd c wenc dec enc output f s =
     (if cw_name f = [] \<or> cw_query f = [] then (Inl (ArgumentsWrong NameAndQueryRequired), s)
      else case ParseFilters (cw_filters f) of
        Inl e \<Rightarrow> (Inl (ArgumentsWrong (ParsingFilters e)), s)
      | Inr fs \<Rightarrow>
          answered (jsonOutput output) (Some enc)
            (\<lambda>w. ''Watch created: '' @ w_name w @ '' ('' @ w_id w @ '')'' @ newline)
            (clientCreateWatch c wenc dec (new_watch f fs) s))"

definition runWatchSetEnabled where
  "runWatchSetEnabled c enc i enabled s =
     answered False None (\<lambda>u. ''Watch '' @ i @ '' '' @ (if enabled then ''enabled'' else ''disabled'') @ ''.'' @ newline)
       (clientSetWatchEnabled c enc i enabled s)"

definition watchEnableCmd where "watchEnableCmd c enc i = runWatchSetEnabled c enc i True"
definition watchDisableCmd where "watchDisableCmd c enc i = runWatchSetEnabled c enc i False"

definition watchDeleteCmd where
  "watchDeleteCmd c i s = answered False None (\<lambda>u. ''Watch '' @ i @ '' deleted.'' @ newline) (clientDeleteWatch c i s)"

section \<open>Listings, baselines and jobs\<close>

definition listingsListCmd where
  "listingsListCmd c dec enc fm output p s =
     answered (jsonOutput output) (Some enc)
       (\<lambda>(ls, total). if ls = [] then ''No listings found.'' @ newline
          else ''Showing '' @ itoa (int (length ls)) @ '' of '' @ itoa total @ '' listings'' @ newline @ newline @ printListingsTable fm ls)
       (clientListListings c dec p s)"

definition listingsGetCmd where
  "listingsGetCmd c dec enc fm output z i s =
     answered (jsonOutput output) (Some enc) (printListingDetail fm) (clientGetListing c dec z i s)"

definition baselinesListCmd where
  "baselinesListCmd c dec enc fm output s =
     answered (jsonOutput output) (Some enc) (or_sentence ''No baselines found.'' (printBaselinesTable fm)) (clientListBaselines c dec s)"

definition baselinesGetCmd where
  "baselinesGetCmd c dec enc fm output z k s =
     answered (jsonOutput output) (Some enc) (printBaselineDetail fm) (clientGetBaseline c dec z k s)"

definition baselinesRefreshCmd where
  "baselinesRefreshCmd c s = answered False None (\<lambda>u. ''Baseline refresh completed.'' @ newline) (clientRefreshBaselines c s)"

definition ingestCmd where
  "ingestCmd c s = answered False None (\<lambda>u. ''Ingestion triggered.'' @ newline) (clientTriggerIngestion c s)"

definition rescoreCmd where
  "rescoreCmd c dec s = answered False None (\<lambda>n. ''Rescored '' @ itoa n @ '' listings.'' @ newline) (clientRescore c dec s)"

definition reextractCmd where
  "reextractCmd c enc dec ct n s =
     answered False None (\<lambda>k. ''Re-extracted '' @ itoa k @ '' listings.'' @ newline) (clientReExtract c enc dec ct n s)"

definition jobsListCmd where
  "jobsListCmd c dec enc fm output s =
     answered (jsonOutput output) (Some enc) (or_sentence ''No job runs found.'' (printJobRunsTable fm)) (clientListJobs c dec s)"

definition jobsHistoryCmd where
  "jobsHistoryCmd c dec enc fm output nm s =
     answered (jsonOutput output) (Some enc)
       (or_sentence (''No runs found for job '' @ cf_quote fm nm @ ''.'') (printJobRunsTable fm)) (clientGetJobHistory c dec nm s)"

text \<open>The dash is U+2014.\<close>

definition judgeRunCmd where
  "judgeRunCmd c empty_object dec s =
     answered False None
       (\<lambda>(n, exhausted). ''Judged '' @ itoa n @ '' alerts.'' @ newline
          @ (if exhausted then ''Daily budget exhausted '' @ [CHR 0xE2, CHR 0x80, CHR 0x94]
               @ '' remaining alerts will be picked up next run.'' @ newline else []))
       (clientRunJudge c empty_object dec s)"

section \<open>Search and extraction\<close>

text \<open>These two commands do not use the client: the name of the server is taken as it is, every status but 200 is an
  error, and an answer that is not JSON is printed as it is.\<close>

datatype 'b raw_error = EncodingRequest | CreatingRequest | CallingApi string | ReadingResponse | ApiReturned int 'b

definition raw_post :: "('b api_request \<Rightarrow> 's \<Rightarrow> 'b api_answer \<times> 's) \<Rightarrow> ('b \<Rightarrow> string option) \<Rightarrow> ('b \<Rightarrow> string) \<Rightarrow> string \<Rightarrow> 'b option \<Rightarrow> 's
    \<Rightarrow> ('b raw_error + string) \<times> 's" where
  "raw_post http indent verbatim url payload s =
     (case payload of
        None \<Rightarrow> (Inl EncodingRequest, s)
      | Some b \<Rightarrow>
          (case http \<lparr> aq_method = ''POST'', aq_url = url, aq_body = Some b \<rparr> s of
             (NotCreated, s) \<Rightarrow> (Inl CreatingRequest, s)
           | (NotSent e, s) \<Rightarrow> (Inl (CallingApi e), s)
           | (BodyBroken, s) \<Rightarrow> (Inl ReadingResponse, s)
           | (ApiAnswer status body, s) \<Rightarrow>
               if status \<noteq> 200 then (Inl (ApiReturned status body), s)
               else (Inr ((case indent body of None \<Rightarrow> verbatim body | Some t \<Rightarrow> t) @ newline), s)))"

definition runSearch where
  "runSearch http indent verbatim enc server query n s = raw_post http indent verbatim (server @ ''/api/v1/search'') (enc (query :: string) (n :: int)) s"

definition runExtract where
  "runExtract http indent verbatim enc server title s = raw_post http indent verbatim (server @ ''/api/v1/extract'') (enc (title :: string)) s"

section \<open>What the commands guarantee\<close>

text \<open>A cell of limited width is a prefix of its text, cut to the width.\<close>

lemma truncate_text_bounded:
  "3 \<le> n \<Longrightarrow> length (truncate_text s n) \<le> n \<and> (length s \<le> n \<longrightarrow> truncate_text s n = s)"
  by (auto simp: truncate_text_def)

text \<open>Cutting bytes can cut a character: the result need not be UTF-8 although the text is.\<close>

lemma truncate_text_cuts_rune:
  "truncate_text (replicate 36 (CHR ''a'') @ [CHR 0xE2, CHR 0x80, CHR 0x94] @ ''bc'') 40
    = replicate 36 (CHR ''a'') @ [CHR 0xE2] @ ''...''"
  by code_simp

text \<open>Without a name or a query, or with a filter that does not parse, nothing is sent.\<close>

lemma create_sends_nothing:
  "cw_name f = [] \<or> cw_query f = [] \<or> (\<exists>e. ParseFilters (cw_filters f) = Inl e) \<Longrightarrow>
    \<exists>e. watchCreateCmd c wenc dec enc output f s = (Inl (ArgumentsWrong e), s)"
  by (auto simp: watchCreateCmd_def)

section \<open>Creating a watch\<close>

text \<open>The route that creates watches, as the framework serves it.\<close>

definition create_server :: "'b json_codec \<Rightarrow> (db_error \<Rightarrow> string) \<Rightarrow> string \<Rightarrow> 'b api_request \<Rightarrow> db \<Rightarrow> 'b api_answer \<times> db" where
  "create_server K et base r db =
     (if aq_url r = base @ ''/api/v1/watches'' \<and> aq_method r = ''POST''
      then (case Option.bind (aq_body r) (jc_unbody K) of
              None \<Rightarrow> (ApiAnswer 422 (jc_error K []), db)
            | Some b \<Rightarrow> map_prod (watch_answer K) id (handleCreateWatch et b db))
      else (ApiAnswer 404 (jc_error K []), db))"

definition create_command :: "'b json_codec \<Rightarrow> (db_error \<Rightarrow> string) \<Rightarrow> string \<Rightarrow> watch_create_flags \<Rightarrow> db
    \<Rightarrow> (('b, create_error) cli_error + string) \<times> db" where
  "create_command K et base f =
     watchCreateCmd (newClient base (create_server K et (trim_right (CHR ''/'') base)) (jc_blank K)) (jc_body K) (jc_unwatch K)
       (\<lambda>w. None) ''table'' f"

text \<open>The watch the arguments ask for, and the row it becomes.\<close>

definition requested :: "watch_create_flags \<Rightarrow> watch option" where
  "requested f =
     (if cw_name f = [] \<or> cw_query f = [] then None
      else case ParseFilters (cw_filters f) of Inl e \<Rightarrow> None | Inr fs \<Rightarrow> Some (new_watch f fs))"

definition created_row :: "watch \<Rightarrow> db \<Rightarrow> watch" where
  "created_row w db = w\<lparr> w_id := fresh db, w_last_polled_at := None, w_created_at := now db, w_updated_at := now db \<rparr>"

lemma create_watch_accepted:
  assumes "fault_free (db_server db)" and "sv_filters (db_server db) (w_filters w) = Some (w_filters w)"
    and "valid_component_type (w_component_type w)" and "w_id w = []"
  shows "\<exists>db'. handleCreateWatch et (client_watch_request w) db = (Reply (created_row w db), db')
    \<and> db_watches db' = db_watches db @ [created_row w db]"
  using assms by (simp add: handleCreateWatch_def reply_of_def CreateWatch_def run_fault_free queryCreateWatch_def bind_db_def
      return_db_def client_watch_request_def body_watch_def created_row_def Let_def)

lemma create_watch_refused:
  assumes "fault_free (db_server db)" and "sv_filters (db_server db) (w_filters w) = Some (w_filters w)"
    and "\<not> valid_component_type (w_component_type w)"
  shows "\<exists>db'. handleCreateWatch et (client_watch_request w) db = (HumaError 500 (''creating watch: '' @ et CheckViolation), db')
    \<and> db_watches db' = db_watches db"
  using assms by (simp add: handleCreateWatch_def reply_of_def CreateWatch_def run_fault_free queryCreateWatch_def bind_db_def
      client_watch_request_def body_watch_def)

lemma create_call:
  "clientCreateWatch (newClient base (create_server K et (trim_right (CHR ''/'') base)) (jc_blank K)) (jc_body K) dec w db =
     (case jc_body K (client_watch_request w) of None \<Rightarrow> (Inl MarshalFailed, db)
      | Some x \<Rightarrow> case jc_unbody K x of None \<Rightarrow> (Inl (ApiError 422 (jc_error K [])), db)
        | Some b \<Rightarrow> case handleCreateWatch et b db of (r, db') \<Rightarrow>
       (case watch_answer K r of ApiAnswer st b \<Rightarrow> if 400 \<le> st then Inl (ApiError st b)
          else if jc_blank K b then Inr zero_watch else case dec b of None \<Rightarrow> Inl DecodeFailed | Some x \<Rightarrow> Inr x, db'))"
  by (simp add: clientCreateWatch_def api_post_def api_do_def newClient_def NewApiClient_def create_server_def
      watch_answer_def split: prod.split reply.split option.split)


definition ram_flags :: watch_create_flags where
  "ram_flags = \<lparr> cw_name = ''ram'', cw_query = ''DDR4'', cw_type = ''ram'', cw_threshold = 75, cw_filters = [''price_min=10'', ''attr:ddr=eq:ddr4''] \<rparr>"


end
