(* ===== verification/Metrics.thy ===== *)
theory Metrics
  imports GoStrings Float64
begin

text \<open>
  The Prometheus metrics of the server (\<open>internal/metrics\<close>): their declarations, which are registered when the program
  starts, the adapters of the judge and the Langfuse buffer, and the list of names that the dashboard generator knows
  (\<open>tools/dashgen/config.go\<close>). The registry of the Prometheus library is modelled by the conditions under which it panics.
\<close>

section \<open>Declarations\<close>

text \<open>Bucket bounds are those of the library, linear, or written out.\<close>

datatype metric_buckets = DefBuckets | LinearBuckets rat rat nat | Buckets "rat list"

datatype metric_kind = Counter | Gauge | Histogram metric_buckets

record metric_decl =
  md_kind :: metric_kind
  md_name :: string
  md_help :: string
  md_labels :: "string list"

definition metric :: "metric_kind \<Rightarrow> string \<Rightarrow> string \<Rightarrow> string list \<Rightarrow> metric_decl" where
  "metric k n h ls = \<lparr> md_kind = k, md_name = n, md_help = h, md_labels = ls \<rparr>"

definition metric_namespace :: string where "metric_namespace = ''spt''"

definition http_metrics :: "metric_decl list" where
  "http_metrics =
    [metric (Histogram DefBuckets) ''http_request_duration_seconds''
     ''Duration of HTTP requests in seconds.'' [''method'', ''path'', ''status''],
     metric Counter ''http_requests_total''
     ''Total number of HTTP requests.'' [''method'', ''path'', ''status'']]"

definition health_metrics :: "metric_decl list" where
  "health_metrics =
    [metric Gauge ''healthz_up''
     ''Health check status (1 = ok, 0 = failing).'' [],
     metric Gauge ''readyz_up''
     ''Readiness check status (1 = ready, 0 = not ready).'' []]"

definition ingestion_metrics :: "metric_decl list" where
  "ingestion_metrics =
    [metric Counter ''ingestion_listings_total''
     ''Total number of listings ingested.'' [],
     metric Counter ''ingestion_errors_total''
     ''Total number of ingestion errors.'' [],
     metric (Histogram DefBuckets) ''ingestion_duration_seconds''
     ''Duration of ingestion cycles in seconds.'' []]"

definition extraction_metrics :: "metric_decl list" where
  "extraction_metrics =
    [metric (Histogram DefBuckets) ''extraction_duration_seconds''
     ''Duration of LLM extraction calls in seconds.'' [],
     metric Counter ''extraction_failures_total''
     ''Total number of extraction failures.'' []]"

definition token_metrics :: "metric_decl list" where
  "token_metrics =
    [metric Counter ''extraction_tokens_total''
     ''Total LLM tokens billed by extraction calls, labeled by backend, model, and direction (input/output). Includes tokens from calls whose response failed parse or validation.'' [''backend'', ''model'', ''direction''],
     metric (Histogram (Buckets [50, 100, 250, 500, 1000, 2000, 5000, 10000, 20000])) ''extraction_tokens_per_request''
     ''Distribution of total tokens (input+output) per LLM call, by backend and model.'' [''backend'', ''model'']]"

definition quality_metrics :: "metric_decl list" where
  "quality_metrics =
    [metric Gauge ''listings_incomplete_extraction''
     ''Listings with incomplete extraction data (e.g., missing speed for RAM).'' [],
     metric Gauge ''extraction_queue_depth''
     ''Number of pending extraction jobs in the queue.'' []]"

definition scoring_metrics :: "metric_decl list" where
  "scoring_metrics =
    [metric (Histogram (LinearBuckets 0 10 11)) ''scoring_distribution''
     ''Distribution of computed listing scores.'' [],
     metric Counter ''scoring_with_baseline_total''
     ''Total listings scored with a warm baseline (>= MinBaselineSamples).'' [],
     metric Counter ''scoring_cold_start_total''
     ''Total listings scored without a warm baseline (cold start neutral price).'' []]"

definition baseline_metrics :: "metric_decl list" where
  "baseline_metrics =
    [metric Gauge ''baselines_total''
     ''Total number of price baselines.'' [],
     metric Gauge ''baselines_cold''
     ''Baselines with fewer than MinBaselineSamples (cold start).'' [],
     metric Gauge ''baselines_warm''
     ''Baselines with >= MinBaselineSamples (sufficient for price scoring).'' [],
     metric Gauge ''product_keys_no_baseline''
     ''Distinct product keys in listings without any price baseline.'' []]"

definition ebay_metrics :: "metric_decl list" where
  "ebay_metrics =
    [metric Counter ''ebay_api_calls_total''
     ''Total cumulative eBay API calls.'' [],
     metric Counter ''ebay_daily_limit_hits_total''
     ''Total number of times the daily eBay API limit was reached.'' []]"

definition quota_metrics :: "metric_decl list" where
  "quota_metrics =
    [metric Gauge ''ebay_rate_limit''
     ''Total eBay API calls allowed in the current quota window.'' [],
     metric Gauge ''ebay_rate_remaining''
     ''eBay API calls remaining in the current quota window.'' [],
     metric Gauge ''ebay_rate_reset_timestamp''
     ''Unix epoch seconds when the eBay API quota window resets.'' []]"

definition alert_metrics :: "metric_decl list" where
  "alert_metrics =
    [metric Counter ''alerts_fired_total''
     ''Total number of alerts fired.'' [],
     metric Counter ''alerts_fired_by_watch''
     ''Alerts fired broken down by watch name. Cardinality bounded by number of watches (typically <20).'' [''watch''],
     metric Counter ''alerts_created_total''
     ''Alerts inserted into the alerts table by the engine, labeled by component type. Increments before notification delivery so it reflects engine decisions, not Discord outcomes.'' [''component_type''],
     metric Counter ''notification_failures_total''
     ''Total number of notification send failures.'' []]"

definition notification_metrics :: "metric_decl list" where
  "notification_metrics =
    [metric (Histogram (Buckets [1/10, 1/4, 1/2, 1, 2, 5, 10])) ''notification_duration_seconds''
     ''Discord webhook HTTP POST latency in seconds.'' [],
     metric Gauge ''notification_last_success_timestamp''
     ''Unix epoch of the last successful notification delivery.'' [],
     metric Gauge ''notification_last_failure_timestamp''
     ''Unix epoch of the last notification delivery failure.'' []]"

definition state_metrics :: "metric_decl list" where
  "state_metrics =
    [metric Gauge ''watches_total''
     ''Total number of watches.'' [],
     metric Gauge ''watches_enabled''
     ''Number of enabled watches.'' [],
     metric Gauge ''listings_total''
     ''Total listings in the database.'' [],
     metric Gauge ''listings_unextracted''
     ''Listings without LLM extraction.'' [],
     metric Gauge ''listings_unscored''
     ''Listings without a computed score.'' [],
     metric Gauge ''alerts_pending''
     ''Alerts not yet sent as notifications.'' []]"

definition scheduler_metrics :: "metric_decl list" where
  "scheduler_metrics =
    [metric Gauge ''ingestion_last_success_timestamp''
     ''Unix epoch of the last successful ingestion cycle.'' [],
     metric Gauge ''baseline_last_refresh_timestamp''
     ''Unix epoch of the last successful baseline refresh.'' []]"

definition review_metrics :: "metric_decl list" where
  "review_metrics =
    [metric Counter ''alerts_dismissed_total''
     ''Total number of alerts dismissed via the alert review UI.'' [],
     metric (Histogram (Buckets [1/1000, 1/200, 1/100, 1/20, 1/10, 1/2, 1, 5])) ''alerts_query_duration_seconds''
     ''Latency of alert review store queries by operation.'' [''query''],
     metric Gauge ''alerts_table_rows''
     ''Total alerts matching the most recent list query (after filters).'' [],
     metric Counter ''notification_attempts_inserted_total''
     ''notification_attempts rows inserted, labeled by outcome.'' [''result'']]"

definition discord_metrics :: "metric_decl list" where
  "discord_metrics =
    [metric Gauge ''discord_rate_limit_remaining''
     ''Last observed X-RateLimit-Remaining for the Discord webhook bucket.'' [],
     metric Counter ''discord_rate_limit_waits_total''
     ''Number of times we slept before posting to wait out a Discord bucket reset.'' [],
     metric Counter ''discord_429_total''
     ''Discord 429 responses by global flag.'' [''global''],
     metric Counter ''discord_chunks_sent_total''
     ''Total chunks (one HTTP POST each) sent to Discord webhooks.'' []]"

definition langfuse_metrics :: "metric_decl list" where
  "langfuse_metrics =
    [metric Gauge ''langfuse_buffer_depth''
     ''Current depth of the Langfuse async write buffer.'' [],
     metric Counter ''langfuse_buffer_drops_total''
     ''Records dropped because the Langfuse async buffer was full at enqueue time.'' [],
     metric Counter ''langfuse_writes_total''
     ''Langfuse drain-goroutine write outcomes by result (success or error).'' [''result''],
     metric (Histogram DefBuckets) ''langfuse_write_duration_seconds''
     ''End-to-end latency of a single Langfuse write from drain queue to HTTP response.'' []]"

definition judge_metrics :: "metric_decl list" where
  "judge_metrics =
    [metric Counter ''judge_evaluations_total''
     ''Number of alerts evaluated by the LLM-as-judge worker, bucketed by verdict (deal/edge/noise).'' [''verdict''],
     metric (Histogram (Buckets [1/10, 1/5, 3/10, 2/5, 1/2, 3/5, 7/10, 4/5, 9/10, 1])) ''judge_score''
     ''Distribution of LLM-as-judge quality scores, partitioned by component type.'' [''component_type''],
     metric Counter ''judge_cost_usd_total''
     ''Cumulative USD cost of LLM-as-judge calls, per model.'' [''model''],
     metric Counter ''judge_budget_exhausted_total''
     ''Number of judge ticks that hit the configured daily USD budget cap.'' []]"

definition all_metrics :: "metric_decl list" where
  "all_metrics = http_metrics @ health_metrics @ ingestion_metrics @ extraction_metrics @ token_metrics @ quality_metrics
     @ scoring_metrics @ baseline_metrics @ ebay_metrics @ quota_metrics @ alert_metrics @ notification_metrics
     @ state_metrics @ scheduler_metrics @ review_metrics @ discord_metrics @ langfuse_metrics @ judge_metrics"

section \<open>Registration\<close>

definition fq_name :: "metric_decl \<Rightarrow> string" where
  "fq_name m = metric_namespace @ ''_'' @ md_name m"

fun increasing :: "rat list \<Rightarrow> bool" where
  "increasing (x # y # ys) = (x < y \<and> increasing (y # ys))"
| "increasing _ = True"

fun good_buckets :: "metric_kind \<Rightarrow> bool" where
  "good_buckets (Histogram (LinearBuckets start width n)) = (0 < n \<and> 0 < width)"
| "good_buckets (Histogram (Buckets bs)) = increasing bs"
| "good_buckets _ = True"

text \<open>A letter, a digit or an underscore.\<close>

definition name_char :: "char \<Rightarrow> bool" where
  "name_char c \<longleftrightarrow> (let n = (of_char c :: int) in 97 \<le> n \<and> n \<le> 122 \<or> n = 95 \<or> 48 \<le> n \<and> n \<le> 57 \<or> 65 \<le> n \<and> n \<le> 90)"

definition starts_with_digit :: "string \<Rightarrow> bool" where
  "starts_with_digit s \<longleftrightarrow> (case s of [] \<Rightarrow> False | c # cs \<Rightarrow> (let n = (of_char c :: int) in 48 \<le> n \<and> n \<le> 57))"

definition good_label :: "metric_kind \<Rightarrow> string \<Rightarrow> bool" where
  "good_label k l \<longleftrightarrow> l \<noteq> [] \<and> \<not> starts_with_digit l \<and> list_all name_char l \<and> \<not> has_prefix l ''__''
     \<and> (case k of Histogram b \<Rightarrow> l \<noteq> ''le'' | _ \<Rightarrow> True)"

definition good_metric :: "metric_decl \<Rightarrow> bool" where
  "good_metric m \<longleftrightarrow> list_all name_char (md_name m) \<and> md_name m \<noteq> [] \<and> distinct (md_labels m)
     \<and> list_all (good_label (md_kind m)) (md_labels m) \<and> good_buckets (md_kind m)"

text \<open>\<open>promauto\<close> registers each metric when its package is initialised; None is a panic, which ends the program before
  \<open>main\<close>.\<close>

fun register_all :: "metric_decl list \<Rightarrow> string list \<Rightarrow> string list option" where
  "register_all [] reg = Some reg"
| "register_all (m # ms) reg =
     (if \<not> good_metric m \<or> fq_name m \<in> set reg then None else register_all ms (reg @ [fq_name m]))"

section \<open>Adapters\<close>

text \<open>A sample is addressed by the metric and the values of its labels; None is a panic: a wrong number of label values,
  or a counter that is decreased.\<close>

datatype sample_op = AddTo f64 | SetTo f64 | Observe f64

type_synonym samples = "(string \<times> string list \<times> sample_op) list"

definition find_metric :: "string \<Rightarrow> metric_decl option" where
  "find_metric n = find (\<lambda>m. md_name m = n) all_metrics"

definition emit_sample :: "string \<Rightarrow> string list \<Rightarrow> sample_op \<Rightarrow> samples \<Rightarrow> samples option" where
  "emit_sample n vs op s =
     (case find_metric n of
        None \<Rightarrow> None
      | Some m \<Rightarrow>
          if length vs \<noteq> length (md_labels m) then None
          else (case (md_kind m, op) of
                  (Counter, AddTo x) \<Rightarrow> if flt x (Fin 0) then None else Some (s @ [(n, vs, op)])
                | (Gauge, AddTo x) \<Rightarrow> Some (s @ [(n, vs, op)])
                | (Gauge, SetTo x) \<Rightarrow> Some (s @ [(n, vs, op)])
                | (Histogram b, Observe x) \<Rightarrow> Some (s @ [(n, vs, op)])
                | _ \<Rightarrow> None))"

definition RecordVerdict :: "string \<Rightarrow> samples \<Rightarrow> samples option" where
  "RecordVerdict v = emit_sample ''judge_evaluations_total'' [v] (AddTo (Fin 1))"

definition RecordScore :: "string \<Rightarrow> f64 \<Rightarrow> samples \<Rightarrow> samples option" where
  "RecordScore componentType score = emit_sample ''judge_score'' [componentType] (Observe score)"

definition RecordCost :: "string \<Rightarrow> f64 \<Rightarrow> samples \<Rightarrow> samples option" where
  "RecordCost model costUSD = emit_sample ''judge_cost_usd_total'' [model] (AddTo costUSD)"

definition RecordBudgetExhausted :: "samples \<Rightarrow> samples option" where
  "RecordBudgetExhausted = emit_sample ''judge_budget_exhausted_total'' [] (AddTo (Fin 1))"

definition SetDepth :: "int \<Rightarrow> samples \<Rightarrow> samples option" where
  "SetDepth depth = emit_sample ''langfuse_buffer_depth'' [] (SetTo (f64_of_int depth))"

definition RecordDrop :: "samples \<Rightarrow> samples option" where
  "RecordDrop = emit_sample ''langfuse_buffer_drops_total'' [] (AddTo (Fin 1))"

definition RecordWrite :: "bool \<Rightarrow> samples \<Rightarrow> samples option" where
  "RecordWrite success = emit_sample ''langfuse_writes_total'' [if success then ''success'' else ''error''] (AddTo (Fin 1))"

definition ObserveWriteDuration :: "f64 \<Rightarrow> samples \<Rightarrow> samples option" where
  "ObserveWriteDuration seconds = emit_sample ''langfuse_write_duration_seconds'' [] (Observe seconds)"

section \<open>The dashboard generator's names\<close>

definition KnownMetrics :: "string list" where
  "KnownMetrics =
    [''spt_http_request_duration_seconds'', ''spt_http_requests_total'', ''spt_healthz_up'',
     ''spt_readyz_up'', ''spt_ingestion_listings_total'', ''spt_ingestion_errors_total'',
     ''spt_ingestion_duration_seconds'', ''spt_extraction_duration_seconds'',
     ''spt_extraction_failures_total'', ''spt_extraction_tokens_total'',
     ''spt_extraction_tokens_per_request'', ''spt_scoring_distribution'',
     ''spt_scoring_with_baseline_total'', ''spt_scoring_cold_start_total'', ''spt_ebay_api_calls_total'',
     ''spt_ebay_daily_limit_hits_total'', ''spt_ebay_rate_limit'', ''spt_ebay_rate_remaining'',
     ''spt_ebay_rate_reset_timestamp'', ''spt_alerts_fired_total'', ''spt_alerts_fired_by_watch'',
     ''spt_alerts_created_total'', ''spt_notification_failures_total'', ''spt_alerts_dismissed_total'',
     ''spt_alerts_query_duration_seconds'', ''spt_alerts_table_rows'',
     ''spt_notification_attempts_inserted_total'', ''spt_judge_evaluations_total'', ''spt_judge_score'',
     ''spt_judge_cost_usd_total'', ''spt_judge_budget_exhausted_total'',
     ''spt_notification_duration_seconds'', ''spt_notification_last_success_timestamp'',
     ''spt_notification_last_failure_timestamp'', ''spt_watches_total'', ''spt_watches_enabled'',
     ''spt_listings_total'', ''spt_listings_unextracted'', ''spt_listings_unscored'', ''spt_alerts_pending'',
     ''spt_scheduler_next_ingestion_timestamp'', ''spt_scheduler_next_baseline_timestamp'',
     ''spt_ingestion_last_success_timestamp'', ''spt_baseline_last_refresh_timestamp'',
     ''spt_baselines_total'', ''spt_baselines_cold'', ''spt_baselines_warm'',
     ''spt_product_keys_no_baseline'', ''spt:http_requests:rate5m'', ''spt:http_errors:rate5m'',
     ''spt:ingestion_listings:rate5m'', ''spt:ingestion_errors:rate5m'', ''spt:extraction_failures:rate5m'',
     ''spt:extraction_tokens_input:rate5m'', ''spt:extraction_tokens_output:rate5m'',
     ''spt:extraction_tokens_total:rate5m'', ''spt:extraction_tokens_per_request:p95'',
     ''spt:ebay_api_calls:rate5m'', ''spt:notification_duration:p95_5m'', ''up'',
     ''process_start_time_seconds'']"

record dashgen_config =
  dg_OutputDir :: string
  dg_DashboardEnabled :: bool
  dg_RulesEnabled :: bool

definition DefaultConfig :: dashgen_config where
  "DefaultConfig = \<lparr> dg_OutputDir = ''../../deploy'', dg_DashboardEnabled = True, dg_RulesEnabled = True \<rparr>"

definition ValidateDashgen :: "dashgen_config \<Rightarrow> string option" where
  "ValidateDashgen c =
     (if dg_OutputDir c = [] then Some ''output directory must be set''
      else if \<not> dg_DashboardEnabled c \<and> \<not> dg_RulesEnabled c then Some ''at least one of dashboard or rules must be enabled''
      else None)"

section \<open>What holds\<close>

text \<open>Registration succeeds for admissible metrics with distinct names.\<close>

lemma register_all_ok:
  "list_all good_metric ms \<Longrightarrow> distinct (reg @ map fq_name ms) \<Longrightarrow> register_all ms reg = Some (reg @ map fq_name ms)"
  by (induction ms arbitrary: reg) auto

text \<open>Distinct codes make distinct names.\<close>

definition name_code :: "string \<Rightarrow> int" where
  "name_code s = fold (\<lambda>c n. 3 * n + of_char c) s 0"

lemma distinct_codes: "distinct (map (name_code \<circ> md_name) ms) \<Longrightarrow> distinct (map fq_name ms)"
  by (induction ms) (auto simp: fq_name_def image_iff)

lemma all_names_distinct: "distinct (map (name_code \<circ> md_name) all_metrics)"
  by code_simp

lemma all_metrics_good: "list_all good_metric all_metrics"
  by code_simp

text \<open>Registering all metrics of the program does not panic: names are distinct and well formed, labels and bucket bounds
  are admissible.\<close>

lemma registration_succeeds: "register_all all_metrics [] = Some (map fq_name all_metrics)"
  using register_all_ok [OF all_metrics_good, of "[]"] distinct_codes [OF all_names_distinct] by simp

text \<open>The adapters address metrics that exist, with the right number of labels; only a negative cost panics.\<close>

lemma adapters_total:
  "RecordVerdict v s \<noteq> None" "RecordScore t x s \<noteq> None" "RecordBudgetExhausted s \<noteq> None" "SetDepth d s \<noteq> None"
  "RecordDrop s \<noteq> None" "RecordWrite b s \<noteq> None" "ObserveWriteDuration x s \<noteq> None"
  "RecordCost m x s = None \<longleftrightarrow> flt x (Fin 0)"
proof -
  have found: "find_metric ''judge_evaluations_total'' = Some (judge_metrics ! 0)" "find_metric ''judge_score'' = Some (judge_metrics ! 1)"
    "find_metric ''judge_cost_usd_total'' = Some (judge_metrics ! 2)" "find_metric ''judge_budget_exhausted_total'' = Some (judge_metrics ! 3)"
    "find_metric ''langfuse_buffer_depth'' = Some (langfuse_metrics ! 0)" "find_metric ''langfuse_buffer_drops_total'' = Some (langfuse_metrics ! 1)"
    "find_metric ''langfuse_writes_total'' = Some (langfuse_metrics ! 2)" "find_metric ''langfuse_write_duration_seconds'' = Some (langfuse_metrics ! 3)"
    by code_simp+
  show "RecordVerdict v s \<noteq> None" "RecordScore t x s \<noteq> None" "RecordBudgetExhausted s \<noteq> None" "SetDepth d s \<noteq> None"
    "RecordDrop s \<noteq> None" "RecordWrite b s \<noteq> None" "ObserveWriteDuration x s \<noteq> None" "RecordCost m x s = None \<longleftrightarrow> flt x (Fin 0)"
    by (simp_all add: RecordVerdict_def RecordScore_def RecordBudgetExhausted_def SetDepth_def RecordDrop_def RecordWrite_def
        ObserveWriteDuration_def RecordCost_def emit_sample_def found judge_metrics_def langfuse_metrics_def metric_def flt_def)
qed

text \<open>The names the generator takes for exported ones are not the exported ones: one that is not exported, one that is
  missing.\<close>

lemma known_metrics_differ:
  "''spt_scheduler_next_ingestion_timestamp'' \<in> set KnownMetrics" "''scheduler_next_ingestion_timestamp'' \<notin> md_name ` set all_metrics"
  "''spt_extraction_queue_depth'' \<notin> set KnownMetrics" "''extraction_queue_depth'' \<in> md_name ` set all_metrics"
  by code_simp+

end
