(* ===== verification/Dashboards.thy ===== *)
theory Dashboards
  imports Regex Metrics
begin

text \<open>
  The dashboard generator's own logic: the validation of a built dashboard (\<open>tools/dashgen/validate\<close>) and the run that
  validates before it writes (\<open>tools/dashgen/main.go\<close>). The PromQL parser and its syntax trees, the dashboard
  builder and the file system are parameters.
\<close>

section \<open>Dashboards\<close>

datatype dash_target = PromQuery string | OtherTarget

record dash_panel =
  dp_Title :: "string option"
  dp_Id :: "int option"
  dp_Targets :: "dash_target list"

record panel_or_row =
  por_Panel :: "dash_panel option"
  por_RowPanel :: "dash_panel list option"

record dashboard =
  da_Title :: "string option"
  da_Panels :: "panel_or_row list"

record flat_panel =
  fp_Title :: string
  fp_ID :: "int option"
  fp_Targets :: "string list"

definition extractPanel :: "dash_panel \<Rightarrow> flat_panel" where
  "extractPanel p = \<lparr> fp_Title = (case dp_Title p of None \<Rightarrow> [] | Some t \<Rightarrow> t), fp_ID = dp_Id p,
     fp_Targets = List.map_filter (\<lambda>t. case t of PromQuery e \<Rightarrow> Some e | OtherTarget \<Rightarrow> None) (dp_Targets p) \<rparr>"

definition collectPanels :: "dashboard \<Rightarrow> flat_panel list" where
  "collectPanels d = concat (map (\<lambda>por.
     (case por_Panel por of None \<Rightarrow> [] | Some p \<Rightarrow> [extractPanel p])
     @ (case por_RowPanel por of None \<Rightarrow> [] | Some ps \<Rightarrow> map extractPanel ps)) (da_Panels d))"

section \<open>Checks\<close>

text \<open>An error keeps the dashboard, the panel and what is wrong, not the formatted text.\<close>

datatype dash_error = InvalidPromQL string string string | DuplicatePanelID string int string string
datatype dash_warning = UnknownMetric string string string

record dash_result =
  rs_Errors :: "dash_error list"
  rs_Warnings :: "dash_warning list"

definition result_Ok :: "dash_result \<Rightarrow> bool" where
  "result_Ok r \<longleftrightarrow> rs_Errors r = []"

text \<open>The parser, and the names of the vector selectors of a tree in the order of the walk, empty for a selector
  without a name.\<close>

record 'n promql =
  pq_parse :: "string \<Rightarrow> 'n option"
  pq_selectors :: "'n \<Rightarrow> string list"

definition grafanaVarRe :: rx where
  "grafanaVarRe = Cat (Cl (\<lambda>c. c = CHR ''$'')) (Cat (opt (Cl (\<lambda>c. c = CHR ''{'')))
     (Cat (plus (Cl is_word)) (opt (Cl (\<lambda>c. c = CHR ''}'')))))"

definition sanitize_expr :: "string \<Rightarrow> string" where
  "sanitize_expr e = replace_all grafanaVarRe (\<lambda>g. ''.*'') e"

text \<open>The expressions of the panels with their panel, empty ones skipped.\<close>

definition panel_exprs :: "flat_panel list \<Rightarrow> (string \<times> string) list" where
  "panel_exprs ps = concat (map (\<lambda>p. map (\<lambda>e. (fp_Title p, e)) (filter (\<lambda>e. e \<noteq> []) (fp_Targets p))) ps)"

definition checkPromQL :: "'n promql \<Rightarrow> string \<Rightarrow> flat_panel list \<Rightarrow> dash_result \<Rightarrow> dash_result" where
  "checkPromQL pq title ps r = fold (\<lambda>(p, e) r.
     case pq_parse pq (sanitize_expr e) of
       None \<Rightarrow> r\<lparr> rs_Errors := rs_Errors r @ [InvalidPromQL title p e] \<rparr> | Some n \<Rightarrow> r) (panel_exprs ps) r"

definition extractMetricNames :: "'n promql \<Rightarrow> 'n \<Rightarrow> string list" where
  "extractMetricNames pq n = filter (\<lambda>x. x \<noteq> []) (pq_selectors pq n)"

definition checkMetricNames :: "'n promql \<Rightarrow> string \<Rightarrow> flat_panel list \<Rightarrow> string list \<Rightarrow> dash_result \<Rightarrow> dash_result" where
  "checkMetricNames pq title ps known r = fold (\<lambda>(p, e) r.
     case pq_parse pq (sanitize_expr e) of
       None \<Rightarrow> r
     | Some n \<Rightarrow> r\<lparr> rs_Warnings := rs_Warnings r @
         map (UnknownMetric title p) (filter (\<lambda>x. x \<notin> set known) (extractMetricNames pq n)) \<rparr>) (panel_exprs ps) r"

fun checkUniqueIDs :: "string \<Rightarrow> flat_panel list \<Rightarrow> (int, string) gomap \<Rightarrow> dash_result \<Rightarrow> dash_result" where
  "checkUniqueIDs title [] seen r = r"
| "checkUniqueIDs title (p # ps) seen r =
     (case fp_ID p of
        None \<Rightarrow> checkUniqueIDs title ps seen r
      | Some i \<Rightarrow>
          checkUniqueIDs title ps (mput i (fp_Title p) seen)
            (case mget seen i of
               None \<Rightarrow> r
             | Some prev \<Rightarrow> r\<lparr> rs_Errors := rs_Errors r @ [DuplicatePanelID title i prev (fp_Title p)] \<rparr>))"

definition validateDashboard :: "'n promql \<Rightarrow> dashboard \<Rightarrow> string list \<Rightarrow> dash_result" where
  "validateDashboard pq d known =
     (let title = (case da_Title d of None \<Rightarrow> ''unknown'' | Some t \<Rightarrow> t);
          ps = collectPanels d;
          r = \<lparr> rs_Errors = [], rs_Warnings = [] \<rparr>;
          r = checkPromQL pq title ps r;
          r = checkMetricNames pq title ps known r
      in checkUniqueIDs title ps [] r)"

text \<open>\<open>et\<close> and \<open>wt\<close> are the texts of errors and warnings.\<close>

definition FormatResult :: "(dash_error \<Rightarrow> string) \<Rightarrow> (dash_warning \<Rightarrow> string) \<Rightarrow> string \<Rightarrow> dash_result \<Rightarrow> string" where
  "FormatResult et wt name r =
     concat (map (\<lambda>e. ''  ERROR: '' @ et e @ [CHR 0x0A]) (rs_Errors r))
     @ concat (map (\<lambda>w. ''  WARN:  '' @ wt w @ [CHR 0x0A]) (rs_Warnings r))
     @ (if result_Ok r \<and> rs_Warnings r = [] then ''  '' @ name @ '': ok'' @ [CHR 0x0A] else [])"

section \<open>The run\<close>

text \<open>Building, writing the dashboard and writing the two files of rules can fail.\<close>

record ('n, 's) dashgen_env =
  de_build :: "dashboard option"
  de_promql :: "'n promql"
  de_write_dashboard :: "string \<Rightarrow> dashboard \<Rightarrow> 's \<Rightarrow> string option \<times> 's"
  de_rules_dir :: "string \<Rightarrow> 's \<Rightarrow> string option \<times> 's"
  de_write_yaml :: "string \<Rightarrow> string \<Rightarrow> 's \<Rightarrow> string option \<times> 's"

datatype dashgen_error =
    BuildingDashboard | ValidationFailed nat | GeneratingDashboard string | CreatingPromDir string
  | WritingRecordingRules string | WritingAlertRules string

definition generateRules :: "('n, 's) dashgen_env \<Rightarrow> dashgen_config \<Rightarrow> 's \<Rightarrow> dashgen_error option \<times> 's" where
  "generateRules env cfg s =
     (case de_rules_dir env (dg_OutputDir cfg) s of
        (Some e, s) \<Rightarrow> (Some (CreatingPromDir e), s)
      | (None, s) \<Rightarrow>
          (case de_write_yaml env (dg_OutputDir cfg) ''spt-recording-rules.yaml'' s of
             (Some e, s) \<Rightarrow> (Some (WritingRecordingRules e), s)
           | (None, s) \<Rightarrow>
               (case de_write_yaml env (dg_OutputDir cfg) ''spt-alerts.yaml'' s of
                  (Some e, s) \<Rightarrow> (Some (WritingAlertRules e), s) | (None, s) \<Rightarrow> (None, s))))"

definition runDashgen :: "('n, 's) dashgen_env \<Rightarrow> dashgen_config \<Rightarrow> bool \<Rightarrow> 's \<Rightarrow> dashgen_error option \<times> 's" where
  "runDashgen env cfg validateOnly s =
     (case de_build env of
        None \<Rightarrow> (Some BuildingDashboard, s)
      | Some d \<Rightarrow>
          (let r = validateDashboard (de_promql env) d KnownMetrics in
           if \<not> result_Ok r then (Some (ValidationFailed (length (rs_Errors r))), s)
           else if validateOnly then (None, s)
           else
             (case (if dg_DashboardEnabled cfg then de_write_dashboard env (dg_OutputDir cfg) d s else (None, s)) of
                (Some e, s) \<Rightarrow> (Some (GeneratingDashboard e), s)
              | (None, s) \<Rightarrow> if dg_RulesEnabled cfg then generateRules env cfg s else (None, s))))"

section \<open>What validation means\<close>

lemma promql_errors:
  "rs_Errors (checkPromQL pq title ps r) = rs_Errors r @ map (\<lambda>(p, e). InvalidPromQL title p e)
     (filter (\<lambda>(p, e). pq_parse pq (sanitize_expr e) = None) (panel_exprs ps))"
proof -
  have "rs_Errors (fold (\<lambda>(p, e) r. case pq_parse pq (sanitize_expr e) of
       None \<Rightarrow> r\<lparr> rs_Errors := rs_Errors r @ [InvalidPromQL title p e] \<rparr> | Some n \<Rightarrow> r) xs r)
     = rs_Errors r @ map (\<lambda>(p, e). InvalidPromQL title p e) (filter (\<lambda>(p, e). pq_parse pq (sanitize_expr e) = None) xs)" for xs
    by (induction xs arbitrary: r) (auto split: option.split)
  then show ?thesis by (simp add: checkPromQL_def)
qed

lemma names_no_errors: "rs_Errors (checkMetricNames pq title ps known r) = rs_Errors r"
proof -
  have "rs_Errors (fold (\<lambda>(p, e) r. case pq_parse pq (sanitize_expr e) of None \<Rightarrow> r
     | Some n \<Rightarrow> r\<lparr> rs_Warnings := rs_Warnings r @ map (UnknownMetric title p) (filter (\<lambda>x. x \<notin> set known) (extractMetricNames pq n)) \<rparr>) xs r)
     = rs_Errors r" for xs
    by (induction xs arbitrary: r) (auto split: option.split)
  then show ?thesis by (simp add: checkMetricNames_def)
qed

lemma unique_ids:
  "rs_Errors (checkUniqueIDs title ps seen r) = [] \<longleftrightarrow>
     rs_Errors r = [] \<and> distinct (List.map_filter fp_ID ps) \<and> set (List.map_filter fp_ID ps) \<inter> fst ` set seen = {}"
proof (induction ps arbitrary: seen r)
  case (Cons p ps)
  show ?case
  proof (cases "fp_ID p")
    case None
    then show ?thesis using Cons.IH [of seen r] by (simp add: map_filter_simps)
  next
    case (Some i)
    have dom: "fst ` set (mput i (fp_Title p) seen) = insert i (fst ` set seen)"
      using dom_update [of i "fp_Title p" seen] by simp
    have "mget seen i = None \<longleftrightarrow> i \<notin> fst ` set seen" by (simp add: map_of_eq_None_iff)
    then show ?thesis
      using Some Cons.IH by (auto simp: map_filter_simps dom split: option.split)
  qed
qed (simp add: map_filter_simps)

text \<open>Validation of a dashboard. A dashboard passes exactly when every non-empty expression of its panels, those inside
  collapsed rows included, parses once the template variables are replaced, and no two panels have the same
  number; unknown metric names never make it fail.\<close>

theorem dashboard_valid_iff:
  "result_Ok (validateDashboard pq d known) \<longleftrightarrow>
     list_all (\<lambda>(p, e). pq_parse pq (sanitize_expr e) \<noteq> None) (panel_exprs (collectPanels d))
     \<and> distinct (List.map_filter fp_ID (collectPanels d))"
  by (auto simp: validateDashboard_def result_Ok_def Let_def unique_ids names_no_errors promql_errors filter_empty_conv list_all_iff
      split: option.split)

text \<open>Template variables with and without braces.\<close>

lemma sanitize_examples:
  "sanitize_expr ''a$job '' = ''a.* ''" "sanitize_expr ''a${job}'' = ''a.*''"
  by code_simp+

end
