(* ===== verification/MockServer.thy ===== *)
theory MockServer
  imports Url
begin

text \<open>
  The mock eBay server (\<open>tools/mock-server/main.go\<close>): the search over a fixture with its pages, and the token answer.
  Items are raw JSON with their lower-cased title; JSON, files and the process number are parameters.
\<close>

section \<open>Search\<close>

definition containsAllWords :: "string \<Rightarrow> string list \<Rightarrow> bool" where
  "containsAllWords title ws = list_all (\<lambda>w. contains_str title w) ws"

definition positive_param :: "int \<Rightarrow> int \<Rightarrow> string \<Rightarrow> int" where
  "positive_param least dflt s = (if s = [] then dflt else case atoi s of None \<Rightarrow> dflt | Some v \<Rightarrow> if v \<ge> least then v else dflt)"

record 'b browse_response =
  br_ItemSummaries :: "'b list"
  br_Total :: int
  br_Offset :: int
  br_Limit :: int
  br_Next :: string

definition mock_matches :: "('b \<times> string) list \<Rightarrow> string \<Rightarrow> 'b list" where
  "mock_matches items q =
     map fst (filter (\<lambda>(raw, title). to_lower q = [] \<or> containsAllWords title (str_fields (to_lower q))) items)"

text \<open>The sum of offset and limit wraps; None is the panic of a slice whose end lies before its start.\<close>

definition mock_page :: "'b list \<Rightarrow> int \<Rightarrow> int \<Rightarrow> 'b list option" where
  "mock_page matched offset lmt =
     (if offset \<ge> int (length matched) then Some []
      else let stop = min (wrap64 (offset + lmt)) (int (length matched)) in
        if stop < offset then None
        else Some (take (nat (stop - offset)) (drop (nat offset) matched)))"

definition searchHandler :: "('b \<times> string) list \<Rightarrow> string \<Rightarrow> string \<Rightarrow> string \<Rightarrow> 'b browse_response option" where
  "searchHandler items q limitStr offsetStr =
     (let lmt = positive_param 1 50 limitStr; offset = positive_param 0 0 offsetStr;
          matched = mock_matches items q;
          total = int (length matched);
          next = (if wrap64 (offset + lmt) < total
            then ''/buy/browse/v1/item_summary/search?q='' @ q @ ''&offset='' @ itoa (wrap64 (offset + lmt)) @ ''&limit='' @ itoa lmt else [])
      in map_option (\<lambda>p. \<lparr> br_ItemSummaries = p, br_Total = total, br_Offset = offset, br_Limit = lmt, br_Next = next \<rparr>)
           (mock_page matched offset lmt))"

section \<open>Tokens\<close>

datatype mock_token = Unauthorized | IssuedToken string int

definition tokenHandler :: "string \<Rightarrow> bool \<Rightarrow> mock_token" where
  "tokenHandler pid_hex basic_auth = (if \<not> basic_auth then Unauthorized else IssuedToken (''mock-token-v1-'' @ pid_hex) 7200)"

section \<open>Pages\<close>

lemma page_in_range:
  assumes "0 \<le> offset" "0 < lmt" "in_int64 (offset + lmt)"
  shows "mock_page matched offset lmt = Some (take (nat lmt) (drop (nat offset) matched))"
proof -
  have "take (nat (int (length matched) - offset)) (drop (nat offset) matched) = drop (nat offset) matched"
    using assms(1) by (simp add: nat_diff_distrib')
  then show ?thesis
    using assms by (auto simp: mock_page_def Let_def wrap64_id min_def)
qed

text \<open>Walking over the pages of a search gives every match once, in order.\<close>

lemma pages_cover:
  assumes "0 < lmt" and "in_int64 (int n * lmt)" and "int (length matched) \<le> int n * lmt"
  shows "concat (map (\<lambda>i. the (mock_page matched (int i * lmt) lmt)) [0..<n]) = matched"
proof -
  have page: "mock_page matched (int i * lmt) lmt = Some (take (nat lmt) (drop (i * nat lmt) matched))" if "i < n" for i
  proof -
    have "int i * lmt + lmt = int (Suc i) * lmt" by (simp add: algebra_simps)
    moreover have "int (Suc i) * lmt \<le> int n * lmt" using that assms(1) by (intro mult_right_mono) auto
    moreover have "0 \<le> int (Suc i) * lmt" using assms(1) by simp
    ultimately have "in_int64 (int i * lmt + lmt)" using assms(2) unfolding in_int64_def int64_min_def by simp
    then show ?thesis using page_in_range [of "int i * lmt" lmt matched] assms(1) by (simp add: nat_mult_distrib)
  qed
  have "concat (map (\<lambda>i. the (mock_page matched (int i * lmt) lmt)) [0..<k]) = take (k * nat lmt) matched" if "k \<le> n" for k
    using that
  proof (induction k)
    case (Suc k)
    then show ?case using page [of k] by (simp add: take_add [symmetric] add.commute)
  qed simp
  moreover have "length matched \<le> n * nat lmt"
  proof -
    have "int (length matched) \<le> int (n * nat lmt)" using assms(1,3) by simp
    then show ?thesis by (simp only: of_nat_le_iff)
  qed
  ultimately show ?thesis by simp
qed

text \<open>A limit near the largest integer makes the sum negative and the search panic.\<close>

lemma page_panics: "mock_page [a, b] 1 9223372036854775807 = None"
  by (simp add: mock_page_def wrap64_def)

end
