(* ===== verification/Telemetry.thy ===== *)
theory Telemetry
  imports Config
begin

text \<open>
  Setting up telemetry and logging: \<open>internal/observability/otel.go\<close> and \<open>pkg/logger/logger.go\<close>. What the
  OpenTelemetry SDK does is a parameter: whether building the resource or an exporter fails, and what shutting a provider
  down reports. A shut-down provider is released whatever it reports.
\<close>

section \<open>Logging\<close>

datatype slog_level = LevelDebug | LevelInfo | LevelWarn | LevelError
datatype log_handler = JSONHandler slog_level | TextHandler slog_level

definition ParseLevel :: "string \<Rightarrow> slog_level" where
  "ParseLevel s = (if s = ''debug'' then LevelDebug else if s = ''warn'' then LevelWarn
     else if s = ''error'' then LevelError else LevelInfo)"

definition NewWithWriter :: "string \<Rightarrow> string \<Rightarrow> log_handler" where
  "NewWithWriter level format = (if format = ''json'' then JSONHandler (ParseLevel level) else TextHandler (ParseLevel level))"

section \<open>Telemetry\<close>

datatype otel_provider = TracerProvider | MeterProvider

text \<open>The providers that hold an exporter, and the global ones.\<close>

record otel_world =
  ow_open :: "otel_provider list"
  ow_tracer :: bool
  ow_meter :: bool
  ow_propagators :: bool

record otel_env =
  oe_resource :: "string option"
  oe_exporter :: "otel_provider \<Rightarrow> string option"
  oe_shutdown :: "otel_provider \<Rightarrow> string option"

datatype otel_error = EndpointRequired | BuildingResource string | InitTracer string | InitMeter string "string option"

definition shutdown_provider :: "otel_env \<Rightarrow> otel_provider \<Rightarrow> otel_world \<Rightarrow> string option \<times> otel_world" where
  "shutdown_provider env p w = (oe_shutdown env p, w\<lparr> ow_open := filter (\<lambda>q. q \<noteq> p) (ow_open w) \<rparr>)"

definition initTracerProvider :: "otel_env \<Rightarrow> otel_world \<Rightarrow> (string + otel_provider) \<times> otel_world" where
  "initTracerProvider env w = (case oe_exporter env TracerProvider of
     Some e \<Rightarrow> (Inl e, w)
   | None \<Rightarrow> (Inr TracerProvider, w\<lparr> ow_open := ow_open w @ [TracerProvider], ow_tracer := True \<rparr>))"

definition initMeterProvider :: "otel_env \<Rightarrow> otel_world \<Rightarrow> (string + otel_provider) \<times> otel_world" where
  "initMeterProvider env w = (case oe_exporter env MeterProvider of
     Some e \<Rightarrow> (Inl e, w)
   | None \<Rightarrow> (Inr MeterProvider, w\<lparr> ow_open := ow_open w @ [MeterProvider], ow_meter := True \<rparr>))"

text \<open>The result is the list of providers that the returned function shuts down.\<close>

definition otelInit :: "otel_env \<Rightarrow> otel_config \<Rightarrow> otel_world \<Rightarrow> (otel_error + otel_provider list) \<times> otel_world" where
  "otelInit env cfg w =
     (if \<not> otc_Enabled cfg then (Inr [], w)
      else if otc_Endpoint cfg = [] then (Inl EndpointRequired, w)
      else case oe_resource env of
        Some e \<Rightarrow> (Inl (BuildingResource e), w)
      | None \<Rightarrow>
          (case initTracerProvider env w of
             (Inl e, w) \<Rightarrow> (Inl (InitTracer e), w)
           | (Inr t, w) \<Rightarrow>
               (case initMeterProvider env w of
                  (Inl e, w) \<Rightarrow> (case shutdown_provider env t w of (err, w) \<Rightarrow> (Inl (InitMeter e err), w))
                | (Inr m, w) \<Rightarrow> (Inr [t, m], w\<lparr> ow_propagators := True \<rparr>))))"

text \<open>Every function is called, also after one has failed; the errors are joined.\<close>

fun chainShutdown :: "otel_env \<Rightarrow> otel_provider list \<Rightarrow> otel_world \<Rightarrow> string list \<times> otel_world" where
  "chainShutdown env [] w = ([], w)"
| "chainShutdown env (p # ps) w =
     (case shutdown_provider env p w of (e, w) \<Rightarrow> case chainShutdown env ps w of (es, w) \<Rightarrow>
        ((case e of None \<Rightarrow> [] | Some m \<Rightarrow> [m]) @ es, w))"

definition no_telemetry :: otel_world where
  "no_telemetry = \<lparr> ow_open = [], ow_tracer = False, ow_meter = False, ow_propagators = False \<rparr>"

section \<open>No exporter is leaked\<close>

text \<open>Whatever fails, a set-up that reports an error has released every exporter it opened, and the function that a
  successful one returns releases all of them even when one of the shutdowns fails.\<close>

lemma telemetry_released:
  "case otelInit env cfg no_telemetry of
     (Inl e, w) \<Rightarrow> ow_open w = []
   | (Inr ps, w) \<Rightarrow> ow_open (snd (chainShutdown env ps w)) = []
       \<and> fst (chainShutdown env ps w) = List.map_filter (oe_shutdown env) ps
       \<and> (ps \<noteq> [] \<longleftrightarrow> otc_Enabled cfg)"
  by (auto simp: otelInit_def initTracerProvider_def initMeterProvider_def shutdown_provider_def no_telemetry_def map_filter_simps
      split: option.split)

text \<open>A failed set-up can leave a tracer provider behind as the global one that is shut down already.\<close>

lemma dead_tracer_stays:
  assumes "otelInit env cfg no_telemetry = (Inl (InitMeter e d), w)"
  shows "ow_tracer w \<and> ow_open w = []"
  using assms by (auto simp: otelInit_def initTracerProvider_def initMeterProvider_def shutdown_provider_def no_telemetry_def
      split: if_splits option.splits)

end
