(* ===== verification/PageLinks.thy ===== *)
theory PageLinks
  imports AlertsUi Filters
begin

text \<open>
  The helpers of the alert review templates (\<open>internal/api/web/components/helpers.go\<close>): the links to the previous and
  next page, and amounts of money.
\<close>

section \<open>Links\<close>

text \<open>\<open>url.ParseQuery\<close> also refuses a semicolon in a pair; a query that does not parse is dropped.\<close>

definition query_values :: "string \<Rightarrow> (string \<times> string) list option" where
  "query_values raw = (if CHR '';'' \<in> set raw then None else ParseQuery raw)"

definition pageURL :: "string \<Rightarrow> int \<Rightarrow> string" where
  "pageURL rawQuery target =
     (let target = (if target < 1 then 1 else target);
          vals = (case query_values rawQuery of None \<Rightarrow> [] | Some ps \<Rightarrow> ps)
      in ''?'' @ Encode (filter (\<lambda>(k, v). k \<noteq> ''page'') vals @ [(''page'', itoa target)]))"

definition prevPageURL :: "string \<Rightarrow> int \<Rightarrow> string" where "prevPageURL q page = pageURL q (wrap64 (page - 1))"
definition nextPageURL :: "string \<Rightarrow> int \<Rightarrow> string" where "nextPageURL q page = pageURL q (wrap64 (page + 1))"

text \<open>\<open>render2\<close> renders with two decimals.\<close>

definition money :: "(f64 \<Rightarrow> string) \<Rightarrow> f64 \<Rightarrow> string \<Rightarrow> string" where
  "money render2 amount currency = (if currency = [] then ''USD'' else currency) @ '' '' @ render2 amount"

section \<open>Following a link\<close>

lemma map_of_filter_key: "map_of xs k = (case filter (\<lambda>p. fst p = k) xs of [] \<Rightarrow> None | p # ps \<Rightarrow> Some (snd p))"
  by (induction xs) auto

lemma map_of_sort_fst: "map_of (sort_key fst xs) k = map_of xs k"
  by (simp add: map_of_filter_key sort_key_stable)

lemma join_chars: "set (join sep ws) \<subseteq> set sep \<union> (\<Union>w\<in>set ws. set w)"
  by (induction sep ws rule: join.induct) auto

lemma encode_no_semicolon: "CHR '';'' \<notin> set (Encode v)"
proof
  assume "CHR '';'' \<in> set (Encode v)"
  then obtain k x where "CHR '';'' \<in> set (QueryEscape k @ ''='' @ QueryEscape x)"
    unfolding Encode_def using join_chars by force
  then obtain s where s: "CHR '';'' \<in> set (QueryEscape s)" by auto
  show False using escape_chars [OF s] by (simp add: unreserved_def is_word_def is_digit_def is_upper_def is_lower_def)
qed

lemma followed_query:
  "query_values (drop 1 (pageURL raw target)) = Some (sort_key fst
     (filter (\<lambda>(k, v). k \<noteq> ''page'') (case query_values raw of None \<Rightarrow> [] | Some ps \<Rightarrow> ps)
       @ [(''page'', itoa (if target < 1 then 1 else target))]))"
proof -
  have "query_values (Encode v) = Some (sort_key fst v)" for v
    by (simp add: query_values_def encode_no_semicolon ParseQuery_Encode)
  then show ?thesis by (simp add: pageURL_def Let_def)
qed

lemma map_of_other: "k \<noteq> ''page'' \<Longrightarrow> map_of (filter (\<lambda>(k, v). k \<noteq> ''page'') ps @ [(''page'', x)]) k = map_of ps k"
  by (induction ps) auto

lemma map_of_page: "map_of (filter (\<lambda>(k, v). k \<noteq> ''page'') ps @ [(''page'', x)]) ''page'' = Some x"
  by (induction ps) auto

text \<open>C36. Page links keep the filters. When the query of the current list parses, the list behind a page link has the same
  search, filters, order and page size, and the page the link names, at least the first.\<close>

theorem page_links_keep_filters:
  assumes "query_values raw = Some (ui_query c)" and "in_int64 target"
    and "query_values (drop 1 (pageURL raw target)) = Some (ui_query c')"
  shows "parseAlertsListQuery c' = (parseAlertsListQuery c)\<lparr> rq_Page := max 1 target \<rparr>"
proof -
  let ?ps = "filter (\<lambda>(k, v). k \<noteq> ''page'') (ui_query c) @ [(''page'', itoa (if target < 1 then 1 else target))]"
  have q: "map_of (ui_query c') k = map_of ?ps k" for k
    using assms(1,3) followed_query [of raw target] by (simp add: map_of_sort_fst)
  have other: "QueryParam c' k = QueryParam c k" if "k \<noteq> ''page''" for k
    using map_of_other [OF that, of "ui_query c"] by (simp add: QueryParam_def q)
  have page: "QueryParam c' ''page'' = itoa (if target < 1 then 1 else target)"
    using map_of_page [of "ui_query c"] by (simp add: QueryParam_def q)
  have one: "in_int64 (if target < 1 then 1 else target)" using assms(2) by (simp add: in_int64_def int64_min_def int64_max_def)
  have "itoa (if target < 1 then 1 else target) \<noteq> []" by (simp add: itoa_def digits_of_nonempty)
  then have "parseIntDefault (QueryParam c' ''page'') 1 1 0 = max 1 target"
    using atoi_itoa [OF one] by (auto simp: page parseIntDefault_def max_def)
  then show ?thesis using other by (simp add: parseAlertsListQuery_def)
qed

definition list_request :: ui_request where
  "list_request = \<lparr> ui_query = [(''q'', ''DDR4 ECC''), (''page'', ''2''), (''sort'', ''watch'')], ui_raw_query = ''q=DDR4+ECC&page=2&sort=watch'',
     ui_id = [], ui_hx_request = [], ui_content_type = [], ui_json = None, ui_form = Inr [] \<rparr>"

definition followed_request :: ui_request where
  "followed_request = list_request\<lparr> ui_query := the (query_values (drop 1 (pageURL ''q=DDR4+ECC&page=2&sort=watch'' 3))) \<rparr>"

theorem page_links_keep_filters_witness:
  "parseAlertsListQuery followed_request = (parseAlertsListQuery list_request)\<lparr> rq_Page := 3 \<rparr>"
proof -
  have "query_values ''q=DDR4+ECC&page=2&sort=watch'' = Some (ui_query list_request)" by code_simp
  moreover have "in_int64 3" by (simp add: in_int64_def int64_min_def int64_max_def)
  moreover have "query_values (drop 1 (pageURL ''q=DDR4+ECC&page=2&sort=watch'' 3)) = Some (ui_query followed_request)"
    by (simp only: followed_request_def followed_query option.sel) simp
  ultimately have "parseAlertsListQuery followed_request = (parseAlertsListQuery list_request)\<lparr> rq_Page := max 1 3 \<rparr>"
    by (rule page_links_keep_filters)
  then show ?thesis by simp
qed

end
