(* ===== verification/Spec2Isabelle.thy ===== *)
theory Spec2Isabelle
  imports Prelude Float64 GoStrings Regex Aliases Domain Scorer Attributes RamSpeed GpuNormalize SystemNormalize
    Preclassify Validate ProductKey Normalize Prompts Langfuse Backends Extractor RateLimiter Url Numbers Ebay
    Notify Db Store StoreInv StoreLaws QueryLaws Rescore Alerting AlertLaws AlertWorld Config Engine EngineLaws Scheduler Runes Judge JudgeLaws
    Handlers AlertsUi UiLaws Filters ApiClient ApiLaws Http LangfuseHttp Startup Regression
    Migrate Labelling Cli Metrics Dashboards MockServer Telemetry PageLinks
begin

text \<open>
  A verification development of the server price tracker: a Go service that searches eBay for server parts,
  lets a language model read the listings, stores them in PostgreSQL, scores them against price baselines and
  alerts on good deals. All paths below are under \<open>src/\<close>.

  \<^bold>\<open>How the program works.\<close> \<open>cmd/server-price-tracker/cmd/serve.go\<close> builds the clients, the engine, the scheduler
  and the routes. A tick of the scheduler (\<open>internal/engine/scheduler.go\<close>) takes a lock in the database and runs
  ingestion, baseline refresh or re-extraction. Ingestion (\<open>internal/engine/engine.go\<close>) asks the paginator
  (\<open>internal/ebay\<close>) for new listings of every watch, stores them and enqueues extraction jobs. Workers claim the
  jobs, run the extraction pipeline (\<open>pkg/extract\<close>: pre-classification, backend, normalisation, validation, product
  key), store the attributes, score the listing (\<open>internal/engine/score.go\<close>, \<open>pkg/scorer\<close>) and create alerts for
  matching watches (\<open>pkg/types\<close>). Alerts are delivered to Discord (\<open>internal/engine/alert.go\<close>, \<open>internal/notify\<close>),
  rated by the judge (\<open>pkg/judge\<close>) and reviewed in the pages of \<open>internal/api/handlers\<close>; \<open>cmd/spt\<close> is a client of the
  JSON API. Everything persistent goes through \<open>internal/store\<close>.

  \<^bold>\<open>Foundations.\<close> \<open>Prelude\<close>: int64 with its wrap-around, instants and durations (nanoseconds), Go maps as association
  lists, fact collections. \<open>Float64\<close>: binary64 with rounding to nearest even, infinities and NaN; the locale \<open>rounding\<close>
  collects what the scorer needs of any monotone rounding and is interpreted by \<open>fl\<close>. \<open>GoStrings\<close>, \<open>Runes\<close>, \<open>Numbers\<close>,
  \<open>Url\<close>: byte strings, UTF-8 decoding, \<open>strconv\<close>, query escaping. \<open>Regex\<close>: a matcher for the operators the patterns
  use, with a declarative semantics it implements. \<open>Aliases\<close>: the shape shared by the three alias tables (locale
  \<open>alias_table\<close>, interpreted by each table).

  \<^bold>\<open>Domain and extraction.\<close> \<open>Domain\<close>: \<open>pkg/types/types.go\<close> with the watch filter. \<open>Scorer\<close>: \<open>pkg/scorer\<close>. \<open>Attributes\<close>,
  \<open>Validate\<close>, \<open>RamSpeed\<close>, \<open>GpuNormalize\<close>, \<open>SystemNormalize\<close>, \<open>Preclassify\<close>, \<open>ProductKey\<close>, \<open>Normalize\<close>, \<open>Prompts\<close>,
  \<open>Backends\<close>, \<open>Extractor\<close>: \<open>pkg/extract\<close>, one theory per group of files. \<open>Langfuse\<close>, \<open>LangfuseHttp\<close>:
  \<open>pkg/observability/langfuse\<close>, the buffered client as a step relation over its queue and the HTTP client with
  its retries.

  \<^bold>\<open>eBay and notification.\<close> \<open>RateLimiter\<close>: \<open>ratelimit.go\<close> as a function and as interleaved steps of concurrent callers.
  \<open>Ebay\<close>: search, tokens, conversion, paginator and quota report. \<open>Notify\<close>: the Discord webhook with its rate limit
  and chunks (locale \<open>notifier\<close>, interpreted by Discord and the no-op notifier).

  \<^bold>\<open>Store.\<close> \<open>Db\<close>: each SQL statement of \<open>queries.go\<close> as a function on a record of tables. \<open>Store\<close>: each method of
  \<open>PostgresStore\<close>, where a server decides which round trips fail. \<open>StoreInv\<close>: the invariant of the tables,
  kept by every statement and method. \<open>StoreLaws\<close>: the queue and the locks over every interleaving of calls (locales
  \<open>db_part\<close> and \<open>history_relation\<close>). \<open>QueryLaws\<close>: what a listing query selects.

  \<^bold>\<open>Engine.\<close> \<open>Rescore\<close> (\<open>score.go\<close>, locale \<open>rescoring\<close> interpreted by the store's and the engine's loop), \<open>Alerting\<close> with
  \<open>AlertLaws\<close> and \<open>AlertWorld\<close> (\<open>alert.go\<close>; locale \<open>alert_world\<close>, interpreted by the database beside Discord), \<open>Config\<close>
  (\<open>internal/config\<close>), \<open>Engine\<close> with \<open>EngineLaws\<close> (\<open>engine.go\<close>), \<open>Scheduler\<close> (\<open>scheduler.go\<close>), \<open>Judge\<close> with \<open>JudgeLaws\<close>
  (\<open>pkg/judge\<close>, \<open>judge_store_adapter.go\<close>).

  \<^bold>\<open>Interfaces.\<close> \<open>Handlers\<close> (JSON API), \<open>AlertsUi\<close> with \<open>UiLaws\<close> and \<open>PageLinks\<close> (review pages), \<open>Filters\<close>
  (\<open>filters.go\<close>), \<open>ApiClient\<close> with \<open>ApiLaws\<close> (\<open>internal/api/client\<close> and the update command of \<open>cmd/spt\<close>; locale
  \<open>watch_service\<close>, interpreted by the client in front of the handlers), \<open>Cli\<close> (the other commands of \<open>cmd/spt\<close> with what they
  print), \<open>Http\<close> (routes and middleware), \<open>Startup\<close> (\<open>serve.go\<close>), \<open>Migrate\<close> (\<open>migrate.go\<close>), \<open>Metrics\<close> (\<open>internal/metrics\<close>),
  \<open>Telemetry\<close> (\<open>otel.go\<close>, \<open>pkg/logger\<close>).

  \<^bold>\<open>Tools.\<close> \<open>Regression\<close> (\<open>tools/regression-runner\<close>, \<open>internal/regression\<close>), \<open>Labelling\<close> (\<open>tools/judge-bootstrap\<close>,
  \<open>tools/dataset-bootstrap\<close>, \<open>tools/dataset-upload\<close>), \<open>Dashboards\<close> (validation and run of \<open>tools/dashgen\<close>), \<open>MockServer\<close>
  (\<open>tools/mock-server\<close>).

  \<^bold>\<open>What the lemmas show.\<close> The tables stay well formed; the extraction queue hands a job to one worker at a time and a
  worker drains it; a scheduler lock excludes others while it is fresh; a job run is recorded whatever its outcome;
  an extraction that succeeds is valid, carries the product key of its attributes and satisfies the schema; the
  score is in range and falls with the price; a filter, a listing query and a search URL mean what they
  say; rescoring visits every listing and terminates; alerts are created once, accounted for and delivered as the
  webhook reports; the quota and the judge's budget hold; the buffered client loses nothing it accepted; the
  command line, the client, the routes, the handlers and the store compose; migrations run in order and none is
  skipped; page links keep the filters of a list. Theorems that end in failure (\<open>runJob_unprotected\<close>,
  \<open>retry_strands_alert\<close>, \<open>delivered_unmarked_stuck\<close>, \<open>abandoned_job_stuck\<close>, \<open>lost_record_blocks\<close>, \<open>listing_query_fails\<close>,
  \<open>bootstrap_finds_nothing\<close>, \<open>readiness_reported\<close>, \<open>null_answer_panics\<close>) show behaviour the code has and does not want.

  \<^bold>\<open>Parameters and assumptions.\<close> Code outside the repository is an argument: eBay, Discord, Langfuse and model
  servers, JSON and YAML codecs, \<open>time.Parse\<close>, SHA-256, rendering of floats, clocks, fresh identifiers, git and files.
  PostgreSQL is modelled as serial statements on tables; the conversion of NUMERIC and JSONB and the aggregates are
  fields of a record. Case mapping is ASCII. Floating-point operations are rounded one by one (no fused operations). A
  panic is an outcome of its own (\<open>None\<close> or a constructor) wherever the code can reach one.

  \<^bold>\<open>Bounds and fuel.\<close> Recursion is structural or has a measure; the regular expression matcher recurses on the
  expression and the rest of the text. The loops of rescoring are partial functions whose result is None when they
  do not return; that they return is proved from the order of the cursor. A worker of the engine runs for a given
  number of rounds, and draining is proved for every number of rounds that is at least the number of claimable jobs.
  Retries of the Langfuse client recurse on the remaining budget; the theorem speaks of budgets up to 37, where the
  delay that doubles is still below the int64 bound.

  \<^bold>\<open>Not modelled.\<close> Pure output: logs, spans and durations, the HTML templates of \<open>internal/api/web\<close>, the layout of columns and
  the help texts of \<open>cmd/spt\<close>, the tables of the regression runner. Glue around third-party code: \<open>main\<close> functions, command
  trees and flags, signals and static files of \<open>serve.go\<close>, the connection pool, the decorators that measure durations.
  The Grafana panels and Prometheus rules of \<open>tools/dashgen\<close> are literal data for other programs, and \<open>tools/docgen\<close> only
  calls a generator. Mocks are generated. Concurrency is modelled where the code shares state (limiter, buffered client,
  queue, locks); the scheduling of goroutines elsewhere is one of the sequences the theorems quantify over.
\<close>

end
